(* ===== verification/Prelude.thy ===== *)
theory Prelude
  imports Main "HOL-Library.Word" "HOL-Library.Code_Target_Nat"
begin

text \<open>
  Shared vocabulary of the development: the fixed-width integers of the C sources, the errno
  values, the outcome type of operations that may run into undefined behaviour, and the generic
  lemmas on lists and options that several components use.

  Conventions used by every theory:
  \<^item> a C string is a \<^typ>\<open>string\<close> without its terminating NUL; a \<open>char *\<close> that may be NULL is
    a \<^typ>\<open>string option\<close>;
  \<^item> a byte buffer is a list of bytes; a pointer handed over with a length is the pair of the
    buffer and that length;
  \<^item> \<open>argv\<close> is the list of arguments, and reading at or past \<open>argc\<close> yields the NULL pointer that
    the Zephyr shell stores there;
  \<^item> a function of type \<open>\<dots> \<Rightarrow> 'a option\<close> whose description says so returns \<^const>\<open>None\<close> exactly
    where the C code dereferences NULL or leaves a buffer.
\<close>

section \<open>Machine types\<close>

type_synonym u8 = "8 word"
type_synonym u16 = "16 word"
type_synonym u32 = "32 word"
type_synonym u64 = "64 word"
type_synonym byte = "8 word"

definition UINT16_MAX :: nat where "UINT16_MAX = 65535"
definition UINT32_MAX :: nat where "UINT32_MAX = 4294967295"
definition INT32_MAX :: nat where "INT32_MAX = 2147483647"

text \<open>\<open>BACNET_MAX_INSTANCE\<close>: the largest object instance number of the protocol (22 bits).\<close>

definition BACNET_MAX_INSTANCE :: nat where "BACNET_MAX_INSTANCE = 4194303"

section \<open>Error numbers\<close>

text \<open>The values of the errno constants the sources return (negated), as in Zephyr's C library.\<close>

abbreviation (input) EPERM :: int where "EPERM \<equiv> 1"
abbreviation (input) ENOENT :: int where "ENOENT \<equiv> 2"
abbreviation (input) EIO :: int where "EIO \<equiv> 5"
abbreviation (input) E2BIG :: int where "E2BIG \<equiv> 7"
abbreviation (input) ENOMEM :: int where "ENOMEM \<equiv> 12"
abbreviation (input) EACCES :: int where "EACCES \<equiv> 13"
abbreviation (input) EEXIST :: int where "EEXIST \<equiv> 17"
abbreviation (input) EINVAL :: int where "EINVAL \<equiv> 22"
abbreviation (input) ENOSPC :: int where "ENOSPC \<equiv> 28"
abbreviation (input) ERANGE :: int where "ERANGE \<equiv> 34"
abbreviation (input) EBADMSG :: int where "EBADMSG \<equiv> 77"
abbreviation (input) ENAMETOOLONG :: int where "ENAMETOOLONG \<equiv> 91"
abbreviation (input) EALREADY :: int where "EALREADY \<equiv> 120"
abbreviation (input) ENOTSUP :: int where "ENOTSUP \<equiv> 134"
abbreviation (input) EOVERFLOW :: int where "EOVERFLOW \<equiv> 139"

section \<open>Collections of facts\<close>

named_theorems c_defs \<open>definitions of operations, unfolded to compute with the model\<close>
named_theorems key_simps \<open>what encoding and decoding a storage key computes\<close>
named_theorems store_simps \<open>effect of the storage operations on the abstract store\<close>
named_theorems frame_simps \<open>parts of a state an operation leaves alone\<close>

section \<open>Lists, options and arguments\<close>

definition argv_at :: "string list \<Rightarrow> nat \<Rightarrow> string option" where
  "argv_at argv i = (if i < length argv then Some (argv ! i) else None)"

lemma argv_at_Cons [simp]:
  "argv_at (a # as) 0 = Some a"
  "argv_at (a # as) (Suc i) = argv_at as i"
  "argv_at [] i = None"
  by (simp_all add: argv_at_def)

lemma argv_at_numeral [simp]:
  "argv_at (a # as) (numeral k) = argv_at as (numeral k - 1)"
  by (cases "numeral k :: nat") (simp_all add: argv_at_def numeral_eq_Suc)

lemma argv_at_Some: "i < length argv \<Longrightarrow> argv_at argv i = Some (argv ! i)"
  by (simp add: argv_at_def)

lemma argv_at_None: "length argv \<le> i \<Longrightarrow> argv_at argv i = None"
  by (simp add: argv_at_def)

text \<open>Overwriting the beginning of a buffer, as \<open>memcpy\<close> and the read callbacks do.\<close>

definition overlay :: "'a list \<Rightarrow> 'a list \<Rightarrow> 'a list" where
  "overlay new buf = take (length buf) new @ drop (length new) buf"

lemma length_overlay [simp]: "length (overlay new buf) = length buf"
  by (simp add: overlay_def)

lemma take_overlay: "length new \<le> length buf \<Longrightarrow> take (length new) (overlay new buf) = new"
  by (simp add: overlay_def)

lemma overlay_Nil [simp]: "overlay [] buf = buf"
  by (simp add: overlay_def)

lemma take_overlay_prefix:
  "n \<le> length new \<Longrightarrow> length new \<le> length buf \<Longrightarrow> take n (overlay new buf) = take n new"
  by (simp add: overlay_def)

text \<open>Splitting a string at the first occurrence of a separator.\<close>

lemma takeWhile_append_sep:
  "c \<notin> set xs \<Longrightarrow> takeWhile (\<lambda>x. x \<noteq> c) (xs @ c # ys) = xs"
  by (induction xs) auto

lemma dropWhile_append_sep:
  "c \<notin> set xs \<Longrightarrow> dropWhile (\<lambda>x. x \<noteq> c) (xs @ c # ys) = c # ys"
  by (induction xs) auto

lemma takeWhile_no_sep: "c \<notin> set xs \<Longrightarrow> takeWhile (\<lambda>x. x \<noteq> c) xs = xs"
  by (induction xs) auto

lemma append_sep_inject:
  assumes "c \<notin> set xs" "c \<notin> set xs'" "xs @ c # ys = xs' @ c # ys'"
  shows "xs = xs' \<and> ys = ys'"
proof -
  have "takeWhile (\<lambda>x. x \<noteq> c) (xs @ c # ys) = takeWhile (\<lambda>x. x \<noteq> c) (xs' @ c # ys')"
    by (simp only: assms(3))
  then have "xs = xs'" by (simp only: takeWhile_append_sep [OF assms(1)] takeWhile_append_sep [OF assms(2)])
  with assms(3) show ?thesis by simp
qed

text \<open>Numbers and words.\<close>

lemma unat_of_nat_u32: "n < 4294967296 \<Longrightarrow> unat (of_nat n :: u32) = n"
  by (simp add: unat_of_nat)

lemma unat_of_nat_u16: "n < 65536 \<Longrightarrow> unat (of_nat n :: u16) = n"
  by (simp add: unat_of_nat)

lemma unat_u16_bound [simp]: "unat (x :: u16) < 65536"
  using unsigned_less [of x, where ?'a = nat] by simp

lemma unat_u32_bound [simp]: "unat (x :: u32) < 4294967296"
  using unsigned_less [of x, where ?'a = nat] by simp

lemma unat_u8_bound [simp]: "unat (x :: u8) < 256"
  using unsigned_less [of x, where ?'a = nat] by simp

lemma unat_ucast_u16: "unat (ucast (w :: u32) :: u16) = unat w mod 65536"
  by (simp add: unsigned_ucast_eq take_bit_eq_mod)

lemma ucast_u16_u32: "unat (w :: u32) < 65536 \<Longrightarrow> ucast (ucast w :: u16) = w"
  by (simp add: word_unat_eq_iff unsigned_ucast_eq unsigned_take_bit_eq take_bit_nat_eq_self)

lemma unat_ucast_u8_u32: "unat (ucast (w :: u8) :: u32) = unat w"
  by (simp add: unsigned_ucast_eq take_bit_nat_eq_self less_trans [OF unat_u8_bound])

lemma ucast_u8_u32: "ucast (ucast (w :: u8) :: u32) = w"
  by (simp add: word_unat_eq_iff unsigned_ucast_eq unsigned_take_bit_eq take_bit_nat_eq_self less_trans [OF unat_u8_bound])

section \<open>Encodings\<close>

text \<open>
  The contract of a pair of routines that write a value as text or bytes and read it back. The
  first argument is the environment (configuration and library functions) both work in, and the
  round trip is promised in the environments \<open>ok\<close> admits, for the values \<open>valid\<close> admits.
\<close>

locale codec =
  fixes ok :: "'e \<Rightarrow> bool"
    and valid :: "'e \<Rightarrow> 'v \<Rightarrow> bool"
    and encode :: "'e \<Rightarrow> 'v \<Rightarrow> 'c"
    and decode :: "'e \<Rightarrow> 'c \<Rightarrow> 'v option"
  assumes roundtrip: "ok e \<Longrightarrow> valid e v \<Longrightarrow> decode e (encode e v) = Some v"
begin

lemma encode_eq_iff: "ok e \<Longrightarrow> valid e v \<Longrightarrow> valid e w \<Longrightarrow> encode e v = encode e w \<longleftrightarrow> v = w"
  by (metis option.inject roundtrip)

lemma encode_inj_on: "ok e \<Longrightarrow> inj_on (encode e) {v. valid e v}"
  by (auto intro: inj_onI simp: encode_eq_iff)

lemma decode_map_encode:
  "ok e \<Longrightarrow> list_all (valid e) vs \<Longrightarrow> map (decode e) (map (encode e) vs) = map Some vs"
  by (induction vs) (simp_all add: roundtrip)

lemma distinct_encode:
  "ok e \<Longrightarrow> list_all (valid e) vs \<Longrightarrow> distinct (map (encode e) vs) \<longleftrightarrow> distinct vs"
  by (induction vs) (auto simp: list_all_iff encode_eq_iff)

end

end
