(* ===== verification/Libc.thy ===== *)
theory Libc
  imports Prelude
begin

text \<open>
  The part of the C library the sources call: decimal printing (\<open>%u\<close>, \<open>%lu\<close>), \<open>snprintf\<close>,
  \<open>strtoul\<close>, \<open>strtol\<close>, the two \<open>sscanf\<close> formats of the argument parsers, \<open>strncpy\<close> and the
  character classes. \<open>unsigned long\<close> has the width of the target, so its largest value
  \<open>ULONG_MAX\<close> is an argument wherever it matters.
\<close>

section \<open>Character classes\<close>

definition c_isdigit :: "char \<Rightarrow> bool" where
  "c_isdigit c \<longleftrightarrow> 48 \<le> (of_char c :: nat) \<and> (of_char c :: nat) \<le> 57"

definition c_isupper :: "char \<Rightarrow> bool" where
  "c_isupper c \<longleftrightarrow> 65 \<le> (of_char c :: nat) \<and> (of_char c :: nat) \<le> 90"

definition c_islower :: "char \<Rightarrow> bool" where
  "c_islower c \<longleftrightarrow> 97 \<le> (of_char c :: nat) \<and> (of_char c :: nat) \<le> 122"

definition c_isalpha :: "char \<Rightarrow> bool" where
  "c_isalpha c \<longleftrightarrow> c_isupper c \<or> c_islower c"

definition c_isspace :: "char \<Rightarrow> bool" where
  "c_isspace c \<longleftrightarrow> (of_char c :: nat) = 32 \<or> 9 \<le> (of_char c :: nat) \<and> (of_char c :: nat) \<le> 13"

lemmas char_class_defs = c_isdigit_def c_isupper_def c_islower_def c_isalpha_def c_isspace_def

text \<open>The value of a character as a digit, in any base up to sixteen.\<close>

definition digit_value :: "char \<Rightarrow> nat option" where
  "digit_value c =
     (if c_isdigit c then Some (of_char c - 48)
      else if 97 \<le> (of_char c :: nat) \<and> (of_char c :: nat) \<le> 102 then Some (of_char c - 87)
      else if 65 \<le> (of_char c :: nat) \<and> (of_char c :: nat) \<le> 70 then Some (of_char c - 55)
      else None)"

definition is_digit_of :: "nat \<Rightarrow> char \<Rightarrow> bool" where
  "is_digit_of base c = (case digit_value c of None \<Rightarrow> False | Some v \<Rightarrow> v < base)"

definition digits_value :: "nat \<Rightarrow> string \<Rightarrow> nat" where
  "digits_value base ds = foldl (\<lambda>v c. v * base + the (digit_value c)) 0 ds"

section \<open>Decimal printing\<close>

definition dec_digit :: "nat \<Rightarrow> char" where
  "dec_digit d = ''0123456789'' ! d"

fun dec :: "nat \<Rightarrow> string" where
  "dec n = (if n < 10 then [dec_digit n] else dec (n div 10) @ [dec_digit (n mod 10)])"

declare dec.simps [simp del]

lemma less_10_cases:
  "n < 10 \<Longrightarrow> n = 0 \<or> n = 1 \<or> n = 2 \<or> n = 3 \<or> n = 4 \<or> n = 5 \<or> n = 6 \<or> n = 7 \<or> n = 8 \<or> n = (9::nat)"
  by arith

lemma of_char_dec_digit: "d < 10 \<Longrightarrow> of_char (dec_digit d) = 48 + d"
  by (drule less_10_cases) (auto simp: dec_digit_def)

lemma digit_value_dec_digit [simp]: "d < 10 \<Longrightarrow> digit_value (dec_digit d) = Some d"
  by (simp add: digit_value_def c_isdigit_def of_char_dec_digit)

lemma c_isdigit_dec_digit [simp]: "d < 10 \<Longrightarrow> c_isdigit (dec_digit d)"
  by (simp add: c_isdigit_def of_char_dec_digit)

lemma c_isdigitE:
  assumes "c_isdigit c"
  obtains d where "d < 10" "c = dec_digit d"
proof
  let ?d = "of_char c - 48 :: nat"
  from assms show "?d < 10" by (auto simp: c_isdigit_def)
  then have "of_char (dec_digit ?d) = (of_char c :: nat)"
    using assms by (simp add: of_char_dec_digit c_isdigit_def)
  then show "c = dec_digit ?d" by (simp add: of_char_eq_iff)
qed

lemma dec_nonempty [simp]: "dec n \<noteq> []"
  by (subst dec.simps) simp

lemma dec_isdigit: "c \<in> set (dec n) \<Longrightarrow> c_isdigit c"
proof (induction n rule: dec.induct)
  case (1 n)
  then show ?case by (auto simp: dec.simps [of n] split: if_splits)
qed

lemma dec_digits: "list_all c_isdigit (dec n)"
  by (auto simp: list_all_iff dec_isdigit)

lemma not_in_dec: "\<not> c_isdigit c \<Longrightarrow> c \<notin> set (dec n)"
  using dec_isdigit by blast

lemma slash_not_in_dec [simp]: "CHR ''/'' \<notin> set (dec n)"
  by (rule not_in_dec) (simp add: c_isdigit_def)

lemma digits_value_snoc:
  "digits_value b (ds @ [c]) = digits_value b ds * b + the (digit_value c)"
  by (simp add: digits_value_def)

lemma digits_value_dec [simp]: "digits_value 10 (dec n) = n"
proof (induction n rule: dec.induct)
  case (1 n)
  show ?case
  proof (cases "n < 10")
    case True
    then show ?thesis by (simp add: dec.simps [of n] digits_value_def)
  next
    case False
    with 1 show ?thesis by (simp add: dec.simps [of n] digits_value_snoc)
  qed
qed

lemma dec_inject [simp]: "dec m = dec n \<longleftrightarrow> m = n"
  by (metis digits_value_dec)

lemma length_dec_le: "length (dec n) \<le> Suc k \<longleftrightarrow> n < 10 ^ Suc k"
proof (induction k arbitrary: n)
  case 0
  show ?case by (simp add: dec.simps [of n] dec.simps [of "n div 10"])
next
  case (Suc k)
  show ?case
  proof (cases "n < 10")
    case True
    then have "n < 10 ^ Suc (Suc k)"
      by (rule less_le_trans) (simp add: self_le_power)
    with True show ?thesis by (simp add: dec.simps [of n])
  next
    case False
    then have "length (dec n) \<le> Suc (Suc k) \<longleftrightarrow> length (dec (n div 10)) \<le> Suc k"
      by (simp add: dec.simps [of n])
    also have "\<dots> \<longleftrightarrow> n div 10 < 10 ^ Suc k" by (rule Suc.IH)
    also have "\<dots> \<longleftrightarrow> n < 10 ^ Suc (Suc k)" by (simp add: div_less_iff_less_mult mult.commute)
    finally show ?thesis .
  qed
qed

lemma length_dec_bound: "n < 10 ^ k \<Longrightarrow> 0 < k \<Longrightarrow> length (dec n) \<le> k"
  using length_dec_le [of n "k - 1"] by simp

lemma length_dec_u16: "length (dec (unat (x :: u16))) \<le> 5"
  by (rule length_dec_bound) (auto intro: less_trans [OF unat_u16_bound])

lemma length_dec_u32: "length (dec (unat (x :: u32))) \<le> 10"
  by (rule length_dec_bound) (auto intro: less_trans [OF unat_u32_bound])

text \<open>The first digit is a zero for zero only, so decimal output is never read as octal.\<close>

lemma hd_dec: "hd (dec n) = CHR ''0'' \<longleftrightarrow> n = 0"
proof (induction n rule: dec.induct)
  case (1 n)
  show ?case
  proof (cases "n < 10")
    case True
    then show ?thesis by (drule_tac less_10_cases) (auto simp: dec.simps [of n] dec_digit_def)
  next
    case False
    then have "hd (dec n) = hd (dec (n div 10))" by (simp add: dec.simps [of n])
    with False 1 show ?thesis by simp
  qed
qed

text \<open>\<open>%d\<close>.\<close>

definition dec_int :: "int \<Rightarrow> string" where
  "dec_int i = (if i < 0 then ''-'' @ dec (nat (- i)) else dec (nat i))"

section \<open>The target's C library\<close>

text \<open>
  What the target leaves open: \<open>ULONG_MAX\<close> (\<open>unsigned long\<close> has 32 bits on most boards and 64
  on native simulation), and the value a numeric \<open>scanf\<close> conversion stores when the digits exceed
  the range of its type, which the C standard does not define.
\<close>

record libc =
  ulong_max :: nat
  scan_overflow :: "nat \<Rightarrow> nat"

definition libc_ok :: "libc \<Rightarrow> bool" where
  "libc_ok lc \<longleftrightarrow> UINT32_MAX \<le> ulong_max lc"

text \<open>A negated value of an unsigned type, whose largest value is given.\<close>

definition c_negate :: "nat \<Rightarrow> nat \<Rightarrow> nat" where
  "c_negate m v = (m + 1 - v) mod (m + 1)"

section \<open>strtoul and strtol\<close>

definition skip_space :: "string \<Rightarrow> string" where
  "skip_space s = dropWhile c_isspace s"

fun split_sign :: "string \<Rightarrow> bool \<times> string" where
  "split_sign [] = (False, [])"
| "split_sign (c # s) =
     (if c = CHR ''-'' then (True, s) else if c = CHR ''+'' then (False, s) else (False, c # s))"

definition is_hex_prefix :: "string \<Rightarrow> bool" where
  "is_hex_prefix s =
     (case s of
        z # x # d # r \<Rightarrow> z = CHR ''0'' \<and> (x = CHR ''x'' \<or> x = CHR ''X'') \<and> is_digit_of 16 d
      | _ \<Rightarrow> False)"

text \<open>Base 0 reads hexadecimal after \<open>0x\<close>, octal after a leading zero, and decimal otherwise.\<close>

definition split_radix :: "nat \<Rightarrow> string \<Rightarrow> nat \<times> string" where
  "split_radix base s =
     (if base \<noteq> 0 then (base, s)
      else if is_hex_prefix s then (16, drop 2 s)
      else if s \<noteq> [] \<and> hd s = CHR ''0'' then (8, s)
      else (10, s))"

text \<open>
  The subject sequence at the start of a string: its sign, its magnitude and how many characters
  were read up to its end; \<^const>\<open>None\<close> when there are no digits.
\<close>

definition strto_subject :: "nat \<Rightarrow> string \<Rightarrow> (bool \<times> nat \<times> nat) option" where
  "strto_subject base s =
     (let (neg, s2) = split_sign (skip_space s);
          (b, s3) = split_radix base s2;
          ds = takeWhile (is_digit_of b) s3
      in if ds = [] then None
         else Some (neg, digits_value b ds, length s - (length s3 - length ds)))"

text \<open>The result and the offset of \<open>endptr\<close> from the start of the string.\<close>

definition strtoul :: "libc \<Rightarrow> nat \<Rightarrow> string \<Rightarrow> nat \<times> nat" where
  "strtoul lc base s =
     (case strto_subject base s of
        None \<Rightarrow> (0, 0)
      | Some (neg, v, n) \<Rightarrow>
          (if ulong_max lc < v then ulong_max lc
           else if neg then c_negate (ulong_max lc) v else v, n))"

definition long_max :: "libc \<Rightarrow> int" where
  "long_max lc = int (ulong_max lc div 2)"

definition long_min :: "libc \<Rightarrow> int" where
  "long_min lc = - long_max lc - 1"

definition strtol :: "libc \<Rightarrow> nat \<Rightarrow> string \<Rightarrow> int \<times> nat" where
  "strtol lc base s =
     (case strto_subject base s of
        None \<Rightarrow> (0, 0)
      | Some (neg, v, n) \<Rightarrow>
          (let i = (if neg then - int v else int v)
           in (max (long_min lc) (min (long_max lc) i), n)))"

section \<open>sscanf\<close>

text \<open>One \<open>%lu\<close> or \<open>%u\<close> conversion into a type with largest value \<open>m\<close>: the value stored and the
  input that is left.\<close>

definition scan_unsigned :: "libc \<Rightarrow> nat \<Rightarrow> string \<Rightarrow> (nat \<times> string) option" where
  "scan_unsigned lc m s =
     (case strto_subject 10 s of
        None \<Rightarrow> None
      | Some (neg, v, n) \<Rightarrow>
          Some (if m < v then scan_overflow lc v mod (m + 1)
                else if neg then c_negate m v else v, drop n s))"

text \<open>What \<open>sscanf\<close> returns when its first conversion fails: EOF at the end of the input.\<close>

definition scan_failure :: "string \<Rightarrow> int" where
  "scan_failure s = (if skip_space s = [] then -1 else 0)"

text \<open>The literal \<open>[\<close> and one more unsigned conversion; the closing bracket of the format is the
  last directive and has no effect.\<close>

definition scan_index :: "libc \<Rightarrow> nat \<Rightarrow> string \<Rightarrow> nat option" where
  "scan_index lc m s =
     (case s of
        [] \<Rightarrow> None
      | c # r \<Rightarrow> if c = CHR ''['' then map_option fst (scan_unsigned lc m r) else None)"

text \<open>\<open>sscanf(s, "%lu[%u]", \<dots>)\<close> and \<open>sscanf(s, "%lu[%lu]", \<dots>)\<close>: the count returned and the values
  assigned; the largest value of the second one's type is given.\<close>

definition sscanf_lu_index :: "libc \<Rightarrow> nat \<Rightarrow> string \<Rightarrow> int \<times> nat option \<times> nat option" where
  "sscanf_lu_index lc m s =
     (case scan_unsigned lc (ulong_max lc) s of
        None \<Rightarrow> (scan_failure s, None, None)
      | Some (v, r) \<Rightarrow>
          (case scan_index lc m r of
             None \<Rightarrow> (1, Some v, None)
           | Some i \<Rightarrow> (2, Some v, Some i)))"

text \<open>One \<open>%<w>u\<close> conversion, which reads at most \<open>w\<close> characters after white space.\<close>

definition scan_width :: "libc \<Rightarrow> nat \<Rightarrow> string \<Rightarrow> (nat \<times> string) option" where
  "scan_width lc w s =
     (let s' = skip_space s
      in case scan_unsigned lc UINT32_MAX (take w s') of
           None \<Rightarrow> None
         | Some (v, r) \<Rightarrow> Some (v, r @ drop w s'))"

text \<open>\<open>sscanf(s, "%4u:%7u", \<dots>)\<close>: both values when two conversions succeed.\<close>

definition sscanf_type_instance :: "libc \<Rightarrow> string \<Rightarrow> (nat \<times> nat) option" where
  "sscanf_type_instance lc s =
     (case scan_width lc 4 s of
        None \<Rightarrow> None
      | Some (v, r) \<Rightarrow>
          (case r of
             [] \<Rightarrow> None
           | c # r' \<Rightarrow>
               if c = CHR '':'' then map_option (\<lambda>(i, _). (v, i)) (scan_width lc 7 r') else None))"

text \<open>One \<open>%s\<close> conversion: the word read, empty when there is none.\<close>

definition scan_word :: "string \<Rightarrow> string" where
  "scan_word s = takeWhile (\<lambda>c. \<not> c_isspace c) (skip_space s)"

section \<open>snprintf and strncpy\<close>

text \<open>\<open>snprintf\<close> returns the length of the whole text and stores what fits before the NUL.\<close>

definition snprintf :: "nat \<Rightarrow> string \<Rightarrow> int \<times> string" where
  "snprintf n txt = (int (length txt), take (n - 1) txt)"

text \<open>\<open>strncpy\<close> fills the whole buffer: the bytes of the source, then NUL bytes.\<close>

definition strncpy :: "string \<Rightarrow> nat \<Rightarrow> char list" where
  "strncpy src n = take n src @ replicate (n - length src) (CHR 0x00)"

text \<open>The C string a buffer holds: its characters up to the first NUL.\<close>

definition c_string :: "char list \<Rightarrow> string" where
  "c_string buf = takeWhile (\<lambda>c. c \<noteq> CHR 0x00) buf"

text \<open>The bytes of a string.\<close>

definition bytes_of :: "string \<Rightarrow> byte list" where
  "bytes_of s = map of_char s"

definition text_of :: "byte list \<Rightarrow> string" where
  "text_of bs = map (\<lambda>b. char_of (unat b)) bs"

lemma text_of_bytes_of [simp]: "text_of (bytes_of s) = s"
proof -
  have "char_of (unat (of_char c :: byte)) = c" for c
  proof -
    have "unat (of_nat (of_char c) :: byte) = of_char c"
      by (simp add: unat_of_nat)
    then have "unat (of_char c :: byte) = of_char c" by (simp only: of_nat_of_char)
    then show ?thesis by simp
  qed
  then show ?thesis by (simp add: text_of_def bytes_of_def map_idI)
qed

lemma length_bytes_of [simp]: "length (bytes_of s) = length s"
  by (simp add: bytes_of_def)

lemma bytes_of_append [simp]: "bytes_of (s @ t) = bytes_of s @ bytes_of t"
  by (simp add: bytes_of_def)

lemma bytes_of_eq_Nil [simp]: "bytes_of s = [] \<longleftrightarrow> s = []"
  by (simp add: bytes_of_def)

lemmas libc_eval =
  strtoul_def strtol_def long_max_def long_min_def c_negate_def strto_subject_def skip_space_def
  split_radix_def char_class_defs is_digit_of_def digit_value_def digits_value_def
  is_hex_prefix_def sscanf_lu_index_def scan_unsigned_def scan_failure_def scan_index_def
  scan_width_def sscanf_type_instance_def scan_word_def bytes_of_def
  snprintf_def strncpy_def c_string_def dec.simps dec_digit_def

lemma length_strncpy [simp]: "length (strncpy src n) = n"
  by (simp add: strncpy_def)

section \<open>Reading back decimal output\<close>

lemma is_digit_of_10: "is_digit_of 10 c \<longleftrightarrow> c_isdigit c"
  by (auto simp: is_digit_of_def digit_value_def c_isdigit_def split: option.splits)

lemma digit_head_plain:
  assumes "c_isdigit c"
  shows "skip_space (c # s) = c # s" and "split_sign (c # s) = (False, c # s)"
proof -
  have "\<not> c_isspace c" "c \<noteq> CHR ''-''" "c \<noteq> CHR ''+''"
    using assms by (auto simp: char_class_defs)
  then show "skip_space (c # s) = c # s" "split_sign (c # s) = (False, c # s)"
    by (simp_all add: skip_space_def)
qed

lemma dec_cases:
  obtains c s where "dec n = c # s" "c_isdigit c" "list_all c_isdigit s" "c = CHR ''0'' \<longleftrightarrow> n = 0"
proof -
  obtain c s where "dec n = c # s" by (cases "dec n") auto
  then show thesis using that [of c s] dec_digits [of n] hd_dec [of n] by simp
qed

lemma takeWhile_dec:
  "rest = [] \<or> \<not> c_isdigit (hd rest) \<Longrightarrow> takeWhile (is_digit_of 10) (dec n @ rest) = dec n"
  by (cases rest) (auto simp: takeWhile_append is_digit_of_10 dec_isdigit)

lemma takeWhile_dec_only: "takeWhile (is_digit_of 10) (dec n) = dec n"
  using takeWhile_dec [of "[]" n] by (simp only: append_Nil2 simp_thms)

lemma strto_subject_10:
  assumes "rest = [] \<or> \<not> c_isdigit (hd rest)"
  shows "strto_subject 10 (dec n @ rest) = Some (False, n, length (dec n))"
proof -
  obtain c s where "dec n = c # s" "c_isdigit c" by (rule dec_cases [of n])
  then have "skip_space (dec n @ rest) = dec n @ rest" "split_sign (dec n @ rest) = (False, dec n @ rest)"
    by (simp_all add: digit_head_plain del: split_sign.simps)
  then show ?thesis
    using takeWhile_dec [OF assms, of n] by (simp add: strto_subject_def split_radix_def)
qed

lemma strto_subject_dec: "strto_subject 0 (dec n) = Some (False, n, length (dec n))"
proof (cases "n = 0")
  case True
  then show ?thesis by (simp add: libc_eval)
next
  case False
  obtain c s where *: "dec n = c # s" "c_isdigit c" "list_all c_isdigit s" "c \<noteq> CHR ''0''"
    using False by (metis dec_cases)
  then have "\<not> is_hex_prefix (dec n)" by (auto simp: is_hex_prefix_def split: list.splits)
  then have "split_radix 0 (dec n) = (10, dec n)" using * by (simp add: split_radix_def)
  moreover have "skip_space (dec n) = dec n" "split_sign (dec n) = (False, dec n)"
    using * by (simp_all add: digit_head_plain del: split_sign.simps)
  ultimately show ?thesis
    by (simp add: strto_subject_def takeWhile_dec_only)
qed

lemma strtoul_dec: "strtoul lc 0 (dec n) = (min n (ulong_max lc), length (dec n))"
  by (simp add: strtoul_def strto_subject_dec)

lemma scan_unsigned_dec:
  assumes "rest = [] \<or> \<not> c_isdigit (hd rest)" "n \<le> m"
  shows "scan_unsigned lc m (dec n @ rest) = Some (n, rest)"
  using assms by (simp add: scan_unsigned_def strto_subject_10)

lemma sscanf_lu_index_dec:
  "n \<le> ulong_max lc \<Longrightarrow> sscanf_lu_index lc m (dec n) = (1, Some n, None)"
  using scan_unsigned_dec [of "[]" n "ulong_max lc" lc]
  by (simp add: sscanf_lu_index_def scan_index_def)

lemma sscanf_lu_index_dec_dec:
  assumes "n \<le> ulong_max lc" "i \<le> m"
  shows "sscanf_lu_index lc m (dec n @ CHR ''['' # dec i @ '']'') = (2, Some n, Some i)"
  using assms scan_unsigned_dec [of "CHR ''['' # dec i @ '']''" n "ulong_max lc" lc]
    scan_unsigned_dec [of "'']''" i m lc]
  by (simp add: sscanf_lu_index_def scan_index_def c_isdigit_def)

end
