(* ===== verification/Platform.thy ===== *)
theory Platform
  imports Libc "HOL-Library.AList"
begin

text \<open>
  The parts of the platform that the sources call and that are not part of the repository: the
  Zephyr settings subsystem with its path helpers, and the flash area interface. They are records
  of functions that the definitions of the other theories take as arguments; the predicates
  \<open>names_laws\<close> and \<open>settings_laws\<close> state the documented behaviour the code relies on. The last
  section gives one concrete platform that obeys them, on which the witnesses run.
\<close>

section \<open>Target configuration and path helpers\<close>

text \<open>
  \<open>base_name\<close> is \<open>BACNET_STORAGE_BASE_NAME\<close>; the three sizes are \<open>SETTINGS_MAX_DIR_DEPTH\<close>,
  \<open>SETTINGS_MAX_NAME_LEN\<close> and \<open>SETTINGS_MAX_VAL_LEN\<close> of the settings subsystem.
\<close>

record target =
  clib :: libc
  base_name :: string
  max_dir_depth :: nat
  max_name_len :: nat
  max_val_len :: nat

text \<open>\<open>settings_name_next\<close> returns the length of the first element of a path and the rest after
  its separator; \<open>settings_name_steq\<close> tells whether a path starts with another one.\<close>

record names =
  name_next :: "string option \<Rightarrow> nat \<times> string option"
  name_steq :: "string option \<Rightarrow> string \<Rightarrow> bool \<times> string option"

definition NAME_SEPARATOR :: char where "NAME_SEPARATOR = CHR ''/''"
definition NAME_END :: char where "NAME_END = CHR ''=''"

definition names_laws :: "('z) names_scheme \<Rightarrow> bool" where
  "names_laws nm \<longleftrightarrow>
     name_next nm None = (0, None) \<and>
     (\<forall>e. NAME_SEPARATOR \<notin> set e \<longrightarrow> NAME_END \<notin> set e \<longrightarrow>
        name_next nm (Some e) = (length e, None) \<and>
        (\<forall>r. name_next nm (Some (e @ NAME_SEPARATOR # r)) = (length e, Some r))) \<and>
     (\<forall>b. NAME_END \<notin> set b \<longrightarrow>
        name_steq nm (Some b) b = (True, None) \<and>
        (\<forall>r. name_steq nm (Some (b @ NAME_SEPARATOR # r)) b = (True, Some r)) \<and>
        (\<forall>s. s \<noteq> b \<longrightarrow> (\<forall>r. s \<noteq> b @ NAME_SEPARATOR # r) \<longrightarrow> NAME_END \<notin> set s \<longrightarrow>
           name_steq nm (Some s) b = (False, None)))"

text \<open>A target on which every storage key fits the name buffers.\<close>

definition target_ok :: "target \<Rightarrow> bool" where
  "target_ok tg \<longleftrightarrow>
     libc_ok (clib tg) \<and> NAME_END \<notin> set (base_name tg) \<and>
     length (base_name tg) + 39 \<le> max_name_len tg \<and> 0 < max_dir_depth tg"

lemma names_laws_None: "names_laws nm \<Longrightarrow> name_next nm None = (0, None)"
  by (simp add: names_laws_def)

lemma names_laws_last:
  "names_laws nm \<Longrightarrow> NAME_SEPARATOR \<notin> set e \<Longrightarrow> NAME_END \<notin> set e \<Longrightarrow>
   name_next nm (Some e) = (length e, None)"
  by (simp add: names_laws_def)

lemma names_laws_next:
  "names_laws nm \<Longrightarrow> NAME_SEPARATOR \<notin> set e \<Longrightarrow> NAME_END \<notin> set e \<Longrightarrow>
   name_next nm (Some (e @ NAME_SEPARATOR # r)) = (length e, Some r)"
  by (simp add: names_laws_def)

lemma names_laws_base:
  "names_laws nm \<Longrightarrow> NAME_END \<notin> set b \<Longrightarrow>
   name_steq nm (Some (b @ NAME_SEPARATOR # r)) b = (True, Some r)"
  by (simp add: names_laws_def)

lemma dec_no_separator [simp]: "NAME_SEPARATOR \<notin> set (dec n)"
  by (simp add: NAME_SEPARATOR_def)

lemma dec_no_end [simp]: "NAME_END \<notin> set (dec n)"
  by (rule not_in_dec) (simp add: c_isdigit_def NAME_END_def)

lemma dec_sep_inject [simp]:
  "dec a @ NAME_SEPARATOR # x = dec b @ NAME_SEPARATOR # y \<longleftrightarrow> a = b \<and> x = y"
  using append_sep_inject [of NAME_SEPARATOR "dec a" "dec b" x y] by auto

lemma dec_sep_last [simp]:
  "dec a \<noteq> dec b @ NAME_SEPARATOR # y" "dec b @ NAME_SEPARATOR # y \<noteq> dec a"
  using dec_no_separator [of a] by (metis in_set_conv_decomp)+

section \<open>The settings subsystem\<close>

text \<open>
  A read callback copies at most the requested number of bytes and returns how many, or a negative
  error. A load callback gets the name relative to the subtree (NULL for the subtree's own entry),
  the length of the value, the read callback and its parameter; it may change the parameter and
  the world.
\<close>

type_synonym reader = "nat \<Rightarrow> int \<times> byte list"
type_synonym ('p, 's) load_cb = "string option \<Rightarrow> nat \<Rightarrow> reader \<Rightarrow> 'p \<Rightarrow> 's \<Rightarrow> int \<times> 'p \<times> 's"

record 's settings_handler =
  handler_name :: string
  h_set :: "string option \<Rightarrow> nat \<Rightarrow> reader \<Rightarrow> 's \<Rightarrow> int \<times> 's"
  h_commit :: int
  h_export :: int

record ('p, 's) settings = names +
  subsys_init :: "'s \<Rightarrow> int \<times> 's"
  settings_register :: "string \<Rightarrow> 's \<Rightarrow> int \<times> 's"
  settings_save_one :: "string \<Rightarrow> byte list \<Rightarrow> 's \<Rightarrow> int \<times> 's"
  settings_delete :: "string \<Rightarrow> 's \<Rightarrow> int \<times> 's"
  settings_load_subtree :: "string \<Rightarrow> 's settings_handler \<Rightarrow> 's \<Rightarrow> int \<times> 's"
  settings_load_subtree_direct :: "string \<Rightarrow> ('p, 's) load_cb \<Rightarrow> 'p \<Rightarrow> 's \<Rightarrow> int \<times> 'p \<times> 's"

text \<open>The entries of a store at and below a name, relative to it.\<close>

definition relative :: "string \<Rightarrow> string option \<Rightarrow> string" where
  "relative sub r = (case r of None \<Rightarrow> sub | Some x \<Rightarrow> sub @ NAME_SEPARATOR # x)"

definition value_reader :: "byte list \<Rightarrow> reader" where
  "value_reader v n = (int (min n (length v)), take n v)"

text \<open>Calling a load callback on the entries one after another, up to the first one for which it
  does not return 0.\<close>

fun load_entries ::
    "('p, 's) load_cb \<Rightarrow> (string option \<times> byte list) list \<Rightarrow> 'p \<Rightarrow> 's \<Rightarrow> int \<times> 'p \<times> 's" where
  "load_entries cb [] p s = (0, p, s)"
| "load_entries cb ((r, v) # es) p s =
     (let (rc, p', s') = cb r (length v) (value_reader v) p s
      in if rc \<noteq> 0 then (rc, p', s') else load_entries cb es p' s')"

definition handle_entries ::
    "'s settings_handler \<Rightarrow> (string option \<times> byte list) list \<Rightarrow> 's \<Rightarrow> 's" where
  "handle_entries h es s = fold (\<lambda>(r, v) s. snd (h_set h r (length v) (value_reader v) s)) es s"

text \<open>
  What the storage relies on. \<open>good\<close> is the invariant of the subsystem's state and \<open>view\<close> its
  content. Writing and deleting either fail and leave the content alone, or do what they say.
  Loading a subtree directly calls the callback for each entry of the subtree that is stored when
  the load starts, in an order the subsystem chooses, up to the first call that does not return 0;
  when every call returns 0 the load does, and otherwise its result is left open. Loading through a
  registered handler passes each entry of the subtree to it, whatever the handler returns.
\<close>

definition save_law :: "('p, 's, 'z) settings_scheme \<Rightarrow> ('s \<Rightarrow> bool) \<Rightarrow> ('s \<Rightarrow> string \<rightharpoonup> byte list) \<Rightarrow> bool" where
  "save_law st good view \<longleftrightarrow>
     (\<forall>s nam v. good s \<longrightarrow> v \<noteq> [] \<longrightarrow>
        good (snd (settings_save_one st nam v s)) \<and>
        view (snd (settings_save_one st nam v s)) =
          (if fst (settings_save_one st nam v s) = 0 then (view s)(nam \<mapsto> v) else view s))"

definition delete_law :: "('p, 's, 'z) settings_scheme \<Rightarrow> ('s \<Rightarrow> bool) \<Rightarrow> ('s \<Rightarrow> string \<rightharpoonup> byte list) \<Rightarrow> bool" where
  "delete_law st good view \<longleftrightarrow>
     (\<forall>s nam. good s \<longrightarrow>
        good (snd (settings_delete st nam s)) \<and>
        view (snd (settings_delete st nam s)) =
          (if fst (settings_delete st nam s) = 0 then (view s)(nam := None) else view s))"

definition load_law :: "('p, 's, 'z) settings_scheme \<Rightarrow> ('s \<Rightarrow> bool) \<Rightarrow> ('s \<Rightarrow> string \<rightharpoonup> byte list) \<Rightarrow> bool" where
  "load_law st good view \<longleftrightarrow>
     (\<forall>s sub cb p. good s \<longrightarrow>
        (\<exists>es. distinct (map fst es) \<and>
              (\<forall>r v. (r, v) \<in> set es \<longleftrightarrow> view s (relative sub r) = Some v) \<and>
              snd (settings_load_subtree_direct st sub cb p s) = snd (load_entries cb es p s) \<and>
              (fst (load_entries cb es p s) = 0 \<longrightarrow>
               fst (settings_load_subtree_direct st sub cb p s) = 0)))"

definition handle_law :: "('p, 's, 'z) settings_scheme \<Rightarrow> ('s \<Rightarrow> bool) \<Rightarrow> ('s \<Rightarrow> string \<rightharpoonup> byte list) \<Rightarrow> bool" where
  "handle_law st good view \<longleftrightarrow>
     (\<forall>s sub h. good s \<longrightarrow>
        (\<exists>es. (\<forall>r v. (r, v) \<in> set es \<longleftrightarrow> view s (relative sub r) = Some v) \<and>
              snd (settings_load_subtree st sub h s) = handle_entries h es s))"

definition settings_laws ::
    "('p, 's, 'z) settings_scheme \<Rightarrow> ('s \<Rightarrow> bool) \<Rightarrow> ('s \<Rightarrow> string \<rightharpoonup> byte list) \<Rightarrow> bool" where
  "settings_laws st good view \<longleftrightarrow>
     names_laws st \<and> save_law st good view \<and> delete_law st good view \<and>
     load_law st good view \<and> handle_law st good view"

lemma settings_laws_names: "settings_laws st good view \<Longrightarrow> names_laws st"
  by (simp add: settings_laws_def)

lemma settings_laws_save:
  assumes "settings_laws st good view" "good s" "v \<noteq> []"
  shows "good (snd (settings_save_one st nam v s))"
    and "view (snd (settings_save_one st nam v s)) =
          (if fst (settings_save_one st nam v s) = 0 then (view s)(nam \<mapsto> v) else view s)"
  using assms unfolding settings_laws_def save_law_def by blast+

lemma settings_laws_delete:
  assumes "settings_laws st good view" "good s"
  shows "good (snd (settings_delete st nam s))"
    and "view (snd (settings_delete st nam s)) =
          (if fst (settings_delete st nam s) = 0 then (view s)(nam := None) else view s)"
  using assms unfolding settings_laws_def delete_law_def by blast+

lemma settings_laws_load:
  assumes "settings_laws st good view" "good s"
  obtains es where "distinct (map fst es)"
    "\<And>r v. (r, v) \<in> set es \<longleftrightarrow> view s (relative sub r) = Some v"
    "snd (settings_load_subtree_direct st sub cb p s) = snd (load_entries cb es p s)"
    "fst (load_entries cb es p s) = 0 \<Longrightarrow> fst (settings_load_subtree_direct st sub cb p s) = 0"
  using assms unfolding settings_laws_def load_law_def by blast

lemma settings_laws_handle:
  assumes "settings_laws st good view" "good s"
  obtains es where "\<And>r v. (r, v) \<in> set es \<longleftrightarrow> view s (relative sub r) = Some v"
    "snd (settings_load_subtree st sub h s) = handle_entries h es s"
  using assms unfolding settings_laws_def handle_law_def by blast

lemma relative_inject [simp]: "relative sub r = relative sub r' \<longleftrightarrow> r = r'"
  by (auto simp: relative_def split: option.splits)

section \<open>A concrete platform\<close>

text \<open>
  A settings subsystem that keeps its entries in an association list, written along the
  documentation of the path helpers. It shows that the laws can hold, and the witnesses of the
  properties run on it. \<open>small_target\<close> has the sizes of the default configuration and 32-bit
  \<open>unsigned long\<close>.
\<close>

definition small_libc :: libc where
  "small_libc = \<lparr>ulong_max = 4294967295, scan_overflow = (\<lambda>v. v)\<rparr>"

definition small_target :: target where
  "small_target = \<lparr>clib = small_libc, base_name = ''.bacnet'', max_dir_depth = 8,
     max_name_len = 64, max_val_len = 256\<rparr>"

definition is_path_stop :: "char \<Rightarrow> bool" where
  "is_path_stop c \<longleftrightarrow> c = NAME_SEPARATOR \<or> c = NAME_END"

definition list_name_next :: "string option \<Rightarrow> nat \<times> string option" where
  "list_name_next path =
     (case path of
        None \<Rightarrow> (0, None)
      | Some s \<Rightarrow>
          (length (takeWhile (\<lambda>c. \<not> is_path_stop c) s),
           (case dropWhile (\<lambda>c. \<not> is_path_stop c) s of
              [] \<Rightarrow> None
            | c # r \<Rightarrow> if c = NAME_SEPARATOR then Some r else None)))"

fun strip_name :: "string \<Rightarrow> string \<Rightarrow> string option option" where
  "strip_name [] [] = Some None"
| "strip_name [] (c # s) = (if c = NAME_SEPARATOR then Some (Some s) else None)"
| "strip_name (k # ks) [] = None"
| "strip_name (k # ks) (c # s) = (if c = k then strip_name ks s else None)"

definition list_name_steq :: "string option \<Rightarrow> string \<Rightarrow> bool \<times> string option" where
  "list_name_steq path key =
     (case Option.bind path (strip_name key) of None \<Rightarrow> (False, None) | Some r \<Rightarrow> (True, r))"

type_synonym entries = "(string \<times> byte list) list"

fun list_entries :: "string \<Rightarrow> entries \<Rightarrow> (string option \<times> byte list) list" where
  "list_entries sub [] = []"
| "list_entries sub ((n, v) # s) =
     (case strip_name sub n of
        None \<Rightarrow> list_entries sub s
      | Some r \<Rightarrow> (r, v) # list_entries sub s)"

text \<open>The entries may be a part of a larger world, which \<open>get\<close> reads and \<open>put\<close> writes.\<close>

definition list_settings_on ::
    "('s \<Rightarrow> entries) \<Rightarrow> (entries \<Rightarrow> 's \<Rightarrow> 's) \<Rightarrow> ('p, 's) settings" where
  "list_settings_on get put =
     \<lparr>name_next = list_name_next, name_steq = list_name_steq,
      subsys_init = (\<lambda>s. (0, s)), settings_register = (\<lambda>n s. (0, s)),
      settings_save_one = (\<lambda>n v s. (0, put (AList.update n v (get s)) s)),
      settings_delete = (\<lambda>n s. (0, put (AList.delete n (get s)) s)),
      settings_load_subtree =
        (\<lambda>sub h s. (h_commit h, handle_entries h (list_entries sub (get s)) s)),
      settings_load_subtree_direct =
        (\<lambda>sub cb p s. load_entries cb (list_entries sub (get s)) p s)\<rparr>"

definition list_settings :: "('p, entries) settings" where
  "list_settings = list_settings_on (\<lambda>s. s) (\<lambda>e s. e)"

definition entries_good :: "entries \<Rightarrow> bool" where
  "entries_good s \<longleftrightarrow> distinct (map fst s)"

lemma strip_name_iff: "strip_name sub s = Some r \<longleftrightarrow> s = relative sub r"
  by (induction sub s rule: strip_name.induct) (auto simp: relative_def split: option.splits)

lemma strip_name_relative [simp]: "strip_name sub (relative sub r) = Some r"
  by (simp add: strip_name_iff)

lemma list_names_laws_on: "names_laws (list_settings_on get put)"
proof -
  have stop: "is_path_stop NAME_SEPARATOR" by (simp add: is_path_stop_def)
  have plain: "list_all (\<lambda>c. \<not> is_path_stop c) e" if "NAME_SEPARATOR \<notin> set e" "NAME_END \<notin> set e" for e
    using that by (auto simp: list_all_iff is_path_stop_def)
  have nxt: "list_name_next (Some e) = (length e, None)"
    "list_name_next (Some (e @ NAME_SEPARATOR # r)) = (length e, Some r)"
    if "NAME_SEPARATOR \<notin> set e" "NAME_END \<notin> set e" for e r
    using plain [OF that] stop
    by (auto simp: list_name_next_def list_all_iff takeWhile_append dropWhile_append
        takeWhile_eq_all_conv [THEN iffD2] dropWhile_eq_Nil_conv [THEN iffD2])
  have same: "strip_name b b = Some None" "strip_name b (b @ NAME_SEPARATOR # r) = Some (Some r)" for b r
    by (simp_all add: strip_name_iff relative_def)
  have other: "strip_name b s = None" if "s \<noteq> b" "\<forall>r. s \<noteq> b @ NAME_SEPARATOR # r" for b s
    using that by (cases "strip_name b s") (auto simp: strip_name_iff relative_def split: option.splits)
  show ?thesis
    unfolding names_laws_def list_settings_on_def
    by (auto simp: nxt same other list_name_steq_def) (simp add: list_name_next_def)
qed

lemma list_entries_set: "(r, v) \<in> set (list_entries sub s) \<longleftrightarrow> (relative sub r, v) \<in> set s"
  by (induction sub s rule: list_entries.induct) (auto simp: strip_name_iff split: option.splits)

lemma list_entries_iff:
  "entries_good s \<Longrightarrow> (r, v) \<in> set (list_entries sub s) \<longleftrightarrow> map_of s (relative sub r) = Some v"
  by (simp add: list_entries_set entries_good_def)

lemma list_entries_distinct: "distinct (map fst s) \<Longrightarrow> distinct (map fst (list_entries sub s))"
proof (induction sub s rule: list_entries.induct)
  case (2 sub n v s)
  then show ?case
    by (auto simp: strip_name_iff list_entries_set split: option.splits; force)
qed simp

lemma list_settings_laws_on:
  assumes "\<And>e s. get (put e s) = e"
  shows "settings_laws (list_settings_on get put) (\<lambda>s. entries_good (get s)) (\<lambda>s. map_of (get s))"
proof -
  let ?st = "list_settings_on get put"
  have load: "\<exists>es. distinct (map fst es) \<and>
      (\<forall>r v. (r, v) \<in> set es \<longleftrightarrow> map_of (get s) (relative sub r) = Some v) \<and>
      snd (settings_load_subtree_direct ?st sub cb p s) = snd (load_entries cb es p s) \<and>
      (fst (load_entries cb es p s) = 0 \<longrightarrow> fst (settings_load_subtree_direct ?st sub cb p s) = 0)"
    if "entries_good (get s)" for s sub cb p
    using that list_entries_distinct [of "get s" sub]
    by (intro exI [of _ "list_entries sub (get s)"])
      (simp add: list_entries_iff list_settings_on_def, simp add: entries_good_def)
  have handle: "\<exists>es. (\<forall>r v. (r, v) \<in> set es \<longleftrightarrow> map_of (get s) (relative sub r) = Some v) \<and>
      snd (settings_load_subtree ?st sub h s) = handle_entries h es s"
    if "entries_good (get s)" for s sub h
    using that by (intro exI [of _ "list_entries sub (get s)"])
      (simp add: list_entries_iff list_settings_on_def)
  show ?thesis
    unfolding settings_laws_def save_law_def delete_law_def load_law_def handle_law_def
    by (intro conjI allI impI list_names_laws_on load handle)
      (simp_all add: list_settings_on_def entries_good_def distinct_update distinct_delete
        update_conv' delete_conv' assms)
qed

lemma list_settings_laws: "settings_laws (list_settings :: ('p, entries) settings) entries_good map_of"
  unfolding list_settings_def
  using list_settings_laws_on [of "\<lambda>s. s" "\<lambda>e s. e"] by simp

lemma list_names_laws: "names_laws (list_settings :: ('p, entries) settings)"
  by (rule settings_laws_names [OF list_settings_laws])

end
