(* ===== verification/Storage_Key.thy ===== *)
theory Storage_Key
  imports Platform
begin

text \<open>
  The key of the BACnet storage (\<open>subsys/bacnet_settings/bacnet_storage.c\<close> lines 93--189 and
  293--511, \<open>bacnet_storage.h\<close>): the record of the four numbers that name a property value, the
  numeric conversions, and the three ways between a key and text: parsing shell arguments,
  encoding as a settings path, and decoding a settings path.
\<close>

section \<open>Numeric conversions\<close>

text \<open>\<open>bacnet_storage_strtoul\<close>: the value written through the pointer, or \<^const>\<open>None\<close> when the
  function returns false.\<close>

definition bacnet_storage_strtoul :: "libc \<Rightarrow> string \<Rightarrow> nat option" where
  "bacnet_storage_strtoul lc search_name =
     (let (val, endptr) = strtoul lc 0 search_name
      in if endptr = 0 then None
         else if val = ulong_max lc then None
         else if drop endptr search_name \<noteq> [] then None
         else Some val)"

definition bacnet_storage_strtol :: "libc \<Rightarrow> string \<Rightarrow> int option" where
  "bacnet_storage_strtol lc search_name =
     (let (val, endptr) = strtol lc 0 search_name
      in if endptr = 0 then None
         else if val = long_max lc \<or> val = long_min lc then None
         else if drop endptr search_name \<noteq> [] then None
         else Some val)"

text \<open>
  Floating point values are their IEEE single precision bit patterns. The conversion \<open>strtof\<close> is
  a parameter: the bits and the end offset. Comparing with \<open>INFINITY\<close> and \<open>-INFINITY\<close> compares
  the patterns; \<open>value == NAN\<close> is false for every value, so the last test of the source never
  rejects anything.
\<close>

definition bacnet_storage_strtof :: "(string \<Rightarrow> u32 \<times> nat) \<Rightarrow> string \<Rightarrow> u32 option" where
  "bacnet_storage_strtof strtof search_name =
     (let (val, endptr) = strtof search_name
      in if endptr = 0 then None
         else if val = 0x7F800000 \<or> val = 0xFF800000 \<or> False then None
         else if drop endptr search_name \<noteq> [] then None
         else Some val)"

section \<open>Keys\<close>

record storage_key =
  object_type :: u16
  object_instance :: u32
  property_id :: u32
  array_index :: u32

definition BACNET_STORAGE_ARRAY_INDEX_NONE :: u32 where
  "BACNET_STORAGE_ARRAY_INDEX_NONE = 4294967295"

definition zero_key :: storage_key where
  "zero_key = \<lparr>object_type = 0, object_instance = 0, property_id = 0, array_index = 0\<rparr>"

definition bacnet_storage_key_init :: "storage_key \<Rightarrow> u16 \<Rightarrow> u32 \<Rightarrow> u32 \<Rightarrow> u32 \<Rightarrow> storage_key" where
  "bacnet_storage_key_init key ty inst prop idx =
     key\<lparr>object_type := ty, object_instance := inst, property_id := prop, array_index := idx\<rparr>"

text \<open>
  Parsing the shell arguments. The guard asks for three arguments but the property is the fourth,
  so with exactly three arguments \<open>sscanf\<close> gets the NULL pointer: the outcome \<^const>\<open>None\<close>.
\<close>

definition bacnet_storage_key_parse ::
    "target \<Rightarrow> storage_key \<Rightarrow> string list \<Rightarrow> (int \<times> storage_key) option" where
  "bacnet_storage_key_parse tg key argv =
     (if length argv < 3 then Some (- EINVAL, key)
      else case bacnet_storage_strtoul (clib tg) (argv ! 1) of
        None \<Rightarrow> Some (- EINVAL, key)
      | Some v1 \<Rightarrow>
        if UINT16_MAX \<le> v1 then Some (- EINVAL, key)
        else case bacnet_storage_strtoul (clib tg) (argv ! 2) of
          None \<Rightarrow> Some (- EINVAL, key)
        | Some v2 \<Rightarrow>
          if BACNET_MAX_INSTANCE < v2 then Some (- EINVAL, key)
          else case argv_at argv 3 of
            None \<Rightarrow> None
          | Some arg3 \<Rightarrow>
            (let (scan_count, uv, av) = sscanf_lu_index (clib tg) UINT32_MAX arg3;
                 unsigned_value = (case uv of None \<Rightarrow> v2 | Some v \<Rightarrow> v);
                 idx = (case av of None \<Rightarrow> UINT32_MAX | Some v \<Rightarrow> v)
             in if scan_count < 1 then Some (- EINVAL, key)
                else if UINT32_MAX < unsigned_value then Some (- EINVAL, key)
                else if 2 \<le> scan_count \<and> UINT32_MAX < idx then Some (- EINVAL, key)
                else Some (0, bacnet_storage_key_init key (of_nat v1) (of_nat v2)
                       (of_nat unsigned_value)
                       (if scan_count < 2 then BACNET_STORAGE_ARRAY_INDEX_NONE
                        else of_nat idx))))"

text \<open>The text of a key: the base name and three or four decimal numbers.\<close>

definition key_text :: "target \<Rightarrow> storage_key \<Rightarrow> string" where
  "key_text tg key =
     (if array_index key = BACNET_STORAGE_ARRAY_INDEX_NONE then
        base_name tg @ NAME_SEPARATOR # dec (unat (object_type key)) @
        NAME_SEPARATOR # dec (unat (object_instance key)) @
        NAME_SEPARATOR # dec (unat (property_id key))
      else
        base_name tg @ NAME_SEPARATOR # dec (unat (object_type key)) @
        NAME_SEPARATOR # dec (unat (object_instance key)) @
        NAME_SEPARATOR # dec (unat (property_id key)) @
        NAME_SEPARATOR # dec (unat (array_index key)))"

text \<open>\<open>bacnet_storage_key_encode\<close>: the return code and the string left in the buffer.\<close>

definition bacnet_storage_key_encode :: "target \<Rightarrow> nat \<Rightarrow> storage_key \<Rightarrow> int \<times> string" where
  "bacnet_storage_key_encode tg buffer_size key = snprintf buffer_size (key_text tg key)"

text \<open>One element of a path: copied into a buffer of \<open>SETTINGS_MAX_DIR_DEPTH + 1\<close> characters and
  converted.\<close>

definition key_field :: "target \<Rightarrow> string \<Rightarrow> nat \<Rightarrow> nat option" where
  "key_field tg name next_len =
     (if max_dir_depth tg + 1 < next_len + 1 then None
      else bacnet_storage_strtoul (clib tg) (take next_len name))"

definition bacnet_storage_key_decode ::
    "target \<Rightarrow> ('z) names_scheme \<Rightarrow> string option \<Rightarrow> storage_key \<Rightarrow> int \<times> storage_key" where
  "bacnet_storage_key_decode tg nm path key =
     (let (steq, after) = name_steq nm path (base_name tg);
          name0 = (if steq \<and> after \<noteq> None then after else path);
          (len0, next0) = name_next nm name0
      in case Option.bind name0 (\<lambda>s. key_field tg s len0) of
        None \<Rightarrow> (- EINVAL, key)
      | Some v0 \<Rightarrow>
        (let key1 = key\<lparr>object_type := of_nat v0\<rparr>;
             (len1, next1) = name_next nm next0
         in case Option.bind next0 (\<lambda>s. key_field tg s len1) of
           None \<Rightarrow> (- EINVAL, key1)
         | Some v1 \<Rightarrow>
           (let key2 = key1\<lparr>object_instance := of_nat v1\<rparr>;
                (len2, next2) = name_next nm next1
            in case Option.bind next1 (\<lambda>s. key_field tg s len2) of
              None \<Rightarrow> (- EINVAL, key2)
            | Some v2 \<Rightarrow>
              (let key3 = key2\<lparr>property_id := of_nat v2,
                               array_index := BACNET_STORAGE_ARRAY_INDEX_NONE\<rparr>;
                   (len3, next3) = name_next nm next2
               in case next2 of
                 None \<Rightarrow> (0, key3)
               | Some s \<Rightarrow>
                 (case key_field tg s len3 of
                    None \<Rightarrow> (- EINVAL, key3)
                  | Some v3 \<Rightarrow> (0, key3\<lparr>array_index := of_nat v3\<rparr>))))))"

section \<open>Keys as settings paths\<close>

text \<open>What a path element can carry: at most \<open>SETTINGS_MAX_DIR_DEPTH\<close> digits, and not \<open>ULONG_MAX\<close>,
  which the conversion takes for an overflow.\<close>

definition field_decodable :: "target \<Rightarrow> nat \<Rightarrow> bool" where
  "field_decodable tg n \<longleftrightarrow> length (dec n) \<le> max_dir_depth tg \<and> n \<noteq> ulong_max (clib tg)"

definition key_decodable :: "target \<Rightarrow> storage_key \<Rightarrow> bool" where
  "key_decodable tg key \<longleftrightarrow>
     field_decodable tg (unat (object_type key)) \<and>
     field_decodable tg (unat (object_instance key)) \<and>
     field_decodable tg (unat (property_id key)) \<and>
     (array_index key = BACNET_STORAGE_ARRAY_INDEX_NONE \<or>
      field_decodable tg (unat (array_index key)))"

lemma strtoul_field:
  "n \<le> ulong_max lc \<Longrightarrow>
   bacnet_storage_strtoul lc (dec n) = (if n = ulong_max lc then None else Some n)"
  by (simp add: bacnet_storage_strtoul_def strtoul_dec)

lemma u16_le_ulong_max: "libc_ok lc \<Longrightarrow> unat (x :: u16) \<le> ulong_max lc"
  using unat_u16_bound [of x] unfolding libc_ok_def UINT32_MAX_def by linarith

lemma u32_le_ulong_max: "libc_ok lc \<Longrightarrow> unat (x :: u32) \<le> ulong_max lc"
  using unat_u32_bound [of x] unfolding libc_ok_def UINT32_MAX_def by linarith

lemma key_field_dec [key_simps]:
  "n \<le> ulong_max (clib tg) \<Longrightarrow>
   key_field tg (dec n @ rest) (length (dec n)) = (if field_decodable tg n then Some n else None)"
  by (auto simp: key_field_def field_decodable_def strtoul_field)

lemma key_field_dec_end [key_simps]:
  "n \<le> ulong_max (clib tg) \<Longrightarrow>
   key_field tg (dec n) (length (dec n)) = (if field_decodable tg n then Some n else None)"
  using key_field_dec [of n tg "[]"] by simp

lemma target_ok_clib: "target_ok tg \<Longrightarrow> libc_ok (clib tg)"
  by (simp add: target_ok_def)

lemma target_ok_base: "target_ok tg \<Longrightarrow> NAME_END \<notin> set (base_name tg)"
  by (simp add: target_ok_def)

lemma length_key_text: "length (key_text tg key) \<le> length (base_name tg) + 39"
  using length_dec_u16 [of "object_type key"] length_dec_u32 [of "object_instance key"]
    length_dec_u32 [of "property_id key"] length_dec_u32 [of "array_index key"]
  by (simp add: key_text_def)

lemma encode_fits [key_simps]:
  "target_ok tg \<Longrightarrow>
   bacnet_storage_key_encode tg (Suc (max_name_len tg)) key =
     (int (length (key_text tg key)), key_text tg key)"
  using length_key_text [of tg key]
  by (simp add: bacnet_storage_key_encode_def snprintf_def target_ok_def)

lemma key_text_inject [key_simps]: "key_text tg k1 = key_text tg k2 \<longleftrightarrow> k1 = k2"
  by (cases k1; cases k2)
    (auto simp: key_text_def split: if_splits intro: word_unat_eq_iff [THEN iffD2])

lemma decode_key_text:
  assumes nm: "names_laws nm" and tg: "target_ok tg"
  shows "fst (bacnet_storage_key_decode tg nm (Some (key_text tg key)) key0) =
           (if key_decodable tg key then 0 else - EINVAL)"
    and "key_decodable tg key \<Longrightarrow>
         snd (bacnet_storage_key_decode tg nm (Some (key_text tg key)) key0) = key"
proof -
  note laws = names_laws_None [OF nm] names_laws_last [OF nm] names_laws_next [OF nm]
    names_laws_base [OF nm target_ok_base [OF tg]]
  note bounds = u16_le_ulong_max [OF target_ok_clib [OF tg]]
    u32_le_ulong_max [OF target_ok_clib [OF tg]]
  show "fst (bacnet_storage_key_decode tg nm (Some (key_text tg key)) key0) =
          (if key_decodable tg key then 0 else - EINVAL)"
    by (simp add: bacnet_storage_key_decode_def key_text_def key_decodable_def laws key_simps bounds)
  show "key_decodable tg key \<Longrightarrow>
        snd (bacnet_storage_key_decode tg nm (Some (key_text tg key)) key0) = key"
    by (cases key; cases key0)
      (auto simp: bacnet_storage_key_decode_def key_text_def key_decodable_def laws key_simps bounds)
qed

section \<open>Storage keys as a codec\<close>

definition key_env_ok :: "target \<times> names \<Rightarrow> bool" where
  "key_env_ok e \<longleftrightarrow> target_ok (fst e) \<and> names_laws (snd e)"

definition path_of_key :: "target \<times> names \<Rightarrow> storage_key \<Rightarrow> string" where
  "path_of_key e key = snd (bacnet_storage_key_encode (fst e) (max_name_len (fst e) + 1) key)"

definition key_of_path :: "target \<times> names \<Rightarrow> string \<Rightarrow> storage_key option" where
  "key_of_path e path =
     (let (rc, key) = bacnet_storage_key_decode (fst e) (snd e) (Some path) zero_key
      in if rc = 0 then Some key else None)"

interpretation key_codec: codec key_env_ok "\<lambda>e. key_decodable (fst e)" path_of_key key_of_path
proof
  fix e key
  assume "key_env_ok e" and ok: "key_decodable (fst e) key"
  then have e: "target_ok (fst e)" "names_laws (snd e)" by (simp_all add: key_env_ok_def)
  show "key_of_path e (path_of_key e key) = Some key"
    using decode_key_text [OF e(2) e(1), of key zero_key] ok
    by (simp add: key_of_path_def path_of_key_def encode_fits [OF e(1)] case_prod_beta)
qed

section \<open>Parsing arguments\<close>

lemma parse_argument_dec:
  "bacnet_storage_strtoul lc (dec n) = (if n < ulong_max lc then Some n else None)"
  by (auto simp: bacnet_storage_strtoul_def strtoul_dec)

lemma key_init_key:
  "bacnet_storage_key_init key ty inst prop idx =
     \<lparr>object_type = ty, object_instance = inst, property_id = prop, array_index = idx\<rparr>"
  by (cases key) (simp add: bacnet_storage_key_init_def)

section \<open>Properties\<close>

text \<open>
  C2. Encoding a key with the buffer size every caller uses and decoding the path again succeeds
  exactly for the keys whose numbers have at most \<open>SETTINGS_MAX_DIR_DEPTH\<close> digits and differ from
  \<open>ULONG_MAX\<close>, and then it gives the key back; every other key is refused with \<open>-EINVAL\<close>.
\<close>

theorem key_decode_encode:
  assumes "names_laws nm" and "target_ok tg"
  shows "fst (bacnet_storage_key_decode tg nm
           (Some (snd (bacnet_storage_key_encode tg (max_name_len tg + 1) key))) key0) =
         (if key_decodable tg key then 0 else - EINVAL) \<and>
         (key_decodable tg key \<longrightarrow>
           snd (bacnet_storage_key_decode tg nm
             (Some (snd (bacnet_storage_key_encode tg (max_name_len tg + 1) key))) key0) = key)"
  using decode_key_text [OF assms, of key key0] by (simp add: encode_fits [OF assms(2)])

text \<open>
  C27. Encoding never truncates: the return value is the length of the stored path, which fits the
  name buffer, and different keys have different paths.
\<close>

theorem key_encode_complete:
  assumes "target_ok tg"
  shows "fst (bacnet_storage_key_encode tg (max_name_len tg + 1) key) =
           int (length (snd (bacnet_storage_key_encode tg (max_name_len tg + 1) key))) \<and>
         length (snd (bacnet_storage_key_encode tg (max_name_len tg + 1) key)) \<le> max_name_len tg \<and>
         (snd (bacnet_storage_key_encode tg (max_name_len tg + 1) key) =
            snd (bacnet_storage_key_encode tg (max_name_len tg + 1) key') \<longleftrightarrow> key = key')"
  using length_key_text [of tg key] assms
  by (simp add: encode_fits [OF assms] key_text_inject target_ok_def)

text \<open>
  What parsing arguments can give, whatever the arguments: success only with an object type
  below 65535 and an instance the protocol allows, otherwise \<open>-EINVAL\<close> and an untouched key; and
  the NULL dereference happens only with exactly three arguments.
\<close>

lemma key_parse_outcome:
  "case bacnet_storage_key_parse tg key argv of
     None \<Rightarrow> length argv = 3
   | Some (rc, key') \<Rightarrow>
       (if rc = 0
        then unat (object_type key') < UINT16_MAX \<and>
             unat (object_instance key') \<le> BACNET_MAX_INSTANCE \<and> 4 \<le> length argv
        else rc = - EINVAL \<and> key' = key)"
  by (auto simp: bacnet_storage_key_parse_def key_init_key argv_at_def UINT16_MAX_def
      BACNET_MAX_INSTANCE_def unat_of_nat Let_def case_prod_beta
      split: option.splits prod.splits if_splits)

text \<open>
  Parsing decimal arguments: the numbers given are the fields of the key, with or without an
  index in brackets, when they are in range; otherwise the arguments are refused.
\<close>

lemma key_parse_decimal:
  assumes "libc_ok (clib tg)" and "prop \<le> ulong_max (clib tg)" and "idx \<le> UINT32_MAX"
  shows "bacnet_storage_key_parse tg key [cmd, dec ty, dec inst, dec prop] =
           Some (if ty < UINT16_MAX \<and> inst \<le> BACNET_MAX_INSTANCE \<and> prop \<le> UINT32_MAX
                 then (0, \<lparr>object_type = of_nat ty, object_instance = of_nat inst,
                           property_id = of_nat prop, array_index = BACNET_STORAGE_ARRAY_INDEX_NONE\<rparr>)
                 else (- EINVAL, key)) \<and>
         bacnet_storage_key_parse tg key
             [cmd, dec ty, dec inst, dec prop @ CHR ''['' # dec idx @ '']''] =
           Some (if ty < UINT16_MAX \<and> inst \<le> BACNET_MAX_INSTANCE \<and> prop \<le> UINT32_MAX
                 then (0, \<lparr>object_type = of_nat ty, object_instance = of_nat inst,
                           property_id = of_nat prop, array_index = of_nat idx\<rparr>)
                 else (- EINVAL, key))"
  using assms
  by (auto simp: bacnet_storage_key_parse_def parse_argument_dec key_init_key libc_ok_def
      sscanf_lu_index_dec sscanf_lu_index_dec_dec UINT32_MAX_def UINT16_MAX_def
      BACNET_MAX_INSTANCE_def)

section \<open>Witnesses\<close>

definition sample_key :: storage_key where
  "sample_key = \<lparr>object_type = 1, object_instance = 4194303, property_id = 85, array_index = 16\<rparr>"

lemma small_target_ok: "target_ok small_target"
  by (simp add: target_ok_def small_target_def small_libc_def libc_ok_def UINT32_MAX_def NAME_END_def)

lemma sample_key_decodable: "key_decodable small_target sample_key"
  by (simp add: key_decodable_def field_decodable_def sample_key_def small_target_def
      small_libc_def dec.simps)

lemma key_decode_encode_witness:
  "bacnet_storage_key_decode small_target (list_settings :: (unit, entries) settings)
     (Some (snd (bacnet_storage_key_encode small_target (max_name_len small_target + 1) sample_key)))
     zero_key = (0, sample_key)"
  using key_decode_encode [OF list_names_laws small_target_ok, of sample_key zero_key]
  by (simp add: sample_key_decodable prod_eq_iff)

lemma key_encode_complete_witness:
  "snd (bacnet_storage_key_encode small_target (max_name_len small_target + 1) sample_key) \<noteq>
   snd (bacnet_storage_key_encode small_target (max_name_len small_target + 1) zero_key)"
  using key_encode_complete [OF small_target_ok, of sample_key zero_key]
  by (simp add: sample_key_def zero_key_def)

lemma key_parse_decimal_witness:
  "bacnet_storage_key_parse small_target zero_key [''set'', dec 1, dec 4194303, dec 85] =
     Some (0, \<lparr>object_type = 1, object_instance = 4194303, property_id = 85,
                array_index = BACNET_STORAGE_ARRAY_INDEX_NONE\<rparr>) \<and>
   bacnet_storage_key_parse small_target zero_key
     [''set'', dec 1, dec 4194303, dec 85 @ CHR ''['' # dec 16 @ '']''] = Some (0, sample_key)"
  using key_parse_decimal [of small_target 85 16 zero_key "''set''" 1 4194303] small_target_ok
  by (simp add: target_ok_def small_target_def small_libc_def sample_key_def UINT16_MAX_def
      UINT32_MAX_def BACNET_MAX_INSTANCE_def)

end
