(* ===== verification/Storage.thy ===== *)
theory Storage
  imports Storage_Key
begin

text \<open>
  The storage itself (\<open>subsys/bacnet_settings/bacnet_storage.c\<close>): values under BACnet keys in the
  Zephyr settings subsystem, the callbacks the subsystem calls back, and the erasing of the flash
  partition. The world \<open>'s\<close> is everything the subsystem and the restore callback act on; the two
  static variables of the file are the record \<open>restore\<close>. Logging is left out.
\<close>

section \<open>Static variables and initialisation\<close>

type_synonym ('c, 's) restore_callback =
  "storage_key \<Rightarrow> byte list \<Rightarrow> nat \<Rightarrow> 'c \<Rightarrow> 's \<Rightarrow> int \<times> 's"

record ('c, 's) restore =
  BACnet_Storage_Restore_Callback :: "('c, 's) restore_callback option"
  BACnet_Storage_Restore_Context :: 'c

definition bacnet_storage_restore ::
    "('c, 's) restore \<Rightarrow> storage_key \<Rightarrow> byte list \<Rightarrow> nat \<Rightarrow> 's \<Rightarrow> int \<times> 's" where
  "bacnet_storage_restore rst key data data_size s =
     (case BACnet_Storage_Restore_Callback rst of
        None \<Rightarrow> (0, s)
      | Some cb \<Rightarrow> cb key data data_size (BACnet_Storage_Restore_Context rst) s)"

definition bacnet_storage_load_callback_set ::
    "('c, 's) restore \<Rightarrow> ('c, 's) restore_callback option \<Rightarrow> 'c \<Rightarrow> int \<times> ('c, 's) restore" where
  "bacnet_storage_load_callback_set rst restore_cb context0 =
     (0, rst\<lparr>BACnet_Storage_Restore_Callback := restore_cb,
             BACnet_Storage_Restore_Context := context0\<rparr>)"

section \<open>The settings handler\<close>

text \<open>
  The read callback fills a buffer of \<open>BACNET_STORAGE_VALUE_SIZE_MAX\<close> zero bytes; the restore
  callback gets the buffer and the length of the stored value, not the number of bytes read.
\<close>

definition bacnet_storage_handler_set ::
    "target \<Rightarrow> ('p, 's, 'z) settings_scheme \<Rightarrow> ('c, 's) restore \<Rightarrow>
     string option \<Rightarrow> nat \<Rightarrow> reader \<Rightarrow> 's \<Rightarrow> int \<times> 's" where
  "bacnet_storage_handler_set tg st rst path data_len read_cb s =
     (let (drc, key) = bacnet_storage_key_decode tg st path zero_key
      in if drc \<noteq> 0 then (- EINVAL, s)
         else if data_len = 0 then (0, s)
         else let (rc, bytes) = read_cb (max_val_len tg);
                  data = overlay bytes (replicate (max_val_len tg) 0)
              in if rc < 0 then (if rc = - ENOENT then (0, s) else (rc, s))
                 else bacnet_storage_restore rst key data data_len s)"

definition bacnet_storage_handler_commit :: int where
  "bacnet_storage_handler_commit = 0"

definition bacnet_storage_handler_export :: int where
  "bacnet_storage_handler_export = 0"

definition bacnet_storage_handler ::
    "target \<Rightarrow> ('p, 's, 'z) settings_scheme \<Rightarrow> ('c, 's) restore \<Rightarrow> 's settings_handler" where
  "bacnet_storage_handler tg st rst =
     \<lparr>handler_name = ''bacnet'', h_set = bacnet_storage_handler_set tg st rst,
      h_commit = bacnet_storage_handler_commit, h_export = bacnet_storage_handler_export\<rparr>"

text \<open>
  Initialisation; on a target whose settings live in a littlefs file the file system is mounted
  and the old settings file removed first. \<open>fs_mount\<close> and \<open>fs_unlink\<close> are arguments; \<^const>\<open>None\<close>
  stands for a configuration without that file system.
\<close>

definition bacnet_storage_init ::
    "(('s \<Rightarrow> int \<times> 's) \<times> ('s \<Rightarrow> int \<times> 's)) option \<Rightarrow> target \<Rightarrow> ('p, 's, 'z) settings_scheme \<Rightarrow>
     ('c, 's) restore \<Rightarrow> 's \<Rightarrow> int \<times> 's" where
  "bacnet_storage_init littlefs tg st rst s0 =
     (let (mount_rc, s1) =
        (case littlefs of
           None \<Rightarrow> (0, s0)
         | Some (fs_mount, fs_unlink) \<Rightarrow>
             (let (rc, s) = fs_mount s0
              in if rc \<noteq> 0 then (rc, s) else (0, snd (fs_unlink s))))
      in if mount_rc \<noteq> 0 then (mount_rc, s1)
         else let (init_rc, s2) = subsys_init st s1
              in if init_rc \<noteq> 0 then (init_rc, s2)
                 else settings_register st (handler_name (bacnet_storage_handler tg st rst)) s2)"

definition bacnet_storage_load ::
    "target \<Rightarrow> ('p, 's, 'z) settings_scheme \<Rightarrow> ('c, 's) restore \<Rightarrow> 's \<Rightarrow> int \<times> 's" where
  "bacnet_storage_load tg st rst s =
     settings_load_subtree st (handler_name (bacnet_storage_handler tg st rst))
       (bacnet_storage_handler tg st rst) s"

section \<open>Values by key\<close>

definition bacnet_storage_set ::
    "target \<Rightarrow> ('p, 's, 'z) settings_scheme \<Rightarrow> storage_key \<Rightarrow> byte list \<Rightarrow> 's \<Rightarrow> int \<times> 's" where
  "bacnet_storage_set tg st key data s =
     (let (rc, nam) = bacnet_storage_key_encode tg (max_name_len tg + 1) key
      in if rc < 0 then (rc, s) else settings_save_one st nam data s)"

text \<open>The parameters behind the \<open>void *\<close> of the two load callbacks.\<close>

record direct_immediate_value =
  value_size :: nat
  value_len :: nat
  value_buf :: "byte list"
  fetched :: bool

record clear_ctx =
  clear_subtree :: string
  clear_status :: int

datatype load_param = Immediate direct_immediate_value | Clear clear_ctx

definition direct_loader_immediate_value ::
    "('z) names_scheme \<Rightarrow> string option \<Rightarrow> reader \<Rightarrow> direct_immediate_value \<Rightarrow>
     int \<times> direct_immediate_value" where
  "direct_loader_immediate_value nm nam read_cb ctx =
     (let (name_len, nxt) = name_next nm nam
      in if name_len = 0 then
           (let (rc, bytes) = read_cb (value_size ctx);
                ctx1 = ctx\<lparr>value_buf := overlay bytes (value_buf ctx)\<rparr>
            in if rc < 0 then (rc, ctx1)
               else if nat rc \<le> value_size ctx1
               then (0, ctx1\<lparr>fetched := True, value_len := nat rc\<rparr>)
               else (- EINVAL, ctx1))
         else (0, ctx))"

definition immediate_value_cb :: "('z) names_scheme \<Rightarrow> (load_param, 's) load_cb" where
  "immediate_value_cb nm nam len read_cb param s =
     (case param of
        Immediate ctx \<Rightarrow>
          (let (rc, ctx') = direct_loader_immediate_value nm nam read_cb ctx
           in (rc, Immediate ctx', s))
      | Clear ctx \<Rightarrow> (0, param, s))"

text \<open>The return value, the buffer afterwards and the world.\<close>

definition load_immediate_value ::
    "(load_param, 's, 'z) settings_scheme \<Rightarrow> string \<Rightarrow> byte list \<Rightarrow> nat \<Rightarrow> 's \<Rightarrow>
     int \<times> byte list \<times> 's" where
  "load_immediate_value st nam val val_size s =
     (let ctx = \<lparr>value_size = val_size, value_len = 0, value_buf = val, fetched = False\<rparr>;
          (rc, param, s') =
            settings_load_subtree_direct st nam (immediate_value_cb st)
              (Immediate ctx) s
      in case param of
           Immediate ctx' \<Rightarrow>
             (if rc = 0 then (if fetched ctx' then int (value_len ctx') else - ENOENT) else rc,
              value_buf ctx', s')
         | Clear ctx' \<Rightarrow> (rc, val, s'))"

definition bacnet_storage_get ::
    "target \<Rightarrow> (load_param, 's, 'z) settings_scheme \<Rightarrow> storage_key \<Rightarrow> byte list \<Rightarrow> nat \<Rightarrow> 's \<Rightarrow>
     int \<times> byte list \<times> 's" where
  "bacnet_storage_get tg st key data data_size s =
     (let (rc, nam) = bacnet_storage_key_encode tg (max_name_len tg + 1) key
      in if rc < 0 then (rc, data, s) else load_immediate_value st nam data data_size s)"

text \<open>The zeroed buffer the readers of values declare.\<close>

definition value_buffer :: "target \<Rightarrow> byte list" where
  "value_buffer tg = replicate (max_val_len tg + 1) 0"

definition bacnet_storage_delete ::
    "target \<Rightarrow> ('p, 's, 'z) settings_scheme \<Rightarrow> storage_key \<Rightarrow> 's \<Rightarrow> int \<times> 's" where
  "bacnet_storage_delete tg st key s =
     (let (rc, nam) = bacnet_storage_key_encode tg (max_name_len tg + 1) key
      in if rc < 0 then (rc, s) else settings_delete st nam s)"

section \<open>Clearing the storage\<close>

definition clear_path :: "clear_ctx \<Rightarrow> string option \<Rightarrow> string" where
  "clear_path ctx nam =
     (case nam of
        None \<Rightarrow> clear_subtree ctx
      | Some k \<Rightarrow> clear_subtree ctx @ ''/'' @ k)"

definition bacnet_storage_clear_cb ::
    "target \<Rightarrow> ('p, 's, 'z) settings_scheme \<Rightarrow> string option \<Rightarrow> clear_ctx \<Rightarrow> 's \<Rightarrow>
     int \<times> clear_ctx \<times> 's" where
  "bacnet_storage_clear_cb tg st nam ctx s =
     (let (rc, path) = snprintf (max_name_len tg + 1) (clear_path ctx nam)
      in if rc < 0 \<or> max_name_len tg + 1 \<le> nat rc then (- ENAMETOOLONG, ctx, s)
         else let (drc, s') = settings_delete st path s
              in (0, if drc \<noteq> 0 \<and> clear_status ctx = 0 then ctx\<lparr>clear_status := drc\<rparr> else ctx, s'))"

definition clear_cb ::
    "target \<Rightarrow> (load_param, 's, 'z) settings_scheme \<Rightarrow> (load_param, 's) load_cb" where
  "clear_cb tg st nam len read_cb param s =
     (case param of
        Clear ctx \<Rightarrow>
          (let (rc, ctx', s') = bacnet_storage_clear_cb tg st nam ctx s in (rc, Clear ctx', s'))
      | Immediate ctx \<Rightarrow> (0, param, s))"

definition bacnet_storage_clear ::
    "target \<Rightarrow> (load_param, 's, 'z) settings_scheme \<Rightarrow> 's \<Rightarrow> int \<times> 's" where
  "bacnet_storage_clear tg st s =
     (let ctx = \<lparr>clear_subtree = base_name tg, clear_status = 0\<rparr>;
          (rc, param, s') =
            settings_load_subtree_direct st (clear_subtree ctx) (clear_cb tg st) (Clear ctx) s
      in if rc \<noteq> 0 then (rc, s')
         else case param of Clear ctx' \<Rightarrow> (clear_status ctx', s') | Immediate ctx' \<Rightarrow> (rc, s'))"

section \<open>Erasing the flash partition\<close>

text \<open>
  Addresses are 32-bit words, as on the microcontrollers that execute from flash; they wrap around. \<open>flash_same_device\<close> is the outcome of the
  device tree comparison, true where the configuration names no device for the firmware.
\<close>

record 's flash =
  settings_nvs :: bool
  config_xip :: bool
  flash_base_address :: "u32"
  rom_region_start :: "u32"
  flash_used :: "u32"
  flash_same_device :: bool
  flash_area_open :: "'s \<Rightarrow> int \<times> (u32 \<times> u32) \<times> 's"
  flash_area_erase :: "u32 \<Rightarrow> u32 \<Rightarrow> 's \<Rightarrow> int \<times> 's"
  flash_area_close :: "'s \<Rightarrow> 's"

definition overlaps_firmware :: "('s, 'z) flash_scheme \<Rightarrow> u32 \<Rightarrow> u32 \<Rightarrow> bool" where
  "overlaps_firmware fl fa_off fa_size =
     (let part_start = flash_base_address fl + fa_off;
          part_end = part_start + fa_size;
          image_start = rom_region_start fl;
          image_end = image_start + flash_used fl
      in flash_same_device fl \<and> part_start < image_end \<and> image_start < part_end)"

definition bacnet_storage_erase :: "('s, 'z) flash_scheme \<Rightarrow> 's \<Rightarrow> int \<times> 's" where
  "bacnet_storage_erase fl s =
     (if \<not> settings_nvs fl then (- ENOTSUP, s)
      else let (rc, (fa_off, fa_size), s1) = flash_area_open fl s
           in if rc \<noteq> 0 then (rc, s1)
              else if config_xip fl \<and> overlaps_firmware fl fa_off fa_size
              then (- EPERM, flash_area_close fl s1)
              else let (erc, s2) = flash_area_erase fl 0 fa_size s1
                   in (erc, flash_area_close fl s2))"

section \<open>The contract of a key store\<close>

text \<open>
  What the storage promises its clients: a map from keys to values that every operation either
  updates as asked or, when it returns an error, leaves alone; reading copies the stored value,
  cut to the size asked for, over the beginning of the buffer.
\<close>

datatype 'k store_op = Put 'k "byte list" | Remove 'k

definition store_op_ok :: "'k store_op \<Rightarrow> bool" where
  "store_op_ok op = (case op of Put k v \<Rightarrow> v \<noteq> [] | Remove k \<Rightarrow> True)"

definition store_effect :: "'k store_op \<Rightarrow> int \<Rightarrow> ('k \<rightharpoonup> byte list) \<Rightarrow> ('k \<rightharpoonup> byte list)" where
  "store_effect op rc m =
     (if rc \<noteq> 0 then m else case op of Put k v \<Rightarrow> m(k \<mapsto> v) | Remove k \<Rightarrow> m(k := None))"

definition fetched_value :: "byte list option \<Rightarrow> byte list \<Rightarrow> nat \<Rightarrow> int \<times> byte list" where
  "fetched_value v buf n =
     (case v of None \<Rightarrow> (- ENOENT, buf) | Some x \<Rightarrow> (int (min n (length x)), overlay (take n x) buf))"

locale key_store =
  fixes ok :: "'e \<Rightarrow> bool"
    and inv :: "'e \<Rightarrow> 's \<Rightarrow> bool"
    and lookup :: "'e \<Rightarrow> 's \<Rightarrow> 'k \<rightharpoonup> byte list"
    and put :: "'e \<Rightarrow> 'k \<Rightarrow> byte list \<Rightarrow> 's \<Rightarrow> int \<times> 's"
    and fetch :: "'e \<Rightarrow> 'k \<Rightarrow> byte list \<Rightarrow> nat \<Rightarrow> 's \<Rightarrow> int \<times> byte list \<times> 's"
    and remove :: "'e \<Rightarrow> 'k \<Rightarrow> 's \<Rightarrow> int \<times> 's"
  assumes put_inv: "ok e \<Longrightarrow> inv e s \<Longrightarrow> v \<noteq> [] \<Longrightarrow> inv e (snd (put e k v s))"
    and put_lookup: "ok e \<Longrightarrow> inv e s \<Longrightarrow> v \<noteq> [] \<Longrightarrow>
      lookup e (snd (put e k v s)) = store_effect (Put k v) (fst (put e k v s)) (lookup e s)"
    and remove_inv: "ok e \<Longrightarrow> inv e s \<Longrightarrow> inv e (snd (remove e k s))"
    and remove_lookup: "ok e \<Longrightarrow> inv e s \<Longrightarrow>
      lookup e (snd (remove e k s)) = store_effect (Remove k) (fst (remove e k s)) (lookup e s)"
    and fetch_value: "ok e \<Longrightarrow> inv e s \<Longrightarrow>
      fetch e k buf n s =
        (fst (fetched_value (lookup e s k) buf n), snd (fetched_value (lookup e s k) buf n), s)"
begin

definition step :: "'e \<Rightarrow> 'k store_op \<Rightarrow> 's \<Rightarrow> int \<times> 's" where
  "step e op s = (case op of Put k v \<Rightarrow> put e k v s | Remove k \<Rightarrow> remove e k s)"

lemma step_inv: "ok e \<Longrightarrow> inv e s \<Longrightarrow> store_op_ok op \<Longrightarrow> inv e (snd (step e op s))"
  by (cases op) (simp_all add: step_def store_op_ok_def put_inv remove_inv)

lemma step_lookup:
  "ok e \<Longrightarrow> inv e s \<Longrightarrow> store_op_ok op \<Longrightarrow>
   lookup e (snd (step e op s)) = store_effect op (fst (step e op s)) (lookup e s)"
  by (cases op) (simp_all add: step_def store_op_ok_def put_lookup remove_lookup)

lemma fetch_after_put:
  "ok e \<Longrightarrow> inv e s \<Longrightarrow> v \<noteq> [] \<Longrightarrow> fst (put e k v s) = 0 \<Longrightarrow> length v \<le> n \<Longrightarrow>
   fetch e k buf n (snd (put e k v s)) = (int (length v), overlay v buf, snd (put e k v s))"
  by (simp add: fetch_value put_inv put_lookup store_effect_def fetched_value_def)

lemma fetch_after_other_put:
  "ok e \<Longrightarrow> inv e s \<Longrightarrow> v \<noteq> [] \<Longrightarrow> k \<noteq> k' \<Longrightarrow>
   fst (fetch e k' buf n (snd (put e k v s))) = fst (fetch e k' buf n s)"
  by (simp add: fetch_value put_inv put_lookup store_effect_def)

lemma fetch_after_remove:
  "ok e \<Longrightarrow> inv e s \<Longrightarrow> fst (remove e k s) = 0 \<Longrightarrow>
   fetch e k buf n (snd (remove e k s)) = (- ENOENT, buf, snd (remove e k s))"
  by (simp add: fetch_value remove_inv remove_lookup store_effect_def fetched_value_def)

end

section \<open>The storage as a key store\<close>

definition store_of ::
    "target \<Rightarrow> ('s \<Rightarrow> string \<rightharpoonup> byte list) \<Rightarrow> 's \<Rightarrow> storage_key \<rightharpoonup> byte list" where
  "store_of tg view s key = view s (key_text tg key)"

text \<open>The invariant of the storage: below the base name there are only paths of keys.\<close>

definition keys_only :: "target \<Rightarrow> ('s \<Rightarrow> string \<rightharpoonup> byte list) \<Rightarrow> 's \<Rightarrow> bool" where
  "keys_only tg view s \<longleftrightarrow>
     (\<forall>r v. view s (relative (base_name tg) r) = Some v \<longrightarrow>
        (\<exists>key. relative (base_name tg) r = key_text tg key))"

definition storage_inv ::
    "target \<Rightarrow> ('s \<Rightarrow> bool) \<Rightarrow> ('s \<Rightarrow> string \<rightharpoonup> byte list) \<Rightarrow> 's \<Rightarrow> bool" where
  "storage_inv tg good view s \<longleftrightarrow> good s \<and> keys_only tg view s"

definition storage_ok ::
    "target \<Rightarrow> ('p, 's, 'z) settings_scheme \<Rightarrow> ('s \<Rightarrow> bool) \<Rightarrow> ('s \<Rightarrow> string \<rightharpoonup> byte list) \<Rightarrow> bool" where
  "storage_ok tg st good view \<longleftrightarrow> target_ok tg \<and> settings_laws st good view"

lemma set_eq [store_simps]:
  "target_ok tg \<Longrightarrow> bacnet_storage_set tg st key data s = settings_save_one st (key_text tg key) data s"
  by (simp add: bacnet_storage_set_def encode_fits)

lemma delete_eq [store_simps]:
  "target_ok tg \<Longrightarrow> bacnet_storage_delete tg st key s = settings_delete st (key_text tg key) s"
  by (simp add: bacnet_storage_delete_def encode_fits)

lemma set_effect:
  assumes "storage_ok tg st good view" "storage_inv tg good view s" "data \<noteq> []"
  shows "storage_inv tg good view (snd (bacnet_storage_set tg st key data s))"
    and "store_of tg view (snd (bacnet_storage_set tg st key data s)) =
         store_effect (Put key data) (fst (bacnet_storage_set tg st key data s)) (store_of tg view s)"
  using assms settings_laws_save [of st good view s data "key_text tg key"]
  by (auto simp: storage_ok_def storage_inv_def set_eq keys_only_def store_of_def store_effect_def
      key_simps fun_eq_iff)

lemma delete_effect:
  assumes "storage_ok tg st good view" "storage_inv tg good view s"
  shows "storage_inv tg good view (snd (bacnet_storage_delete tg st key s))"
    and "store_of tg view (snd (bacnet_storage_delete tg st key s)) =
         store_effect (Remove key) (fst (bacnet_storage_delete tg st key s)) (store_of tg view s)"
  using assms settings_laws_delete [of st good view s "key_text tg key"]
  by (auto simp: storage_ok_def storage_inv_def delete_eq keys_only_def store_of_def
      store_effect_def key_simps fun_eq_iff split: if_splits)

text \<open>The immediate loader looks at the entry of the subtree itself only.\<close>

definition loaded :: "byte list option \<Rightarrow> direct_immediate_value \<Rightarrow> direct_immediate_value" where
  "loaded v ctx =
     (case v of
        None \<Rightarrow> ctx
      | Some x \<Rightarrow> ctx\<lparr>value_buf := overlay (take (value_size ctx) x) (value_buf ctx),
                        fetched := True, value_len := min (value_size ctx) (length x)\<rparr>)"

lemma immediate_value_cb_own:
  "names_laws nm \<Longrightarrow>
   immediate_value_cb nm None len (value_reader v) (Immediate ctx) s =
     (0, Immediate (loaded (Some v) ctx), s)"
  by (simp add: immediate_value_cb_def direct_loader_immediate_value_def names_laws_None
      value_reader_def loaded_def)

lemma immediate_value_cb_other:
  "fst (name_next nm r) \<noteq> 0 \<Longrightarrow>
   immediate_value_cb nm r len rd (Immediate ctx) s = (0, Immediate ctx, s)"
  by (simp add: immediate_value_cb_def direct_loader_immediate_value_def case_prod_beta)

lemma load_entries_immediate:
  assumes "names_laws nm" "distinct (map fst es)"
    "\<And>r v. (r, v) \<in> set es \<Longrightarrow> r \<noteq> None \<Longrightarrow> fst (name_next nm r) \<noteq> 0"
  shows "load_entries (immediate_value_cb nm) es (Immediate ctx) s =
           (0, Immediate (loaded (map_of es None) ctx), s)"
  using assms(2,3)
proof (induction es arbitrary: ctx)
  case Nil
  then show ?case by (simp add: loaded_def)
next
  case (Cons e es)
  obtain r v where e: "e = (r, v)" by force
  show ?case
  proof (cases r)
    case None
    then have "map_of es None = None" using Cons.prems(1) e by (auto simp: map_of_eq_None_iff)
    moreover have "load_entries (immediate_value_cb nm) es (Immediate ctx') s =
        (0, Immediate (loaded (map_of es None) ctx'), s)" for ctx'
      using Cons.prems by (intro Cons.IH) auto
    ultimately show ?thesis
      using None e by (simp add: immediate_value_cb_own [OF assms(1)] loaded_def)
  next
    case (Some x)
    then have "fst (name_next nm r) \<noteq> 0" using Cons.prems(2) e by auto
    moreover have "load_entries (immediate_value_cb nm) es (Immediate ctx') s =
        (0, Immediate (loaded (map_of es None) ctx'), s)" for ctx'
      using Cons.prems by (intro Cons.IH) auto
    ultimately show ?thesis
      using Some e by (simp add: immediate_value_cb_other)
  qed
qed

text \<open>The only paths below the path of a key are those of its indexed keys.\<close>

lemma key_text_below:
  assumes "key_text tg key @ NAME_SEPARATOR # x = key_text tg key'"
  obtains n where "x = dec n"
  using assms that by (auto simp: key_text_def split: if_splits)

lemma keys_only_below:
  assumes "keys_only tg view s" "view s (relative (key_text tg key) r) = Some v" "r \<noteq> None"
  obtains n where "r = Some (dec n)"
proof -
  obtain x where r: "r = Some x" using assms(3) by blast
  have path: "relative (key_text tg key) r = key_text tg key @ NAME_SEPARATOR # x"
    by (simp add: r relative_def)
  also have "\<dots> = relative (base_name tg)
      (Some (drop (Suc (length (base_name tg))) (key_text tg key) @ NAME_SEPARATOR # x))"
    by (simp add: relative_def key_text_def)
  finally obtain key' where "relative (key_text tg key) r = key_text tg key'"
    using assms(1,2) unfolding keys_only_def by metis
  with path r that show thesis by (auto elim: key_text_below)
qed

lemma get_eq:
  assumes "storage_ok tg st good view" "storage_inv tg good view s"
  shows "bacnet_storage_get tg st key buf n s =
          (fst (fetched_value (store_of tg view s key) buf n),
           snd (fetched_value (store_of tg view s key) buf n), s)"
proof -
  let ?ctx = "\<lparr>value_size = n, value_len = 0, value_buf = buf, fetched = False\<rparr>"
  from assms have laws: "target_ok tg" "settings_laws st good view" "good s" "keys_only tg view s"
    by (simp_all add: storage_ok_def storage_inv_def)
  note nm = settings_laws_names [OF laws(2)]
  obtain es where es: "distinct (map fst es)"
    "\<And>r v. (r, v) \<in> set es \<longleftrightarrow> view s (relative (key_text tg key) r) = Some v"
    "snd (settings_load_subtree_direct st (key_text tg key) (immediate_value_cb st) (Immediate ?ctx) s) =
       snd (load_entries (immediate_value_cb st) es (Immediate ?ctx) s)"
    "fst (load_entries (immediate_value_cb st) es (Immediate ?ctx) s) = 0 \<Longrightarrow>
       fst (settings_load_subtree_direct st (key_text tg key) (immediate_value_cb st) (Immediate ?ctx) s) = 0"
    by (rule settings_laws_load [OF laws(2,3), where sub = "key_text tg key"
          and cb = "immediate_value_cb st" and p = "Immediate ?ctx"]) blast
  have "fst (name_next st r) \<noteq> 0" if "(r, v) \<in> set es" "r \<noteq> None" for r v
    using that es(2) keys_only_below [OF laws(4), of key r v] names_laws_last [OF nm]
    by (metis dec_no_end dec_no_separator dec_nonempty fst_conv length_0_conv)
  then have run: "load_entries (immediate_value_cb st) es (Immediate ?ctx) s =
      (0, Immediate (loaded (map_of es None) ?ctx), s)"
    by (intro load_entries_immediate nm es(1)) auto
  have "map_of es None = store_of tg view s key"
    using es(1) es(2) [of None] by (cases "map_of es None"; cases "store_of tg view s key")
      (auto simp: store_of_def relative_def map_of_eq_None_iff image_iff dest: map_of_SomeD)
  then have "settings_load_subtree_direct st (key_text tg key) (immediate_value_cb st) (Immediate ?ctx) s =
      (0, Immediate (loaded (store_of tg view s key) ?ctx), s)"
    using es(3,4) run by (simp add: prod_eq_iff)
  then show ?thesis
    by (auto simp: bacnet_storage_get_def encode_fits [OF laws(1)] load_immediate_value_def
        loaded_def fetched_value_def split: option.splits)
qed

type_synonym ('s, 'z) storage_env =
  "target \<times> (load_param, 's, 'z) settings_scheme \<times> ('s \<Rightarrow> bool) \<times> ('s \<Rightarrow> string \<rightharpoonup> byte list)"

definition env_ok :: "('s, 'z) storage_env \<Rightarrow> bool" where
  "env_ok = (\<lambda>(tg, st, good, view). storage_ok tg st good view)"

interpretation storage: key_store env_ok
  "\<lambda>(tg, st, good, view). storage_inv tg good view"
  "\<lambda>(tg, st, good, view). store_of tg view"
  "\<lambda>(tg, st, good, view). bacnet_storage_set tg st"
  "\<lambda>(tg, st, good, view). bacnet_storage_get tg st"
  "\<lambda>(tg, st, good, view). bacnet_storage_delete tg st"
  by unfold_locales (auto simp: env_ok_def set_effect delete_effect get_eq)


section \<open>What clearing does\<close>

lemma clear_path_relative: "clear_path ctx r = relative (clear_subtree ctx) r"
  by (simp add: clear_path_def relative_def NAME_SEPARATOR_def split: option.splits)

lemma clear_cb_step:
  assumes "length (relative (clear_subtree ctx) r) \<le> max_name_len tg"
  shows "clear_cb tg st r len rd (Clear ctx) s =
    (let (rc, s') = settings_delete st (relative (clear_subtree ctx) r) s
     in (0, Clear (if rc \<noteq> 0 \<and> clear_status ctx = 0 then ctx\<lparr>clear_status := rc\<rparr> else ctx), s'))"
  using assms
  by (simp add: clear_cb_def bacnet_storage_clear_cb_def clear_path_relative snprintf_def
      case_prod_beta Let_def)

text \<open>The deletions clearing makes, one entry after another, and the first error among them.\<close>

fun delete_entries ::
    "('p, 's, 'z) settings_scheme \<Rightarrow> string list \<Rightarrow> int \<Rightarrow> 's \<Rightarrow> int \<times> 's" where
  "delete_entries st [] status s = (status, s)"
| "delete_entries st (nam # nams) status s =
     delete_entries st nams
       (if fst (settings_delete st nam s) \<noteq> 0 \<and> status = 0 then fst (settings_delete st nam s)
        else status) (snd (settings_delete st nam s))"

lemma load_entries_clear:
  assumes "\<And>r v. (r, v) \<in> set es \<Longrightarrow> length (relative (clear_subtree ctx) r) \<le> max_name_len tg"
  shows "load_entries (clear_cb tg st) es (Clear ctx) s =
    (let (status, s') =
       delete_entries st (map (\<lambda>e. relative (clear_subtree ctx) (fst e)) es) (clear_status ctx) s
     in (0, Clear (ctx\<lparr>clear_status := status\<rparr>), s'))"
  using assms
proof (induction es arbitrary: ctx s)
  case Nil
  then show ?case by simp
next
  case (Cons e es)
  obtain r v where e: "e = (r, v)" by force
  let ?d = "settings_delete st (relative (clear_subtree ctx) r) s"
  let ?ctx = "if fst ?d \<noteq> 0 \<and> clear_status ctx = 0 then ctx\<lparr>clear_status := fst ?d\<rparr> else ctx"
  have len: "length (relative (clear_subtree ctx) r) \<le> max_name_len tg"
    using Cons.prems e by auto
  have same: "clear_subtree ?ctx = clear_subtree ctx" by simp
  have "load_entries (clear_cb tg st) es (Clear ?ctx) (snd ?d) =
      (let (status, s') =
         delete_entries st (map (\<lambda>e. relative (clear_subtree ?ctx) (fst e)) es)
           (clear_status ?ctx) (snd ?d)
       in (0, Clear (?ctx\<lparr>clear_status := status\<rparr>), s'))"
    by (rule Cons.IH) (use Cons.prems same in auto)
  then show ?case
    unfolding same
    by (cases "fst ?d = 0"; cases "clear_status ctx = 0")
      (simp_all add: e clear_cb_step [OF len] case_prod_beta Let_def)
qed

lemma delete_entries_status: "status \<noteq> 0 \<Longrightarrow> fst (delete_entries st nams status s) = status"
  by (induction nams arbitrary: s) (simp_all add: case_prod_beta)

lemma delete_entries_good:
  "settings_laws st good view \<Longrightarrow> good s \<Longrightarrow> good (snd (delete_entries st nams status s))"
  by (induction nams arbitrary: status s)
    (simp_all add: settings_laws_delete(1))

lemma delete_entries_view:
  assumes "settings_laws st good view" "good s"
  shows "view (snd (delete_entries st nams status s)) nam \<in> {None, view s nam} \<and>
    (nam \<notin> set nams \<longrightarrow> view (snd (delete_entries st nams status s)) nam = view s nam)"
  using assms(2)
proof (induction nams arbitrary: status s)
  case (Cons n nams)
  note del = settings_laws_delete [OF assms(1) Cons.prems, of n]
  show ?case
    using Cons.IH [OF del(1)] del(2) by (cases "nam = n") (auto split: if_splits)
qed simp

lemma delete_entries_gone:
  assumes "settings_laws st good view" "good s"
  shows "fst (delete_entries st nams status s) = 0 \<Longrightarrow> nam \<in> set nams \<Longrightarrow>
    view (snd (delete_entries st nams status s)) nam = None"
  using assms(2)
proof (induction nams arbitrary: status s)
  case (Cons n nams)
  let ?d = "settings_delete st n s"
  let ?status = "if fst ?d \<noteq> 0 \<and> status = 0 then fst ?d else status"
  note del = settings_laws_delete [OF assms(1) Cons.prems(3), of n]
  have run: "delete_entries st (n # nams) status s = delete_entries st nams ?status (snd ?d)"
    by simp
  have "?status = 0"
  proof (rule ccontr)
    assume "?status \<noteq> 0"
    then have "fst (delete_entries st (n # nams) status s) = ?status"
      unfolding run by (rule delete_entries_status)
    with \<open>?status \<noteq> 0\<close> Cons.prems(1) show False by (simp only:)
  qed
  then have "fst ?d = 0" by (simp split: if_splits)
  then have "view (snd ?d) n = None" using del(2) by simp
  then have "view (snd (delete_entries st nams ?status (snd ?d))) n = None"
    using delete_entries_view [OF assms(1) del(1), of nams ?status n] by auto
  moreover have "view (snd (delete_entries st nams ?status (snd ?d))) nam = None" if "nam \<in> set nams"
    using Cons.IH [of ?status "snd ?d"] Cons.prems(1) del(1) that unfolding run by blast
  ultimately show ?case using Cons.prems(2) unfolding run by auto
qed simp

lemma delete_entries_success:
  "(\<And>n s. fst (settings_delete st n s) = 0) \<Longrightarrow> fst (delete_entries st nams status s) = status"
  by (induction nams arbitrary: s) (simp_all add: case_prod_beta)

text \<open>Clearing deletes the entries of the subtree in some order.\<close>

lemma clear_eq:
  assumes "storage_ok tg st good view" "storage_inv tg good view s"
  obtains nams where "set nams = {relative (base_name tg) r |r. view s (relative (base_name tg) r) \<noteq> None}"
    "bacnet_storage_clear tg st s = delete_entries st nams 0 s"
proof -
  let ?ctx = "\<lparr>clear_subtree = base_name tg, clear_status = 0\<rparr>"
  from assms have laws: "target_ok tg" "settings_laws st good view" "good s" "keys_only tg view s"
    by (simp_all add: storage_ok_def storage_inv_def)
  obtain es where es: "\<And>r v. (r, v) \<in> set es \<longleftrightarrow> view s (relative (base_name tg) r) = Some v"
    "snd (settings_load_subtree_direct st (base_name tg) (clear_cb tg st) (Clear ?ctx) s) =
       snd (load_entries (clear_cb tg st) es (Clear ?ctx) s)"
    "fst (load_entries (clear_cb tg st) es (Clear ?ctx) s) = 0 \<Longrightarrow>
       fst (settings_load_subtree_direct st (base_name tg) (clear_cb tg st) (Clear ?ctx) s) = 0"
    by (rule settings_laws_load [OF laws(2,3), where sub = "base_name tg"
          and cb = "clear_cb tg st" and p = "Clear ?ctx"]) blast
  define nams where "nams = map (\<lambda>e. relative (base_name tg) (fst e)) es"
  have "length (relative (base_name tg) r) \<le> max_name_len tg" if "(r, v) \<in> set es" for r v
    using that es(1) laws(1,4) length_key_text [of tg]
    unfolding keys_only_def target_ok_def by (metis le_trans)
  then have "load_entries (clear_cb tg st) es (Clear ?ctx) s =
      (0, Clear (?ctx\<lparr>clear_status := fst (delete_entries st nams 0 s)\<rparr>), snd (delete_entries st nams 0 s))"
    by (subst load_entries_clear) (auto simp: nams_def case_prod_beta Let_def)
  then have "bacnet_storage_clear tg st s = delete_entries st nams 0 s"
    using es(2,3) by (simp add: bacnet_storage_clear_def case_prod_beta prod_eq_iff)
  moreover have "set nams = {relative (base_name tg) r |r. view s (relative (base_name tg) r) \<noteq> None}"
    using es(1) by (force simp: nams_def)
  ultimately show thesis by (rule that [rotated])
qed

lemma key_text_relative:
  obtains r where "key_text tg key = relative (base_name tg) r"
  by (rule that [of "Some (drop (Suc (length (base_name tg))) (key_text tg key))"])
    (simp add: relative_def key_text_def)

text \<open>The names below a base name are outside the subtree \<open>bacnet\<close>, unless the base name is in it.\<close>

lemma relative_outside:
  assumes "base \<noteq> ''bacnet''" "\<forall>r. base \<noteq> ''bacnet/'' @ r"
  shows "relative ''bacnet'' r \<noteq> relative base r'"
proof
  assume eq: "relative ''bacnet'' r = relative base r'"
  have plain: "NAME_SEPARATOR \<notin> set ''bacnet''" by (simp add: NAME_SEPARATOR_def)
  obtain x where path: "relative ''bacnet'' r = base @ NAME_SEPARATOR # x"
    using eq assms by (auto simp: relative_def NAME_SEPARATOR_def split: option.splits)
  show False
  proof (cases r)
    case None
    then have "NAME_SEPARATOR \<in> set ''bacnet''" using path by (simp add: relative_def)
    then show False using plain by blast
  next
    case (Some y)
    then have "''bacnet'' @ NAME_SEPARATOR # y = base @ NAME_SEPARATOR # x" using path by (simp add: relative_def)
    then obtain us where "''bacnet'' = base @ us \<and> us @ NAME_SEPARATOR # y = NAME_SEPARATOR # x \<or>
        ''bacnet'' @ us = base \<and> NAME_SEPARATOR # y = us @ NAME_SEPARATOR # x"
      unfolding append_eq_append_conv2 by blast
    then show False
    proof
      assume a: "''bacnet'' = base @ us \<and> us @ NAME_SEPARATOR # y = NAME_SEPARATOR # x"
      then have "NAME_SEPARATOR \<notin> set us" using plain by (metis Un_iff set_append)
      then have "us = []" using a by (cases us) auto
      then show False using a assms(1) by simp
    next
      assume a: "''bacnet'' @ us = base \<and> NAME_SEPARATOR # y = us @ NAME_SEPARATOR # x"
      show False
      proof (cases us)
        case Nil
        then show False using a assms(1) by simp
      next
        case (Cons c us')
        then have "base = ''bacnet/'' @ us'" using a by (auto simp: NAME_SEPARATOR_def)
        then show False using assms(2) by blast
      qed
    qed
  qed
qed

lemma key_text_outside:
  assumes "base_name tg \<noteq> ''bacnet''" "\<forall>r. base_name tg \<noteq> ''bacnet/'' @ r"
  shows "relative ''bacnet'' r \<noteq> key_text tg key"
  using relative_outside [OF assms] by (metis key_text_relative)

section \<open>Restoring\<close>

lemma handler_set_path:
  assumes "names_laws st" "target_ok tg" "key_decodable tg key"
  shows "bacnet_storage_handler_set tg st rst (Some (key_text tg key)) len rd s =
    (if len = 0 then (0, s)
     else if fst (rd (max_val_len tg)) = - ENOENT then (0, s)
     else if fst (rd (max_val_len tg)) < 0 then (fst (rd (max_val_len tg)), s)
     else bacnet_storage_restore rst key
            (overlay (snd (rd (max_val_len tg))) (replicate (max_val_len tg) 0)) len s)"
  using decode_key_text [OF assms(1,2), of key zero_key] assms(3)
  by (auto simp: bacnet_storage_handler_set_def case_prod_beta Let_def)

section \<open>Properties\<close>

text \<open>
  C1. The storage implements a map from keys to values: storing and deleting keep the invariant
  and, when they report success, update the map at the one key, and leave it alone otherwise;
  reading returns the size of the stored value cut to the size asked for, or \<open>-ENOENT\<close>, copies it
  over the buffer and changes nothing.
\<close>

theorem storage_refines_map:
  assumes "storage_ok tg st good view" and "storage_inv tg good view s" and "data \<noteq> []"
  shows "storage_inv tg good view (snd (bacnet_storage_set tg st key data s)) \<and>
         store_of tg view (snd (bacnet_storage_set tg st key data s)) =
           (if fst (bacnet_storage_set tg st key data s) = 0
            then (store_of tg view s)(key \<mapsto> data) else store_of tg view s) \<and>
         storage_inv tg good view (snd (bacnet_storage_delete tg st key s)) \<and>
         store_of tg view (snd (bacnet_storage_delete tg st key s)) =
           (if fst (bacnet_storage_delete tg st key s) = 0
            then (store_of tg view s)(key := None) else store_of tg view s) \<and>
         bacnet_storage_get tg st key buf n s =
           (case store_of tg view s key of
              None \<Rightarrow> (- ENOENT, buf, s)
            | Some v \<Rightarrow> (int (min n (length v)), overlay (take n v) buf, s))"
  using set_effect [OF assms, of key] delete_effect [OF assms(1,2), of key]
    get_eq [OF assms(1,2), of key buf n]
  by (simp add: store_effect_def fetched_value_def split: option.splits)

text \<open>
  A value that was stored successfully is read back in full into a buffer that is large
  enough, while every other key still reads what it read before.
\<close>

lemma storage_set_get:
  assumes "storage_ok tg st good view" and "storage_inv tg good view s" and "data \<noteq> []"
    and "fst (bacnet_storage_set tg st key data s) = 0" and "length data \<le> n" and "key' \<noteq> key"
  shows "bacnet_storage_get tg st key buf n (snd (bacnet_storage_set tg st key data s)) =
           (int (length data), overlay data buf, snd (bacnet_storage_set tg st key data s)) \<and>
         fst (bacnet_storage_get tg st key' buf n (snd (bacnet_storage_set tg st key data s))) =
           fst (bacnet_storage_get tg st key' buf n s)"
  using storage.fetch_after_put [of "(tg, st, good, view)" s data key n buf]
    storage.fetch_after_other_put [of "(tg, st, good, view)" s data key key' buf n] assms
  by (simp add: env_ok_def)

text \<open>The effect of clearing on the invariant, on the values and on the other entries.\<close>

lemma clear_effect:
  assumes "storage_ok tg st good view" and "storage_inv tg good view s"
  shows "storage_inv tg good view (snd (bacnet_storage_clear tg st s)) \<and>
         store_of tg view (snd (bacnet_storage_clear tg st s)) \<subseteq>\<^sub>m store_of tg view s \<and>
         (fst (bacnet_storage_clear tg st s) = 0 \<longrightarrow>
            store_of tg view (snd (bacnet_storage_clear tg st s)) = Map.empty) \<and>
         (\<forall>nam. (\<forall>r. nam \<noteq> relative (base_name tg) r) \<longrightarrow>
            view (snd (bacnet_storage_clear tg st s)) nam = view s nam) \<and>
         ((\<forall>nam s. fst (settings_delete st nam s) = 0) \<longrightarrow> fst (bacnet_storage_clear tg st s) = 0)"
proof -
  have laws: "settings_laws st good view" "good s" "keys_only tg view s"
    using assms by (simp_all add: storage_ok_def storage_inv_def)
  obtain nams where nams:
    "set nams = {relative (base_name tg) r |r. view s (relative (base_name tg) r) \<noteq> None}"
    and run: "bacnet_storage_clear tg st s = delete_entries st nams 0 s"
    by (rule clear_eq [OF assms])
  note kept = delete_entries_view [OF laws(1,2), of nams 0]
  have inv: "storage_inv tg good view (snd (bacnet_storage_clear tg st s))"
    unfolding run storage_inv_def keys_only_def
  proof (intro conjI allI impI)
    show "good (snd (delete_entries st nams 0 s))" by (rule delete_entries_good [OF laws(1,2)])
    fix r v
    assume "view (snd (delete_entries st nams 0 s)) (relative (base_name tg) r) = Some v"
    then have "view s (relative (base_name tg) r) = Some v"
      using kept [of "relative (base_name tg) r"] by auto
    then show "\<exists>key. relative (base_name tg) r = key_text tg key"
      using laws(3) unfolding keys_only_def by blast
  qed
  have sub: "store_of tg view (snd (bacnet_storage_clear tg st s)) \<subseteq>\<^sub>m store_of tg view s"
    unfolding run map_le_def
  proof
    fix key
    assume "key \<in> dom (store_of tg view (snd (delete_entries st nams 0 s)))"
    then show "store_of tg view (snd (delete_entries st nams 0 s)) key = store_of tg view s key"
      using kept [of "key_text tg key"] by (auto simp: store_of_def)
  qed
  have gone: "store_of tg view (snd (bacnet_storage_clear tg st s)) = Map.empty"
    if "fst (bacnet_storage_clear tg st s) = 0"
  proof
    fix key
    obtain r where r: "key_text tg key = relative (base_name tg) r" by (rule key_text_relative)
    then show "store_of tg view (snd (bacnet_storage_clear tg st s)) key = None"
      using delete_entries_gone [OF laws(1,2), of nams 0 "key_text tg key"]
        kept [of "key_text tg key"] nams that
      unfolding run store_of_def by auto
  qed
  have frame: "view (snd (bacnet_storage_clear tg st s)) nam = view s nam"
    if "\<forall>r. nam \<noteq> relative (base_name tg) r" for nam
    using kept [of nam] nams that unfolding run by auto
  show ?thesis
    using inv sub gone frame delete_entries_success [of st nams 0 s] unfolding run by blast
qed

text \<open>
  C15. Clearing keeps the invariant and everything outside the subtree, never invents or changes an
  entry, and when it returns 0 no key has a value any more. If no deletion fails it returns 0.
\<close>

theorem storage_clear_effect:
  assumes "storage_ok tg st good view" and "storage_inv tg good view s"
  shows "storage_inv tg good view (snd (bacnet_storage_clear tg st s)) \<and>
         store_of tg view (snd (bacnet_storage_clear tg st s)) \<subseteq>\<^sub>m store_of tg view s \<and>
         (fst (bacnet_storage_clear tg st s) = 0 \<longrightarrow>
            store_of tg view (snd (bacnet_storage_clear tg st s)) = Map.empty) \<and>
         (\<forall>nam. (\<forall>r. nam \<noteq> relative (base_name tg) r) \<longrightarrow>
            view (snd (bacnet_storage_clear tg st s)) nam = view s nam) \<and>
         ((\<forall>nam s. fst (settings_delete st nam s) = 0) \<longrightarrow> fst (bacnet_storage_clear tg st s) = 0)"
  by (rule clear_effect [OF assms])

text \<open>
  C16. Erasing never touches flash that holds the running firmware. Where the code runs from flash
  (\<open>CONFIG_XIP\<close>), the call returns \<open>-EPERM\<close> without erasing exactly when the partition and the image are on the
  same device and share an address; in every other case it erases the whole partition. This is for
  regions that are not empty and do not wrap around the 32-bit address space. Without an NVS
  backend, or when the area cannot be opened, nothing is erased.
\<close>

theorem storage_erase_guard:
  assumes "flash_area_open fl s = (rc, (off, len), s1)"
    and "part = unat (flash_base_address fl + off)" and "img = unat (rom_region_start fl)"
    and "part + unat len < 4294967296" and "img + unat (flash_used fl) < 4294967296"
    and "0 < unat len" and "0 < unat (flash_used fl)"
  shows "bacnet_storage_erase fl s =
    (if \<not> settings_nvs fl then (- ENOTSUP, s)
     else if rc \<noteq> 0 then (rc, s1)
     else if config_xip fl \<and> flash_same_device fl \<and>
       (\<exists>a. part \<le> a \<and> a < part + unat len \<and> img \<le> a \<and> a < img + unat (flash_used fl))
     then (- EPERM, flash_area_close fl s1)
     else (fst (flash_area_erase fl 0 len s1),
           flash_area_close fl (snd (flash_area_erase fl 0 len s1))))"
proof -
  have "unat (flash_base_address fl + off + len) = part + unat len"
    "unat (rom_region_start fl + flash_used fl) = img + unat (flash_used fl)"
    using assms(2-5) by (simp_all add: unat_word_ariths)
  then have "overlaps_firmware fl off len \<longleftrightarrow>
      flash_same_device fl \<and> part < img + unat (flash_used fl) \<and> img < part + unat len"
    using assms(2,3) by (simp add: overlaps_firmware_def word_less_nat_alt Let_def)
  also have "\<dots> \<longleftrightarrow> flash_same_device fl \<and>
      (\<exists>a. part \<le> a \<and> a < part + unat len \<and> img \<le> a \<and> a < img + unat (flash_used fl))"
    using assms(6,7) by (auto intro!: exI [of _ "max part img"])
  finally have shared: "overlaps_firmware fl off len \<longleftrightarrow> flash_same_device fl \<and>
    (\<exists>a. part \<le> a \<and> a < part + unat len \<and> img \<le> a \<and> a < img + unat (flash_used fl))" .
  show ?thesis
    unfolding shared [symmetric]
    using assms(1) by (simp add: bacnet_storage_erase_def case_prod_beta)
qed

text \<open>
  Restoring one entry: when the subsystem hands the path of a decodable key and the read
  callback of its value to the handler, the restore callback is called with that key, a buffer
  that starts with the value, and the length of the value.
\<close>

lemma storage_restore_entry:
  assumes "names_laws st" and "target_ok tg" and "key_decodable tg key"
    and "v \<noteq> []" and "length v \<le> max_val_len tg"
    and "BACnet_Storage_Restore_Callback rst = Some cb"
  shows "bacnet_storage_handler_set tg st rst (Some (key_text tg key)) (length v) (value_reader v) s =
         cb key (v @ replicate (max_val_len tg - length v) 0) (length v)
            (BACnet_Storage_Restore_Context rst) s"
  using assms(4-6)
  by (simp add: handler_set_path [OF assms(1-3)] value_reader_def bacnet_storage_restore_def
      overlay_def min_absorb2)

text \<open>
  C40. Loading goes through the subtree \<open>bacnet\<close>, the name of the handler, not through the base name
  under which values are stored. With any base name that is neither \<open>bacnet\<close> nor below it - the default
  \<open>.bacnet\<close> is one - loading calls no restore callback and changes nothing, as long as the subtree
  \<open>bacnet\<close> holds nothing but values that the storage put there; other subtrees may hold anything.
\<close>

theorem storage_load_restores_nothing:
  assumes "settings_laws st good view" and "good s"
    and "base_name tg \<noteq> ''bacnet''" and "\<forall>r. base_name tg \<noteq> ''bacnet/'' @ r"
    and "\<forall>r. view s (relative ''bacnet'' r) \<noteq> None \<longrightarrow> (\<exists>key. relative ''bacnet'' r = key_text tg key)"
  shows "snd (bacnet_storage_load tg st rst s) = s"
proof -
  obtain es where es: "\<And>r v. (r, v) \<in> set es \<longleftrightarrow> view s (relative ''bacnet'' r) = Some v"
    and run: "snd (settings_load_subtree st ''bacnet'' (bacnet_storage_handler tg st rst) s) =
      handle_entries (bacnet_storage_handler tg st rst) es s"
    by (rule settings_laws_handle [OF assms(1,2), where sub = "''bacnet''"
          and h = "bacnet_storage_handler tg st rst"]) blast
  have "view s (relative ''bacnet'' r) = None" for r
    using assms(5) key_text_outside [OF assms(3,4)] by metis
  then have "(r, v) \<notin> set es" for r v using es by simp
  then have "es = []" by (metis list.set_intros(1) neq_Nil_conv surj_pair)
  then show ?thesis
    using run by (simp add: bacnet_storage_load_def bacnet_storage_handler_def handle_entries_def)
qed


section \<open>Witnesses\<close>

abbreviation list_storage :: "(load_param, entries) settings" where
  "list_storage \<equiv> list_settings"

lemma list_storage_ok: "storage_ok small_target list_storage entries_good map_of"
  by (simp add: storage_ok_def small_target_ok list_settings_laws)

definition one_entry :: entries where
  "one_entry = [(key_text small_target sample_key, [1, 2])]"

lemma one_entry_good: "entries_good one_entry"
  by (simp add: one_entry_def entries_good_def)

lemma one_entry_inv: "storage_inv small_target entries_good map_of one_entry"
  by (auto simp: storage_inv_def one_entry_good keys_only_def) (auto simp: one_entry_def split: if_splits)

lemma list_storage_set: "fst (bacnet_storage_set small_target list_storage key v s) = 0"
  by (simp add: set_eq small_target_ok list_settings_def list_settings_on_def)

lemma storage_refines_map_witness:
  "bacnet_storage_get small_target list_storage sample_key [0, 0, 0] 3 one_entry = (2, [1, 2, 0], one_entry) \<and>
   storage_inv small_target entries_good map_of
     (snd (bacnet_storage_delete small_target list_storage sample_key one_entry))"
  using storage_refines_map [OF list_storage_ok one_entry_inv, of "[7]" sample_key "[0, 0, 0]" 3]
  by (simp add: store_of_def one_entry_def overlay_def)

lemma sample_key_nonzero: "sample_key \<noteq> zero_key"
  by (simp add: sample_key_def zero_key_def)

lemma one_entry_value: "store_of small_target map_of one_entry sample_key = Some [1, 2]"
  by (simp add: store_of_def one_entry_def)

lemma storage_set_get_witness:
  "fst (snd (bacnet_storage_get small_target list_storage zero_key [0, 0, 0] 3
     (snd (bacnet_storage_set small_target list_storage zero_key [7] one_entry)))) = [7, 0, 0] \<and>
   fst (bacnet_storage_get small_target list_storage sample_key [0, 0, 0] 3
     (snd (bacnet_storage_set small_target list_storage zero_key [7] one_entry))) = 2"
  using storage_set_get [OF list_storage_ok one_entry_inv, of "[7]" zero_key 3 sample_key "[0, 0, 0]"]
  by (simp add: list_storage_set sample_key_nonzero overlay_def one_entry_value fetched_value_def
      get_eq [OF list_storage_ok one_entry_inv])

lemma storage_clear_effect_witness:
  "fst (bacnet_storage_clear small_target list_storage one_entry) = 0 \<and>
   store_of small_target map_of (snd (bacnet_storage_clear small_target list_storage one_entry)) = Map.empty"
  using storage_clear_effect [OF list_storage_ok one_entry_inv]
  by (simp add: list_settings_def list_settings_on_def)

text \<open>A partition of 16 bytes at address 4096 whose erasing counts the world up, and an image
  that ends inside it.\<close>

definition small_flash :: "u32 \<Rightarrow> nat flash" where
  "small_flash used =
     \<lparr>settings_nvs = True, config_xip = True, flash_base_address = 4096, rom_region_start = 4000,
      flash_used = used, flash_same_device = True, flash_area_open = (\<lambda>s. (0, (0, 16), s)),
      flash_area_erase = (\<lambda>off len s. (0, s + 1)), flash_area_close = (\<lambda>s. s)\<rparr>"

lemma storage_erase_guard_witness:
  "bacnet_storage_erase (small_flash 100) 0 = (- EPERM, 0) \<and>
   bacnet_storage_erase (small_flash 96) 0 = (0, 1) \<and>
   bacnet_storage_erase ((small_flash 100)\<lparr>flash_same_device := False\<rparr>) 0 = (0, 1)"
proof -
  have "\<exists>a. 4096 \<le> a \<and> a < 4112 \<and> 4000 \<le> a \<and> a < (4100 :: nat)"
    by (rule exI [of _ 4096]) simp
  then show ?thesis
    using storage_erase_guard [of "small_flash 100" 0 0 0 16 0 4096 4000]
      storage_erase_guard [of "small_flash 96" 0 0 0 16 0 4096 4000]
      storage_erase_guard [of "(small_flash 100)\<lparr>flash_same_device := False\<rparr>" 0 0 0 16 0 4096 4000]
    by (simp add: small_flash_def)
qed

definition recording_restore :: "(nat, (storage_key \<times> byte list \<times> nat) list) restore" where
  "recording_restore =
     \<lparr>BACnet_Storage_Restore_Callback = Some (\<lambda>key data n c s. (0, (key, take n data, n) # s)),
      BACnet_Storage_Restore_Context = 0\<rparr>"

definition idle_settings :: "(unit, 's) settings" where
  "idle_settings =
     \<lparr>name_next = list_name_next, name_steq = list_name_steq, subsys_init = (\<lambda>s. (0, s)),
      settings_register = (\<lambda>n s. (0, s)), settings_save_one = (\<lambda>n v s. (0, s)),
      settings_delete = (\<lambda>n s. (0, s)), settings_load_subtree = (\<lambda>n h s. (0, s)),
      settings_load_subtree_direct = (\<lambda>n cb p s. (0, p, s))\<rparr>"

lemma idle_names_laws: "names_laws (idle_settings :: (unit, 's) settings)"
  using list_names_laws [where 'p = unit]
  by (simp add: names_laws_def idle_settings_def list_settings_def list_settings_on_def)

lemma storage_restore_entry_witness:
  "bacnet_storage_handler_set small_target (idle_settings :: (unit, (storage_key \<times> byte list \<times> nat) list) settings)
     recording_restore (Some (key_text small_target sample_key)) 2 (value_reader [1, 2]) [] =
   (0, [(sample_key, [1, 2], 2)])"
  using storage_restore_entry [OF idle_names_laws small_target_ok sample_key_decodable,
      of "[1, 2]" recording_restore _ "[]"]
  by (simp add: recording_restore_def small_target_def numeral_2_eq_2)

lemma one_entry_keys: "\<forall>nam. map_of one_entry nam \<noteq> None \<longrightarrow> (\<exists>key. nam = key_text small_target key)"
  by (auto simp: one_entry_def split: if_splits)

lemma small_target_base: "base_name small_target = ''.bacnet''"
  by (simp add: small_target_def)

lemma storage_load_restores_nothing_witness:
  "snd (bacnet_storage_load small_target list_storage
     \<lparr>BACnet_Storage_Restore_Callback = Some (\<lambda>key data n c s. (0, [])),
      BACnet_Storage_Restore_Context = ()\<rparr> one_entry) = one_entry"
  by (rule storage_load_restores_nothing [OF list_settings_laws one_entry_good])
    (use one_entry_keys in \<open>simp_all add: small_target_base\<close>)

end
