(* ===== verification/Settings.thy ===== *)
theory Settings
  imports Storage
begin

text \<open>
  Typed values in the storage (\<open>subsys/bacnet_settings/bacnet_settings.c\<close>): storing and restoring
  WriteProperty requests, getting and setting application values, numbers and strings, and parsing
  the shell's arguments. The encoders, decoders, text tables and property lists of the BACnet
  stack are not part of the repository: they are the record \<open>bacapp\<close>, and \<open>bacapp_laws\<close> states
  the round trip the getters and setters rely on.
\<close>

section \<open>Application values\<close>

text \<open>
  The union of an application value. \<open>'v\<close> are the structures of the BACnet stack that this code
  only passes on (character, octet and bit strings, dates, times). Reading the union as a float is
  \<open>union_real\<close> of the library: what memory holds when another member was written is not ours to
  say.
\<close>

datatype 'v app_union =
    Null | Boolean bool | Unsigned_Int u64 | Signed_Int u32 | Real u32 | Double u64
  | Structured 'v | Enumerated u32 | Object_Id u16 u32

record 'v app_value =
  context_specific :: bool
  tag :: u8
  content :: "'v app_union"

definition BACNET_APPLICATION_TAG_NULL :: u8 where "BACNET_APPLICATION_TAG_NULL = 0"
definition BACNET_APPLICATION_TAG_BOOLEAN :: u8 where "BACNET_APPLICATION_TAG_BOOLEAN = 1"
definition BACNET_APPLICATION_TAG_UNSIGNED_INT :: u8 where "BACNET_APPLICATION_TAG_UNSIGNED_INT = 2"
definition BACNET_APPLICATION_TAG_SIGNED_INT :: u8 where "BACNET_APPLICATION_TAG_SIGNED_INT = 3"
definition BACNET_APPLICATION_TAG_REAL :: u8 where "BACNET_APPLICATION_TAG_REAL = 4"
definition BACNET_APPLICATION_TAG_OCTET_STRING :: u8 where "BACNET_APPLICATION_TAG_OCTET_STRING = 6"
definition BACNET_APPLICATION_TAG_CHARACTER_STRING :: u8 where
  "BACNET_APPLICATION_TAG_CHARACTER_STRING = 7"
definition BACNET_APPLICATION_TAG_BIT_STRING :: u8 where "BACNET_APPLICATION_TAG_BIT_STRING = 8"
definition BACNET_APPLICATION_TAG_ENUMERATED :: u8 where "BACNET_APPLICATION_TAG_ENUMERATED = 9"
definition BACNET_APPLICATION_TAG_DATE :: u8 where "BACNET_APPLICATION_TAG_DATE = 10"
definition BACNET_APPLICATION_TAG_TIME :: u8 where "BACNET_APPLICATION_TAG_TIME = 11"
definition BACNET_APPLICATION_TAG_OBJECT_ID :: u8 where "BACNET_APPLICATION_TAG_OBJECT_ID = 12"
definition MAX_BACNET_APPLICATION_TAG :: u8 where "MAX_BACNET_APPLICATION_TAG = 16"

lemmas tag_defs =
  BACNET_APPLICATION_TAG_NULL_def BACNET_APPLICATION_TAG_BOOLEAN_def
  BACNET_APPLICATION_TAG_UNSIGNED_INT_def BACNET_APPLICATION_TAG_SIGNED_INT_def
  BACNET_APPLICATION_TAG_REAL_def BACNET_APPLICATION_TAG_OCTET_STRING_def
  BACNET_APPLICATION_TAG_CHARACTER_STRING_def BACNET_APPLICATION_TAG_BIT_STRING_def
  BACNET_APPLICATION_TAG_ENUMERATED_def BACNET_APPLICATION_TAG_DATE_def
  BACNET_APPLICATION_TAG_TIME_def BACNET_APPLICATION_TAG_OBJECT_ID_def
  MAX_BACNET_APPLICATION_TAG_def

text \<open>\<open>BACNET_APPLICATION_DATA_VALUE value = { 0 }\<close>.\<close>

definition zero_value :: "'v app_value" where
  "zero_value = \<lparr>context_specific = False, tag = BACNET_APPLICATION_TAG_NULL, content = Null\<rparr>"

definition PROP_PRESENT_VALUE :: u32 where "PROP_PRESENT_VALUE = 85"
definition BACNET_ARRAY_ALL :: u32 where "BACNET_ARRAY_ALL = 0xFFFFFFFF"
definition BACNET_MAX_PRIORITY :: u8 where "BACNET_MAX_PRIORITY = 16"

section \<open>The functions of the BACnet stack\<close>

text \<open>
  A decoder gets the buffer, the number of bytes that are valid and the variable it fills, and
  returns the number of bytes it decoded, not positive when it fails. An initialiser returns
  whether it could read the text, and what it left in the structure. The encoder returns its
  length and the bytes it writes when it is given a buffer. A text table returns the number it
  found.
\<close>

record 'v bacapp =
  max_apdu :: nat
  bacapp_encode_application_data :: "'v app_value \<Rightarrow> int \<times> byte list"
  bacapp_decode_application_data :: "byte list \<Rightarrow> nat \<Rightarrow> 'v app_value \<Rightarrow> int \<times> 'v app_value"
  bacnet_unsigned_application_decode :: "byte list \<Rightarrow> nat \<Rightarrow> u64 \<Rightarrow> int \<times> u64"
  bacnet_signed_application_decode :: "byte list \<Rightarrow> nat \<Rightarrow> u32 \<Rightarrow> int \<times> u32"
  bacnet_character_string_application_decode :: "byte list \<Rightarrow> nat \<Rightarrow> 'v \<Rightarrow> int \<times> 'v"
  union_real :: "'v app_union \<Rightarrow> u32"
  characterstring_init_ansi :: "string option \<Rightarrow> bool \<times> 'v"
  bitstring_init_ascii :: "string \<Rightarrow> bool \<times> 'v"
  octetstring_init_ascii_hex :: "string \<Rightarrow> bool \<times> 'v"
  datetime_date_init_ascii :: "string \<Rightarrow> bool \<times> 'v"
  datetime_time_init_ascii :: "string \<Rightarrow> bool \<times> 'v"
  bacnet_stricmp :: "string \<Rightarrow> string \<Rightarrow> int"
  bacnet_strnicmp :: "string \<Rightarrow> string \<Rightarrow> nat \<Rightarrow> int"
  bactext_object_property_strtoul :: "u16 \<Rightarrow> u32 \<Rightarrow> string \<Rightarrow> u32 option"
  bactext_object_type_strtol :: "string \<Rightarrow> u32 option"
  bactext_property_strtol :: "string \<Rightarrow> u32 option"
  property_list_bacnet_array_member :: "u16 \<Rightarrow> u32 \<Rightarrow> bool"
  property_list_commandable_member :: "u16 \<Rightarrow> u32 \<Rightarrow> bool"
  c_strtof :: "string \<Rightarrow> u32 \<times> nat"

text \<open>
  The round trip of the encoder on the values \<open>ok\<close> admits; encoded values are not empty. The
  decoders of single types read what the general encoder writes for that type.
\<close>

definition bacapp_laws :: "('v, 'z) bacapp_scheme \<Rightarrow> ('v app_value \<Rightarrow> bool) \<Rightarrow> bool" where
  "bacapp_laws lib ok \<longleftrightarrow>
     (\<forall>v. ok v \<longrightarrow>
        (let (len, apdu) = bacapp_encode_application_data lib v
         in len = int (length apdu) \<and> apdu \<noteq> [] \<and>
            (\<forall>rest v0. bacapp_decode_application_data lib (apdu @ rest) (length apdu) v0 = (len, v)))) \<and>
     (\<forall>v n. ok v \<longrightarrow> tag v = BACNET_APPLICATION_TAG_UNSIGNED_INT \<longrightarrow> content v = Unsigned_Int n \<longrightarrow>
        (let (len, apdu) = bacapp_encode_application_data lib v
         in \<forall>rest n0. bacnet_unsigned_application_decode lib (apdu @ rest) (length apdu) n0 = (len, n))) \<and>
     (\<forall>v i. ok v \<longrightarrow> tag v = BACNET_APPLICATION_TAG_SIGNED_INT \<longrightarrow> content v = Signed_Int i \<longrightarrow>
        (let (len, apdu) = bacapp_encode_application_data lib v
         in \<forall>rest i0. bacnet_signed_application_decode lib (apdu @ rest) (length apdu) i0 = (len, i))) \<and>
     (\<forall>r. union_real lib (Real r) = r)"

section \<open>Storing and restoring WriteProperty requests\<close>

datatype error_code =
    ERROR_CODE_UNKNOWN_OBJECT | ERROR_CODE_UNKNOWN_PROPERTY | ERROR_CODE_WRITE_ACCESS_DENIED
  | ERROR_CODE_DUPLICATE_NAME | ERROR_CODE_VALUE_OUT_OF_RANGE | ERROR_CODE_INVALID_DATA_TYPE
  | ERROR_CODE_PROPERTY_IS_NOT_AN_ARRAY | ERROR_CODE_NO_SPACE_TO_WRITE_PROPERTY
  | ERROR_CODE_CHARACTER_SET_NOT_SUPPORTED | ERROR_CODE_OPTIONAL_FUNCTIONALITY_NOT_SUPPORTED
  | Other_Error_Code nat

record write_property_data =
  wp_object_type :: u32
  wp_object_instance :: u32
  wp_object_property :: u32
  wp_array_index :: u32
  wp_application_data :: "byte list"
  wp_priority :: u8
  wp_error_code :: error_code

definition bacnet_settings_basic_store ::
    "target \<Rightarrow> ('p, 's, 'z) settings_scheme \<Rightarrow> u32 \<Rightarrow> u32 \<Rightarrow> u32 \<Rightarrow> u32 \<Rightarrow> byte list \<Rightarrow> 's \<Rightarrow> 's" where
  "bacnet_settings_basic_store tg st ty inst prop idx data s =
     snd (bacnet_storage_set tg st
            (bacnet_storage_key_init zero_key (ucast ty) inst prop idx) data s)"

text \<open>The array index a request is stored under: the priority of a command takes its place.\<close>

definition store_index :: "('v, 'z) bacapp_scheme \<Rightarrow> write_property_data \<Rightarrow> u32" where
  "store_index lib wp =
     (if property_list_bacnet_array_member lib (ucast (wp_object_type wp)) (wp_object_property wp)
      then wp_array_index wp
      else if wp_object_property wp = PROP_PRESENT_VALUE
      then (if property_list_commandable_member lib (ucast (wp_object_type wp)) (wp_object_property wp)
            then ucast (wp_priority wp) else BACNET_ARRAY_ALL)
      else wp_array_index wp)"

definition store_key :: "('v, 'z) bacapp_scheme \<Rightarrow> write_property_data \<Rightarrow> storage_key" where
  "store_key lib wp =
     bacnet_storage_key_init zero_key (ucast (wp_object_type wp)) (wp_object_instance wp)
       (wp_object_property wp) (store_index lib wp)"

definition bacnet_settings_write_property_store ::
    "target \<Rightarrow> ('p, 's, 'z) settings_scheme \<Rightarrow> ('v, 'y) bacapp_scheme \<Rightarrow> write_property_data \<Rightarrow> 's \<Rightarrow>
     bool \<times> 's" where
  "bacnet_settings_write_property_store tg st lib wp s =
     (let (rv, s') = bacnet_storage_set tg st (store_key lib wp) (wp_application_data wp) s
      in (\<not> rv < 0, s'))"

text \<open>The restore callback gets the request and may change it, to report an error code.\<close>

type_synonym ('c, 's) settings_restore_callback =
  "write_property_data \<Rightarrow> 'c \<Rightarrow> 's \<Rightarrow> bool \<times> write_property_data \<times> 's"

fun restore_error :: "error_code \<Rightarrow> int" where
  "restore_error ERROR_CODE_UNKNOWN_OBJECT = - ENOENT"
| "restore_error ERROR_CODE_UNKNOWN_PROPERTY = - ENOENT"
| "restore_error ERROR_CODE_WRITE_ACCESS_DENIED = - EACCES"
| "restore_error ERROR_CODE_DUPLICATE_NAME = - EEXIST"
| "restore_error ERROR_CODE_VALUE_OUT_OF_RANGE = - ERANGE"
| "restore_error ERROR_CODE_INVALID_DATA_TYPE = - EINVAL"
| "restore_error ERROR_CODE_PROPERTY_IS_NOT_AN_ARRAY = - EINVAL"
| "restore_error ERROR_CODE_NO_SPACE_TO_WRITE_PROPERTY = - ENOSPC"
| "restore_error ERROR_CODE_CHARACTER_SET_NOT_SUPPORTED = - ENOTSUP"
| "restore_error ERROR_CODE_OPTIONAL_FUNCTIONALITY_NOT_SUPPORTED = - ENOTSUP"
| "restore_error (Other_Error_Code n) = - EINVAL"

text \<open>
  \<open>data\<close> is \<^const>\<open>None\<close> for a NULL pointer. The copy takes \<open>data_len\<close> bytes, which must be there;
  priorities have eight bits, so a stored array index is truncated to them.
\<close>

definition bacnet_settings_restore ::
    "('v, 'y) bacapp_scheme \<Rightarrow> u16 \<Rightarrow> u32 \<Rightarrow> u32 \<Rightarrow> u32 \<Rightarrow> byte list option \<Rightarrow> nat \<Rightarrow>
     ('c, 's) settings_restore_callback option \<Rightarrow> 'c \<Rightarrow> 's \<Rightarrow> int \<times> 's" where
  "bacnet_settings_restore lib ty inst prop idx data data_len restore_function ctx s =
     (case data of
        None \<Rightarrow> (- EINVAL, s)
      | Some bytes \<Rightarrow>
        if 0 < data_len \<and> data_len \<le> max_apdu lib then
          (let cmd = property_list_commandable_member lib ty prop;
               wp = \<lparr>wp_object_type = ucast ty, wp_object_instance = inst, wp_object_property = prop,
                     wp_array_index = (if cmd then BACNET_ARRAY_ALL else idx),
                     wp_application_data = take data_len bytes,
                     wp_priority = (if cmd then ucast idx else BACNET_MAX_PRIORITY),
                     wp_error_code = Other_Error_Code 0\<rparr>
           in case restore_function of
                None \<Rightarrow> (- EINVAL, s)
              | Some f \<Rightarrow>
                  (let (status, wp', s') = f wp ctx s
                   in (if status then 0 else restore_error (wp_error_code wp'), s')))
        else (- EINVAL, s))"

definition bacnet_storage_restore_handler ::
    "('v, 'y) bacapp_scheme \<Rightarrow> ('c, 's) settings_restore_callback option \<Rightarrow>
     ('c, 's) restore_callback" where
  "bacnet_storage_restore_handler lib restore_cb key data data_len ctx s =
     bacnet_settings_restore lib (object_type key) (object_instance key) (property_id key)
       (array_index key) (Some data) data_len restore_cb ctx s"

text \<open>The static variables of both files: the callback here, and the storage's callback and
  context.\<close>

record ('c, 's) settings_statics =
  Restore_Callback :: "('c, 's) settings_restore_callback option"
  storage_statics :: "('c, 's) restore"

definition bacnet_settings_write_property_restore ::
    "target \<Rightarrow> ('p, 's, 'z) settings_scheme \<Rightarrow> ('v, 'y) bacapp_scheme \<Rightarrow>
     ('c, 's) settings_restore_callback option \<Rightarrow> 'c \<Rightarrow> ('c, 's) settings_statics \<Rightarrow> 's \<Rightarrow>
     bool \<times> ('c, 's) settings_statics \<times> 's" where
  "bacnet_settings_write_property_restore tg st lib cb ctx ss s =
     (case cb of
        None \<Rightarrow> (False, ss, s)
      | Some f \<Rightarrow>
        (let ss1 = ss\<lparr>Restore_Callback := Some f\<rparr>;
             (err, rst) = bacnet_storage_load_callback_set (storage_statics ss1)
               (Some (bacnet_storage_restore_handler lib (Restore_Callback ss1))) ctx;
             ss2 = ss1\<lparr>storage_statics := rst\<rparr>
         in if err \<noteq> 0 then (False, ss2, s)
            else let (lerr, s') = bacnet_storage_load tg st rst s in (lerr = 0, ss2, s')))"

section \<open>Values\<close>

text \<open>The key all getters and setters build.\<close>

definition settings_key :: "u16 \<Rightarrow> u32 \<Rightarrow> u32 \<Rightarrow> u32 \<Rightarrow> storage_key" where
  "settings_key ty inst prop idx = bacnet_storage_key_init zero_key ty inst prop idx"

definition bacnet_settings_value_get ::
    "target \<Rightarrow> (load_param, 's, 'z) settings_scheme \<Rightarrow> ('v, 'y) bacapp_scheme \<Rightarrow> storage_key \<Rightarrow>
     'v app_value \<Rightarrow> 's \<Rightarrow> int \<times> 'v app_value \<times> 's" where
  "bacnet_settings_value_get tg st lib key val s =
     (let (stored_len, nam, s') = bacnet_storage_get tg st key (value_buffer tg) (max_val_len tg + 1) s
      in if 0 < stored_len then
           (let (len, val') = bacapp_decode_application_data lib nam (nat stored_len) val
            in (stored_len,
                if len \<le> 0 then val'\<lparr>tag := MAX_BACNET_APPLICATION_TAG\<rparr> else val', s'))
         else (stored_len, val, s'))"

definition bacnet_settings_value_set ::
    "target \<Rightarrow> ('p, 's, 'z) settings_scheme \<Rightarrow> ('v, 'y) bacapp_scheme \<Rightarrow> storage_key \<Rightarrow>
     'v app_value \<Rightarrow> 's \<Rightarrow> bool \<times> 's" where
  "bacnet_settings_value_set tg st lib key val s =
     (let len = fst (bacapp_encode_application_data lib val)
      in if len \<le> 0 then (False, s)
         else if int (max_val_len tg) < len then (False, s)
         else let (len, apdu) = bacapp_encode_application_data lib val;
                  nam = overlay apdu (replicate (max_val_len tg) 0);
                  (rc, s') = bacnet_storage_set tg st key (take (nat len) nam) s
              in (rc = 0, s'))"

definition bacnet_settings_real_get ::
    "target \<Rightarrow> (load_param, 's, 'z) settings_scheme \<Rightarrow> ('v, 'y) bacapp_scheme \<Rightarrow> storage_key \<Rightarrow>
     u32 \<Rightarrow> 's \<Rightarrow> int \<times> u32 \<times> 's" where
  "bacnet_settings_real_get tg st lib key default_value s =
     (let (stored_len, bvalue, s') = bacnet_settings_value_get tg st lib key zero_value s
      in (stored_len,
          if 0 \<le> stored_len \<and> tag bvalue = BACNET_APPLICATION_TAG_REAL
          then union_real lib (content bvalue) else default_value, s'))"

definition bacnet_settings_real_set ::
    "target \<Rightarrow> ('p, 's, 'z) settings_scheme \<Rightarrow> ('v, 'y) bacapp_scheme \<Rightarrow> storage_key \<Rightarrow>
     u32 \<Rightarrow> 's \<Rightarrow> bool \<times> 's" where
  "bacnet_settings_real_set tg st lib key val s =
     bacnet_settings_value_set tg st lib key
       (zero_value\<lparr>context_specific := False, tag := BACNET_APPLICATION_TAG_REAL,
                    content := Real val\<rparr>) s"

text \<open>\<open>old\<close> is what the caller's variable holds; a decoder may change it before it fails.\<close>

definition bacnet_settings_unsigned_get ::
    "target \<Rightarrow> (load_param, 's, 'z) settings_scheme \<Rightarrow> ('v, 'y) bacapp_scheme \<Rightarrow> storage_key \<Rightarrow>
     u64 \<Rightarrow> u64 \<Rightarrow> 's \<Rightarrow> int \<times> u64 \<times> 's" where
  "bacnet_settings_unsigned_get tg st lib key default_value old s =
     (let (stored_len, nam, s') = bacnet_storage_get tg st key (value_buffer tg) (max_val_len tg + 1) s
      in if 0 < stored_len then
           (let (len, val) = bacnet_unsigned_application_decode lib nam (nat stored_len) old
            in (stored_len, if len \<le> 0 then default_value else val, s'))
         else (stored_len, default_value, s'))"

definition bacnet_settings_unsigned_set ::
    "target \<Rightarrow> ('p, 's, 'z) settings_scheme \<Rightarrow> ('v, 'y) bacapp_scheme \<Rightarrow> storage_key \<Rightarrow>
     u64 \<Rightarrow> 's \<Rightarrow> bool \<times> 's" where
  "bacnet_settings_unsigned_set tg st lib key val s =
     bacnet_settings_value_set tg st lib key
       (zero_value\<lparr>context_specific := False, tag := BACNET_APPLICATION_TAG_UNSIGNED_INT,
                    content := Unsigned_Int val\<rparr>) s"

definition bacnet_settings_signed_get ::
    "target \<Rightarrow> (load_param, 's, 'z) settings_scheme \<Rightarrow> ('v, 'y) bacapp_scheme \<Rightarrow> storage_key \<Rightarrow>
     u32 \<Rightarrow> u32 \<Rightarrow> 's \<Rightarrow> int \<times> u32 \<times> 's" where
  "bacnet_settings_signed_get tg st lib key default_value old s =
     (let (stored_len, nam, s') = bacnet_storage_get tg st key (value_buffer tg) (max_val_len tg + 1) s
      in if 0 < stored_len then
           (let (len, val) = bacnet_signed_application_decode lib nam (nat stored_len) old
            in (stored_len, if len \<le> 0 then default_value else val, s'))
         else (stored_len, default_value, s'))"

definition bacnet_settings_signed_set ::
    "target \<Rightarrow> ('p, 's, 'z) settings_scheme \<Rightarrow> ('v, 'y) bacapp_scheme \<Rightarrow> storage_key \<Rightarrow>
     u32 \<Rightarrow> 's \<Rightarrow> bool \<times> 's" where
  "bacnet_settings_signed_set tg st lib key val s =
     bacnet_settings_value_set tg st lib key
       (zero_value\<lparr>context_specific := False, tag := BACNET_APPLICATION_TAG_SIGNED_INT,
                    content := Signed_Int val\<rparr>) s"

section \<open>Strings\<close>

definition bacnet_settings_characterstring_get ::
    "target \<Rightarrow> (load_param, 's, 'z) settings_scheme \<Rightarrow> ('v, 'y) bacapp_scheme \<Rightarrow> storage_key \<Rightarrow>
     string option \<Rightarrow> 'v \<Rightarrow> 's \<Rightarrow> int \<times> 'v \<times> 's" where
  "bacnet_settings_characterstring_get tg st lib key default_value old s =
     (let (stored_len, nam, s') = bacnet_storage_get tg st key (value_buffer tg) (max_val_len tg + 1) s
      in if 0 < stored_len then
           (let (len, val) =
              bacnet_character_string_application_decode lib nam (nat stored_len) old
            in (stored_len,
                if len \<le> 0 then snd (characterstring_init_ansi lib default_value) else val, s'))
         else (stored_len, snd (characterstring_init_ansi lib default_value), s'))"

text \<open>The value is stored only when the string could not be initialised, as the source has it.\<close>

definition bacnet_settings_characterstring_ansi_set ::
    "target \<Rightarrow> ('p, 's, 'z) settings_scheme \<Rightarrow> ('v, 'y) bacapp_scheme \<Rightarrow> storage_key \<Rightarrow>
     string option \<Rightarrow> 's \<Rightarrow> bool \<times> 's" where
  "bacnet_settings_characterstring_ansi_set tg st lib key cstring s =
     (let (status, str) = characterstring_init_ansi lib cstring;
          bvalue = zero_value\<lparr>context_specific := False,
                              tag := BACNET_APPLICATION_TAG_CHARACTER_STRING,
                              content := Structured str\<rparr>
      in if \<not> status then bacnet_settings_value_set tg st lib key bvalue s else (status, s))"

definition bacnet_settings_string_get ::
    "target \<Rightarrow> (load_param, 's, 'z) settings_scheme \<Rightarrow> storage_key \<Rightarrow> string option \<Rightarrow>
     byte list \<Rightarrow> nat \<Rightarrow> 's \<Rightarrow> int \<times> byte list \<times> 's" where
  "bacnet_settings_string_get tg st key default_value val val_size s =
     (let (rc, val', s') = bacnet_storage_get tg st key val val_size s
      in if rc \<le> 0 then
           (case default_value of
              None \<Rightarrow> (rc, val', s')
            | Some d \<Rightarrow> (int (length d), overlay (bytes_of (strncpy d val_size)) val', s'))
         else (rc, val', s'))"

definition bacnet_settings_string_set ::
    "target \<Rightarrow> ('p, 's, 'z) settings_scheme \<Rightarrow> storage_key \<Rightarrow> string option \<Rightarrow> 's \<Rightarrow> bool \<times> 's" where
  "bacnet_settings_string_set tg st key val s =
     (case val of
        None \<Rightarrow> (False, s)
      | Some str \<Rightarrow>
          (let (rc, s') = bacnet_storage_set tg st key (bytes_of str @ [0]) s in (rc = 0, s')))"

definition bacnet_settings_init ::
    "(('s \<Rightarrow> int \<times> 's) \<times> ('s \<Rightarrow> int \<times> 's)) option \<Rightarrow> target \<Rightarrow> ('p, 's, 'z) settings_scheme \<Rightarrow>
     ('c, 's) restore \<Rightarrow> 's \<Rightarrow> bool \<times> 's" where
  "bacnet_settings_init littlefs tg st rst s =
     (let (err, s') = bacnet_storage_init littlefs tg st rst s in (\<not> err \<noteq> 0, s'))"

definition bacnet_settings_clear ::
    "target \<Rightarrow> (load_param, 's, 'z) settings_scheme \<Rightarrow> 's \<Rightarrow> int \<times> 's" where
  "bacnet_settings_clear tg st s = bacnet_storage_clear tg st s"

section \<open>Parsing\<close>

text \<open>
  Reading a value from text: words first, then by the tag the caller put into the value. For an
  object identifier the value is filled in, but the result stays false.
\<close>

definition parse_word ::
    "('v, 'y) bacapp_scheme \<Rightarrow> string \<Rightarrow> u16 \<Rightarrow> u32 \<Rightarrow> 'v app_value \<Rightarrow> bool \<times> 'v app_value" where
  "parse_word lib value_string ty prop val =
     (if property_list_commandable_member lib ty prop \<and>
         bacnet_strnicmp lib value_string ''NULL'' 4 = 0
      then (True, val\<lparr>tag := BACNET_APPLICATION_TAG_NULL\<rparr>)
      else if bacnet_stricmp lib value_string ''true'' = 0
      then (True, val\<lparr>content := Boolean True, tag := BACNET_APPLICATION_TAG_BOOLEAN\<rparr>)
      else if bacnet_stricmp lib value_string ''false'' = 0
      then (True, val\<lparr>content := Boolean False, tag := BACNET_APPLICATION_TAG_BOOLEAN\<rparr>)
      else case bactext_object_property_strtoul lib ty prop value_string of
             None \<Rightarrow> (False, val)
           | Some e \<Rightarrow>
               (True, val\<lparr>tag := BACNET_APPLICATION_TAG_ENUMERATED, content := Enumerated e\<rparr>))"

definition parse_structured :: "'v app_value \<Rightarrow> bool \<times> 'v \<Rightarrow> bool \<times> 'v app_value" where
  "parse_structured val res = (fst res, val\<lparr>content := Structured (snd res)\<rparr>)"

definition parse_by_tag ::
    "libc \<Rightarrow> ('v, 'y) bacapp_scheme \<Rightarrow> string \<Rightarrow> 'v app_value \<Rightarrow> bool \<times> 'v app_value" where
  "parse_by_tag lc lib value_string val =
     (if tag val = BACNET_APPLICATION_TAG_ENUMERATED then
        (case bacnet_storage_strtoul lc value_string of
           None \<Rightarrow> (False, val) | Some v \<Rightarrow> (True, val\<lparr>content := Enumerated (of_nat v)\<rparr>))
      else if tag val = BACNET_APPLICATION_TAG_UNSIGNED_INT then
        (case bacnet_storage_strtoul lc value_string of
           None \<Rightarrow> (False, val)
         | Some v \<Rightarrow> (True, val\<lparr>content := Unsigned_Int (ucast (of_nat v :: u32))\<rparr>))
      else if tag val = BACNET_APPLICATION_TAG_SIGNED_INT then
        (case bacnet_storage_strtol lc value_string of
           None \<Rightarrow> (False, val) | Some v \<Rightarrow> (True, val\<lparr>content := Signed_Int (of_int v)\<rparr>))
      else if tag val = BACNET_APPLICATION_TAG_REAL then
        (case bacnet_storage_strtof (c_strtof lib) value_string of
           None \<Rightarrow> (False, val) | Some v \<Rightarrow> (True, val\<lparr>content := Real v\<rparr>))
      else if tag val = BACNET_APPLICATION_TAG_BIT_STRING then
        parse_structured val (bitstring_init_ascii lib value_string)
      else if tag val = BACNET_APPLICATION_TAG_OCTET_STRING then
        parse_structured val (octetstring_init_ascii_hex lib value_string)
      else if tag val = BACNET_APPLICATION_TAG_CHARACTER_STRING then
        parse_structured val (characterstring_init_ansi lib (Some value_string))
      else if tag val = BACNET_APPLICATION_TAG_DATE then
        parse_structured val (datetime_date_init_ascii lib value_string)
      else if tag val = BACNET_APPLICATION_TAG_TIME then
        parse_structured val (datetime_time_init_ascii lib value_string)
      else if tag val = BACNET_APPLICATION_TAG_OBJECT_ID then
        (case sscanf_type_instance lc value_string of
           None \<Rightarrow> (False, val)
         | Some (t, i) \<Rightarrow> (False, val\<lparr>content := Object_Id (of_nat t) (of_nat i)\<rparr>))
      else (False, val))"

definition bacnet_settings_value_parse ::
    "libc \<Rightarrow> ('v, 'y) bacapp_scheme \<Rightarrow> string option \<Rightarrow> u16 \<Rightarrow> u32 \<Rightarrow> 'v app_value \<Rightarrow>
     bool \<times> 'v app_value" where
  "bacnet_settings_value_parse lc lib value_string ty prop val =
     (case value_string of
        None \<Rightarrow> (False, val)
      | Some str \<Rightarrow>
          (let (status, val1) =
             (if str \<noteq> [] \<and> c_isalpha (hd str) then parse_word lib str ty prop val else (False, val))
           in if \<not> status then parse_by_tag lc lib str val1 else (status, val1)))"

text \<open>
  Parsing an object reference; the record of a storage key carries the four output variables. The
  second scan writes the word and its NUL into 80 bytes: the outcome \<^const>\<open>None\<close> is a word of 80
  characters or more, which leaves the buffer.
\<close>

definition bacnet_settings_object_parse ::
    "target \<Rightarrow> ('v, 'y) bacapp_scheme \<Rightarrow> string list \<Rightarrow> storage_key \<Rightarrow> (int \<times> storage_key) option" where
  "bacnet_settings_object_parse tg lib argv out =
     (if length argv < 4 then Some (- EINVAL, out)
      else case bactext_object_type_strtol lib (argv ! 1) of
        None \<Rightarrow> Some (- EINVAL, out)
      | Some ty \<Rightarrow>
        (if UINT16_MAX \<le> unat ty then Some (- EINVAL, out)
         else let out1 = out\<lparr>object_type := ucast ty\<rparr>
              in case bacnet_storage_strtoul (clib tg) (argv ! 2) of
                None \<Rightarrow> Some (- EINVAL, out1)
              | Some inst \<Rightarrow>
                (if BACNET_MAX_INSTANCE < inst then Some (- EINVAL, out1)
                 else let out2 = out1\<lparr>object_instance := of_nat inst\<rparr>;
                          (scan_count, uv, av) =
                            sscanf_lu_index (clib tg) (ulong_max (clib tg)) (argv ! 3)
                      in if scan_count < 1 then
                           (let word = scan_word (argv ! 3)
                            in if word = [] then Some (- EINVAL, out2)
                               else if 80 \<le> length word then None
                               else case bactext_property_strtol lib word of
                                      None \<Rightarrow> Some (- EINVAL, out2)
                                    | Some prop \<Rightarrow>
                                        Some (0, out2\<lparr>property_id := prop,
                                          array_index := BACNET_STORAGE_ARRAY_INDEX_NONE\<rparr>))
                         else Some (0, out2\<lparr>
                                property_id :=
                                  of_nat (case uv of None \<Rightarrow> inst | Some v \<Rightarrow> v),
                                array_index :=
                                  (if scan_count < 2 then BACNET_STORAGE_ARRAY_INDEX_NONE
                                   else of_nat (case av of None \<Rightarrow> 0 | Some v \<Rightarrow> v))\<rparr>))))"

section \<open>Stores of typed values\<close>

text \<open>
  A key store whose values are encodings. What was stored with the encoder is fetched and decoded
  as the same value, when the buffer has room for every encoding.
\<close>

locale value_store = key_store ok inv lookup put fetch remove
  for ok :: "'e \<Rightarrow> bool"
    and inv :: "'e \<Rightarrow> 's \<Rightarrow> bool"
    and lookup :: "'e \<Rightarrow> 's \<Rightarrow> 'k \<rightharpoonup> byte list"
    and put :: "'e \<Rightarrow> 'k \<Rightarrow> byte list \<Rightarrow> 's \<Rightarrow> int \<times> 's"
    and fetch :: "'e \<Rightarrow> 'k \<Rightarrow> byte list \<Rightarrow> nat \<Rightarrow> 's \<Rightarrow> int \<times> byte list \<times> 's"
    and remove :: "'e \<Rightarrow> 'k \<Rightarrow> 's \<Rightarrow> int \<times> 's" +
  fixes admits :: "'e \<Rightarrow> 'v \<Rightarrow> bool"
    and enc :: "'e \<Rightarrow> 'v \<Rightarrow> byte list"
    and dec :: "'e \<Rightarrow> byte list \<Rightarrow> nat \<Rightarrow> 'v \<Rightarrow> int \<times> 'v"
  assumes enc_nonempty: "ok e \<Longrightarrow> admits e v \<Longrightarrow> enc e v \<noteq> []"
    and dec_enc: "ok e \<Longrightarrow> admits e v \<Longrightarrow>
      dec e (enc e v @ rest) (length (enc e v)) v0 = (int (length (enc e v)), v)"
begin

lemma fetch_encoded:
  assumes "ok e" "inv e s" "admits e v" "lookup e s k = Some (enc e v)"
    "length (enc e v) \<le> n" "n \<le> length buf"
  shows "\<exists>rest. fetch e k buf n s = (int (length (enc e v)), enc e v @ rest, s)"
  using assms by (auto simp: fetch_value fetched_value_def overlay_def)

lemma get_after_set:
  assumes "ok e" "inv e s" "admits e v" "fst (put e k (enc e v) s) = 0"
    "length (enc e v) \<le> n" "n \<le> length buf"
  shows "\<exists>b. fetch e k buf n (snd (put e k (enc e v) s)) =
      (int (length (enc e v)), b, snd (put e k (enc e v) s)) \<and>
    dec e b (length (enc e v)) v0 = (int (length (enc e v)), v)"
proof -
  have "inv e (snd (put e k (enc e v) s))" "lookup e (snd (put e k (enc e v) s)) k = Some (enc e v)"
    using assms(4) put_inv [OF assms(1,2) enc_nonempty [OF assms(1,3)], of k]
      put_lookup [OF assms(1,2) enc_nonempty [OF assms(1,3)], of k]
    by (simp_all add: store_effect_def)
  from fetch_encoded [OF assms(1) this(1) assms(3) this(2) assms(5,6)] obtain rest
    where "fetch e k buf n (snd (put e k (enc e v) s)) =
      (int (length (enc e v)), enc e v @ rest, snd (put e k (enc e v) s))" by blast
  with dec_enc [OF assms(1,3)] show ?thesis by blast
qed

end

definition encoding :: "('v, 'y) bacapp_scheme \<Rightarrow> 'v app_value \<Rightarrow> byte list" where
  "encoding lib v = snd (bacapp_encode_application_data lib v)"

lemma bacapp_encode:
  "bacapp_laws lib okv \<Longrightarrow> okv v \<Longrightarrow>
   bacapp_encode_application_data lib v = (int (length (encoding lib v)), encoding lib v)"
  by (auto simp: bacapp_laws_def encoding_def prod_eq_iff case_prod_beta)

lemma bacapp_nonempty: "bacapp_laws lib okv \<Longrightarrow> okv v \<Longrightarrow> encoding lib v \<noteq> []"
  by (auto simp: bacapp_laws_def encoding_def case_prod_beta)

lemma bacapp_decode:
  "bacapp_laws lib okv \<Longrightarrow> okv v \<Longrightarrow>
   bacapp_decode_application_data lib (encoding lib v @ rest) (length (encoding lib v)) v0 =
     (int (length (encoding lib v)), v)"
  by (auto simp: bacapp_laws_def encoding_def case_prod_beta)

lemma bacapp_decode_unsigned:
  assumes "bacapp_laws lib okv" "okv v" "tag v = BACNET_APPLICATION_TAG_UNSIGNED_INT"
    "content v = Unsigned_Int n"
  shows "bacnet_unsigned_application_decode lib (encoding lib v @ rest) (length (encoding lib v)) n0 =
     (int (length (encoding lib v)), n)"
  using assms bacapp_encode [OF assms(1,2)]
  by (auto simp: bacapp_laws_def encoding_def case_prod_beta)

lemma bacapp_decode_signed:
  assumes "bacapp_laws lib okv" "okv v" "tag v = BACNET_APPLICATION_TAG_SIGNED_INT"
    "content v = Signed_Int n"
  shows "bacnet_signed_application_decode lib (encoding lib v @ rest) (length (encoding lib v)) n0 =
     (int (length (encoding lib v)), n)"
  using assms bacapp_encode [OF assms(1,2)]
  by (auto simp: bacapp_laws_def encoding_def case_prod_beta)

lemma bacapp_real: "bacapp_laws lib okv \<Longrightarrow> union_real lib (Real r) = r"
  by (simp add: bacapp_laws_def)

type_synonym ('s, 'z, 'v, 'y) value_env =
  "('s, 'z) storage_env \<times> ('v, 'y) bacapp_scheme \<times> ('v app_value \<Rightarrow> bool)"

definition value_env_ok :: "('s, 'z, 'v, 'y) value_env \<Rightarrow> bool" where
  "value_env_ok = (\<lambda>(e, lib, okv). env_ok e \<and> bacapp_laws lib okv)"

interpretation typed: value_store value_env_ok
  "\<lambda>((tg, st, good, view), lib, okv). storage_inv tg good view"
  "\<lambda>((tg, st, good, view), lib, okv). store_of tg view"
  "\<lambda>((tg, st, good, view), lib, okv). bacnet_storage_set tg st"
  "\<lambda>((tg, st, good, view), lib, okv). bacnet_storage_get tg st"
  "\<lambda>((tg, st, good, view), lib, okv). bacnet_storage_delete tg st"
  "\<lambda>(e, lib, okv). okv"
  "\<lambda>(e, lib, okv). encoding lib"
  "\<lambda>(e, lib, okv). bacapp_decode_application_data lib"
  by unfold_locales
    (auto simp: value_env_ok_def env_ok_def set_effect delete_effect get_eq bacapp_nonempty bacapp_decode)


section \<open>What the getters and setters do\<close>

lemma value_set_eq:
  assumes "bacapp_laws lib okv" "okv v"
  shows "bacnet_settings_value_set tg st lib key v s =
    (if max_val_len tg < length (encoding lib v) then (False, s)
     else (fst (bacnet_storage_set tg st key (encoding lib v) s) = 0,
           snd (bacnet_storage_set tg st key (encoding lib v) s)))"
  using bacapp_nonempty [OF assms]
  by (simp add: bacnet_settings_value_set_def bacapp_encode [OF assms] take_overlay case_prod_beta)

lemma value_set_success:
  assumes "bacapp_laws lib okv" "okv v" "bacnet_settings_value_set tg st lib key v s = (True, s')"
  shows "length (encoding lib v) \<le> max_val_len tg" "bacnet_storage_set tg st key (encoding lib v) s = (0, s')"
  using assms(3) by (auto simp: value_set_eq [OF assms(1,2)] prod_eq_iff split: if_splits)

text \<open>After a successful set the buffer of every getter starts with the encoding.\<close>

lemma fetched_after_set:
  assumes "storage_ok tg st good view" "storage_inv tg good view s" "bacapp_laws lib okv" "okv v"
    "bacnet_settings_value_set tg st lib key v s = (True, s')"
  obtains rest where "bacnet_storage_get tg st key (value_buffer tg) (max_val_len tg + 1) s' =
      (int (length (encoding lib v)), encoding lib v @ rest, s')"
proof -
  note stored = value_set_success [OF assms(3-5)]
  let ?e = "((tg, st, good, view), lib, okv)"
  have e: "value_env_ok ?e" using assms(1,3) by (simp add: value_env_ok_def env_ok_def)
  have "storage_inv tg good view s'" "store_of tg view s' key = Some (encoding lib v)"
    using set_effect [OF assms(1,2) bacapp_nonempty [OF assms(3,4)], of key] stored(2)
    by (simp_all add: store_effect_def)
  then show thesis
    using typed.fetch_encoded [of ?e s' v key "max_val_len tg + 1" "value_buffer tg"] e stored(1) assms(4) that
    by (auto simp: value_buffer_def)
qed

lemma value_get_after_set:
  assumes "storage_ok tg st good view" "storage_inv tg good view s" "bacapp_laws lib okv" "okv v"
    "bacnet_settings_value_set tg st lib key v s = (True, s')"
  shows "bacnet_settings_value_get tg st lib key v0 s' = (int (length (encoding lib v)), v, s')"
proof -
  obtain rest where "bacnet_storage_get tg st key (value_buffer tg) (max_val_len tg + 1) s' =
      (int (length (encoding lib v)), encoding lib v @ rest, s')"
    by (rule fetched_after_set [OF assms])
  then show ?thesis
    using bacapp_nonempty [OF assms(3,4)]
    by (simp add: bacnet_settings_value_get_def bacapp_decode [OF assms(3,4)])
qed

lemma get_missing:
  assumes "storage_ok tg st good view" "storage_inv tg good view s" "store_of tg view s key = None"
  shows "bacnet_storage_get tg st key buf n s = (- ENOENT, buf, s)"
  by (simp add: get_eq [OF assms(1,2)] assms(3) fetched_value_def)

text \<open>The request a stored one becomes when it is restored.\<close>

lemma settings_restore_request:
  assumes "0 < length (wp_application_data wp)" "length (wp_application_data wp) \<le> max_apdu lib"
    "unat (wp_object_type wp) < 65536"
  shows "bacnet_storage_restore_handler lib (Some f) (store_key lib wp)
      (wp_application_data wp @ rest) (length (wp_application_data wp)) ctx s =
    (let cmd = property_list_commandable_member lib (ucast (wp_object_type wp)) (wp_object_property wp);
         (status, wp', s') =
           f (wp\<lparr>wp_array_index := (if cmd then BACNET_ARRAY_ALL else store_index lib wp),
                 wp_priority := (if cmd then ucast (store_index lib wp) else BACNET_MAX_PRIORITY),
                 wp_error_code := Other_Error_Code 0\<rparr>) ctx s
     in (if status then 0 else restore_error (wp_error_code wp'), s'))"
proof -
  have "ucast (ucast (wp_object_type wp) :: u16) = wp_object_type wp"
    using assms(3) by (rule ucast_u16_u32)
  then show ?thesis
    using assms(1,2)
    by (cases wp) (auto simp: bacnet_storage_restore_handler_def bacnet_settings_restore_def
        store_key_def key_init_key Let_def)
qed

section \<open>Parsing object references\<close>

lemma ucast_u16_small: "unat (t :: u32) < 65535 \<Longrightarrow> unat (ucast t :: u16) < 65535"
  by (simp add: unat_ucast_u16)

lemma scan_word_length: "length (scan_word s) \<le> length s"
  unfolding scan_word_def skip_space_def
  by (rule order_trans [OF length_takeWhile_le length_dropWhile_le])

lemma object_parse_result:
  assumes "bacnet_settings_object_parse tg lib argv out = Some (rc, obj)"
  shows "rc = - EINVAL \<or> rc = 0 \<and> unat (object_type obj) < UINT16_MAX \<and>
                              unat (object_instance obj) \<le> BACNET_MAX_INSTANCE"
  using assms
    by (auto simp: bacnet_settings_object_parse_def UINT16_MAX_def BACNET_MAX_INSTANCE_def
        unat_of_nat ucast_u16_small Let_def case_prod_beta split: option.splits prod.splits if_splits)

lemma object_parse_overflow:
  assumes "bacnet_settings_object_parse tg lib argv out = None"
  shows "80 \<le> length (argv ! 3)"
  using assms order_trans [OF _ scan_word_length, of 80 "argv ! 3"]
    by (auto simp: bacnet_settings_object_parse_def
       Let_def case_prod_beta split: option.splits prod.splits if_splits)

lemma object_parse_indexed:
  assumes "prop < 4294967296" and "idx < 4294967296" and "libc_ok (clib tg)" "bactext_object_type_strtol lib ty = Some t" "unat t < UINT16_MAX" "inst \<le> BACNET_MAX_INSTANCE"
  shows "bacnet_settings_object_parse tg lib
            [cmd, ty, dec inst, dec prop @ CHR ''['' # dec idx @ '']''] out =
          Some (0, \<lparr>object_type = ucast t, object_instance = of_nat inst,
                     property_id = of_nat prop, array_index = of_nat idx\<rparr>)"
proof -
  have "prop \<le> ulong_max (clib tg)" "idx \<le> ulong_max (clib tg)" "inst < ulong_max (clib tg)"
    using assms(1-3,6) unfolding libc_ok_def UINT32_MAX_def BACNET_MAX_INSTANCE_def by linarith+
  then show ?thesis using assms(4-6)
    by (cases out) (simp add: bacnet_settings_object_parse_def parse_argument_dec
        sscanf_lu_index_dec_dec)
qed

section \<open>Properties\<close>

text \<open>
  Storing and restoring a WriteProperty request: handing the stored entry back through the
  settings handler calls the restore callback with the same object, property and data. A command
  of the present value comes back with its priority; for a property that is not commandable the
  array index comes back, except for the present value, which is restored as a whole.
\<close>

lemma write_property_store_restore:
  assumes "storage_ok tg st good view" and "storage_inv tg good view s"
    and "key_decodable tg (store_key lib wp)" and "unat (wp_object_type wp) < 65536"
    and "wp_application_data wp \<noteq> []" and "length (wp_application_data wp) \<le> max_apdu lib"
    and "length (wp_application_data wp) \<le> max_val_len tg"
    and "bacnet_settings_write_property_store tg st lib wp s = (True, s')"
    and "fst (bacnet_storage_set tg st (store_key lib wp) (wp_application_data wp) s) \<le> 0"
    and "BACnet_Storage_Restore_Callback rst = Some (bacnet_storage_restore_handler lib (Some f))"
    and "cmd = property_list_commandable_member lib (ucast (wp_object_type wp)) (wp_object_property wp)"
    and "arr = property_list_bacnet_array_member lib (ucast (wp_object_type wp)) (wp_object_property wp)"
    and "ctx = BACnet_Storage_Restore_Context rst"
  shows "store_of tg view s' (store_key lib wp) = Some (wp_application_data wp) \<and>
    (cmd \<and> \<not> arr \<and> wp_object_property wp = PROP_PRESENT_VALUE \<longrightarrow>
       bacnet_storage_handler_set tg st rst (Some (key_text tg (store_key lib wp)))
         (length (wp_application_data wp)) (value_reader (wp_application_data wp)) s' =
       (let (status, wp', s'') = f (wp\<lparr>wp_array_index := BACNET_ARRAY_ALL,
              wp_error_code := Other_Error_Code 0\<rparr>) ctx s'
        in (if status then 0 else restore_error (wp_error_code wp'), s''))) \<and>
    (\<not> cmd \<longrightarrow>
       bacnet_storage_handler_set tg st rst (Some (key_text tg (store_key lib wp)))
         (length (wp_application_data wp)) (value_reader (wp_application_data wp)) s' =
       (let (status, wp', s'') = f (wp\<lparr>wp_array_index :=
                (if \<not> arr \<and> wp_object_property wp = PROP_PRESENT_VALUE then BACNET_ARRAY_ALL
                 else wp_array_index wp),
              wp_priority := BACNET_MAX_PRIORITY, wp_error_code := Other_Error_Code 0\<rparr>) ctx s'
        in (if status then 0 else restore_error (wp_error_code wp'), s'')))"
proof -
  let ?data = "wp_application_data wp"
  have tg: "target_ok tg" and nm: "names_laws st"
    using assms(1) by (auto simp: storage_ok_def intro: settings_laws_names)
  have "bacnet_storage_set tg st (store_key lib wp) ?data s = (0, s')"
    using assms(8,9) by (auto simp: bacnet_settings_write_property_store_def prod_eq_iff case_prod_beta)
  then have stored: "store_of tg view s' (store_key lib wp) = Some ?data"
    using set_effect(2) [OF assms(1,2,5), of "store_key lib wp"] by (simp add: store_effect_def)
  have pad: "overlay ?data (replicate (max_val_len tg) 0) = ?data @ replicate (max_val_len tg - length ?data) 0"
    using assms(7) by (simp add: overlay_def)
  have handled: "bacnet_storage_handler_set tg st rst (Some (key_text tg (store_key lib wp)))
         (length ?data) (value_reader ?data) s' =
      bacnet_storage_restore_handler lib (Some f) (store_key lib wp)
        (?data @ replicate (max_val_len tg - length ?data) 0) (length ?data) ctx s'"
    using assms(5,7,10,13)
    by (simp add: handler_set_path [OF nm tg assms(3)] value_reader_def bacnet_storage_restore_def pad)
  have prio: "ucast (ucast (wp_priority wp) :: u32) = wp_priority wp" by (rule ucast_u8_u32)
  have plain: "wp\<lparr>wp_priority := wp_priority wp\<rparr> = wp" by simp
  show ?thesis
    unfolding handled using stored assms(4-6)
    by (auto simp: settings_restore_request assms(11,12) store_index_def prio Let_def)
qed

text \<open>
  C19. A value that was set is got back: after a successful set, getting the same key yields the
  length of the encoding and the value, whatever the caller's variable held.
\<close>

theorem settings_value_roundtrip:
  assumes "storage_ok tg st good view" and "storage_inv tg good view s"
    and "bacapp_laws lib okv" and "okv v"
    and "bacnet_settings_value_set tg st lib key v s = (True, s')"
  shows "bacnet_settings_value_get tg st lib key v0 s' =
    (fst (bacapp_encode_application_data lib v), v, s')"
  using value_get_after_set [OF assms, of v0] bacapp_encode [OF assms(3,4)] by simp

text \<open>
  The getters of numbers return what the setters of the same type stored, not the default.
\<close>

lemma settings_number_roundtrip:
  assumes "storage_ok tg st good view" and "storage_inv tg good view s" and "bacapp_laws lib okv"
    and "okv \<lparr>context_specific = False, tag = BACNET_APPLICATION_TAG_REAL, content = Real r\<rparr>"
    and "okv \<lparr>context_specific = False, tag = BACNET_APPLICATION_TAG_UNSIGNED_INT, content = Unsigned_Int n\<rparr>"
    and "okv \<lparr>context_specific = False, tag = BACNET_APPLICATION_TAG_SIGNED_INT, content = Signed_Int i\<rparr>"
    and "bacnet_settings_real_set tg st lib key r s = (True, s1)"
    and "bacnet_settings_unsigned_set tg st lib key n s = (True, s2)"
    and "bacnet_settings_signed_set tg st lib key i s = (True, s3)"
  shows "fst (snd (bacnet_settings_real_get tg st lib key dr s1)) = r \<and>
         fst (snd (bacnet_settings_unsigned_get tg st lib key dn oldn s2)) = n \<and>
         fst (snd (bacnet_settings_signed_get tg st lib key di oldi s3)) = i"
proof -
  let ?vr = "\<lparr>context_specific = False, tag = BACNET_APPLICATION_TAG_REAL, content = Real r\<rparr>"
  let ?vn = "\<lparr>context_specific = False, tag = BACNET_APPLICATION_TAG_UNSIGNED_INT, content = Unsigned_Int n\<rparr>"
  let ?vi = "\<lparr>context_specific = False, tag = BACNET_APPLICATION_TAG_SIGNED_INT, content = Signed_Int i\<rparr>"
  have sets: "bacnet_settings_value_set tg st lib key ?vr s = (True, s1)"
    "bacnet_settings_value_set tg st lib key ?vn s = (True, s2)"
    "bacnet_settings_value_set tg st lib key ?vi s = (True, s3)"
    using assms(7-9)
    by (simp_all add: bacnet_settings_real_set_def bacnet_settings_unsigned_set_def
        bacnet_settings_signed_set_def zero_value_def)
  have "fst (snd (bacnet_settings_real_get tg st lib key dr s1)) = r"
    using value_get_after_set [OF assms(1-4) sets(1)] bacapp_real [OF assms(3)]
    by (simp add: bacnet_settings_real_get_def)
  moreover have "fst (snd (bacnet_settings_unsigned_get tg st lib key dn oldn s2)) = n"
    by (rule fetched_after_set [OF assms(1-3,5) sets(2)])
      (simp add: bacnet_settings_unsigned_get_def bacapp_decode_unsigned [OF assms(3,5)]
        bacapp_nonempty [OF assms(3,5)])
  moreover have "fst (snd (bacnet_settings_signed_get tg st lib key di oldi s3)) = i"
    by (rule fetched_after_set [OF assms(1-3,6) sets(3)])
      (simp add: bacnet_settings_signed_get_def bacapp_decode_signed [OF assms(3,6)]
        bacapp_nonempty [OF assms(3,6)])
  ultimately show ?thesis by blast
qed

text \<open>
  Where nothing is stored every getter reports \<open>-ENOENT\<close> and yields its default; the getter of
  strings yields the default text, cut and padded to the buffer, and returns the length of the
  whole text.
\<close>

lemma settings_defaults:
  assumes "storage_ok tg st good view" and "storage_inv tg good view s"
    and "store_of tg view s key = None" and "length buf = n"
  shows "bacnet_settings_real_get tg st lib key dr s = (- ENOENT, dr, s) \<and>
         bacnet_settings_unsigned_get tg st lib key dn oldn s = (- ENOENT, dn, s) \<and>
         bacnet_settings_signed_get tg st lib key di oldi s = (- ENOENT, di, s) \<and>
         bacnet_settings_characterstring_get tg st lib key ds olds s =
           (- ENOENT, snd (characterstring_init_ansi lib ds), s) \<and>
         bacnet_settings_string_get tg st key None buf n s = (- ENOENT, buf, s) \<and>
         bacnet_settings_string_get tg st key (Some d) buf n s =
           (int (length d), bytes_of (strncpy d n), s)"
  using assms(4)
  by (simp add: bacnet_settings_real_get_def bacnet_settings_value_get_def zero_value_def
      bacnet_settings_unsigned_get_def bacnet_settings_signed_get_def
      bacnet_settings_characterstring_get_def bacnet_settings_string_get_def
      get_missing [OF assms(1-3)] overlay_def)

text \<open>
  A string that was set is got back with its terminating NUL when the buffer has room for it,
  and otherwise cut to the buffer, without a NUL.
\<close>

lemma settings_string_roundtrip:
  assumes "storage_ok tg st good view" and "storage_inv tg good view s"
    and "bacnet_settings_string_set tg st key (Some str) s = (True, s')" and "length buf = n" and "0 < n"
  shows "bacnet_settings_string_get tg st key default_value buf n s' =
    (int (min n (length str + 1)), overlay (take n (bytes_of str @ [0])) buf, s')"
proof -
  have stored: "bacnet_storage_set tg st key (bytes_of str @ [0]) s = (0, s')"
    using assms(3) by (simp add: bacnet_settings_string_set_def prod_eq_iff case_prod_beta)
  have "store_of tg view s' key = Some (bytes_of str @ [0])" "storage_inv tg good view s'"
    using set_effect [OF assms(1,2), of "bytes_of str @ [0]" key] stored
    by (simp_all add: store_effect_def)
  then have "bacnet_storage_get tg st key buf n s' =
      (int (min n (length str + 1)), overlay (take n (bytes_of str @ [0])) buf, s')"
    by (simp add: get_eq [OF assms(1)] fetched_value_def)
  then show ?thesis
    using assms(5) by (cases n) (simp_all add: bacnet_settings_string_get_def)
qed

text \<open>
  A character string that can be initialised is never stored: the setter returns true and the
  storage keeps what it had.
\<close>

lemma characterstring_set_stores_nothing:
  assumes "fst (characterstring_init_ansi lib cstring)"
  shows "bacnet_settings_characterstring_ansi_set tg st lib key cstring s = (True, s)"
  using assms by (simp add: bacnet_settings_characterstring_ansi_set_def case_prod_beta)

text \<open>
  C39. Restoring a request gives 0 exactly when the callback took it, and a negative error number
  otherwise; without data, with no callback, and with more data than a request can hold, the
  callback is not called.
\<close>

theorem settings_restore_outcome:
  "(data = None \<or> n = 0 \<or> max_apdu lib < n \<or> cb = None \<longrightarrow>
      bacnet_settings_restore lib ty inst prop idx data n cb ctx s = (- EINVAL, s)) \<and>
   (fst (bacnet_settings_restore lib ty inst prop idx (Some bytes) n (Some f) ctx s) = 0 \<longleftrightarrow>
      0 < n \<and> n \<le> max_apdu lib \<and>
      fst (f \<lparr>wp_object_type = ucast ty, wp_object_instance = inst, wp_object_property = prop,
              wp_array_index = (if property_list_commandable_member lib ty prop
                                then BACNET_ARRAY_ALL else idx),
              wp_application_data = take n bytes,
              wp_priority = (if property_list_commandable_member lib ty prop
                             then ucast idx else BACNET_MAX_PRIORITY),
              wp_error_code = Other_Error_Code 0\<rparr> ctx s)) \<and>
   fst (bacnet_settings_restore lib ty inst prop idx data n cb ctx s) \<le> 0"
proof -
  have neg: "restore_error e < 0" for e by (cases e) simp_all
  then have nz: "restore_error e \<noteq> 0" "restore_error e \<le> 0" for e
    by (simp_all add: less_imp_le less_imp_neq)
  show ?thesis
    by (auto simp: bacnet_settings_restore_def nz Let_def case_prod_beta split: option.splits)
qed

text \<open>
  A decimal number is parsed into the value by its tag: the last 32 bits of the number for
  enumerated and unsigned values, the number itself for signed ones; the tag is kept.
\<close>

lemma value_parse_decimal:
  assumes "n < ulong_max lc"
  shows "(tag v = BACNET_APPLICATION_TAG_UNSIGNED_INT \<longrightarrow>
            bacnet_settings_value_parse lc lib (Some (dec n)) ty prop v =
              (True, v\<lparr>content := Unsigned_Int (of_nat (n mod 2 ^ 32))\<rparr>)) \<and>
         (tag v = BACNET_APPLICATION_TAG_ENUMERATED \<longrightarrow>
            bacnet_settings_value_parse lc lib (Some (dec n)) ty prop v =
              (True, v\<lparr>content := Enumerated (of_nat n)\<rparr>)) \<and>
         (tag v = BACNET_APPLICATION_TAG_SIGNED_INT \<longrightarrow> n < ulong_max lc div 2 \<longrightarrow>
            bacnet_settings_value_parse lc lib (Some (dec n)) ty prop v =
              (True, v\<lparr>content := Signed_Int (of_nat n)\<rparr>))"
proof -
  have num: "bacnet_storage_strtoul lc (dec n) = Some n"
    using assms by (simp add: parse_argument_dec)
  have signed: "bacnet_storage_strtol lc (dec n) = Some (int n)" if "n < ulong_max lc div 2"
    using that by (simp add: bacnet_storage_strtol_def strtol_def strto_subject_dec Let_def
        long_max_def long_min_def min_def max_def)
  obtain c cs where "dec n = c # cs" "c_isdigit c" by (rule dec_cases)
  then have digits: "\<not> c_isalpha (hd (dec n))" by (auto simp: char_class_defs)
  have low: "(ucast (of_nat n :: u32) :: u64) = of_nat (n mod 2 ^ 32)"
    by (simp add: word_unat_eq_iff unsigned_ucast_eq unat_of_nat take_bit_eq_mod)
  show ?thesis
    using num signed
    by (auto simp: bacnet_settings_value_parse_def digits parse_by_tag_def tag_defs low)
qed

text \<open>
  An object identifier is never parsed: whatever the text, with the tag of an object
  identifier the result is false unless a word was recognised.
\<close>

lemma value_parse_object_id_fails:
  assumes "tag v = BACNET_APPLICATION_TAG_OBJECT_ID" and "str \<noteq> []" and "\<not> c_isalpha (hd str)"
  shows "\<not> fst (bacnet_settings_value_parse lc lib (Some str) ty prop v)"
  using assms
  by (auto simp: bacnet_settings_value_parse_def parse_by_tag_def tag_defs split: option.splits)

text \<open>
  Parsing an object reference: success means an object type below 65535 and an instance the
  protocol allows; a failure is \<open>-EINVAL\<close>; the buffer overflow needs a property name of 80
  characters or more; and a numeric property with an index in brackets gives both numbers.
\<close>

lemma object_parse_outcome:
  assumes "prop < 4294967296" and "idx < 4294967296" and "libc_ok (clib tg)"
  shows "(case bacnet_settings_object_parse tg lib argv out of
            None \<Rightarrow> 80 \<le> length (argv ! 3)
          | Some (rc, obj) \<Rightarrow>
              (if rc = 0 then unat (object_type obj) < UINT16_MAX \<and>
                              unat (object_instance obj) \<le> BACNET_MAX_INSTANCE
               else rc = - EINVAL)) \<and>
         (bactext_object_type_strtol lib ty = Some t \<longrightarrow> unat t < UINT16_MAX \<longrightarrow>
          inst \<le> BACNET_MAX_INSTANCE \<longrightarrow>
          bacnet_settings_object_parse tg lib
            [cmd, ty, dec inst, dec prop @ CHR ''['' # dec idx @ '']''] out =
          Some (0, \<lparr>object_type = ucast t, object_instance = of_nat inst,
                     property_id = of_nat prop, array_index = of_nat idx\<rparr>))"
  using object_parse_result [of tg lib argv out] object_parse_overflow [of tg lib argv out]
    object_parse_indexed [OF assms, of lib ty t inst cmd out]
  by (auto split: option.splits)

section \<open>Witnesses\<close>

text \<open>
  A library whose encoding is the tag and one byte of the content. It obeys the laws on the
  numbers below 256; only command objects of type 1 have a commandable present value.
\<close>

definition small_content :: "u8 \<Rightarrow> u8 \<Rightarrow> unit app_union" where
  "small_content t b =
     (if t = BACNET_APPLICATION_TAG_REAL then Real (ucast b)
      else if t = BACNET_APPLICATION_TAG_UNSIGNED_INT then Unsigned_Int (ucast b)
      else Signed_Int (ucast b))"

definition content_byte :: "unit app_union \<Rightarrow> byte" where
  "content_byte c =
     (case c of Real r \<Rightarrow> ucast r | Unsigned_Int n \<Rightarrow> ucast n | Signed_Int i \<Rightarrow> ucast i | _ \<Rightarrow> 0)"

definition small_bacapp :: "unit bacapp" where
  "small_bacapp =
     \<lparr>max_apdu = 50,
      bacapp_encode_application_data = (\<lambda>v. (2, [tag v, content_byte (content v)])),
      bacapp_decode_application_data =
        (\<lambda>buf n v0. (2, \<lparr>context_specific = False, tag = buf ! 0,
                            content = small_content (buf ! 0) (buf ! 1)\<rparr>)),
      bacnet_unsigned_application_decode = (\<lambda>buf n v0. (2, ucast (buf ! 1))),
      bacnet_signed_application_decode = (\<lambda>buf n v0. (2, ucast (buf ! 1))),
      bacnet_character_string_application_decode = (\<lambda>buf n v0. (2, ())),
      union_real = (\<lambda>c. case c of Real r \<Rightarrow> r | _ \<Rightarrow> 0),
      characterstring_init_ansi = (\<lambda>s. (s \<noteq> None, ())),
      bitstring_init_ascii = (\<lambda>s. (True, ())), octetstring_init_ascii_hex = (\<lambda>s. (True, ())),
      datetime_date_init_ascii = (\<lambda>s. (True, ())), datetime_time_init_ascii = (\<lambda>s. (True, ())),
      bacnet_stricmp = (\<lambda>a b. if a = b then 0 else 1),
      bacnet_strnicmp = (\<lambda>a b n. if take n a = take n b then 0 else 1),
      bactext_object_property_strtoul = (\<lambda>ty prop s. None),
      bactext_object_type_strtol = (\<lambda>s. if s = ''analog-output'' then Some 1 else None),
      bactext_property_strtol = (\<lambda>s. None),
      property_list_bacnet_array_member = (\<lambda>ty prop. prop = 87),
      property_list_commandable_member = (\<lambda>ty prop. ty = 1 \<and> prop = PROP_PRESENT_VALUE),
      c_strtof = (\<lambda>s. (0, 0))\<rparr>"

definition small_value :: "unit app_value \<Rightarrow> bool" where
  "small_value v \<longleftrightarrow> \<not> context_specific v \<and>
     tag v \<in> {BACNET_APPLICATION_TAG_REAL, BACNET_APPLICATION_TAG_UNSIGNED_INT,
               BACNET_APPLICATION_TAG_SIGNED_INT} \<and>
     content v = small_content (tag v) (content_byte (content v))"

lemma small_bacapp_laws: "bacapp_laws small_bacapp small_value"
proof -
  have "(\<lparr>context_specific = False, tag = tag v, content = content v\<rparr> :: unit app_value) = v"
    if "\<not> context_specific v" for v using that by (cases v) simp
  then show ?thesis
    by (auto simp: bacapp_laws_def small_bacapp_def small_value_def small_content_def tag_defs
        content_byte_def)
qed

definition sample_real :: "unit app_value" where
  "sample_real = \<lparr>context_specific = False, tag = BACNET_APPLICATION_TAG_REAL, content = Real 7\<rparr>"

lemma sample_values:
  "small_value sample_real"
  "small_value \<lparr>context_specific = False, tag = BACNET_APPLICATION_TAG_REAL, content = Real 7\<rparr>"
  "small_value \<lparr>context_specific = False, tag = BACNET_APPLICATION_TAG_UNSIGNED_INT, content = Unsigned_Int 8\<rparr>"
  "small_value \<lparr>context_specific = False, tag = BACNET_APPLICATION_TAG_SIGNED_INT, content = Signed_Int 9\<rparr>"
  by (simp_all add: small_value_def small_content_def content_byte_def tag_defs sample_real_def)

lemma small_value_set:
  "small_value v \<Longrightarrow>
   bacnet_settings_value_set small_target list_storage small_bacapp key v s =
     (True, snd (bacnet_storage_set small_target list_storage key (encoding small_bacapp v) s))"
  by (simp add: value_set_eq [OF small_bacapp_laws] list_storage_set)
    (simp add: encoding_def small_bacapp_def small_target_def)

definition command_request :: write_property_data where
  "command_request =
     \<lparr>wp_object_type = 1, wp_object_instance = 3, wp_object_property = PROP_PRESENT_VALUE,
      wp_array_index = BACNET_ARRAY_ALL, wp_application_data = [68, 7], wp_priority = 8,
      wp_error_code = ERROR_CODE_DUPLICATE_NAME\<rparr>"

lemma command_request_key:
  "store_key small_bacapp command_request =
     \<lparr>object_type = 1, object_instance = 3, property_id = 85, array_index = 8\<rparr>"
  by (simp add: store_key_def key_init_key store_index_def command_request_def small_bacapp_def
      PROP_PRESENT_VALUE_def)

lemma command_request_decodable: "key_decodable small_target (store_key small_bacapp command_request)"
  by (simp add: command_request_key key_decodable_def field_decodable_def small_target_def
      small_libc_def dec.simps)

definition priority_restore :: "(nat, entries) restore" where
  "priority_restore =
     \<lparr>BACnet_Storage_Restore_Callback = Some (bacnet_storage_restore_handler small_bacapp
        (Some (\<lambda>wp ctx s. (wp_priority wp = 8, wp, [])))),
      BACnet_Storage_Restore_Context = 0\<rparr>"

lemma command_request_fields:
  "wp_application_data command_request = [68, 7]" "wp_object_type command_request = 1"
  "wp_object_property command_request = PROP_PRESENT_VALUE" "wp_priority command_request = 8"
  "max_apdu small_bacapp = 50" "max_val_len small_target = 256"
  "property_list_commandable_member small_bacapp 1 PROP_PRESENT_VALUE"
  "\<not> property_list_bacnet_array_member small_bacapp 1 PROP_PRESENT_VALUE"
  by (simp_all add: command_request_def small_bacapp_def small_target_def PROP_PRESENT_VALUE_def)

lemma write_property_store_restore_witness:
  "bacnet_storage_handler_set small_target list_storage priority_restore
     (Some (key_text small_target (store_key small_bacapp command_request))) 2 (value_reader [68, 7])
     (snd (bacnet_storage_set small_target list_storage (store_key small_bacapp command_request)
        [68, 7] one_entry)) = (0, [])"
  using write_property_store_restore [OF list_storage_ok one_entry_inv command_request_decodable,
      where rst = priority_restore and f = "\<lambda>wp ctx s. (wp_priority wp = 8, wp, [])"
        and cmd = True and arr = False and ctx = 0]
  by (simp add: command_request_fields priority_restore_def bacnet_settings_write_property_store_def
      list_storage_set case_prod_beta numeral_2_eq_2)

lemma settings_value_roundtrip_witness:
  "bacnet_settings_value_get small_target list_storage small_bacapp zero_key zero_value
     (snd (bacnet_storage_set small_target list_storage zero_key [4, 7] one_entry)) =
   (2, sample_real, snd (bacnet_storage_set small_target list_storage zero_key [4, 7] one_entry))"
  using settings_value_roundtrip [OF list_storage_ok one_entry_inv small_bacapp_laws sample_values(1)
      small_value_set [OF sample_values(1)], of zero_key zero_value]
  by (simp add: encoding_def small_bacapp_def sample_real_def content_byte_def tag_defs)

lemma settings_number_roundtrip_witness:
  "fst (snd (bacnet_settings_real_get small_target list_storage small_bacapp zero_key 1
     (snd (bacnet_settings_real_set small_target list_storage small_bacapp zero_key 7 one_entry)))) = 7"
  using settings_number_roundtrip [OF list_storage_ok one_entry_inv small_bacapp_laws sample_values(2-4),
      of zero_key]
  by (simp add: bacnet_settings_real_set_def bacnet_settings_unsigned_set_def
      bacnet_settings_signed_set_def zero_value_def small_value_set sample_values)

lemma settings_defaults_witness:
  "bacnet_settings_string_get small_target list_storage zero_key (Some ''ab'') [1, 1, 1] 3 one_entry =
     (2, [97, 98, 0], one_entry)"
  using settings_defaults [OF list_storage_ok one_entry_inv, where key = zero_key and n = 3
      and buf = "[1, 1, 1]" and lib = small_bacapp and d = "''ab''"]
  by (simp add: store_of_def one_entry_def key_text_inject sample_key_def zero_key_def
      strncpy_def bytes_of_def)

lemma settings_string_roundtrip_witness:
  "bacnet_settings_string_get small_target list_storage zero_key None [1, 1, 1, 1] 4
     (snd (bacnet_storage_set small_target list_storage zero_key [97, 98, 0] one_entry)) =
   (3, [97, 98, 0, 1], snd (bacnet_storage_set small_target list_storage zero_key [97, 98, 0] one_entry))"
  using settings_string_roundtrip [OF list_storage_ok one_entry_inv, of zero_key "''ab''" _ "[1, 1, 1, 1]" 4 None]
  by (simp add: bacnet_settings_string_set_def case_prod_beta list_storage_set bytes_of_def overlay_def)

lemma characterstring_set_stores_nothing_witness:
  "bacnet_settings_characterstring_ansi_set small_target list_storage small_bacapp zero_key
     (Some ''ab'') one_entry = (True, one_entry)"
  by (rule characterstring_set_stores_nothing) (simp add: small_bacapp_def)

lemma settings_restore_outcome_witness:
  "bacnet_settings_restore small_bacapp 1 3 85 8 (Some []) 0 (Some (\<lambda>wp ctx s. (True, wp, s + 1))) () 0 =
     (- EINVAL, 0 :: nat)"
  using settings_restore_outcome [of "Some []" 0 small_bacapp "Some (\<lambda>wp ctx s. (True, wp, s + 1))"
      1 3 85 8 "()" "0 :: nat"] by simp

lemma value_parse_decimal_witness:
  "bacnet_settings_value_parse small_libc small_bacapp (Some (dec 17)) 1 85
     (sample_real\<lparr>tag := BACNET_APPLICATION_TAG_SIGNED_INT\<rparr>) =
   (True, \<lparr>context_specific = False, tag = BACNET_APPLICATION_TAG_SIGNED_INT, content = Signed_Int 17\<rparr>)"
  using value_parse_decimal [of 17 small_libc "sample_real\<lparr>tag := BACNET_APPLICATION_TAG_SIGNED_INT\<rparr>"
      small_bacapp 1 85]
  by (simp add: small_libc_def sample_real_def)

lemma value_parse_object_id_fails_witness:
  "\<not> fst (bacnet_settings_value_parse small_libc small_bacapp (Some ''8:1'') 1 85
     (sample_real\<lparr>tag := BACNET_APPLICATION_TAG_OBJECT_ID\<rparr>))"
  by (rule value_parse_object_id_fails) (simp_all add: char_class_defs)

lemma object_parse_outcome_witness:
  "bacnet_settings_object_parse small_target small_bacapp
     [''get'', ''analog-output'', dec 3, dec 85 @ CHR ''['' # dec 8 @ '']''] zero_key =
   Some (0, \<lparr>object_type = 1, object_instance = 3, property_id = 85, array_index = 8\<rparr>)"
  using object_parse_outcome [of 85 8 small_target, where lib = small_bacapp and
      ty = "''analog-output''" and t = 1 and inst = 3 and cmd = "''get''" and out = zero_key]
  by (simp add: small_target_def small_libc_def libc_ok_def UINT32_MAX_def small_bacapp_def
      UINT16_MAX_def BACNET_MAX_INSTANCE_def)

end
