(* ===== verification/Task_Lock.thy ===== *)
theory Task_Lock
  imports Libc
begin

text \<open>
  The task lock (\<open>subsys/bacnet_osif/bacnet_lock.c\<close>) and the wrapper that every shell command is
  registered through (\<open>include/bacnet_shell/bacnet_shell.h\<close>). The lock is a recursive kernel mutex;
  the model keeps how often the running task holds it. The kernel's mutex is not part of the
  sources: taking it while it is free waits until the other tasks are done with the shared data,
  and what they did to it meanwhile is the argument \<open>others\<close>.

  A console is the state a shell command runs in: the depth of the lock, everything that happened
  so far with the depth at which it happened, and the data of the stack that the lock protects.
\<close>

datatype event =
    Print string    \<comment> \<open>a line on the shell, \<open>shell_print\<close>\<close>
  | Fprint string   \<comment> \<open>text on the shell, \<open>shell_fprintf\<close>\<close>
  | Error string    \<comment> \<open>a line on the shell, \<open>shell_error\<close>\<close>
  | Warn string     \<comment> \<open>a line on the shell, \<open>shell_warn\<close>\<close>
  | Access          \<comment> \<open>a use of the protected data\<close>
  | Alloc           \<comment> \<open>a successful \<open>k_malloc\<close>\<close>
  | Free            \<comment> \<open>a \<open>k_free\<close> of memory\<close>

record 's console =
  lock_depth :: nat
  trace :: "(nat \<times> event) list"
  world :: 's

definition emit :: "event \<Rightarrow> 's console \<Rightarrow> 's console" where
  "emit ev c = c\<lparr>trace := trace c @ [(lock_depth c, ev)]\<rparr>"

definition shell_print :: "string \<Rightarrow> 's console \<Rightarrow> 's console" where
  "shell_print txt = emit (Print txt)"

definition shell_error :: "string \<Rightarrow> 's console \<Rightarrow> 's console" where
  "shell_error txt = emit (Error txt)"

definition shell_warn :: "string \<Rightarrow> 's console \<Rightarrow> 's console" where
  "shell_warn txt = emit (Warn txt)"

definition shell_fprintf :: "string \<Rightarrow> 's console \<Rightarrow> 's console" where
  "shell_fprintf txt = emit (Fprint txt)"

text \<open>Running an operation on the protected data.\<close>

definition access :: "('s \<Rightarrow> 'r \<times> 's) \<Rightarrow> 's console \<Rightarrow> 'r \<times> 's console" where
  "access f c =
     (let (r, w) = f (world c)
      in (r, c\<lparr>trace := trace c @ [(lock_depth c, Access)], world := w\<rparr>))"

text \<open>A use of the protected data that does not change it.\<close>

definition query :: "('s \<Rightarrow> 'r) \<Rightarrow> 's console \<Rightarrow> 'r \<times> 's console" where
  "query f = access (\<lambda>w. (f w, w))"

lemmas console_defs =
  emit_def shell_print_def shell_error_def shell_warn_def shell_fprintf_def access_def

section \<open>The lock\<close>

definition bacnet_lock :: "('s \<Rightarrow> 's) \<Rightarrow> 's console \<Rightarrow> 's console" where
  "bacnet_lock others c =
     c\<lparr>lock_depth := lock_depth c + 1,
       world := (if lock_depth c = 0 then others (world c) else world c)\<rparr>"

definition bacnet_unlock :: "'s console \<Rightarrow> 's console" where
  "bacnet_unlock c = c\<lparr>lock_depth := lock_depth c - 1\<rparr>"

text \<open>A command handler: from the arguments, its result and the console afterwards, or
  \<^const>\<open>None\<close> where it dereferences NULL or leaves a buffer.\<close>

type_synonym 's shell_handler = "string list \<Rightarrow> 's console \<Rightarrow> (int \<times> 's console) option"

text \<open>\<open>BACNET_SHELL_LOCK_HANDLER\<close>.\<close>

definition BACNET_SHELL_LOCK_HANDLER :: "('s \<Rightarrow> 's) \<Rightarrow> 's shell_handler \<Rightarrow> 's shell_handler" where
  "BACNET_SHELL_LOCK_HANDLER others handler argv c =
     (case handler argv (bacnet_lock others c) of
        None \<Rightarrow> None
      | Some (status, c') \<Rightarrow> Some (status, bacnet_unlock c'))"

section \<open>The contract of handlers\<close>

text \<open>
  \<open>extends d c c'\<close>: the console \<open>c'\<close> holds the lock as often as \<open>c\<close>, and everything that happened
  in between happened with the lock held at least \<open>d\<close> times.
\<close>

definition extends :: "nat \<Rightarrow> 's console \<Rightarrow> 's console \<Rightarrow> bool" where
  "extends d c c' \<longleftrightarrow> lock_depth c' = lock_depth c \<and>
     (\<exists>evs. trace c' = trace c @ evs \<and> (\<forall>(k, ev) \<in> set evs. d \<le> k))"

lemma extends_refl [simp]: "extends d c c"
  by (simp add: extends_def)

lemma extends_trans: "extends d c c' \<Longrightarrow> extends d c' c'' \<Longrightarrow> extends d c c''"
  unfolding extends_def by fastforce

lemma extends_weaken: "extends d c c' \<Longrightarrow> d' \<le> d \<Longrightarrow> extends d' c c'"
  unfolding extends_def by fastforce

lemma extends_emit [intro]: "extends d c c' \<Longrightarrow> d \<le> lock_depth c \<Longrightarrow> extends d c (emit ev c')"
  by (auto simp: extends_def emit_def)

lemma extends_access [intro]:
  "extends d c c' \<Longrightarrow> d \<le> lock_depth c \<Longrightarrow> extends d c (snd (access f c'))"
  by (auto simp: extends_def access_def case_prod_beta)

lemma emit_fields [simp]:
  "lock_depth (emit ev c) = lock_depth c" "world (emit ev c) = world c"
  "trace (emit ev c) = trace c @ [(lock_depth c, ev)]"
  by (simp_all add: emit_def)

lemma access_fields [simp]:
  "fst (access f c) = fst (f (world c))"
  "lock_depth (snd (access f c)) = lock_depth c"
  "world (snd (access f c)) = snd (f (world c))"
  "trace (snd (access f c)) = trace c @ [(lock_depth c, Access)]"
  by (simp_all add: access_def case_prod_beta)

lemma extends_steps [simp]:
  "extends d c c' \<Longrightarrow> d \<le> lock_depth c \<Longrightarrow> extends d c (shell_print txt c')"
  "extends d c c' \<Longrightarrow> d \<le> lock_depth c \<Longrightarrow> extends d c (shell_error txt c')"
  "extends d c c' \<Longrightarrow> d \<le> lock_depth c \<Longrightarrow> extends d c (shell_warn txt c')"
  "extends d c c' \<Longrightarrow> d \<le> lock_depth c \<Longrightarrow> extends d c (shell_fprintf txt c')"
  "extends d c c' \<Longrightarrow> d \<le> lock_depth c \<Longrightarrow> extends d c (snd (access f c'))"
  by (auto simp: shell_print_def shell_error_def shell_warn_def shell_fprintf_def)

lemma extends_then:
  "extends d c c' \<Longrightarrow> d \<le> lock_depth c \<Longrightarrow> extends (lock_depth c') c' c'' \<Longrightarrow> extends d c c''"
  by (rule extends_trans, assumption, rule extends_weaken, assumption) (simp add: extends_def)

lemma query_fields [simp]:
  "fst (query f c) = f (world c)" "lock_depth (snd (query f c)) = lock_depth c"
  "world (snd (query f c)) = world c" "trace (snd (query f c)) = trace c @ [(lock_depth c, Access)]"
  by (simp_all add: query_def)

lemma extends_query [simp]:
  "extends d c c' \<Longrightarrow> d \<le> lock_depth c \<Longrightarrow> extends d c (snd (query f c'))"
  by (simp add: query_def)

lemma extends_fold:
  "(\<And>x c'. extends d c c' \<Longrightarrow> extends d c (f x c')) \<Longrightarrow> extends d c c' \<Longrightarrow> extends d c (fold f xs c')"
  by (induction xs arbitrary: c') auto

text \<open>The lines a stretch of the trace prints.\<close>

definition printed :: "(nat \<times> event) list \<Rightarrow> string list" where
  "printed evs = concat (map (\<lambda>(k, ev). case ev of Print s \<Rightarrow> [s] | _ \<Rightarrow> []) evs)"

lemma printed_append [simp]: "printed (xs @ ys) = printed xs @ printed ys"
  by (simp add: printed_def)

lemma printed_Nil [simp]: "printed [] = []"
  by (simp add: printed_def)

lemma printed_single [simp]:
  "printed [(k, ev)] = (case ev of Print s \<Rightarrow> [s] | _ \<Rightarrow> [])"
  by (simp add: printed_def)

lemma printed_Cons [simp]:
  "printed ((k, ev) # evs) = (case ev of Print s \<Rightarrow> [s] | _ \<Rightarrow> []) @ printed evs"
  by (simp add: printed_def)

lemma printed_steps [simp]:
  "printed (trace (shell_print s c)) = printed (trace c) @ [s]"
  "printed (trace (shell_fprintf s c)) = printed (trace c)"
  "printed (trace (snd (query f c))) = printed (trace c)"
  "printed (trace (emit Alloc c)) = printed (trace c)"
  "printed (trace (emit Free c)) = printed (trace c)"
  "printed (trace (bacnet_lock others c)) = printed (trace c)"
  "printed (trace (bacnet_unlock c)) = printed (trace c)"
  by (simp_all add: printed_def shell_print_def shell_fprintf_def query_def bacnet_lock_def bacnet_unlock_def)

lemmas handler_splits = option.splits if_splits

text \<open>
  A handler that leaves the lock alone, or gives back what it takes: whatever it does happens at
  the depth it was called with or deeper.
\<close>

locale shell_command =
  fixes handler :: "'e \<Rightarrow> 's shell_handler"
  assumes handler_extends:
    "handler e argv c = Some (rc, c') \<Longrightarrow> extends (lock_depth c) c c'"
begin

lemma locked_extends:
  assumes "BACNET_SHELL_LOCK_HANDLER others (handler e) argv c = Some (rc, c')"
  shows "extends (lock_depth c + 1) c c'"
proof -
  obtain c1 where run: "handler e argv (bacnet_lock others c) = Some (rc, c1)"
    and c': "c' = bacnet_unlock c1"
    using assms by (auto simp: BACNET_SHELL_LOCK_HANDLER_def split: option.splits)
  have "extends (lock_depth c + 1) (bacnet_lock others c) c1"
    using handler_extends [OF run] by (simp add: bacnet_lock_def)
  then show ?thesis by (auto simp: extends_def c' bacnet_lock_def bacnet_unlock_def)
qed

lemma locked_result:
  "BACNET_SHELL_LOCK_HANDLER others (handler e) argv c = None \<longleftrightarrow>
   handler e argv (bacnet_lock others c) = None"
  by (auto simp: BACNET_SHELL_LOCK_HANDLER_def split: option.splits)

end

end
