(* ===== verification/Storage_Shell.thy ===== *)
theory Storage_Shell
  imports Storage Task_Lock
begin

text \<open>
  The shell commands of the storage (\<open>subsys/bacnet_settings/bacnet_storage_shell.c\<close>): get or set a
  string, delete, list and erase. They run in a console whose protected data is the world of the
  settings subsystem. The list command prints from within the load, so there the subsystem is one
  whose world is the console itself.
\<close>

text \<open>\<open>%02X\<close>.\<close>

definition hex_digit_upper :: "nat \<Rightarrow> char" where
  "hex_digit_upper d = ''0123456789ABCDEF'' ! d"

definition hex2_upper :: "byte \<Rightarrow> string" where
  "hex2_upper b = [hex_digit_upper (unat b div 16), hex_digit_upper (unat b mod 16)]"

text \<open>\<open>%s\<close> of a buffer: the text up to its NUL; without one the print leaves the buffer.\<close>

definition buffer_text :: "byte list \<Rightarrow> string option" where
  "buffer_text buf =
     (if 0 \<in> set buf then Some (text_of (takeWhile (\<lambda>b. b \<noteq> 0) buf)) else None)"

definition key_numbers :: "string \<Rightarrow> storage_key \<Rightarrow> string" where
  "key_numbers base key =
     base @ ''/'' @ dec (unat (object_type key)) @ ''/'' @ dec (unat (object_instance key)) @
     ''/'' @ dec (unat (property_id key))"

text \<open>The command decodes the path again and prints the numbers, as a test.\<close>

definition echo_key ::
    "target \<Rightarrow> ('z) names_scheme \<Rightarrow> string \<Rightarrow> 's console \<Rightarrow> 's console" where
  "echo_key tg nm key_name c =
     (let (drc, test_key) = bacnet_storage_key_decode tg nm (Some key_name) zero_key
      in if drc = 0
         then shell_print (''key='' @ key_numbers (base_name tg) test_key @ ''/'' @
                dec (unat (array_index test_key))) c
         else c)"

lemma echo_key_fields [simp]:
  "world (echo_key tg nm key_name c) = world c"
  "lock_depth (echo_key tg nm key_name c) = lock_depth c"
  "extends (lock_depth c) c (echo_key tg nm key_name c)"
  by (simp_all add: echo_key_def case_prod_beta shell_print_def extends_emit)

text \<open>Reading a value into a buffer of the command: the result and the buffer.\<close>

definition fetch_buffer ::
    "target \<Rightarrow> (load_param, 's, 'z) settings_scheme \<Rightarrow> storage_key \<Rightarrow> 's \<Rightarrow> (int \<times> byte list) \<times> 's" where
  "fetch_buffer tg st key s =
     (let (rc, data, s') = bacnet_storage_get tg st key (value_buffer tg) (max_val_len tg + 1) s
      in ((rc, data), s'))"

definition storage_cmd_string ::
    "target \<Rightarrow> (load_param, 's, 'z) settings_scheme \<Rightarrow> 's shell_handler" where
  "storage_cmd_string tg st argv c =
     (case bacnet_storage_key_parse tg zero_key argv of
        None \<Rightarrow> None
      | Some (rc, key) \<Rightarrow>
        if rc < 0 then Some (rc, c)
        else let (erc, key_name) = bacnet_storage_key_encode tg (max_name_len tg + 1) key
          in if erc < 0 then Some (erc, c)
             else let c1 = echo_key tg st key_name c
               in if 4 < length argv then
                    (let (src, c2) = access (bacnet_storage_set tg st key (bytes_of (argv ! 4))) c1
                     in if src = 0
                        then Some (0, shell_print (''Set '' @ key_name @ '' = '' @ argv ! 4) c2)
                        else Some (- EINVAL,
                               shell_error (''Unable to set '' @ key_name @ '' = '' @ argv ! 4) c2))
                  else
                    (let ((grc, data), c2) = access (fetch_buffer tg st key) c1
                     in if grc < 0
                        then Some (- EINVAL, shell_error (''Unable to get '' @ key_name) c2)
                        else case buffer_text data of
                               None \<Rightarrow> None
                             | Some txt \<Rightarrow>
                                 Some (0, shell_print (''Get '' @ key_name @ '' = '' @ txt) c2)))"

definition storage_cmd_delete ::
    "target \<Rightarrow> ('p, 's, 'z) settings_scheme \<Rightarrow> 's shell_handler" where
  "storage_cmd_delete tg st argv c =
     (case bacnet_storage_key_parse tg zero_key argv of
        None \<Rightarrow> None
      | Some (rc, key) \<Rightarrow>
        if rc < 0 then Some (rc, c)
        else let (erc, key_name) = bacnet_storage_key_encode tg (max_name_len tg + 1) key
          in if erc < 0 then Some (erc, c)
             else if 3 < length argv then
               (let (drc, c1) = access (bacnet_storage_delete tg st key) c
                in if drc = 0 then Some (0, shell_print (''Deleted '' @ key_name) c1)
                   else Some (- EINVAL, shell_error (''Unable to delete '' @ key_name) c1))
             else Some (0, c))"

text \<open>
  The restore callback that prints: at most 39 bytes, as the text buffer has 80 characters. The
  context pointer is the shell.
\<close>

definition print_limit :: nat where "print_limit = 80 div 2 - 1"

definition print_storage_data :: "target \<Rightarrow> (unit, 's console) restore_callback" where
  "print_storage_data tg key data data_len sh c =
     (let data_string = concat (map hex2_upper (take (min data_len print_limit) data));
          nums = key_numbers (base_name tg) key
      in (0, shell_print
               (if array_index key = BACNET_STORAGE_ARRAY_INDEX_NONE
                then nums @ ''='' @ data_string
                else nums @ ''/'' @ dec (unat (array_index key)) @ ''='' @ data_string) c))"

definition storage_cmd_list ::
    "target \<Rightarrow> ('p, 's console, 'z) settings_scheme \<Rightarrow> (unit, 's console) restore \<Rightarrow>
     string list \<Rightarrow> 's console \<Rightarrow> int \<times> (unit, 's console) restore \<times> 's console" where
  "storage_cmd_list tg st rst argv c =
     (let (err, rst1) = bacnet_storage_load_callback_set rst (Some (print_storage_data tg)) ()
      in if err \<noteq> 0 then (- EINVAL, rst1, shell_error ''Failed to set storage load callback'' c)
         else let (lerr, c1) = bacnet_storage_load tg st rst1 c
              in if lerr \<noteq> 0 then (- EINVAL, rst1, shell_error ''Failed to load storage'' c1)
                 else (0, rst1, c1))"

definition storage_cmd_erase :: "('s, 'z) flash_scheme \<Rightarrow> 's shell_handler" where
  "storage_cmd_erase fl argv c =
     (let (rc, c1) = access (bacnet_storage_erase fl) c
      in if rc \<noteq> 0 then Some (rc, shell_error (''Unable to erase storage (err '' @ dec_int rc @ '')'') c1)
         else Some (0, shell_print
                ''Storage erased. Reboot to reinitialize: kernel reboot cold'' c1))"

section \<open>Commands and the lock\<close>

lemma storage_cmd_string_extends:
  "storage_cmd_string tg st argv c = Some (rc, c') \<Longrightarrow> extends (lock_depth c) c c'"
  by (auto simp: storage_cmd_string_def Let_def case_prod_beta split: handler_splits)

lemma storage_cmd_delete_extends:
  "storage_cmd_delete tg st argv c = Some (rc, c') \<Longrightarrow> extends (lock_depth c) c c'"
  by (auto simp: storage_cmd_delete_def Let_def case_prod_beta split: handler_splits)

lemma storage_cmd_erase_extends:
  "storage_cmd_erase fl argv c = Some (rc, c') \<Longrightarrow> extends (lock_depth c) c c'"
  by (auto simp: storage_cmd_erase_def Let_def case_prod_beta split: handler_splits)

interpretation cmd_string: shell_command "\<lambda>(tg, st). storage_cmd_string tg st"
  by unfold_locales (auto dest: storage_cmd_string_extends)

interpretation cmd_delete: shell_command "\<lambda>(tg, st). storage_cmd_delete tg st"
  by unfold_locales (auto dest: storage_cmd_delete_extends)

interpretation cmd_erase: shell_command storage_cmd_erase
  by unfold_locales (rule storage_cmd_erase_extends)

text \<open>
  Listing prints from the callback of the load: everything it prints is printed while the load
  runs, that is, with the lock held.
\<close>

lemma print_storage_data_extends:
  "extends (lock_depth c) c (snd (print_storage_data tg key data n sh c))"
  by (simp add: print_storage_data_def Let_def)

lemma handler_set_extends:
  assumes "\<And>key data n c. extends (lock_depth c) c (snd (cb key data n ctx c))"
  shows "extends (lock_depth c) c (snd (bacnet_storage_handler_set tg st
    \<lparr>BACnet_Storage_Restore_Callback = Some cb, BACnet_Storage_Restore_Context = ctx\<rparr> r n rd c))"
  using assms by (auto simp: bacnet_storage_handler_set_def bacnet_storage_restore_def Let_def case_prod_beta)

lemma handle_entries_extends:
  assumes "\<And>r n rd c. extends (lock_depth c) c (snd (h_set h r n rd c))"
  shows "extends (lock_depth c) c (handle_entries h es c)"
  unfolding handle_entries_def
proof (induction es arbitrary: c)
  case (Cons e es)
  show ?case
    using extends_then [OF assms [of c "fst e" "length (snd e)" "value_reader (snd e)"] le_refl Cons.IH]
    by (simp add: case_prod_beta)
qed simp

lemma load_printing_extends:
  assumes "settings_laws st good view" "good c"
  shows "extends (lock_depth c) c (snd (bacnet_storage_load tg st
    \<lparr>BACnet_Storage_Restore_Callback = Some (print_storage_data tg), BACnet_Storage_Restore_Context = ()\<rparr> c))"
proof -
  let ?h = "bacnet_storage_handler tg st
    \<lparr>BACnet_Storage_Restore_Callback = Some (print_storage_data tg), BACnet_Storage_Restore_Context = ()\<rparr>"
  obtain es where "snd (settings_load_subtree st ''bacnet'' ?h c) = handle_entries ?h es c"
    by (rule settings_laws_handle [OF assms, where sub = "''bacnet''" and h = ?h])
  moreover have "extends (lock_depth c) c (handle_entries ?h es c)"
    by (rule handle_entries_extends)
      (simp add: bacnet_storage_handler_def handler_set_extends print_storage_data_extends)
  ultimately show ?thesis by (simp add: bacnet_storage_load_def bacnet_storage_handler_def)
qed

section \<open>Paths below the base name\<close>

definition key_tail :: "target \<Rightarrow> storage_key \<Rightarrow> string" where
  "key_tail tg key = drop (Suc (length (base_name tg))) (key_text tg key)"

lemma key_text_tail: "key_text tg key = relative (base_name tg) (Some (key_tail tg key))"
  by (simp add: key_tail_def key_text_def relative_def)

lemma key_tail_plain:
  assumes nm: "names_laws nm" and tg: "target_ok tg"
    and base: "base_name tg \<noteq> []" "\<not> c_isdigit (hd (base_name tg))"
  shows "name_steq nm (Some (key_tail tg key)) (base_name tg) = (False, None)"
proof -
  obtain c cs where "dec (unat (object_type key)) = c # cs" "c_isdigit c" by (rule dec_cases)
  then have head: "key_tail tg key \<noteq> []" "c_isdigit (hd (key_tail tg key))"
    by (simp_all add: key_tail_def key_text_def)
  have "key_tail tg key \<noteq> base_name tg" using head base by metis
  moreover have "key_tail tg key \<noteq> base_name tg @ NAME_SEPARATOR # r" for r
    using head base by (metis hd_append2)
  moreover have "NAME_END \<notin> set (key_tail tg key)"
    by (simp add: key_tail_def key_text_def NAME_END_def NAME_SEPARATOR_def not_in_dec c_isdigit_def)
  ultimately show ?thesis using nm target_ok_base [OF tg] unfolding names_laws_def by blast
qed

lemma decode_key_tail:
  assumes nm: "names_laws nm" and tg: "target_ok tg"
    and base: "base_name tg \<noteq> []" "\<not> c_isdigit (hd (base_name tg))"
    and key: "key_decodable tg key"
  shows "bacnet_storage_key_decode tg nm (Some (key_tail tg key)) key0 = (0, key)"
proof -
  note laws = names_laws_None [OF nm] names_laws_last [OF nm] names_laws_next [OF nm]
  note bounds = u16_le_ulong_max [OF target_ok_clib [OF tg]]
    u32_le_ulong_max [OF target_ok_clib [OF tg]]
  show ?thesis
    using key key_tail_plain [OF nm tg base, of key]
    by (cases key; cases key0)
      (auto simp: bacnet_storage_key_decode_def key_tail_def key_text_def key_decodable_def laws
        key_simps bounds)
qed

section \<open>Listing\<close>

definition list_line :: "target \<Rightarrow> storage_key \<Rightarrow> byte list \<Rightarrow> string" where
  "list_line tg key v =
     (let nums = key_numbers (base_name tg) key; hex = concat (map hex2_upper (take print_limit v))
      in if array_index key = BACNET_STORAGE_ARRAY_INDEX_NONE then nums @ ''='' @ hex
         else nums @ ''/'' @ dec (unat (array_index key)) @ ''='' @ hex)"

abbreviation printing :: "target \<Rightarrow> (unit, 's console) restore" where
  "printing tg \<equiv> \<lparr>BACnet_Storage_Restore_Callback = Some (print_storage_data tg),
                   BACnet_Storage_Restore_Context = ()\<rparr>"

lemma handler_prints:
  assumes "names_laws st" "target_ok tg" "base_name tg \<noteq> []" "\<not> c_isdigit (hd (base_name tg))"
    "key_decodable tg key" "v \<noteq> []" "length v \<le> max_val_len tg"
  shows "bacnet_storage_handler_set tg st (printing tg) (Some (key_tail tg key)) (length v)
      (value_reader v) c = (0, shell_print (list_line tg key v) c)"
proof -
  have "take (min (length v) print_limit) (overlay v (replicate (max_val_len tg) 0)) = take print_limit v"
    using assms(7) by (simp add: overlay_def min_def)
  then show ?thesis
    using assms(6,7)
    by (simp add: bacnet_storage_handler_set_def decode_key_tail [OF assms(1-5)] value_reader_def
        bacnet_storage_restore_def print_storage_data_def list_line_def Let_def)
qed

lemma list_prints:
  assumes "names_laws st" "target_ok tg" "base_name tg \<noteq> []" "\<not> c_isdigit (hd (base_name tg))"
    "\<And>r v. (r, v) \<in> set es \<Longrightarrow> \<exists>key. r = Some (key_tail tg key) \<and> key_decodable tg key \<and>
       v \<noteq> [] \<and> length v \<le> max_val_len tg"
  shows "\<exists>evs. trace (handle_entries (bacnet_storage_handler tg st (printing tg)) es c) = trace c @ evs \<and>
    set evs = {(lock_depth c, Print (list_line tg key v)) |key v. (Some (key_tail tg key), v) \<in> set es \<and>
      key_decodable tg key}"
  using assms(5)
proof (induction es arbitrary: c)
  case Nil
  then show ?case by (simp add: handle_entries_def)
next
  case (Cons e es)
  obtain key v where e: "e = (Some (key_tail tg key), v)" and ok: "key_decodable tg key"
    "v \<noteq> []" "length v \<le> max_val_len tg"
    using Cons.prems [of "fst e" "snd e"] by (cases e) auto
  let ?c = "shell_print (list_line tg key v) c"
  have step: "handle_entries (bacnet_storage_handler tg st (printing tg)) (e # es) c =
      handle_entries (bacnet_storage_handler tg st (printing tg)) es ?c"
    using handler_prints [OF assms(1-4) ok, of c]
    by (simp add: handle_entries_def bacnet_storage_handler_def e)
  have inj: "key_tail tg k = key_tail tg key \<longleftrightarrow> k = key" for k
    by (metis key_text_tail key_text_inject)
  have "\<exists>evs. trace (handle_entries (bacnet_storage_handler tg st (printing tg)) es ?c) = trace ?c @ evs \<and>
    set evs = {(lock_depth ?c, Print (list_line tg key v)) |key v. (Some (key_tail tg key), v) \<in> set es \<and>
      key_decodable tg key}"
    by (rule Cons.IH) (rule Cons.prems, simp)
  then obtain evs where evs:
    "trace (handle_entries (bacnet_storage_handler tg st (printing tg)) es ?c) = trace ?c @ evs"
    "set evs = {(lock_depth c, Print (list_line tg key v)) |key v.
      (Some (key_tail tg key), v) \<in> set es \<and> key_decodable tg key}"
    by (auto simp: shell_print_def)
  show ?case
    unfolding step
    using evs ok(1)
    by (intro exI [of _ "(lock_depth c, Print (list_line tg key v)) # evs"])
      (auto simp: shell_print_def e inj)
qed


section \<open>Strings\<close>

lemma key_parse_prefix:
  "bacnet_storage_key_parse tg key (a0 # a1 # a2 # a3 # args) =
   bacnet_storage_key_parse tg key [a0, a1, a2, a3]"
  by (auto simp: bacnet_storage_key_parse_def split: option.split)

lemma key_parse_argv0:
  "bacnet_storage_key_parse tg key (a # as) = bacnet_storage_key_parse tg key (b # as)"
proof -
  have args: "(x # xs) ! 1 = xs ! 0" "(x # xs) ! 2 = xs ! 1" "argv_at (x # xs) 3 = argv_at xs 2"
    for x and xs :: "string list"
    by simp_all
  show ?thesis unfolding bacnet_storage_key_parse_def args length_Cons by (rule refl)
qed

lemma takeWhile_bytes_of:
  "CHR 0x00 \<notin> set str \<Longrightarrow> takeWhile (\<lambda>b. b \<noteq> 0) (bytes_of str @ 0 # rest) = bytes_of str"
proof -
  assume nul: "CHR 0x00 \<notin> set str"
  have "(of_char c :: byte) = 0 \<Longrightarrow> c = CHR 0x00" for c
    using text_of_bytes_of [of "[c]"] text_of_bytes_of [of "[CHR 0x00]"]
    by (simp add: bytes_of_def text_of_def)
  then have "0 \<notin> set (bytes_of str)"
    using nul by (force simp: bytes_of_def)
  then show ?thesis by (rule takeWhile_append_sep)
qed

lemma buffer_text_value:
  assumes "CHR 0x00 \<notin> set str" "length str < n"
  shows "buffer_text (overlay (bytes_of str) (replicate n 0)) = Some str"
proof -
  obtain m where "n - length str = Suc m" using assms(2) by (cases "n - length str") auto
  then have "overlay (bytes_of str) (replicate n 0) = bytes_of str @ 0 # replicate m 0"
    using assms(2) by (simp add: overlay_def)
  then show ?thesis using takeWhile_bytes_of [OF assms(1)] by (simp add: buffer_text_def)
qed

section \<open>Properties\<close>

lemma list_callback:
  "bacnet_storage_load_callback_set rst (Some (print_storage_data tg)) () = (0, printing tg)"
  by (cases rst) (simp add: bacnet_storage_load_callback_set_def)

text \<open>
  Setting a string on the shell and getting it again: after a set that returned 0, the get
  command with the same object and property prints the path of the key and that string, whatever
  its first word on the command line is.
\<close>

lemma cmd_string_set_get:
  assumes "storage_ok tg st good view" and "storage_inv tg good view (world c)"
    and "bacnet_storage_key_parse tg zero_key [a0, a1, a2, a3] = Some (0, key)"
    and "str \<noteq> []" and "CHR 0x00 \<notin> set str" and "length str \<le> max_val_len tg"
    and "storage_cmd_string tg st [a0, a1, a2, a3, str] c = Some (0, c1)"
  shows "\<exists>c2. storage_cmd_string tg st [b0, a1, a2, a3] c1 = Some (0, c2) \<and>
           last (trace c2) = (lock_depth c, Print (''Get '' @ key_text tg key @ '' = '' @ str)) \<and>
           world c2 = world c1"
proof -
  have tg: "target_ok tg" using assms(1) by (simp add: storage_ok_def)
  have first: "bacnet_storage_key_parse tg zero_key [b0, a1, a2, a3] = Some (0, key)"
    using assms(3) key_parse_argv0 by metis
  have bytes: "bytes_of str \<noteq> []" using assms(4) by simp
  have arg: "[a0, a1, a2, a3, str] ! 4 = str" by simp
  have run: "(let (src, c2) = access (bacnet_storage_set tg st key (bytes_of str)) (echo_key tg st (key_text tg key) c)
        in if src = 0 then Some (0, shell_print (''Set '' @ key_text tg key @ '' = '' @ str) c2)
           else Some (- EINVAL, shell_error (''Unable to set '' @ key_text tg key @ '' = '' @ str) c2)) =
      Some (0 :: int, c1)"
    using assms(7) unfolding storage_cmd_string_def key_parse_prefix [where args = "[str]"] arg
    by (simp add: assms(3) encode_fits [OF tg])
  have world: "world c1 = snd (bacnet_storage_set tg st key (bytes_of str) (world c))"
    and depth: "lock_depth c1 = lock_depth c"
    and rc: "fst (bacnet_storage_set tg st key (bytes_of str) (world c)) = 0"
    using run by (auto simp: case_prod_beta shell_print_def shell_error_def split: if_splits)
  have inv: "storage_inv tg good view (world c1)"
    and stored: "store_of tg view (world c1) key = Some (bytes_of str)"
    using set_effect [OF assms(1,2) bytes, of key] rc by (simp_all add: world store_effect_def)
  have "fetch_buffer tg st key (world c1) =
      ((int (length str), overlay (bytes_of str) (value_buffer tg)), world c1)"
    using assms(6) by (simp add: fetch_buffer_def get_eq [OF assms(1) inv] stored fetched_value_def)
  moreover have "buffer_text (overlay (bytes_of str) (value_buffer tg)) = Some str"
    unfolding value_buffer_def using assms(6) by (intro buffer_text_value [OF assms(5)]) simp
  ultimately show ?thesis
    by (simp add: storage_cmd_string_def first encode_fits [OF tg] case_prod_beta Let_def depth
        shell_print_def)
qed

text \<open>
  Every storage command holds the task lock from before its first use of the stored data to
  after its last: whatever a locked handler prints or touches happens at least one level deeper
  than the call, and when it returns the lock is held as often as before.
\<close>

lemma storage_commands_locked:
  "(\<forall>rc c'. BACNET_SHELL_LOCK_HANDLER others (storage_cmd_string tg st) argv c = Some (rc, c') \<longrightarrow>
      extends (lock_depth c + 1) c c') \<and>
   (\<forall>rc c'. BACNET_SHELL_LOCK_HANDLER others (storage_cmd_delete tg st) argv c = Some (rc, c') \<longrightarrow>
      extends (lock_depth c + 1) c c') \<and>
   (\<forall>rc c'. BACNET_SHELL_LOCK_HANDLER others (storage_cmd_erase fl) argv c = Some (rc, c') \<longrightarrow>
      extends (lock_depth c + 1) c c')"
  using cmd_string.locked_extends [of others "(tg, st)" argv c]
    cmd_delete.locked_extends [of others "(tg, st)" argv c]
    cmd_erase.locked_extends [of others fl argv c]
  by simp

text \<open>
  Listing, on a store whose base name is the handler's \<open>bacnet\<close>: the successful command prints
  exactly one kind of line for each stored key, with its numbers and the first 39 bytes of its
  value in hexadecimal, and nothing else happens on the console.
\<close>

lemma cmd_list_prints_store:
  assumes "settings_laws st good view" and "good c" and "target_ok tg" and "base_name tg = ''bacnet''"
    and "\<forall>r v. view c (relative ''bacnet'' r) = Some v \<longrightarrow>
           v \<noteq> [] \<and> length v \<le> max_val_len tg \<and>
           (\<exists>key. relative ''bacnet'' r = key_text tg key \<and> key_decodable tg key)"
    and "storage_cmd_list tg st rst argv c = (0, rst', c')"
  shows "\<exists>evs. trace c' = trace c @ evs \<and>
    set evs = {(lock_depth c, Print (list_line tg key v)) |key v. store_of tg view c key = Some v}"
proof -
  let ?h = "bacnet_storage_handler tg st (printing tg)"
  obtain es where es: "\<And>r v. (r, v) \<in> set es \<longleftrightarrow> view c (relative ''bacnet'' r) = Some v"
    and run: "snd (settings_load_subtree st ''bacnet'' ?h c) = handle_entries ?h es c"
    by (rule settings_laws_handle [OF assms(1,2), where sub = "''bacnet''" and h = ?h]) blast
  have c': "c' = handle_entries ?h es c"
    using assms(6) run
    by (auto simp: storage_cmd_list_def list_callback bacnet_storage_load_def
        bacnet_storage_handler_def case_prod_beta split: if_splits)
  have tail: "key_text tg key = relative ''bacnet'' (Some (key_tail tg key))" for key
    using key_text_tail [of tg key] assms(4) by simp
  have base: "base_name tg \<noteq> []" "\<not> c_isdigit (hd (base_name tg))"
    by (simp_all add: assms(4) c_isdigit_def)
  have entry: "\<exists>key. r = Some (key_tail tg key) \<and> key_decodable tg key \<and> v \<noteq> [] \<and> length v \<le> max_val_len tg"
    if "(r, v) \<in> set es" for r v
    using that es assms(5) tail by (metis relative_inject)
  obtain evs where evs: "trace c' = trace c @ evs"
    "set evs = {(lock_depth c, Print (list_line tg key v)) |key v.
       (Some (key_tail tg key), v) \<in> set es \<and> key_decodable tg key}"
    using list_prints [OF settings_laws_names [OF assms(1)] assms(3) base, of es c] entry c' by auto
  have "(Some (key_tail tg key), v) \<in> set es \<and> key_decodable tg key \<longleftrightarrow> store_of tg view c key = Some v"
    for key v
    using es [of "Some (key_tail tg key)" v] assms(5) tail key_text_inject unfolding store_of_def by metis
  with evs show ?thesis by simp
qed

section \<open>Witnesses\<close>

definition console_on :: "'s \<Rightarrow> 's console" where
  "console_on w = \<lparr>lock_depth = 0, trace = [], world = w\<rparr>"

lemma console_on_fields [simp]:
  "lock_depth (console_on w) = 0" "trace (console_on w) = []" "world (console_on w) = w"
  by (simp_all add: console_on_def)

definition key_args :: "string list" where
  "key_args = [''string'', dec 1, dec 4194303, dec 85 @ CHR ''['' # dec 16 @ '']'']"

lemma key_args_parse: "bacnet_storage_key_parse small_target zero_key key_args = Some (0, sample_key)"
  unfolding key_args_def
  by (simp add: bacnet_storage_key_parse_def parse_argument_dec sscanf_lu_index_dec_dec key_init_key
      small_target_def small_libc_def sample_key_def UINT16_MAX_def UINT32_MAX_def BACNET_MAX_INSTANCE_def)

lemma small_target_max: "max_val_len small_target = 256"
  by (simp add: small_target_def)

lemma cmd_string_set_get_witness:
  "\<exists>c2. storage_cmd_string small_target list_storage key_args
           (snd (the (storage_cmd_string small_target list_storage (key_args @ [''hi'']) (console_on one_entry)))) =
           Some (0, c2) \<and>
         last (trace c2) = (0, Print (''Get '' @ key_text small_target sample_key @ '' = '' @ ''hi''))"
proof -
  have "\<exists>c1. storage_cmd_string small_target list_storage (key_args @ [''hi'']) (console_on one_entry) = Some (0, c1)"
    using key_args_parse
    by (simp add: key_args_def storage_cmd_string_def key_parse_prefix [where args = "[''hi'']"]
        encode_fits small_target_ok list_storage_set Let_def case_prod_beta)
  then obtain c1 where
    run: "storage_cmd_string small_target list_storage (key_args @ [''hi'']) (console_on one_entry) = Some (0, c1)"
    by blast
  have "\<exists>c2. storage_cmd_string small_target list_storage key_args c1 = Some (0, c2) \<and>
      last (trace c2) = (lock_depth (console_on one_entry),
        Print (''Get '' @ key_text small_target sample_key @ '' = '' @ ''hi'')) \<and> world c2 = world c1"
    unfolding key_args_def
    by (rule cmd_string_set_get [OF list_storage_ok _ _ _ _ _ run [unfolded key_args_def append.simps]])
      (use key_args_parse in \<open>simp_all add: one_entry_inv small_target_max key_args_def\<close>)
  then show ?thesis by (auto simp: run)
qed

definition bacnet_target :: target where
  "bacnet_target = small_target\<lparr>base_name := ''bacnet''\<rparr>"

definition console_settings :: "(unit, entries console) settings" where
  "console_settings = list_settings_on world (\<lambda>e c. c\<lparr>world := e\<rparr>)"

lemma console_settings_laws:
  "settings_laws console_settings (\<lambda>c. entries_good (world c)) (\<lambda>c. map_of (world c))"
  unfolding console_settings_def by (rule list_settings_laws_on) simp

lemma bacnet_target_ok: "target_ok bacnet_target"
  by (simp add: bacnet_target_def target_ok_def small_target_def small_libc_def libc_ok_def
      UINT32_MAX_def NAME_END_def)

lemma bacnet_target_decodable: "key_decodable bacnet_target sample_key"
  using sample_key_decodable
  by (simp add: bacnet_target_def key_decodable_def field_decodable_def)

lemma cmd_list_prints_store_witness:
  "\<exists>evs. trace (snd (snd (storage_cmd_list bacnet_target console_settings (printing bacnet_target) []
      (console_on [(key_text bacnet_target sample_key, [1, 2])])))) = evs \<and>
    (0, Print (list_line bacnet_target sample_key [1, 2])) \<in> set evs"
proof -
  let ?c = "console_on [(key_text bacnet_target sample_key, [1, 2])] :: entries console"
  have base: "base_name bacnet_target = ''bacnet''" "max_val_len bacnet_target = 256"
    by (simp_all add: bacnet_target_def small_target_def)
  have good: "entries_good (world ?c)" by (simp add: entries_good_def)
  have "\<exists>rst' c'. storage_cmd_list bacnet_target console_settings (printing bacnet_target) [] ?c = (0, rst', c')"
    by (simp add: storage_cmd_list_def bacnet_storage_load_callback_set_def bacnet_storage_load_def
        console_settings_def list_settings_on_def bacnet_storage_handler_def
        bacnet_storage_handler_commit_def)
  then obtain rst' c' where run:
    "storage_cmd_list bacnet_target console_settings (printing bacnet_target) [] ?c = (0, rst', c')" by blast
  have entries: "\<forall>r v. map_of (world ?c) (relative ''bacnet'' r) = Some v \<longrightarrow>
      v \<noteq> [] \<and> length v \<le> max_val_len bacnet_target \<and>
      (\<exists>key. relative ''bacnet'' r = key_text bacnet_target key \<and> key_decodable bacnet_target key)"
    using bacnet_target_decodable by (auto simp: base(2) split: if_splits)
  have "store_of bacnet_target (\<lambda>c. map_of (world c)) ?c sample_key = Some [1, 2]"
    by (simp add: store_of_def)
  then show ?thesis
    using cmd_list_prints_store [OF console_settings_laws good bacnet_target_ok base(1) entries run]
    by (auto simp: run)
qed
end
