(* ===== verification/Settings_Shell.thy ===== *)
theory Settings_Shell
  imports Settings Storage_Shell
begin

text \<open>
  The shell commands of the settings (\<open>subsys/bacnet_settings/bacnet_settings_shell.c\<close>): get or set
  a typed value, delete and list. The decoder of known properties and the printer of values belong
  to the BACnet stack and extend the library record.
\<close>

record object_property_value =
  opv_object_type :: u16
  opv_object_instance :: u32
  opv_object_property :: u32
  opv_array_index :: u32

record 'v bacapp_text = "'v bacapp" +
  bacapp_decode_known_property ::
    "byte list \<Rightarrow> nat \<Rightarrow> 'v app_value \<Rightarrow> u16 \<Rightarrow> u32 \<Rightarrow> int \<times> 'v app_value"
  bacapp_snprintf_value :: "nat \<Rightarrow> object_property_value \<Rightarrow> 'v app_value \<Rightarrow> string"

text \<open>
  Setting a value: the stored one is decoded first, over the tag the user gave. The storage gets
  the encoding of the parsed value.
\<close>

definition settings_cmd_value_set ::
    "target \<Rightarrow> ('p, 's, 'z) settings_scheme \<Rightarrow> ('v, 'y) bacapp_scheme \<Rightarrow> storage_key \<Rightarrow> string \<Rightarrow>
     byte list \<Rightarrow> nat \<Rightarrow> 'v app_value \<Rightarrow> string \<Rightarrow> 's console \<Rightarrow> int \<times> 's console" where
  "settings_cmd_value_set tg st lib key key_name data data_len val value_string c =
     (let (len, val1) = bacapp_decode_application_data lib data data_len val
      in if len \<le> 0
         then (- EINVAL, shell_error (''Unable to decode value for '' @ key_name) c)
         else let (status, val2) = bacnet_settings_value_parse (clib tg) lib (Some value_string)
                                     (object_type key) (property_id key) val1
              in if status then
                   (let c1 = shell_print (''Parsed '' @ key_name @ '' = '' @ value_string @
                               '' as tag='' @ dec (unat (tag val2))) c;
                        elen = fst (bacapp_encode_application_data lib val2)
                    in if elen \<le> 0 then (- ENOTSUP, c1)
                       else if int (max_val_len tg + 1) < elen then (- EINVAL, c1)
                       else let (elen2, apdu) = bacapp_encode_application_data lib val2;
                                buf = overlay apdu data
                            in if elen2 \<le> 0 then (- EINVAL, c1)
                               else let (src, c2) =
                                      access (bacnet_storage_set tg st key (take (nat elen2) buf)) c1
                                    in if src = 0
                                       then (0, shell_print (''Set '' @ key_name @ '' = '' @ value_string) c2)
                                       else (- EINVAL, shell_error
                                              (''Unable to set '' @ key_name @ '' = '' @ value_string) c2))
                 else (- EINVAL, shell_error
                        (''Unable to parse value for '' @ key_name @ '' = '' @ value_string) c))"

text \<open>
  The error of the first read prints the name buffer while it is still empty. When a value is only
  printed, the length passed to the decoder is \<open>rc\<close>, which at that point is the length of the key's
  path and not of the data.
\<close>

definition settings_cmd_value ::
    "target \<Rightarrow> (load_param, 's, 'z) settings_scheme \<Rightarrow> ('v, 'y) bacapp_text_scheme \<Rightarrow>
     's shell_handler" where
  "settings_cmd_value tg st lib argv c =
     (case bacnet_storage_key_parse tg zero_key argv of
        None \<Rightarrow> None
      | Some (prc, key) \<Rightarrow>
        if prc < 0 then Some (prc, c)
        else let ((grc, data), c1) = access (fetch_buffer tg st key) c
          in if grc < 0 then Some (- EINVAL, shell_error ''Unable to get '' c1)
             else let (rc, key_name) = bacnet_storage_key_encode tg (max_name_len tg + 1) key
               in if rc < 0 then Some (rc, c1)
                  else let assigned = (if 5 < length argv
                                       then bacnet_storage_strtoul (clib tg) (argv ! 4) else None);
                           val = (case assigned of
                                    None \<Rightarrow> zero_value | Some t \<Rightarrow> zero_value\<lparr>tag := of_nat t\<rparr>);
                           value_string = (case assigned of
                                    Some t \<Rightarrow> Some (argv ! 5)
                                  | None \<Rightarrow> if 4 < length argv then Some (argv ! 4) else None)
                    in case value_string of
                         Some str \<Rightarrow>
                           Some (settings_cmd_value_set tg st lib key key_name data (nat grc) val str c1)
                       | None \<Rightarrow>
                           (let (len, val1) = bacapp_decode_known_property lib data (nat rc) val
                                                (object_type key) (property_id key)
                            in if len < 0
                               then Some (- EINVAL,
                                      shell_error (''Unable to decode value for '' @ key_name) c1)
                               else Some (0, shell_print (''Get '' @ key_name @ '' = '' @
                                      bacapp_snprintf_value lib 80
                                        \<lparr>opv_object_type = object_type key,
                                         opv_object_instance = object_instance key,
                                         opv_object_property = property_id key,
                                         opv_array_index = array_index key\<rparr> val1) c1)))"

definition settings_cmd_delete ::
    "target \<Rightarrow> ('p, 's, 'z) settings_scheme \<Rightarrow> 's shell_handler" where
  "settings_cmd_delete tg st argv c =
     (case bacnet_storage_key_parse tg zero_key argv of
        None \<Rightarrow> None
      | Some (rc, key) \<Rightarrow>
        if rc < 0 then Some (rc, c)
        else let (erc, key_name) = bacnet_storage_key_encode tg (max_name_len tg + 1) key
          in if erc < 0 then Some (erc, c)
             else if 3 < length argv then
               (let (drc, c1) = access (bacnet_storage_delete tg st key) c
                in if drc = 0 then Some (0, shell_print (''Deleted '' @ key_name) c1)
                   else Some (- EINVAL, shell_error (''Unable to delete '' @ key_name) c1))
             else Some (0, c))"

text \<open>
  The printing callback is the one of the storage shell, word for word but for the error message when
  two hexadecimal digits do not fit three characters, which cannot happen.
\<close>

definition settings_print_storage_data :: "target \<Rightarrow> (unit, 's console) restore_callback" where
  "settings_print_storage_data tg = print_storage_data tg"

definition settings_cmd_list ::
    "target \<Rightarrow> ('p, 's console, 'z) settings_scheme \<Rightarrow> (unit, 's console) restore \<Rightarrow>
     string list \<Rightarrow> 's console \<Rightarrow> int \<times> (unit, 's console) restore \<times> 's console" where
  "settings_cmd_list tg st rst argv c =
     (let (err, rst1) = bacnet_storage_load_callback_set rst (Some (settings_print_storage_data tg)) ()
      in if err \<noteq> 0 then (- EINVAL, rst1, shell_error ''Failed to set settings load callback'' c)
         else let (lerr, c1) = bacnet_storage_load tg st rst1 c
              in if lerr \<noteq> 0 then (- EINVAL, rst1, shell_error ''Failed to load settings'' c1)
                 else (0, rst1, c1))"

section \<open>Commands and the lock\<close>

lemma cmd_value_set_extends:
  "extends (lock_depth c) c (snd (settings_cmd_value_set tg st lib key key_name data n val str c))"
  by (simp add: settings_cmd_value_set_def Let_def case_prod_beta)

lemma value_set_step:
  assumes "settings_cmd_value_set tg st lib key key_name data n val str c' = (rc, c'')"
    and "extends d c c'" "d \<le> lock_depth c"
  shows "extends d c c''"
  using extends_then [OF assms(2,3) cmd_value_set_extends, of tg st lib key key_name data n val str]
  by (simp add: assms(1))

lemma settings_cmd_value_extends:
  "settings_cmd_value tg st lib argv c = Some (rc, c') \<Longrightarrow> extends (lock_depth c) c c'"
  by (auto simp: settings_cmd_value_def Let_def case_prod_beta split: handler_splits
      intro: value_set_step)

lemma settings_cmd_delete_extends:
  "settings_cmd_delete tg st argv c = Some (rc, c') \<Longrightarrow> extends (lock_depth c) c c'"
  by (auto simp: settings_cmd_delete_def Let_def case_prod_beta split: handler_splits)

interpretation cmd_value: shell_command "\<lambda>(tg, st, lib). settings_cmd_value tg st lib"
  by unfold_locales (auto dest: settings_cmd_value_extends)

interpretation cmd_settings_delete: shell_command "\<lambda>(tg, st). settings_cmd_delete tg st"
  by unfold_locales (auto dest: settings_cmd_delete_extends)


section \<open>Setting values\<close>

text \<open>The buffer of the command after the value was read into it.\<close>

definition filled :: "target \<Rightarrow> byte list \<Rightarrow> byte list" where
  "filled tg v = overlay v (value_buffer tg)"

lemma decode_filled:
  assumes "bacapp_laws lib okv" "okv v" "length (encoding lib v) \<le> max_val_len tg"
  shows "bacapp_decode_application_data lib (filled tg (encoding lib v))
      (length (encoding lib v)) v0 = (int (length (encoding lib v)), v)"
  using bacapp_decode [OF assms(1,2), of "replicate (max_val_len tg + 1 - length (encoding lib v)) 0" v0] assms(3)
  by (simp add: overlay_def filled_def value_buffer_def del: replicate_Suc)

lemma fetch_filled:
  assumes "storage_ok tg st good view" "storage_inv tg good view s"
    "store_of tg view s key = Some v" "length v \<le> max_val_len tg"
  shows "fetch_buffer tg st key s = ((int (length v), filled tg v), s)"
  using assms(4) by (simp add: fetch_buffer_def get_eq [OF assms(1,2)] assms(3) fetched_value_def filled_def)

definition touch :: "'s console \<Rightarrow> 's console" where
  "touch c = c\<lparr>trace := trace c @ [(lock_depth c, Access)]\<rparr>"

lemma touch_fields [simp]: "world (touch c) = world c" "lock_depth (touch c) = lock_depth c"
  by (simp_all add: touch_def)

text \<open>The value the command starts from is replaced by the one it decodes.\<close>

lemma cmd_value_set_start:
  assumes "bacapp_laws lib okv" "okv v" "length (encoding lib v) \<le> max_val_len tg"
  shows "settings_cmd_value_set tg st lib key kn (filled tg (encoding lib v)) (length (encoding lib v)) v1 w c =
    settings_cmd_value_set tg st lib key kn (filled tg (encoding lib v)) (length (encoding lib v)) v2 w c"
  by (simp add: settings_cmd_value_set_def decode_filled [OF assms])

lemma cmd_value_eq:
  assumes "storage_ok tg st good view" "storage_inv tg good view (world c)"
    "bacapp_laws lib okv" "okv v" "store_of tg view (world c) key = Some (encoding lib v)"
    "length (encoding lib v) \<le> max_val_len tg"
    "bacnet_storage_key_parse tg zero_key (a0 # a1 # a2 # a3 # args) = Some (0, key)"
  shows "args = [str] \<Longrightarrow> settings_cmd_value tg st lib (a0 # a1 # a2 # a3 # args) c =
      Some (settings_cmd_value_set tg st lib key (key_text tg key) (filled tg (encoding lib v))
        (length (encoding lib v)) zero_value str (touch c))"
    and "args = [tagstr, str] \<Longrightarrow> bacnet_storage_strtoul (clib tg) tagstr = Some t \<Longrightarrow>
      settings_cmd_value tg st lib (a0 # a1 # a2 # a3 # args) c =
      Some (settings_cmd_value_set tg st lib key (key_text tg key) (filled tg (encoding lib v))
        (length (encoding lib v)) zero_value str (touch c))"
proof -
  have tg: "target_ok tg" using assms(1) by (simp add: storage_ok_def)
  have acc: "access (fetch_buffer tg st key) c =
      ((int (length (encoding lib v)), filled tg (encoding lib v)), touch c)"
    by (simp add: access_def fetch_filled [OF assms(1,2,5,6)] touch_def)
  note enc = encode_fits [OF tg, of key, folded Suc_eq_plus1]
  have args: "(a0 # a1 # a2 # a3 # x # as) ! 4 = x" "(a0 # a1 # a2 # a3 # x # y # as) ! 5 = y" for x y as
    by simp_all
  show "settings_cmd_value tg st lib (a0 # a1 # a2 # a3 # args) c =
      Some (settings_cmd_value_set tg st lib key (key_text tg key) (filled tg (encoding lib v))
        (length (encoding lib v)) zero_value str (touch c))" if "args = [str]"
    unfolding settings_cmd_value_def assms(7)
    using that by (simp add: acc enc)
  show "settings_cmd_value tg st lib (a0 # a1 # a2 # a3 # args) c =
      Some (settings_cmd_value_set tg st lib key (key_text tg key) (filled tg (encoding lib v))
        (length (encoding lib v)) zero_value str (touch c))"
    if "args = [tagstr, str]" "bacnet_storage_strtoul (clib tg) tagstr = Some t"
    unfolding settings_cmd_value_def assms(7)
    using that cmd_value_set_start [OF assms(3,4,6)] by (simp add: acc enc)
qed

lemma cmd_value_set_effect:
  assumes "bacapp_laws lib okv" "okv v" "length (encoding lib v) \<le> max_val_len tg"
    "bacnet_settings_value_parse (clib tg) lib (Some str) (object_type key) (property_id key) v = (True, v')"
    "okv v'" "length (encoding lib v') \<le> max_val_len tg"
    "settings_cmd_value_set tg st lib key kn (filled tg (encoding lib v)) (length (encoding lib v)) v0 str c = (0, c')"
  shows "fst (bacnet_storage_set tg st key (encoding lib v') (world c)) = 0"
    and "world c' = snd (bacnet_storage_set tg st key (encoding lib v') (world c))"
proof -
  have room: "length (encoding lib v') \<le> length (filled tg (encoding lib v))"
    using assms(6) by (simp add: filled_def value_buffer_def)
  have run: "(let (src, c2) = access (bacnet_storage_set tg st key (encoding lib v'))
               (shell_print (''Parsed '' @ kn @ '' = '' @ str @ '' as tag='' @ dec (unat (tag v'))) c)
             in if src = 0 then (0, shell_print (''Set '' @ kn @ '' = '' @ str) c2)
                else (- EINVAL, shell_error (''Unable to set '' @ kn @ '' = '' @ str) c2)) = (0 :: int, c')"
    using assms(4,6,7) bacapp_nonempty [OF assms(1,2)] bacapp_nonempty [OF assms(1,5)]
    by (simp add: settings_cmd_value_set_def decode_filled [OF assms(1-3)]
        bacapp_encode [OF assms(1,5)] take_overlay [OF room] Let_def)
  then show "fst (bacnet_storage_set tg st key (encoding lib v') (world c)) = 0"
    "world c' = snd (bacnet_storage_set tg st key (encoding lib v') (world c))"
    by (auto simp: case_prod_beta shell_print_def shell_error_def split: if_splits)
qed

section \<open>Properties\<close>

text \<open>
  Setting a typed value on the shell: the text is read with the tag of the value that is
  stored, the encoding of the result replaces it, and a tag given by the user makes no difference.
\<close>

lemma cmd_value_sets:
  assumes "storage_ok tg st good view" and "storage_inv tg good view (world c)"
    and "bacapp_laws lib okv" and "okv v"
    and "store_of tg view (world c) key = Some (encoding lib v)"
    and "length (encoding lib v) \<le> max_val_len tg"
    and "bacnet_storage_key_parse tg zero_key [a0, a1, a2, a3] = Some (0, key)"
    and "bacnet_settings_value_parse (clib tg) lib (Some str) (object_type key) (property_id key) v = (True, v')"
    and "okv v'" and "length (encoding lib v') \<le> max_val_len tg"
    and "settings_cmd_value tg st lib [a0, a1, a2, a3, str] c = Some (0, c')"
    and "bacnet_storage_strtoul (clib tg) tagstr = Some t"
  shows "store_of tg view (world c') key = Some (encoding lib v') \<and>
         storage_inv tg good view (world c') \<and>
         settings_cmd_value tg st lib [a0, a1, a2, a3, tagstr, str] c = Some (0, c')"
proof -
  let ?r = "settings_cmd_value_set tg st lib key (key_text tg key) (filled tg (encoding lib v))
      (length (encoding lib v)) zero_value str (touch c)"
  have parse: "bacnet_storage_key_parse tg zero_key (a0 # a1 # a2 # a3 # args) = Some (0, key)" for args
    by (subst key_parse_prefix) (rule assms(7))
  note eqs = cmd_value_eq [OF assms(1-6) parse]
  have run: "?r = (0, c')" using eqs(1) [OF refl, of str] assms(11) by simp
  note eff = cmd_value_set_effect [OF assms(3,4,6,8-10) run]
  have "store_of tg view (world c') key = Some (encoding lib v')" "storage_inv tg good view (world c')"
    using set_effect [OF assms(1,2) bacapp_nonempty [OF assms(3,9)], of key] eff
    by (simp_all add: store_effect_def)
  moreover have "settings_cmd_value tg st lib [a0, a1, a2, a3, tagstr, str] c = Some (0, c')"
    using eqs(2) [OF refl assms(12), of str] run by simp
  ultimately show ?thesis by blast
qed

text \<open>
  The settings commands hold the task lock around everything they print or touch, and give it
  back.
\<close>

lemma settings_commands_locked:
  "(\<forall>rc c'. BACNET_SHELL_LOCK_HANDLER others (settings_cmd_value tg st lib) argv c = Some (rc, c') \<longrightarrow>
      extends (lock_depth c + 1) c c') \<and>
   (\<forall>rc c'. BACNET_SHELL_LOCK_HANDLER others (settings_cmd_delete tg st) argv c = Some (rc, c') \<longrightarrow>
      extends (lock_depth c + 1) c c')"
  using cmd_value.locked_extends [of others "(tg, st, lib)" argv c]
    cmd_settings_delete.locked_extends [of others "(tg, st)" argv c]
  by simp

section \<open>Witnesses\<close>

definition small_unsigned :: "u64 \<Rightarrow> unit app_value" where
  "small_unsigned n =
     \<lparr>context_specific = False, tag = BACNET_APPLICATION_TAG_UNSIGNED_INT, content = Unsigned_Int n\<rparr>"

definition small_text :: "unit bacapp_text" where
  "small_text = bacapp.extend small_bacapp
     \<lparr>bacapp_decode_known_property = (\<lambda>buf n v ty prop. (2, v)),
      bacapp_snprintf_value = (\<lambda>n opv v. ''value'')\<rparr>"

lemma small_text_laws: "bacapp_laws small_text small_value"
  using small_bacapp_laws
  by (simp add: bacapp_laws_def small_text_def small_bacapp_def bacapp.defs)


definition typed_entry :: entries where
  "typed_entry = [(key_text small_target sample_key, [2, 8])]"

lemma typed_entry_inv: "storage_inv small_target entries_good map_of typed_entry"
  by (auto simp: storage_inv_def keys_only_def) (auto simp: typed_entry_def entries_good_def split: if_splits)

lemma typed_entry_value:
  "store_of small_target map_of typed_entry sample_key = Some (encoding small_text (small_unsigned 8))"
  by (simp add: store_of_def typed_entry_def encoding_def small_text_def small_bacapp_def bacapp.defs
      small_unsigned_def content_byte_def tag_defs)

lemma small_unsigned_values: "small_value (small_unsigned 8)" "small_value (small_unsigned 9)"
  by (simp_all add: small_value_def small_unsigned_def small_content_def content_byte_def tag_defs)

lemma small_encoding_length: "length (encoding small_text v) = 2"
  by (simp add: encoding_def small_text_def small_bacapp_def bacapp.defs)

lemma small_parse_nine:
  "bacnet_settings_value_parse (clib small_target) small_text (Some (dec 9)) 1 85 (small_unsigned 8) =
     (True, small_unsigned 9)"
  by (simp add: bacnet_settings_value_parse_def parse_by_tag_def small_unsigned_def tag_defs
      parse_argument_dec small_target_def small_libc_def)
    (simp add: dec.simps dec_digit_def char_class_defs)

lemma sample_key_fields: "object_type sample_key = 1" "property_id sample_key = 85"
  by (simp_all add: sample_key_def)

lemma small_cmd_value_runs:
  "\<exists>c'. settings_cmd_value small_target list_storage small_text
     [''value'', dec 1, dec 4194303, dec 85 @ CHR ''['' # dec 16 @ '']'', dec 9] (console_on typed_entry) =
   Some (0, c')"
proof -
  have parse: "bacnet_storage_key_parse small_target zero_key
      (''value'' # dec 1 # dec 4194303 # (dec 85 @ CHR ''['' # dec 16 @ '']'') # [dec 9]) = Some (0, sample_key)"
    using key_args_parse key_parse_argv0 [of small_target zero_key "''value''" _ "''string''"]
    by (simp add: key_parse_prefix [where args = "[dec 9]"] key_args_def)
  have fits: "length (encoding small_text (small_unsigned 8)) \<le> max_val_len small_target"
    by (simp add: small_encoding_length small_target_max)
  have eq: "settings_cmd_value small_target list_storage small_text
     (''value'' # dec 1 # dec 4194303 # (dec 85 @ CHR ''['' # dec 16 @ '']'') # [dec 9]) (console_on typed_entry) =
    Some (settings_cmd_value_set small_target list_storage small_text sample_key (key_text small_target sample_key)
        (filled small_target (encoding small_text (small_unsigned 8)))
        (length (encoding small_text (small_unsigned 8))) zero_value (dec 9) (touch (console_on typed_entry)))"
    by (rule cmd_value_eq(1) [OF list_storage_ok _ small_text_laws small_unsigned_values(1) _ fits parse refl])
      (simp_all add: typed_entry_inv typed_entry_value)
  have start: "bacapp_decode_application_data small_text (filled small_target (encoding small_text (small_unsigned 8)))
      2 zero_value = (2, small_unsigned 8)"
    using decode_filled [OF small_text_laws small_unsigned_values(1) fits, of zero_value]
    by (simp add: small_encoding_length)
  have "fst (settings_cmd_value_set small_target list_storage small_text sample_key (key_text small_target sample_key)
        (filled small_target (encoding small_text (small_unsigned 8)))
        (length (encoding small_text (small_unsigned 8))) zero_value (dec 9) (touch (console_on typed_entry))) = 0"
    using small_parse_nine bacapp_encode [OF small_text_laws small_unsigned_values(2)]
    by (simp add: settings_cmd_value_set_def start small_encoding_length sample_key_fields case_prod_beta
        Let_def list_storage_set small_target_max)
  then show ?thesis using eq by (metis prod.collapse)
qed

lemma cmd_value_sets_witness:
  "\<exists>c'. settings_cmd_value small_target list_storage small_text
     [''value'', dec 1, dec 4194303, dec 85 @ CHR ''['' # dec 16 @ '']'', dec 5, dec 9] (console_on typed_entry) =
     Some (0, c') \<and>
   store_of small_target map_of (world c') sample_key = Some (encoding small_text (small_unsigned 9))"
proof -
  obtain c' where run: "settings_cmd_value small_target list_storage small_text
     [''value'', dec 1, dec 4194303, dec 85 @ CHR ''['' # dec 16 @ '']'', dec 9] (console_on typed_entry) = Some (0, c')"
    using small_cmd_value_runs by blast
  have parse: "bacnet_storage_key_parse small_target zero_key
      [''value'', dec 1, dec 4194303, dec 85 @ CHR ''['' # dec 16 @ '']''] = Some (0, sample_key)"
    using key_args_parse key_parse_argv0 [of small_target zero_key "''value''" _ "''string''"]
    by (simp add: key_args_def)
  have tags: "bacnet_storage_strtoul (clib small_target) (dec 5) = Some 5"
    by (simp add: parse_argument_dec small_target_def small_libc_def)
  have "store_of small_target map_of (world c') sample_key = Some (encoding small_text (small_unsigned 9)) \<and>
      storage_inv small_target entries_good map_of (world c') \<and>
      settings_cmd_value small_target list_storage small_text
        [''value'', dec 1, dec 4194303, dec 85 @ CHR ''['' # dec 16 @ '']'', dec 5, dec 9] (console_on typed_entry) =
        Some (0, c')"
    by (rule cmd_value_sets [OF list_storage_ok _ small_text_laws small_unsigned_values(1) _ _ parse _
          small_unsigned_values(2) _ run tags])
      (use small_parse_nine in \<open>simp_all add: typed_entry_inv typed_entry_value small_encoding_length
        small_target_max sample_key_fields\<close>)
  then show ?thesis by blast
qed

end
