(* ===== verification/File_Json.thy ===== *)
theory File_Json
  imports Settings_Shell
begin

unbundle bit_operations_syntax

text \<open>
  The JSON output of the file shell (\<open>subsys/bacnet_shell/bacnet_shell_file.c\<close> lines 617--649,
  738--1033 and 1147--1232): strings, hexadecimal data, application values, the loops over encoded
  values, and the lines of a hex dump. A printing routine is the list of the texts it hands to
  \<open>shell_fprintf\<close>, one element per call. The second part reads such output back, as the
  specification of the printers.
\<close>

section \<open>Strings and hexadecimal data\<close>

definition hex_digit_lower :: "nat \<Rightarrow> char" where
  "hex_digit_lower d = ''0123456789abcdef'' ! d"

definition hex2_lower :: "byte \<Rightarrow> string" where
  "hex2_lower b = [hex_digit_lower (unat (drop_bit 4 b)), hex_digit_lower (unat (b AND 0x0f))]"

definition char_of_byte :: "byte \<Rightarrow> char" where
  "char_of_byte b = char_of (unat b)"

definition json_char :: "byte \<Rightarrow> string" where
  "json_char b =
     (if b = 34 \<or> b = 92 then [CHR 0x5C, char_of_byte b]
      else if b = 8 then [CHR 0x5C, CHR ''b'']
      else if b = 12 then [CHR 0x5C, CHR ''f'']
      else if b = 10 then [CHR 0x5C, CHR ''n'']
      else if b = 13 then [CHR 0x5C, CHR ''r'']
      else if b = 9 then [CHR 0x5C, CHR ''t'']
      else if b < 0x20 then [CHR 0x5C, CHR ''u'', CHR ''0'', CHR ''0''] @ hex2_lower b
      else [char_of_byte b])"

definition file_json_string_data :: "byte list \<Rightarrow> string list" where
  "file_json_string_data bs = [''\"''] @ map json_char bs @ [''\"'']"

definition file_json_string :: "string \<Rightarrow> string list" where
  "file_json_string s = file_json_string_data (bytes_of s)"

definition file_json_hex :: "byte list \<Rightarrow> string list" where
  "file_json_hex bs = [''\"''] @ map hex2_lower bs @ [''\"'']"

definition file_json_unsigned_or_null :: "nat \<Rightarrow> nat \<Rightarrow> string list" where
  "file_json_unsigned_or_null val unspecified =
     (if val = unspecified then [''null''] else [dec val])"

section \<open>Floating point values\<close>

text \<open>
  Doubles are IEEE bit patterns. The conversion of a \<open>float\<close> argument widens it exactly; a
  subnormal \<open>float\<close> becomes a normal \<open>double\<close>.
\<close>

fun top_bit :: "nat \<Rightarrow> nat" where
  "top_bit n = (if n < 2 then 0 else Suc (top_bit (n div 2)))"

declare top_bit.simps [simp del]

definition double_bits :: "nat \<Rightarrow> nat \<Rightarrow> nat \<Rightarrow> u64" where
  "double_bits sign expo mant = of_nat (sign * 2 ^ 63 + expo * 2 ^ 52 + mant)"

definition float_to_double :: "u32 \<Rightarrow> u64" where
  "float_to_double f =
     (let sign = unat f div 2 ^ 31; expo = (unat f div 2 ^ 23) mod 256; mant = unat f mod 2 ^ 23
      in if expo = 255 then double_bits sign 2047 (mant * 2 ^ 29)
         else if expo = 0 then
           (if mant = 0 then double_bits sign 0 0
            else double_bits sign (top_bit mant + 874) ((mant - 2 ^ top_bit mant) * 2 ^ (52 - top_bit mant)))
         else double_bits sign (expo + 896) (mant * 2 ^ 29))"

definition double_isfinite :: "u64 \<Rightarrow> bool" where
  "double_isfinite d \<longleftrightarrow> (unat d div 2 ^ 52) mod 2048 \<noteq> 2047"

definition double_isnan :: "u64 \<Rightarrow> bool" where
  "double_isnan d \<longleftrightarrow> \<not> double_isfinite d \<and> unat d mod 2 ^ 52 \<noteq> 0"

text \<open>The sign of an infinity.\<close>

definition double_negative :: "u64 \<Rightarrow> bool" where
  "double_negative d \<longleftrightarrow> 2 ^ 63 \<le> unat d"

section \<open>The functions of the BACnet stack\<close>

text \<open>
  The structures of the stack are the type \<open>'v\<close>, as in theory \<open>Settings\<close>. \<open>union_as\<close> reads the
  union of a value as the member that belongs to a tag; \<open>bacapp_enabled\<close> are the value types the
  configuration compiles in. A decoder of one encoded value gets the remaining bytes and their
  number and the variable it fills. The buffers \<open>application_data\<close> of a CreateObject request and of
  one of its initial values are the lists of their bytes, \<open>sizeof\<close> is the length of the list.
\<close>

record initial_value =
  propertyIdentifier :: u32
  propertyArrayIndex :: u32
  priority :: u8
  value_data :: "byte list"
  value_data_len :: int

record create_data =
  create_object_type :: u32
  create_object_instance :: u32
  application_data :: "byte list"
  application_data_len :: int

record 'v json_lib =
  union_as :: "u8 \<Rightarrow> 'v app_union \<Rightarrow> 'v app_union"
  bacapp_enabled :: "u8 \<Rightarrow> bool"
  json_decode_value :: "byte list \<Rightarrow> nat \<Rightarrow> 'v app_value \<Rightarrow> int \<times> 'v app_value"
  bacapp_snprintf_real :: "bool \<Rightarrow> u64 \<Rightarrow> int \<times> string"
  octetstring_bytes :: "'v \<Rightarrow> byte list"
  characterstring_encoding :: "'v \<Rightarrow> u8"
  characterstring_utf8_valid :: "'v \<Rightarrow> bool"
  characterstring_bytes :: "'v \<Rightarrow> byte list"
  bitstring_bits :: "'v \<Rightarrow> bool list"
  date_fields :: "'v \<Rightarrow> u16 \<times> u8 \<times> u8 \<times> u8"
  time_fields :: "'v \<Rightarrow> u8 \<times> u8 \<times> u8 \<times> u8"
  bactext_object_type_name_default :: "nat \<Rightarrow> string \<Rightarrow> string"
  bactext_property_name_default :: "nat \<Rightarrow> string \<Rightarrow> string"
  create_object_decode_initial_value :: "byte list \<Rightarrow> nat \<Rightarrow> initial_value \<Rightarrow> int \<times> initial_value"

definition BACNET_APPLICATION_TAG_DOUBLE :: u8 where "BACNET_APPLICATION_TAG_DOUBLE = 5"
definition BACNET_DATE_YEAR_EPOCH :: nat where "BACNET_DATE_YEAR_EPOCH = 1900"
definition UINT8_MAX :: nat where "UINT8_MAX = 255"
definition BACNET_NO_PRIORITY :: u8 where "BACNET_NO_PRIORITY = 0"

definition file_json_real ::
    "('v, 'z) json_lib_scheme \<Rightarrow> string \<Rightarrow> u64 \<Rightarrow> bool \<Rightarrow> string list" where
  "file_json_real lib ty val is_single =
     (if \<not> double_isfinite val then
        [''{\"type\":\"'' @ ty @ ''\",\"value\":null,\"special\":''] @
        file_json_string (if double_isnan val then ''nan''
                          else if double_negative val then ''-infinity'' else ''infinity'') @
        [''}'']
      else let (len, number) = bacapp_snprintf_real lib is_single val
           in if len < 0 \<or> 48 \<le> nat len
              then [''{\"type\":\"'' @ ty @ ''\",\"value\":null}'']
              else [''{\"type\":\"'' @ ty @ ''\",\"value\":'' @ number @ ''}''])"

section \<open>Application values\<close>

text \<open>\<open>%ld\<close> and \<open>%u\<close> of the members; a signed value is printed with its sign.\<close>

definition json_structured ::
    "('v, 'z) json_lib_scheme \<Rightarrow> u8 \<Rightarrow> 'v \<Rightarrow> string list" where
  "json_structured lib tg v =
     (if tg = BACNET_APPLICATION_TAG_OCTET_STRING then
        [''{\"type\":\"octet-string\",\"value_hex\":''] @ file_json_hex (octetstring_bytes lib v) @ [''}'']
      else if tg = BACNET_APPLICATION_TAG_CHARACTER_STRING then
        [''{\"type\":\"character-string\",\"encoding\":'' @
           dec (unat (characterstring_encoding lib v)) @ '',''] @
        (if characterstring_utf8_valid lib v
         then [''\"value\":''] @ file_json_string_data (characterstring_bytes lib v)
         else [''\"value_hex\":''] @ file_json_hex (characterstring_bytes lib v)) @ [''}'']
      else if tg = BACNET_APPLICATION_TAG_BIT_STRING then
        [''{\"type\":\"bit-string\",\"bits\":\"''] @
        map (\<lambda>b. if b then ''1'' else ''0'') (bitstring_bits lib v) @ [''\"}'']
      else if tg = BACNET_APPLICATION_TAG_DATE then
        (let (year, month, day, wday) = date_fields lib v
         in [''{\"type\":\"date\",\"year\":''] @
            file_json_unsigned_or_null (unat year) (BACNET_DATE_YEAR_EPOCH + UINT8_MAX) @
            ['',\"month\":''] @ file_json_unsigned_or_null (unat month) UINT8_MAX @
            ['',\"day\":''] @ file_json_unsigned_or_null (unat day) UINT8_MAX @
            ['',\"weekday\":''] @ file_json_unsigned_or_null (unat wday) UINT8_MAX @ [''}''])
      else
        (let (hour, minute, second, hundredths) = time_fields lib v
         in [''{\"type\":\"time\",\"hour\":''] @ file_json_unsigned_or_null (unat hour) UINT8_MAX @
            ['',\"minute\":''] @ file_json_unsigned_or_null (unat minute) UINT8_MAX @
            ['',\"second\":''] @ file_json_unsigned_or_null (unat second) UINT8_MAX @
            ['',\"hundredths\":''] @ file_json_unsigned_or_null (unat hundredths) UINT8_MAX @ [''}'']))"

definition file_json_application_value ::
    "('v, 'z) json_lib_scheme \<Rightarrow> 'v app_value \<Rightarrow> string list" where
  "file_json_application_value lib val =
     (let unsupported = [''{\"type\":\"unsupported\",\"tag\":'' @ dec (unat (tag val)) @ ''}'']
      in if \<not> bacapp_enabled lib (tag val) \<or> 12 < unat (tag val) then unsupported
         else if tag val = BACNET_APPLICATION_TAG_NULL
         then [''{\"type\":\"null\",\"value\":null}'']
         else case union_as lib (tag val) (content val) of
           Null \<Rightarrow> unsupported
         | Boolean b \<Rightarrow> [''{\"type\":\"boolean\",\"value\":'' @ (if b then ''true'' else ''false'') @ ''}'']
         | Unsigned_Int n \<Rightarrow> [''{\"type\":\"unsigned\",\"value\":'' @ dec (unat n) @ ''}'']
         | Signed_Int i \<Rightarrow> [''{\"type\":\"signed\",\"value\":'' @ dec_int (sint i) @ ''}'']
         | Real r \<Rightarrow> file_json_real lib ''real'' (float_to_double r) True
         | Double d \<Rightarrow> file_json_real lib ''double'' d False
         | Structured v \<Rightarrow> json_structured lib (tag val) v
         | Enumerated e \<Rightarrow> [''{\"type\":\"enumerated\",\"value\":'' @ dec (unat e) @ ''}'']
         | Object_Id ty inst \<Rightarrow>
             [''{\"type\":\"object-identifier\",\"object_type\":'' @ dec (unat ty) @
              '',\"object_type_name\":''] @
             file_json_string (bactext_object_type_name_default lib (unat ty) ''unknown'') @
             ['',\"instance\":'' @ dec (unat inst) @ ''}''])"

section \<open>Sequences of application values\<close>

text \<open>The check: every step decodes at least one byte and not more than there are.\<close>

function primitive_from ::
    "('v, 'z) json_lib_scheme \<Rightarrow> byte list \<Rightarrow> nat \<Rightarrow> nat \<Rightarrow> 'v app_value \<Rightarrow> bool" where
  "primitive_from lib data data_len offset val =
     (if data_len \<le> offset then True
      else let (decoded_len, val') = json_decode_value lib (drop offset data) (data_len - offset) val
           in if decoded_len \<le> 0 \<or> data_len - offset < nat decoded_len then False
              else primitive_from lib data data_len (offset + nat decoded_len) val')"
  by pat_completeness auto
termination
  by (relation "measure (\<lambda>(lib, data, n, offset, val). n - offset)") auto

declare primitive_from.simps [simp del]

definition file_application_data_is_primitive ::
    "('v, 'z) json_lib_scheme \<Rightarrow> byte list \<Rightarrow> nat \<Rightarrow> bool" where
  "file_application_data_is_primitive lib data data_len =
     primitive_from lib data data_len 0 zero_value"

text \<open>
  The printing loop has no check of its own: it goes on for as long as the offset, which wraps
  around at 32 bits, is below the length, so it may run forever.
\<close>

partial_function (option) json_values_from ::
    "('v, 'z) json_lib_scheme \<Rightarrow> byte list \<Rightarrow> u32 \<Rightarrow> u32 \<Rightarrow> bool \<Rightarrow> 'v app_value \<Rightarrow> string list option" where
  "json_values_from lib data data_len offset first val =
     (if data_len \<le> offset then Some []
      else let (decoded_len, val') =
                 json_decode_value lib (drop (unat offset) data) (unat (data_len - offset)) val;
               out = (if first then [] else ['','']) @ file_json_application_value lib val'
           in Option.bind
                (json_values_from lib data data_len (offset + of_int decoded_len) False val')
                (\<lambda>rest. Some (out @ rest)))"

definition file_json_application_values ::
    "('v, 'z) json_lib_scheme \<Rightarrow> byte list \<Rightarrow> u32 \<Rightarrow> string list option" where
  "file_json_application_values lib data data_len =
     (if \<not> file_application_data_is_primitive lib data (unat data_len)
      then Some ([''['', ''{\"type\":\"encoded\",\"data_hex\":''] @
                 file_json_hex (take (unat data_len) data) @ [''}]''])
      else Option.bind (json_values_from lib data data_len 0 True zero_value)
             (\<lambda>out. Some ([''[''] @ out @ ['']''])))"

section \<open>CreateObject records\<close>

definition zero_initial_value :: initial_value where
  "zero_initial_value =
     \<lparr>propertyIdentifier = 0, propertyArrayIndex = 0, priority = 0, value_data = [], value_data_len = 0\<rparr>"

function validate_from ::
    "('v, 'z) json_lib_scheme \<Rightarrow> byte list \<Rightarrow> nat \<Rightarrow> nat \<Rightarrow> initial_value \<Rightarrow> int" where
  "validate_from lib data data_len offset val =
     (if data_len \<le> offset then 0
      else let (decoded_len, val') =
                 create_object_decode_initial_value lib (drop offset data) (data_len - offset) val
           in if decoded_len \<le> 0 \<or> data_len - offset < nat decoded_len then - EBADMSG
              else validate_from lib data data_len (offset + nat decoded_len) val')"
  by pat_completeness auto
termination
  by (relation "measure (\<lambda>(lib, data, n, offset, val). n - offset)") auto

declare validate_from.simps [simp del]

definition file_initial_values_validate ::
    "('v, 'z) json_lib_scheme \<Rightarrow> create_data \<Rightarrow> int" where
  "file_initial_values_validate lib data =
     (if application_data_len data < 0 \<or> length (application_data data) < nat (application_data_len data)
      then - EBADMSG
      else validate_from lib (application_data data) (nat (application_data_len data)) 0 zero_initial_value)"

definition json_initial_value ::
    "('v, 'z) json_lib_scheme \<Rightarrow> initial_value \<Rightarrow> string list option" where
  "json_initial_value lib val =
     Option.bind (file_json_application_values lib (value_data val) (of_int (value_data_len val)))
       (\<lambda>values_out. Some (
          [''{\"property_identifier\":'' @ dec (unat (propertyIdentifier val)) @ '',\"property_name\":''] @
          file_json_string
            (bactext_property_name_default lib (unat (propertyIdentifier val)) ''unknown'') @
          ['',\"array_index\":''] @
          [if propertyArrayIndex val = BACNET_ARRAY_ALL then ''null''
           else dec (unat (propertyArrayIndex val))] @
          ['',\"priority\":''] @
          [if priority val = BACNET_NO_PRIORITY then ''null'' else dec (unat (priority val))] @
          ['',\"value\":''] @ values_out @ [''}'']))"

partial_function (option) initial_values_from ::
    "('v, 'z) json_lib_scheme \<Rightarrow> byte list \<Rightarrow> u32 \<Rightarrow> u32 \<Rightarrow> bool \<Rightarrow> initial_value \<Rightarrow>
     string list option" where
  "initial_values_from lib data data_len offset first val =
     (if data_len \<le> offset then Some []
      else let (decoded_len, val') =
                 create_object_decode_initial_value lib (drop (unat offset) data)
                   (unat (data_len - offset)) val
           in Option.bind (json_initial_value lib val')
                (\<lambda>item. Option.bind
                  (initial_values_from lib data data_len (offset + of_int decoded_len) False val')
                  (\<lambda>rest. Some ((if first then [] else ['','']) @ item @ rest))))"

definition file_json_initial_values ::
    "('v, 'z) json_lib_scheme \<Rightarrow> create_data \<Rightarrow> string list option" where
  "file_json_initial_values lib data =
     Option.bind
       (initial_values_from lib (application_data data) (of_int (application_data_len data)) 0 True
          zero_initial_value)
       (\<lambda>out. Some ([''[''] @ out @ ['']'']))"

definition file_json_create_object ::
    "('v, 'z) json_lib_scheme \<Rightarrow> u32 \<Rightarrow> create_data \<Rightarrow> event list option" where
  "file_json_create_object lib offset data =
     Option.bind (file_json_initial_values lib data)
       (\<lambda>out. Some (
          map Fprint
            ([''{\"offset\":'' @ dec (unat offset) @ '',\"object_type\":'' @
                dec (unat (create_object_type data)) @ '',\"object_type_name\":''] @
             file_json_string
               (bactext_object_type_name_default lib (unat (create_object_type data)) ''unknown'') @
             ['',\"object_instance\":'' @ dec (unat (create_object_instance data)) @
                '',\"initial_values\":''] @ out) @ [Print ''}'']))"

section \<open>Hex dumps\<close>

definition hex8_lower :: "u32 \<Rightarrow> string" where
  "hex8_lower w = map (\<lambda>k. hex_digit_lower (unat w div 16 ^ k mod 16)) [7, 6, 5, 4, 3, 2, 1, 0]"

definition dump_cell :: "byte list \<Rightarrow> nat \<Rightarrow> nat \<Rightarrow> string" where
  "dump_cell data len index = (if index < len then hex2_lower (data ! index) else ''  '')"

definition dump_ascii :: "byte list \<Rightarrow> nat \<Rightarrow> nat \<Rightarrow> string" where
  "dump_ascii data len index =
     (if index < len \<and> 0x20 \<le> data ! index \<and> data ! index \<le> 0x7e
      then [char_of_byte (data ! index)] else ''.'')"

definition file_dump_line :: "u32 \<Rightarrow> byte list \<Rightarrow> nat \<Rightarrow> event list" where
  "file_dump_line offset data len =
     map Fprint
       ([hex8_lower offset @ '': ''] @
        concat (map (\<lambda>k. [dump_cell data len (2 * k), dump_cell data len (2 * k + 1), '' ''] @
                          (if 2 * k = 6 then ['' ''] else []))
                  [0..<8]) @
        ['' |''] @ map (dump_ascii data len) [0..<16]) @
     [Print ''|'']"


section \<open>Reading the output back\<close>

definition hex_byte :: "char \<Rightarrow> char \<Rightarrow> byte option" where
  "hex_byte h l =
     (case (digit_value h, digit_value l) of
        (Some a, Some b) \<Rightarrow> Some (of_nat (16 * a + b))
      | _ \<Rightarrow> None)"

fun hex_read :: "string \<Rightarrow> byte list option" where
  "hex_read [] = Some []"
| "hex_read [c] = None"
| "hex_read (h # l # cs) =
     (case (hex_byte h l, hex_read cs) of
        (Some b, Some bs) \<Rightarrow> Some (b # bs)
      | _ \<Rightarrow> None)"

lemma digit_value_hex: "d < 16 \<Longrightarrow> digit_value (hex_digit_lower d) = Some d"
proof -
  have "list_all (\<lambda>d. digit_value (hex_digit_lower d) = Some d) [0..<16]" by code_simp
  then show "d < 16 \<Longrightarrow> digit_value (hex_digit_lower d) = Some d" by (simp add: list_all_iff)
qed

lemma unat_nibbles:
  "unat (drop_bit 4 (b :: byte)) = unat b div 16" "unat (b AND 0x0f) = unat b mod 16"
proof -
  show "unat (drop_bit 4 b) = unat b div 16"
    by (simp only: drop_bit_eq_div, simp add: unat_div)
  have "b AND 0x0f = take_bit 4 b" by (simp add: take_bit_eq_mask mask_eq_exp_minus_1)
  then show "unat (b AND 0x0f) = unat b mod 16"
    by (simp only: unsigned_take_bit_eq) (simp add: take_bit_eq_mod)
qed

lemma hex_byte_hex2: "hex2_lower b = [h, l] \<Longrightarrow> hex_byte h l = Some b"
proof -
  assume eq: "hex2_lower b = [h, l]"
  have "unat b div 16 < 16" using unat_u8_bound [of b] by linarith
  then show ?thesis using eq
    by (auto simp: hex2_lower_def hex_byte_def unat_nibbles digit_value_hex word_unat_eq_iff)
qed

lemma hex_read_cells: "hex_read (concat (map hex2_lower bs)) = Some bs"
proof (induction bs)
  case (Cons b bs)
  obtain h l where hl: "hex2_lower b = [h, l]" by (simp add: hex2_lower_def)
  show ?case by (simp add: hl hex_byte_hex2 [OF hl] Cons.IH)
qed simp

text \<open>A JSON string after its opening quote, to its closing quote; bytes from 128 on stand for
  themselves, as the parts of UTF-8 characters.\<close>

fun json_read_rest :: "string \<Rightarrow> byte list option" where
  "json_read_rest [] = None"
| "json_read_rest (c # cs) =
     (if c = CHR 0x22 then (if cs = [] then Some [] else None)
      else if of_char c < (32 :: nat) then None
      else if c = CHR 0x5C then
        (case cs of
           [] \<Rightarrow> None
         | d # ds \<Rightarrow>
           if d = CHR ''u'' then
             (case ds of
                z1 # z2 # h # l # es \<Rightarrow>
                  if z1 = CHR ''0'' \<and> z2 = CHR ''0''
                  then (case hex_byte h l of
                          None \<Rightarrow> None
                        | Some b \<Rightarrow> map_option (Cons b) (json_read_rest es))
                  else None
              | _ \<Rightarrow> None)
           else (case map_of [(CHR 0x22, 34), (CHR 0x5C, 92), (CHR ''/'', 47), (CHR ''b'', 8),
                              (CHR ''f'', 12), (CHR ''n'', 10), (CHR ''r'', 13), (CHR ''t'', 9)] d of
                   None \<Rightarrow> None
                 | Some b \<Rightarrow> map_option (Cons b) (json_read_rest ds)))
      else map_option (Cons (of_char c)) (json_read_rest cs))"

definition json_read_string :: "string \<Rightarrow> byte list option" where
  "json_read_string s =
     (case s of [] \<Rightarrow> None | c # cs \<Rightarrow> if c = CHR 0x22 then json_read_rest cs else None)"

lemma of_char_char_of_byte [simp]: "of_char (char_of_byte b) = (unat b :: nat)"
  by (simp add: char_of_byte_def)

lemma byte_of_char: "(of_char c :: byte) = of_nat (of_char c)"
  by (simp add: of_nat_of_char)

lemma byte_of_char_of_byte [simp]: "of_char (char_of_byte b) = b"
  by (simp add: byte_of_char)

lemma char_of_byte_eq: "char_of_byte b = c \<longleftrightarrow> unat b = of_char c"
  by (metis of_char_char_of_byte of_char_eq_iff)

lemma json_char_plain:
  assumes "\<not> unat b < 32" "unat b \<noteq> 34" "unat b \<noteq> 92"
  shows "json_read_rest (char_of_byte b # cs) = map_option (Cons b) (json_read_rest cs)"
  using assms by (simp add: char_of_byte_eq)


lemma unat_char_consts: "unat b = n \<longleftrightarrow> b = of_nat n" if "n < 256" for b :: byte
  using that by (auto simp: word_unat_eq_iff unat_of_nat)

lemma json_char_control:
  assumes "unat b < 32" "b \<notin> {8, 12, 10, 13, 9}"
  shows "json_read_rest ([CHR 0x5C, CHR ''u'', CHR ''0'', CHR ''0''] @ hex2_lower b @ cs) =
    map_option (Cons b) (json_read_rest cs)"
proof -
  obtain h l where hl: "hex2_lower b = [h, l]" by (simp add: hex2_lower_def)
  show ?thesis by (simp add: hl hex_byte_hex2 [OF hl])
qed

lemma json_char_special:
  "json_char 34 = [CHR 0x5C, CHR 0x22]" "json_char 92 = [CHR 0x5C, CHR 0x5C]"
  "json_char 8 = [CHR 0x5C, CHR ''b'']" "json_char 12 = [CHR 0x5C, CHR ''f'']"
  "json_char 10 = [CHR 0x5C, CHR ''n'']" "json_char 13 = [CHR 0x5C, CHR ''r'']"
  "json_char 9 = [CHR 0x5C, CHR ''t'']"
  by code_simp+

lemma read_json_char: "json_read_rest (json_char b @ cs) = map_option (Cons b) (json_read_rest cs)"
proof -
  consider "b \<in> {34, 92, 8, 12, 10, 13, 9}" | "b \<notin> {34, 92, 8, 12, 10, 13, 9}" "unat b < 32"
    | "b \<notin> {34, 92, 8, 12, 10, 13, 9}" "\<not> unat b < 32" by blast
  then show ?thesis
  proof cases
    case 1
    then show ?thesis by (elim insertE) (simp_all add: json_char_special)
  next
    case 2
    then have "b < 0x20" by (simp add: word_less_nat_alt)
    with 2 show ?thesis using json_char_control [of b cs] by (simp add: json_char_def)
  next
    case 3
    then have "\<not> b < 0x20" "unat b \<noteq> 34" "unat b \<noteq> 92"
      by (auto simp: word_less_nat_alt unat_char_consts)
    with 3 show ?thesis using json_char_plain [of b cs] by (simp add: json_char_def)
  qed
qed

lemma read_json_chars:
  "json_read_rest (concat (map json_char bs) @ [CHR 0x22]) = Some bs"
  by (induction bs) (simp_all add: read_json_char)

interpretation json_string: codec
  "\<lambda>_ :: unit. True" "\<lambda>_ _. True" "\<lambda>_ bs. concat (file_json_string_data bs)" "\<lambda>_. json_read_string"
  by unfold_locales (simp add: file_json_string_data_def json_read_string_def read_json_chars)

definition json_read_hex :: "string \<Rightarrow> byte list option" where
  "json_read_hex s =
     (case s of
        [] \<Rightarrow> None
      | c # cs \<Rightarrow> if c = CHR 0x22 \<and> cs \<noteq> [] \<and> last cs = CHR 0x22 then hex_read (butlast cs) else None)"

interpretation json_hex: codec
  "\<lambda>_ :: unit. True" "\<lambda>_ _. True" "\<lambda>_ bs. concat (file_json_hex bs)" "\<lambda>_. json_read_hex"
  by unfold_locales (simp add: file_json_hex_def json_read_hex_def hex_read_cells butlast_append)

text \<open>The hex columns of a dump line, without the blanks between them.\<close>

definition line_text :: "event list \<Rightarrow> string" where
  "line_text evs = concat (map (\<lambda>ev. case ev of Print s \<Rightarrow> s | Fprint s \<Rightarrow> s | _ \<Rightarrow> '''') evs)"

definition dump_read :: "string \<Rightarrow> byte list option" where
  "dump_read line = hex_read (filter (\<lambda>c. c \<noteq> CHR '' '') (take 41 (drop 10 line)))"

lemma concat_upt_nth:
  "length xs \<le> n \<Longrightarrow>
   concat (map (\<lambda>i. if i < length xs then f (xs ! i) else []) [0..<n]) = concat (map f xs)"
proof (induction n arbitrary: xs)
  case (Suc n)
  show ?case
  proof (cases xs)
    case (Cons x ys)
    show ?thesis using Suc.IH [of ys] Suc.prems unfolding Cons
      by (simp add: upt_conv_Cons map_Suc_upt [symmetric] comp_def del: upt_Suc cong del: if_weak_cong)
  qed simp
qed simp

lemma hex_digit_not_blank: "d < 16 \<Longrightarrow> hex_digit_lower d \<noteq> CHR '' ''"
  using digit_value_hex [of d] by (auto simp: digit_value_def c_isdigit_def)

lemma hex2_not_blank: "filter (\<lambda>c. c \<noteq> CHR '' '') (hex2_lower b) = hex2_lower b"
proof -
  have "unat b div 16 < 16" using unat_u8_bound [of b] by linarith
  then show ?thesis by (simp add: hex2_lower_def unat_nibbles hex_digit_not_blank)
qed

lemma dump_cell_filter:
  "filter (\<lambda>c. c \<noteq> CHR '' '') (dump_cell data len i) = (if i < len then hex2_lower (data ! i) else [])"
  by (simp add: dump_cell_def hex2_not_blank)

lemma dump_cell_length [simp]: "length (dump_cell data len i) = 2"
  by (simp add: dump_cell_def hex2_lower_def)

lemma dump_ascii_length [simp]: "length (dump_ascii data len i) = 1"
  by (simp add: dump_ascii_def)

definition dump_columns :: "byte list \<Rightarrow> nat \<Rightarrow> string" where
  "dump_columns data len =
     concat (map (\<lambda>k. dump_cell data len (2 * k) @ dump_cell data len (2 * k + 1) @ '' '' @
                      (if 2 * k = 6 then '' '' else []))
               [0..<8])"

lemma upt_8: "[0..<8] = [0, 1, 2, 3, 4, 5, 6, 7 :: nat]"
  by (simp add: upt_rec)

lemma upt_16: "[0..<16] = [0, 1, 2, 3, 4, 5, 6, 7, 8, 9, 10, 11, 12, 13, 14, 15 :: nat]"
  by (simp add: upt_rec)

lemma dump_columns_length: "length (dump_columns data len) = 41"
  by (simp add: dump_columns_def upt_8)

lemma dump_columns_filter:
  "filter (\<lambda>c. c \<noteq> CHR '' '') (dump_columns data len) =
   concat (map (\<lambda>i. if i < len then hex2_lower (data ! i) else []) [0..<16])"
  by (simp only: dump_columns_def upt_8 upt_16 list.map concat.simps filter_append dump_cell_filter)
    (simp del: if_split)

lemma dump_line_text:
  "line_text (file_dump_line offset data len) =
   hex8_lower offset @ '': '' @ dump_columns data len @ '' |'' @ concat (map (dump_ascii data len) [0..<16]) @ ''|''"
  by (simp add: line_text_def file_dump_line_def dump_columns_def upt_8 comp_def)

lemma hex8_length [simp]: "length (hex8_lower w) = 8"
  by (simp add: hex8_lower_def)

lemma dump_read_line:
  assumes "length data \<le> 16"
  shows "dump_read (line_text (file_dump_line offset data (length data))) = Some data"
  using assms
  by (simp add: dump_read_def dump_line_text dump_columns_length dump_columns_filter concat_upt_nth hex_read_cells)

section \<open>Decoded sequences\<close>

text \<open>The values of a buffer, when every step decodes at least one byte and not more than there are.\<close>

function decode_sequence ::
    "(byte list \<Rightarrow> nat \<Rightarrow> 'a \<Rightarrow> int \<times> 'a) \<Rightarrow> byte list \<Rightarrow> nat \<Rightarrow> nat \<Rightarrow> 'a \<Rightarrow> 'a list option" where
  "decode_sequence f data data_len offset val =
     (if data_len \<le> offset then Some []
      else let (decoded_len, val') = f (drop offset data) (data_len - offset) val
           in if decoded_len \<le> 0 \<or> data_len - offset < nat decoded_len then None
              else map_option (Cons val') (decode_sequence f data data_len (offset + nat decoded_len) val'))"
  by pat_completeness auto
termination
  by (relation "measure (\<lambda>(f, data, n, offset, val). n - offset)") auto

declare decode_sequence.simps [simp del]

fun separated :: "bool \<Rightarrow> string list list \<Rightarrow> string list" where
  "separated first [] = []"
| "separated first (x # xs) = (if first then [] else ['','']) @ x @ separated False xs"

lemma primitive_from_sequence:
  "primitive_from lib data n offset val \<longleftrightarrow>
   decode_sequence (json_decode_value lib) data n offset val \<noteq> None"
proof (induction lib data n offset val rule: primitive_from.induct)
  case (1 lib data n offset val)
  then show ?case
    by (subst primitive_from.simps, subst decode_sequence.simps) (auto simp: Let_def split: prod.splits)
qed

lemma validate_from_sequence:
  "validate_from lib data n offset val =
   (if decode_sequence (create_object_decode_initial_value lib) data n offset val = None then - EBADMSG else 0)"
proof (induction lib data n offset val rule: validate_from.induct)
  case (1 lib data n offset val)
  then show ?case
    by (subst validate_from.simps, subst decode_sequence.simps) (auto simp: Let_def split: prod.splits)
qed

lemma u32_advance:
  assumes "offset < (data_len :: u32)" "0 < k" "nat k \<le> unat data_len - unat offset"
  shows "unat (offset + of_int k) = unat offset + nat k"
proof -
  have k: "(of_int k :: u32) = of_nat (nat k)" using assms(2) by simp
  have "unat offset + nat k < 4294967296"
    using assms(1,3) unat_u32_bound [of data_len] unfolding word_less_nat_alt by linarith
  then show ?thesis unfolding k by (simp add: unat_word_ariths unat_of_nat)
qed

lemma decode_step:
  assumes "\<not> data_len \<le> offset"
    and "decode_sequence f data (unat data_len) (unat offset) val = Some vs"
  shows "\<exists>k val' ws. f (drop (unat offset) data) (unat (data_len - offset)) val = (k, val') \<and> 0 < k \<and>
    unat (offset + of_int k) = unat offset + nat k \<and> nat k \<le> unat data_len - unat offset \<and>
    unat (data_len - offset) = unat data_len - unat (offset :: u32) \<and>
    decode_sequence f data (unat data_len) (unat offset + nat k) val' = Some ws \<and> vs = val' # ws"
proof -
  have diff: "unat (data_len - offset) = unat data_len - unat offset"
    using assms(1) by (simp add: unat_sub word_le_nat_alt)
  obtain k val' where kv: "f (drop (unat offset) data) (unat data_len - unat offset) val = (k, val')"
    by fastforce
  have step: "0 < k" "nat k \<le> unat data_len - unat offset"
    "\<exists>ws. decode_sequence f data (unat data_len) (unat offset + nat k) val' = Some ws \<and> vs = val' # ws"
    using assms
    by (auto simp: decode_sequence.simps [of _ _ "unat data_len" "unat offset"] kv word_le_nat_alt split: if_splits)
  have "unat (offset + of_int k) = unat offset + nat k"
    using u32_advance [of offset data_len k] assms(1) step by (simp add: not_le)
  with step kv diff show ?thesis by auto
qed

lemma json_values_sequence:
  "decode_sequence (json_decode_value lib) data (unat data_len) (unat offset) val = Some vs \<Longrightarrow>
   json_values_from lib data data_len offset first val =
     Some (separated first (map (file_json_application_value lib) vs))"
proof (induction "json_decode_value lib" data "unat data_len" "unat offset" val
    arbitrary: offset first vs rule: decode_sequence.induct)
  case (1 data val)
  show ?case
  proof (cases "data_len \<le> offset")
    case True
    then show ?thesis using "1.prems"
      by (subst json_values_from.simps)
        (simp add: decode_sequence.simps [of _ _ "unat data_len"] word_le_nat_alt)
  next
    case False
    note step = decode_step [OF False "1.prems"]
    obtain k val' ws where kv: "json_decode_value lib (drop (unat offset) data)
        (unat (data_len - offset)) val = (k, val')" and k: "0 < k" "unat (offset + of_int k) = unat offset + nat k"
        "nat k \<le> unat data_len - unat offset" "unat (data_len - offset) = unat data_len - unat offset"
      and ws: "decode_sequence (json_decode_value lib) data (unat data_len) (unat offset + nat k) val' = Some ws"
        "vs = val' # ws"
      using step by blast
    have "json_values_from lib data data_len (offset + of_int k) False val' =
        Some (separated False (map (file_json_application_value lib) ws))"
      using "1.hyps" [OF _ kv [unfolded k(4), symmetric] refl] False k ws(1) by (simp add: word_le_nat_alt)
    then show ?thesis using False
      by (subst json_values_from.simps) (simp add: kv ws(2))
  qed
qed

lemma application_values_eq:
  "file_json_application_values lib data n =
     Some (case decode_sequence (json_decode_value lib) data (unat n) 0 zero_value of
             None \<Rightarrow> [''['', ''{\"type\":\"encoded\",\"data_hex\":''] @ file_json_hex (take (unat n) data) @ [''}]'']
           | Some vs \<Rightarrow> [''[''] @ separated True (map (file_json_application_value lib) vs) @ ['']''])"
proof (cases "decode_sequence (json_decode_value lib) data (unat n) 0 zero_value")
  case None
  then show ?thesis
    by (simp add: file_json_application_values_def file_application_data_is_primitive_def primitive_from_sequence)
next
  case (Some vs)
  then show ?thesis
    using json_values_sequence [of lib data n 0 zero_value vs True]
    by (simp add: file_json_application_values_def file_application_data_is_primitive_def primitive_from_sequence)
qed

lemma json_initial_value_total: "json_initial_value lib val \<noteq> None"
  by (simp add: json_initial_value_def application_values_eq)

text \<open>What is printed for one initial value.\<close>

definition initial_value_text :: "('v, 'z) json_lib_scheme \<Rightarrow> initial_value \<Rightarrow> string list" where
  "initial_value_text lib val = the (json_initial_value lib val)"

lemma json_initial_value_eq: "json_initial_value lib val = Some (initial_value_text lib val)"
  using json_initial_value_total [of lib val] by (auto simp: initial_value_text_def)

lemma initial_values_sequence:
  "decode_sequence (create_object_decode_initial_value lib) data (unat data_len) (unat offset) val = Some vs \<Longrightarrow>
   initial_values_from lib data data_len offset first val =
     Some (separated first (map (initial_value_text lib) vs))"
proof (induction "create_object_decode_initial_value lib" data "unat data_len" "unat offset" val
    arbitrary: offset first vs rule: decode_sequence.induct)
  case (1 data val)
  show ?case
  proof (cases "data_len \<le> offset")
    case True
    then show ?thesis using "1.prems"
      by (subst initial_values_from.simps)
        (simp add: decode_sequence.simps [of _ _ "unat data_len"] word_le_nat_alt)
  next
    case False
    note step = decode_step [OF False "1.prems"]
    obtain k val' ws where kv: "create_object_decode_initial_value lib (drop (unat offset) data)
        (unat (data_len - offset)) val = (k, val')" and k: "0 < k" "unat (offset + of_int k) = unat offset + nat k"
        "nat k \<le> unat data_len - unat offset" "unat (data_len - offset) = unat data_len - unat offset"
      and ws: "decode_sequence (create_object_decode_initial_value lib) data (unat data_len) (unat offset + nat k) val' = Some ws"
        "vs = val' # ws"
      using step by blast
    have "initial_values_from lib data data_len (offset + of_int k) False val' =
        Some (separated False (map (initial_value_text lib) ws))"
      using "1.hyps" [OF _ kv [unfolded k(4), symmetric] refl] False k ws(1) by (simp add: word_le_nat_alt)
    then show ?thesis using False
      by (subst initial_values_from.simps) (simp add: kv ws(2) json_initial_value_eq)
  qed
qed

lemma initial_values_eq:
  assumes "file_initial_values_validate lib data = 0" and "application_data_len data \<le> 2147483647"
  obtains vs where
    "decode_sequence (create_object_decode_initial_value lib) (application_data data)
       (nat (application_data_len data)) 0 zero_initial_value = Some vs"
    "file_json_initial_values lib data =
       Some ([''[''] @ separated True (map (initial_value_text lib) vs) @ ['']''])"
proof -
  have len: "0 \<le> application_data_len data" using assms(1)
    by (auto simp: file_initial_values_validate_def split: if_splits)
  then have n: "unat (of_int (application_data_len data) :: u32) = nat (application_data_len data)"
    using assms(2) unat_of_nat_u32 [of "nat (application_data_len data)"] by simp
  obtain vs where vs: "decode_sequence (create_object_decode_initial_value lib) (application_data data)
       (nat (application_data_len data)) 0 zero_initial_value = Some vs"
    using assms(1) by (auto simp: file_initial_values_validate_def validate_from_sequence split: if_splits)
  have "file_json_initial_values lib data =
       Some ([''[''] @ separated True (map (initial_value_text lib) vs) @ ['']''])"
    using initial_values_sequence [of lib "application_data data" "of_int (application_data_len data)" 0
        zero_initial_value vs True] vs
    by (simp add: file_json_initial_values_def n)
  with vs show ?thesis by (rule that)
qed

lemma create_object_eq:
  assumes "file_initial_values_validate lib data = 0" and "application_data_len data \<le> 2147483647"
  shows "\<exists>vs out. decode_sequence (create_object_decode_initial_value lib) (application_data data)
       (nat (application_data_len data)) 0 zero_initial_value = Some vs \<and>
     file_json_initial_values lib data = Some out \<and>
     out = [''[''] @ separated True (map (initial_value_text lib) vs) @ ['']''] \<and>
     file_json_create_object lib offset data \<noteq> None"
  by (rule initial_values_eq [OF assms]) (simp add: file_json_create_object_def)

section \<open>Properties\<close>

text \<open>
  C24. A string of the JSON output is a JSON string with exactly the given bytes: quotes,
  backslashes and control characters are escaped, so that a reader of JSON gets the bytes back.
\<close>

theorem json_string_reads_back:
  "json_read_string (concat (file_json_string_data bs)) = Some bs \<and>
   json_read_string (concat (file_json_string s)) = Some (bytes_of s) \<and>
   json_read_hex (concat (file_json_hex bs)) = Some bs"
  using json_string.roundtrip [of bs] json_string.roundtrip [of "bytes_of s"]
    json_hex.roundtrip [of bs]
  by (simp add: file_json_string_def)

text \<open>
  A line of a dump has the same width whatever it shows, starts with the offset, and its hex
  columns are exactly the bytes read, up to 16 of them.
\<close>

lemma dump_line_reads_back:
  assumes "length data \<le> 16"
  shows "take 10 (line_text (file_dump_line offset data (length data))) = hex8_lower offset @ '': '' \<and>
         length (line_text (file_dump_line offset data (length data))) = 70 \<and>
         dump_read (line_text (file_dump_line offset data (length data))) = Some data"
proof -
  have "length (concat (map (dump_ascii data (length data)) [0..<16])) = 16"
    by (simp add: upt_16)
  then show ?thesis using dump_read_line [OF assms, of offset]
    by (simp add: dump_line_text dump_columns_length)
qed

text \<open>
  Printing a sequence of application values always ends, although its loop checks nothing: it
  prints every value of the buffer in order when the whole buffer decodes, and the buffer in
  hexadecimal otherwise.
\<close>

lemma application_values_output:
  "file_json_application_values lib data n =
     Some (case decode_sequence (json_decode_value lib) data (unat n) 0 zero_value of
             None \<Rightarrow> [''['', ''{\"type\":\"encoded\",\"data_hex\":''] @ file_json_hex (take (unat n) data) @ [''}]'']
           | Some vs \<Rightarrow> [''[''] @ separated True (map (file_json_application_value lib) vs) @ ['']''])"
  by (rule application_values_eq)

text \<open>
  A CreateObject record that passed the check of its initial values is printed to its end,
  with every initial value in order; the check never lets a record through whose printing loops.
\<close>

lemma validated_record_printed:
  assumes "file_initial_values_validate lib data = 0" and "application_data_len data \<le> 2147483647"
  shows "\<exists>vs out. decode_sequence (create_object_decode_initial_value lib) (application_data data)
       (nat (application_data_len data)) 0 zero_initial_value = Some vs \<and>
     file_json_initial_values lib data = Some out \<and>
     out = [''[''] @ separated True (map (initial_value_text lib) vs) @ ['']''] \<and>
     file_json_create_object lib offset data \<noteq> None"
  by (rule create_object_eq [OF assms])

section \<open>Witnesses\<close>

text \<open>A library in which every byte is an unsigned value, and an initial value is a property number,
  a value byte and nothing else; a zero byte does not decode.\<close>

definition small_json :: "unit json_lib" where
  "small_json =
     \<lparr>union_as = (\<lambda>t u. u), bacapp_enabled = (\<lambda>t. True),
      json_decode_value = (\<lambda>bs n v.
        if n = 0 \<or> bs ! 0 = 0 then (-1, v)
        else (1, \<lparr>context_specific = False, tag = 2, content = Unsigned_Int (ucast (bs ! 0))\<rparr>)),
      bacapp_snprintf_real = (\<lambda>single d. (1, ''0'')),
      octetstring_bytes = (\<lambda>v. []), characterstring_encoding = (\<lambda>v. 0),
      characterstring_utf8_valid = (\<lambda>v. True), characterstring_bytes = (\<lambda>v. []),
      bitstring_bits = (\<lambda>v. []), date_fields = (\<lambda>v. (0, 0, 0, 0)), time_fields = (\<lambda>v. (0, 0, 0, 0)),
      bactext_object_type_name_default = (\<lambda>n d. d), bactext_property_name_default = (\<lambda>n d. d),
      create_object_decode_initial_value = (\<lambda>bs n v.
        if n < 2 then (-1, v)
        else (2, v\<lparr>propertyIdentifier := ucast (bs ! 0), propertyArrayIndex := BACNET_ARRAY_ALL,
                   priority := 0, value_data := [bs ! 1], value_data_len := 1\<rparr>))\<rparr>"

definition small_record :: create_data where
  "small_record = \<lparr>create_object_type = 1, create_object_instance = 7,
     application_data = [85, 3, 28, 4, 0, 0], application_data_len = 4\<rparr>"

lemma dump_line_reads_back_witness:
  "dump_read (line_text (file_dump_line 32 [0, 65, 255] 3)) = Some [0, 65, 255]"
  using dump_line_reads_back [of "[0, 65, 255]" 32] by (simp add: numeral_3_eq_3)

lemma small_record_valid: "file_initial_values_validate small_json small_record = 0"
  by code_simp

lemma validated_record_printed_witness:
  "file_json_create_object small_json 16 small_record \<noteq> None"
  using validated_record_printed [OF small_record_valid, of 16] by (auto simp: small_record_def)

end
