(* ===== verification/File_Shell.thy ===== *)
theory File_Shell
  imports File_Json
begin

text \<open>
  The File object commands of the shell (\<open>subsys/bacnet_shell/bacnet_shell_file.c\<close>): parsing of
  their arguments, and the commands list, info, config, read, write and import, which run inside the
  task lock. Theory \<open>File_Transfer\<close> has the commands that take the lock themselves.
\<close>

section \<open>The functions of the BACnet stack and of Zephyr\<close>

text \<open>
  The files and the Device object are the world \<open>'w\<close> of the console. \<open>file_read\<close> returns the bytes
  that \<open>bacfile_read_offset\<close> puts into the buffer, whose number is its result; \<open>hex2bin\<close> and
  \<open>bin2hex\<close> return what they put into a buffer of the given size, nothing when they fail.
  \<open>k_malloc_ok\<close> tells whether an allocation succeeds. \<open>FILE_CONFIG_COUNT\<close> is 0 when the stack is
  built without backup and restore.
\<close>

record import_chunk =
  chunk_instance :: "string option"
  chunk_offset :: "string option"
  chunk_data :: "string option"

record ('v, 'w) file_lib = "'v json_lib" +
  FILE_CHUNK_SIZE :: nat
  FILE_CONFIG_COUNT :: nat
  MAX_APDU :: nat
  bacnet_string_to_uint32 :: "string \<Rightarrow> u32 option"
  bactext_object_type_strtol :: "string \<Rightarrow> u32 option"
  bactext_object_type_name :: "nat \<Rightarrow> string"
  bacfile_valid_instance :: "u32 \<Rightarrow> 'w \<Rightarrow> bool"
  bacfile_pathname :: "u32 \<Rightarrow> 'w \<Rightarrow> string option"
  bacfile_name_ansi :: "u32 \<Rightarrow> 'w \<Rightarrow> string option"
  bacfile_file_type :: "u32 \<Rightarrow> 'w \<Rightarrow> string option"
  bacfile_file_size :: "u32 \<Rightarrow> 'w \<Rightarrow> u64"
  bacfile_read_only :: "u32 \<Rightarrow> 'w \<Rightarrow> bool"
  bacfile_file_access_stream :: "u32 \<Rightarrow> 'w \<Rightarrow> bool"
  bacfile_count :: "'w \<Rightarrow> nat"
  bacfile_index_to_instance :: "nat \<Rightarrow> 'w \<Rightarrow> u32"
  file_read :: "u32 \<Rightarrow> u32 \<Rightarrow> nat \<Rightarrow> 'w \<Rightarrow> byte list"
  bacfile_write_offset :: "u32 \<Rightarrow> u32 \<Rightarrow> byte list \<Rightarrow> 'w \<Rightarrow> nat \<times> 'w"
  Device_Configuration_File :: "nat \<Rightarrow> 'w \<Rightarrow> u32"
  Device_Configuration_File_Set :: "nat \<Rightarrow> u32 \<Rightarrow> 'w \<Rightarrow> bool \<times> 'w"
  Device_Is_Configuration_File :: "u32 \<Rightarrow> 'w \<Rightarrow> bool"
  Device_Object_Functions_Find :: "u32 \<Rightarrow> 'w \<Rightarrow> bool"
  k_malloc_ok :: "nat \<Rightarrow> 'w console \<Rightarrow> bool"
  hex2bin :: "string \<Rightarrow> nat \<Rightarrow> byte list"
  bin2hex :: "byte list \<Rightarrow> nat \<Rightarrow> string"
  crc32_ieee_update :: "u32 \<Rightarrow> byte list \<Rightarrow> u32"
  json_obj_parse :: "string \<Rightarrow> int \<times> import_chunk"
  create_object_decode_service_request :: "byte list \<Rightarrow> nat \<Rightarrow> int \<times> create_data"

definition OBJECT_FILE :: nat where "OBJECT_FILE = 10"

definition emit_all :: "event list \<Rightarrow> 's console \<Rightarrow> 's console" where
  "emit_all evs c = fold emit evs c"

definition print_texts :: "string list \<Rightarrow> 's console \<Rightarrow> 's console" where
  "print_texts ts = emit_all (map Fprint ts)"

definition default_text :: "string option \<Rightarrow> string" where
  "default_text s = (case s of None \<Rightarrow> '''' | Some t \<Rightarrow> t)"

definition true_false :: "bool \<Rightarrow> string" where
  "true_false b = (if b then ''true'' else ''false'')"

section \<open>Arguments\<close>

definition file_instance_parse ::
    "('v, 'w, 'z) file_lib_scheme \<Rightarrow> string \<Rightarrow> 'w console \<Rightarrow> int \<times> u32 \<times> 'w console" where
  "file_instance_parse lib val c =
     (case bacnet_string_to_uint32 lib val of
        None \<Rightarrow> (- EINVAL, 0, shell_error (''Invalid file instance: '' @ val) c)
      | Some inst \<Rightarrow>
        (let (valid, c1) = query (bacfile_valid_instance lib inst) c
         in if valid then (0, inst, c1)
            else (- EINVAL, inst,
                  shell_error (''File instance '' @ dec (unat inst) @ '' does not exist'') c1)))"

definition file_offset_parse ::
    "('v, 'w, 'z) file_lib_scheme \<Rightarrow> string \<Rightarrow> 'w console \<Rightarrow> int \<times> u32 \<times> 'w console" where
  "file_offset_parse lib val c =
     (case bacnet_string_to_uint32 lib val of
        None \<Rightarrow> (- EINVAL, 0, shell_error (''Invalid file offset: '' @ val) c)
      | Some offset \<Rightarrow>
        if INT32_MAX < unat offset
        then (- EINVAL, offset, shell_error (''Invalid file offset: '' @ val) c)
        else (0, offset, c))"

definition file_instance_number_parse ::
    "('v, 'w, 'z) file_lib_scheme \<Rightarrow> string \<Rightarrow> 'w console \<Rightarrow> int \<times> u32 \<times> 'w console" where
  "file_instance_number_parse lib val c =
     (case bacnet_string_to_uint32 lib val of
        None \<Rightarrow> (- EINVAL, 0, shell_error (''Invalid file instance: '' @ val) c)
      | Some inst \<Rightarrow> (0, inst, c))"

text \<open>The loop over the digits of a token; the numbers are unsigned words of 32 bits.\<close>

fun import_digits :: "string \<Rightarrow> u32 \<Rightarrow> u32 option" where
  "import_digits [] parsed = Some parsed"
| "import_digits (c # cs) parsed =
     (let v = of_char c :: nat
      in if v < 48 \<or> 57 < v then None
         else let digit = of_nat (v - 48) :: u32
              in if (0xFFFFFFFF - digit) div 10 < parsed then None
                 else import_digits cs (parsed * 10 + digit))"

definition file_import_uint32_parse :: "string option \<Rightarrow> u32 option" where
  "file_import_uint32_parse token =
     (case token of
        None \<Rightarrow> None
      | Some s \<Rightarrow> if length s = 0 \<or> 10 < length s then None else import_digits s 0)"

section \<open>Conditions on a file\<close>

definition file_path_require ::
    "('v, 'w, 'z) file_lib_scheme \<Rightarrow> u32 \<Rightarrow> 'w console \<Rightarrow> int \<times> 'w console" where
  "file_path_require lib inst c =
     (let (pathname, c1) = query (bacfile_pathname lib inst) c
      in if default_text pathname = ''''
         then (- EINVAL, shell_error (''File '' @ dec (unat inst) @ '' has no pathname'') c1)
         else (0, c1))"

definition file_writable_path_require ::
    "('v, 'w, 'z) file_lib_scheme \<Rightarrow> u32 \<Rightarrow> 'w console \<Rightarrow> int \<times> 'w console" where
  "file_writable_path_require lib inst c =
     (let (err, c1) = file_path_require lib inst c
      in if err \<noteq> 0 then (err, c1)
         else let (ro, c2) = query (bacfile_read_only lib inst) c1
              in if ro then (- EPERM, shell_error (''File '' @ dec (unat inst) @ '' is read-only'') c2)
                 else (0, c2))"

definition file_stream_require ::
    "('v, 'w, 'z) file_lib_scheme \<Rightarrow> u32 \<Rightarrow> 'w console \<Rightarrow> int \<times> 'w console" where
  "file_stream_require lib inst c =
     (let (stream, c1) = query (bacfile_file_access_stream lib inst) c
      in if \<not> stream
         then (- ENOTSUP, shell_error (''File '' @ dec (unat inst) @ '' does not use stream access'') c1)
         else (0, c1))"

section \<open>Commands under the lock\<close>

text \<open>The description of a file, as list and info print it.\<close>

definition file_object_text ::
    "('v, 'w, 'z) file_lib_scheme \<Rightarrow> u32 \<Rightarrow> 'w console \<Rightarrow> 'w console" where
  "file_object_text lib inst c =
     (let (pathname, c) = query (bacfile_pathname lib inst) c;
          (name_ansi, c) = query (bacfile_name_ansi lib inst) c;
          (mime_type, c) = query (bacfile_file_type lib inst) c;
          c = shell_fprintf (''{\"instance\":'' @ dec (unat inst) @ '',\"name\":'') c;
          c = print_texts (file_json_string (default_text name_ansi)) c;
          c = shell_fprintf '',\"mime_type\":'' c;
          c = print_texts (file_json_string (default_text mime_type)) c;
          (n, c) = query (bacfile_file_size lib inst) c;
          (ro, c) = query (bacfile_read_only lib inst) c;
          c = shell_fprintf ('',\"size\":'' @ dec (unat n) @ '',\"read_only\":'' @ true_false ro @
                '',\"pathname\":'') c
      in print_texts (file_json_string (default_text pathname)) c)"

definition list_file ::
    "('v, 'w, 'z) file_lib_scheme \<Rightarrow> nat \<Rightarrow> nat \<Rightarrow> 'w console \<Rightarrow> 'w console" where
  "list_file lib count index c =
     (let (inst, c) = query (bacfile_index_to_instance lib index) c
      in shell_print (''}'' @ (if index + 1 < count then '','' else ''''))
           (file_object_text lib inst c))"

definition cmd_file_list :: "('v, 'w, 'z) file_lib_scheme \<Rightarrow> 'w shell_handler" where
  "cmd_file_list lib argv c =
     (let (count, c) = query (bacfile_count lib) c;
          c = shell_print ''{\"file-list\":['' c;
          c = fold (list_file lib count) [0..<count] c
      in Some (0, shell_print (''],\"file-list-size\":'' @ dec count @ ''}'') c))"

definition cmd_file_info :: "('v, 'w, 'z) file_lib_scheme \<Rightarrow> 'w shell_handler" where
  "cmd_file_info lib argv c =
     (if length argv \<noteq> 2
      then Some (- EINVAL, shell_error ''Usage: bacnet file info <instance>'' c)
      else let (err, inst, c) = file_instance_parse lib (argv ! 1) c
           in if err \<noteq> 0 then Some (err, c)
              else let c = file_object_text lib inst c;
                       (stream, c) = query (bacfile_file_access_stream lib inst) c
                   in Some (0, shell_print ('',\"stream_access\":'' @ true_false stream @ ''}'') c))"

definition config_entry_text :: "nat \<Rightarrow> nat \<Rightarrow> string" where
  "config_entry_text index inst =
     ''{\"index\":'' @ dec index @ '',\"object-type\":'' @ dec OBJECT_FILE @
     '',\"instance\":'' @ dec inst @ ''}''"

definition list_config_entry ::
    "('v, 'w, 'z) file_lib_scheme \<Rightarrow> nat \<Rightarrow> 'w console \<Rightarrow> 'w console" where
  "list_config_entry lib index c =
     (let (inst, c) = query (Device_Configuration_File lib index) c
      in shell_print (config_entry_text (index + 1) (unat inst) @
           (if index + 1 < FILE_CONFIG_COUNT lib then '','' else '''')) c)"

definition cmd_file_config :: "('v, 'w, 'z) file_lib_scheme \<Rightarrow> 'w shell_handler" where
  "cmd_file_config lib argv c =
     (if length argv = 1
      then let c = shell_print ''{\"configuration-files\":['' c;
               c = fold (list_config_entry lib) [0..<FILE_CONFIG_COUNT lib] c
           in Some (0, shell_print (''],\"configuration-files-size\":'' @ dec (FILE_CONFIG_COUNT lib) @ ''}'') c)
      else if length argv \<noteq> 4
      then Some (- EINVAL,
             shell_error ''Usage: bacnet file config [<index> <object-type> <instance>]'' c)
      else let bad_index = Some (- EINVAL, shell_error (''Invalid configuration-files index: '' @ (argv ! 1) @
                 ''. Must be 1-'' @ dec (FILE_CONFIG_COUNT lib) @ ''.'') c)
      in case bacnet_string_to_uint32 lib (argv ! 1) of
        None \<Rightarrow> bad_index
      | Some index \<Rightarrow>
        if unat index < 1 \<or> FILE_CONFIG_COUNT lib < unat index then bad_index
        else case bactext_object_type_strtol lib (argv ! 2) of
          None \<Rightarrow> Some (- EINVAL, shell_error (''Invalid object-type: '' @ argv ! 2) c)
        | Some ty \<Rightarrow>
          if unat ty \<noteq> OBJECT_FILE
          then Some (- EINVAL, shell_error ''configuration-files entries must be File objects'' c)
          else let missing = (\<lambda>c. Some (- EINVAL,
                     shell_error (''File instance '' @ (argv ! 3) @ '' does not exist'') c))
          in case bacnet_string_to_uint32 lib (argv ! 3) of
            None \<Rightarrow> missing c
          | Some inst \<Rightarrow>
            (let (valid, c) = query (bacfile_valid_instance lib inst) c
             in if \<not> valid then missing c
                else let (set_ok, c) = access (Device_Configuration_File_Set lib (unat index - 1) inst) c
                in if \<not> set_ok
                   then Some (- EIO, shell_error (''Unable to set configuration-files entry '' @
                          dec (unat index)) c)
                   else Some (0, shell_print (config_entry_text (unat index) (unat inst)) c)))"

text \<open>What is read may not be more than what was asked for, the size of the buffer.\<close>

definition file_read_line ::
    "('v, 'w, 'z) file_lib_scheme \<Rightarrow> u32 \<Rightarrow> u32 \<Rightarrow> nat \<Rightarrow> 'w console \<Rightarrow> (int \<times> 'w console) option" where
  "file_read_line lib inst offset requested c =
     (let (data, c) = query (file_read lib inst offset requested) c
      in if requested < length data then None
      else let hex = (if data = [] then '''' else bin2hex lib data (2 * FILE_CHUNK_SIZE lib + 1))
      in if data \<noteq> [] \<and> length hex \<noteq> 2 * length data
         then Some (- EIO, shell_error ''Unable to encode read data as hex'' c)
         else Some (0, shell_print (''{\"instance\":'' @ dec (unat inst) @ '',\"offset\":'' @ dec (unat offset) @
                '',\"length\":'' @ dec (length data) @ '',\"data\":\"'' @ hex @ ''\",\"eof\":'' @
                true_false (length data < requested) @ ''}'') c))"

definition cmd_file_read :: "('v, 'w, 'z) file_lib_scheme \<Rightarrow> 'w shell_handler" where
  "cmd_file_read lib argv c =
     (if length argv < 3 \<or> 4 < length argv
      then Some (- EINVAL, shell_error ''Usage: bacnet file read <instance> <offset> [len]'' c)
      else let (err, inst, c) = file_instance_parse lib (argv ! 1) c
      in if err \<noteq> 0 then Some (err, c)
      else let (err, offset, c) = file_offset_parse lib (argv ! 2) c
      in if err \<noteq> 0 then Some (err, c)
      else let requested = (if length argv = 4
                 then (case bacnet_string_to_uint32 lib (argv ! 3) of
                         None \<Rightarrow> None
                       | Some n \<Rightarrow> if n = 0 \<or> FILE_CHUNK_SIZE lib < unat n then None else Some (unat n))
                 else Some (FILE_CHUNK_SIZE lib))
      in case requested of
           None \<Rightarrow> Some (- EINVAL, shell_error (''Read length must be between 1 and '' @
                     dec (FILE_CHUNK_SIZE lib)) c)
         | Some n \<Rightarrow>
           (let (err, c) = file_path_require lib inst c
            in if err \<noteq> 0 then Some (err, c)
            else let (err, c) = file_stream_require lib inst c
            in if err \<noteq> 0 then Some (err, c)
            else let (fsize, c) = query (bacfile_file_size lib inst) c
            in if unat fsize < unat offset
               then let (fsize, c) = query (bacfile_file_size lib inst) c
                    in Some (- EINVAL, shell_error (''Offset '' @ dec (unat offset) @
                         '' is past end of file ('' @ dec (unat fsize) @ '')'') c)
               else file_read_line lib inst offset n c))"

definition file_write_hex ::
    "('v, 'w, 'z) file_lib_scheme \<Rightarrow> u32 \<Rightarrow> u32 \<Rightarrow> string \<Rightarrow> 'w console \<Rightarrow> int \<times> 'w console" where
  "file_write_hex lib inst offset hex c =
     (let hex_len = length hex
      in if hex_len = 0 then (- EINVAL, shell_error ''Hex data must not be empty'' c)
      else if 2 * FILE_CHUNK_SIZE lib < hex_len
      then (- E2BIG, shell_error (''Hex data exceeds the '' @ dec (FILE_CHUNK_SIZE lib) @
              ''-byte chunk limit'') c)
      else if hex_len mod 2 \<noteq> 0
      then (- EINVAL, shell_error ''Hex data must contain an even number of characters'' c)
      else let data_len = hex_len div 2; data = hex2bin lib hex (FILE_CHUNK_SIZE lib)
      in if length data \<noteq> data_len
         then (- EINVAL, shell_error ''Hex data contains a non-hexadecimal character'' c)
      else let (err, c) = file_writable_path_require lib inst c
      in if err \<noteq> 0 then (err, c)
      else let (err, c) = file_stream_require lib inst c
      in if err \<noteq> 0 then (err, c)
      else let (bytes_written, c) = access (bacfile_write_offset lib inst offset data) c
      in if bytes_written \<noteq> data_len
         then (- EIO, shell_error (''Wrote '' @ dec bytes_written @ '' of '' @ dec data_len @
                '' bytes to file '' @ dec (unat inst) @ '' at offset '' @ dec (unat offset)) c)
         else (0, shell_print (''{\"instance\":'' @ dec (unat inst) @ '',\"offset\":'' @ dec (unat offset) @
                '',\"length\":'' @ dec data_len @ ''}'') c))"

definition cmd_file_write :: "('v, 'w, 'z) file_lib_scheme \<Rightarrow> 'w shell_handler" where
  "cmd_file_write lib argv c =
     (if length argv \<noteq> 4
      then Some (- EINVAL, shell_error ''Usage: bacnet file write <instance> <offset> <hex>'' c)
      else let (err, inst, c) = file_instance_parse lib (argv ! 1) c
      in if err \<noteq> 0 then Some (err, c)
      else let (err, offset, c) = file_offset_parse lib (argv ! 2) c
      in if err \<noteq> 0 then Some (err, c)
      else Some (file_write_hex lib inst offset (argv ! 3) c))"

definition cmd_file_import :: "('v, 'w, 'z) file_lib_scheme \<Rightarrow> 'w shell_handler" where
  "cmd_file_import lib argv c =
     (if length argv \<noteq> 2
      then Some (- EINVAL, shell_error
             (''Usage: bacnet file import '{\"instance\":N,\"offset\":N,\"data\":\"<hex>\"}'' @ [CHR 0x27]) c)
      else let (parsed_fields, chunk) = json_obj_parse lib (argv ! 1)
      in if parsed_fields \<noteq> 7
         then Some (- EINVAL, shell_error
                (''Import requires instance, offset, and data fields: '' @ dec_int parsed_fields) c)
         else case (file_import_uint32_parse (chunk_instance chunk),
                    file_import_uint32_parse (chunk_offset chunk), chunk_data chunk) of
           (Some inst, Some offset, Some hex) \<Rightarrow>
             (let (valid, c) = query (bacfile_valid_instance lib inst) c
              in if \<not> valid
                 then Some (- EINVAL,
                        shell_error (''File instance '' @ dec (unat inst) @ '' does not exist'') c)
                 else if INT32_MAX < unat offset
                 then Some (- EINVAL, shell_error ''Import offset is too large'' c)
                 else Some (file_write_hex lib inst offset hex c))
         | _ \<Rightarrow> Some (- EINVAL, shell_error ''Import instance, offset, and data must be valid'' c))"


section \<open>Numbers of an import chunk\<close>

definition digits_from :: "nat \<Rightarrow> string \<Rightarrow> nat" where
  "digits_from p s = foldl (\<lambda>v c. v * 10 + the (digit_value c)) p s"

lemma digits_from_ge: "p \<le> digits_from p s"
proof (induction s arbitrary: p)
  case (Cons c s)
  show ?case using Cons.IH [of "p * 10 + the (digit_value c)"] by (simp add: digits_from_def)
qed (simp add: digits_from_def)

lemma import_step:
  assumes "d < 10"
  shows "(0xFFFFFFFF - of_nat d) div 10 < (p :: u32) \<longleftrightarrow> UINT32_MAX < unat p * 10 + d"
    and "unat p * 10 + d \<le> UINT32_MAX \<Longrightarrow> unat (p * 10 + of_nat d) = unat p * 10 + d"
proof -
  have d: "unat (of_nat d :: u32) = d" using assms by (intro unat_of_nat_u32) simp
  have "unat (0xFFFFFFFF - of_nat d :: u32) = 4294967295 - d"
    using assms by (subst unat_sub) (simp_all add: word_le_nat_alt d)
  then have q: "unat ((0xFFFFFFFF - of_nat d :: u32) div 10) = (4294967295 - d) div 10"
    by (simp add: unat_div)
  show "(0xFFFFFFFF - of_nat d) div 10 < p \<longleftrightarrow> UINT32_MAX < unat p * 10 + d"
    using assms unfolding word_less_nat_alt q UINT32_MAX_def by linarith
  show "unat p * 10 + d \<le> UINT32_MAX \<Longrightarrow> unat (p * 10 + of_nat d) = unat p * 10 + d"
    by (simp add: UINT32_MAX_def unat_word_ariths d)
qed

lemma import_digits_exact:
  "import_digits s p =
     (if list_all c_isdigit s \<and> digits_from (unat p) s \<le> UINT32_MAX
      then Some (of_nat (digits_from (unat p) s)) else None)"
proof (induction s arbitrary: p)
  case Nil
  have "unat p \<le> UINT32_MAX" using unat_u32_bound [of p] unfolding UINT32_MAX_def by linarith
  then show ?case by (simp add: digits_from_def)
next
  case (Cons c s)
  show ?case
  proof (cases "c_isdigit c")
    case False
    then show ?thesis by (auto simp: c_isdigit_def)
  next
    case True
    define d where "d = (of_char c :: nat) - 48"
    have d: "d < 10" "digit_value c = Some d" using True by (auto simp: d_def digit_value_def c_isdigit_def)
    have fold: "digits_from q (c # s) = digits_from (q * 10 + d) s" for q
      by (simp add: digits_from_def d)
    note step = import_step [OF d(1), of p]
    show ?thesis
    proof (cases "unat p * 10 + d \<le> UINT32_MAX")
      case True': True
      show ?thesis using True True' step Cons.IH [of "p * 10 + of_nat d"]
        by (simp add: fold Let_def not_less [symmetric] flip: d_def) (simp add: c_isdigit_def not_less)
    next
      case False
      then have "\<not> digits_from (unat p * 10 + d) s \<le> UINT32_MAX"
        using digits_from_ge [of "unat p * 10 + d" s] by linarith
      then show ?thesis using False step by (simp add: fold Let_def not_le flip: d_def)
    qed
  qed
qed

lemma import_parse_exact:
  "file_import_uint32_parse (Some s) =
     (if s \<noteq> [] \<and> length s \<le> 10 \<and> list_all c_isdigit s \<and> digits_value 10 s \<le> UINT32_MAX
      then Some (of_nat (digits_value 10 s)) else None)"
  by (simp add: file_import_uint32_parse_def import_digits_exact digits_from_def digits_value_def)

lemma import_parse_dec: "file_import_uint32_parse (Some (dec (unat (w :: u32)))) = Some w"
proof -
  have "unat w \<le> UINT32_MAX" using unat_u32_bound [of w] unfolding UINT32_MAX_def by linarith
  then show ?thesis by (simp add: import_parse_exact length_dec_u32 dec_digits)
qed

interpretation import_number: codec
  "\<lambda>_ :: unit. True" "\<lambda>_ _. True" "\<lambda>_ w. dec (unat (w :: u32))" "\<lambda>_ s. file_import_uint32_parse (Some s)"
  by unfold_locales (rule import_parse_dec)

section \<open>Commands and the lock\<close>

lemma extends_emit_all [simp]:
  "extends d c c' \<Longrightarrow> d \<le> lock_depth c \<Longrightarrow> extends d c (emit_all evs c')"
  by (induction evs arbitrary: c') (auto simp: emit_all_def)

lemma extends_print_texts [simp]:
  "extends d c c' \<Longrightarrow> d \<le> lock_depth c \<Longrightarrow> extends d c (print_texts ts c')"
  by (simp add: print_texts_def)

lemma extends_file_object [simp]:
  "extends d c c' \<Longrightarrow> d \<le> lock_depth c \<Longrightarrow> extends d c (file_object_text lib inst c')"
  by (simp add: file_object_text_def Let_def case_prod_beta)

lemma extends_requires [simp]:
  "extends d c c' \<Longrightarrow> d \<le> lock_depth c \<Longrightarrow> extends d c (snd (file_path_require lib inst c'))"
  "extends d c c' \<Longrightarrow> d \<le> lock_depth c \<Longrightarrow> extends d c (snd (file_writable_path_require lib inst c'))"
  "extends d c c' \<Longrightarrow> d \<le> lock_depth c \<Longrightarrow> extends d c (snd (file_stream_require lib inst c'))"
  "extends d c c' \<Longrightarrow> d \<le> lock_depth c \<Longrightarrow> extends d c (snd (snd (file_instance_parse lib val c')))"
  "extends d c c' \<Longrightarrow> d \<le> lock_depth c \<Longrightarrow> extends d c (snd (snd (file_offset_parse lib val c')))"
  by (simp_all add: file_path_require_def file_writable_path_require_def file_stream_require_def
      file_instance_parse_def file_offset_parse_def Let_def case_prod_beta split: option.split)

lemma extends_write_hex [simp]:
  "extends d c c' \<Longrightarrow> d \<le> lock_depth c \<Longrightarrow> extends d c (snd (file_write_hex lib inst offset hex c'))"
  by (simp add: file_write_hex_def Let_def case_prod_beta)

lemma extends_results:
  "file_write_hex lib inst offset hex c' = (rc, c'') \<Longrightarrow> extends d c c' \<Longrightarrow> d \<le> lock_depth c \<Longrightarrow>
   extends d c c''"
  "file_path_require lib inst c' = (rc, c'') \<Longrightarrow> extends d c c' \<Longrightarrow> d \<le> lock_depth c \<Longrightarrow> extends d c c''"
  "file_stream_require lib inst c' = (rc, c'') \<Longrightarrow> extends d c c' \<Longrightarrow> d \<le> lock_depth c \<Longrightarrow> extends d c c''"
  using extends_write_hex [of d c c' lib inst offset hex] extends_requires(1,3) [of d c c' lib inst]
  by simp_all

lemma extends_read_line:
  "file_read_line lib inst offset n c' = Some (rc, c'') \<Longrightarrow> extends d c c' \<Longrightarrow> d \<le> lock_depth c \<Longrightarrow>
   extends d c c''"
  by (auto simp: file_read_line_def Let_def case_prod_beta split: if_splits)

interpretation cmd_list: shell_command cmd_file_list
  by unfold_locales
    (auto simp: cmd_file_list_def Let_def case_prod_beta list_file_def intro!: extends_steps extends_fold)

interpretation cmd_info: shell_command cmd_file_info
  by unfold_locales (auto simp: cmd_file_info_def Let_def case_prod_beta split: if_splits)

interpretation cmd_config: shell_command cmd_file_config
  by unfold_locales
    (auto simp: cmd_file_config_def Let_def case_prod_beta list_config_entry_def
      intro!: extends_steps extends_fold split: handler_splits)

interpretation cmd_read: shell_command cmd_file_read
  by unfold_locales
    (auto simp: cmd_file_read_def Let_def case_prod_beta elim!: extends_read_line extends_results split: handler_splits)

interpretation cmd_write: shell_command cmd_file_write
  by unfold_locales (auto simp: cmd_file_write_def Let_def case_prod_beta elim!: extends_results split: handler_splits)

interpretation cmd_import: shell_command cmd_file_import
  by unfold_locales
    (auto simp: cmd_file_import_def Let_def case_prod_beta elim!: extends_results split: handler_splits)

section \<open>Writing and reading chunks\<close>

text \<open>The hexadecimal conversions of Zephyr, on what this program hands them.\<close>

definition hex_text :: "byte list \<Rightarrow> string" where
  "hex_text bs = concat (map hex2_lower bs)"

definition hex_laws :: "('v, 'w, 'z) file_lib_scheme \<Rightarrow> bool" where
  "hex_laws lib \<longleftrightarrow>
     (\<forall>bs n. length bs \<le> n \<longrightarrow> hex2bin lib (hex_text bs) n = bs) \<and>
     (\<forall>bs n. 2 * length bs < n \<longrightarrow> bin2hex lib bs n = hex_text bs)"

text \<open>
  The files of the stack: \<open>contents inst w\<close> are the bytes of a file. A complete write inside or at the
  end of the file puts the data in its place and touches nothing else.
\<close>

definition write_at :: "nat \<Rightarrow> byte list \<Rightarrow> byte list \<Rightarrow> byte list" where
  "write_at offset data bs = take offset bs @ data @ drop (offset + length data) bs"

definition same_attributes :: "('v, 'w, 'z) file_lib_scheme \<Rightarrow> u32 \<Rightarrow> 'w \<Rightarrow> 'w \<Rightarrow> bool" where
  "same_attributes lib inst w w' \<longleftrightarrow>
     bacfile_valid_instance lib inst w' = bacfile_valid_instance lib inst w \<and>
     bacfile_pathname lib inst w' = bacfile_pathname lib inst w \<and>
     bacfile_read_only lib inst w' = bacfile_read_only lib inst w \<and>
     bacfile_file_access_stream lib inst w' = bacfile_file_access_stream lib inst w"

definition file_laws ::
    "('v, 'w, 'z) file_lib_scheme \<Rightarrow> (u32 \<Rightarrow> 'w \<Rightarrow> byte list) \<Rightarrow> bool" where
  "file_laws lib contents \<longleftrightarrow>
     (\<forall>inst w. unat (bacfile_file_size lib inst w) = length (contents inst w)) \<and>
     (\<forall>inst offset n w. file_read lib inst offset n w = take n (drop (unat offset) (contents inst w))) \<and>
     (\<forall>inst offset data w k w'. bacfile_write_offset lib inst offset data w = (k, w') \<longrightarrow>
        k = length data \<longrightarrow> unat offset \<le> length (contents inst w) \<longrightarrow>
        contents inst w' = write_at (unat offset) data (contents inst w)) \<and>
     (\<forall>inst inst' offset data w k w'. bacfile_write_offset lib inst offset data w = (k, w') \<longrightarrow>
        same_attributes lib inst' w w' \<and> (inst' \<noteq> inst \<longrightarrow> contents inst' w' = contents inst' w))"

lemma hex2bin_text: "hex_laws lib \<Longrightarrow> length bs \<le> n \<Longrightarrow> hex2bin lib (hex_text bs) n = bs"
  and bin2hex_text: "hex_laws lib \<Longrightarrow> 2 * length bs < n \<Longrightarrow> bin2hex lib bs n = hex_text bs"
  by (simp_all add: hex_laws_def)

lemma length_hex_text [simp]: "length (hex_text bs) = 2 * length bs"
  by (induction bs) (simp_all add: hex_text_def hex2_lower_def)

lemma hex_text_empty [simp]: "hex_text bs = [] \<longleftrightarrow> bs = []"
  by (metis length_0_conv length_hex_text mult_eq_0_iff zero_neq_numeral)

lemma file_size_contents:
  "file_laws lib contents \<Longrightarrow> unat (bacfile_file_size lib inst w) = length (contents inst w)"
  and file_read_contents:
  "file_laws lib contents \<Longrightarrow> file_read lib inst offset n w = take n (drop (unat offset) (contents inst w))"
  by (simp_all add: file_laws_def)

lemma file_write_contents:
  "file_laws lib contents \<Longrightarrow> bacfile_write_offset lib inst offset data w = (length data, w') \<Longrightarrow>
   unat offset \<le> length (contents inst w) \<Longrightarrow>
   contents inst w' = write_at (unat offset) data (contents inst w)"
  by (simp add: file_laws_def)

lemma file_write_frame:
  assumes "file_laws lib contents" "bacfile_write_offset lib inst offset data w = (k, w')"
  shows "same_attributes lib inst' w w'" "inst' \<noteq> inst \<Longrightarrow> contents inst' w' = contents inst' w"
  using assms unfolding file_laws_def by blast+

lemma write_at_read:
  "offset \<le> length bs \<Longrightarrow> take (length data) (drop offset (write_at offset data bs)) = data"
  by (simp add: write_at_def)

lemma length_write_at: "offset \<le> length bs \<Longrightarrow> length (write_at offset data bs) = max (length bs) (offset + length data)"
  by (simp add: write_at_def)

text \<open>When a write is carried out.\<close>

definition write_accepted ::
    "('v, 'w, 'z) file_lib_scheme \<Rightarrow> u32 \<Rightarrow> string \<Rightarrow> 'w \<Rightarrow> bool" where
  "write_accepted lib inst hex w \<longleftrightarrow>
     hex \<noteq> [] \<and> length hex \<le> 2 * FILE_CHUNK_SIZE lib \<and> even (length hex) \<and>
     length (hex2bin lib hex (FILE_CHUNK_SIZE lib)) = length hex div 2 \<and>
     default_text (bacfile_pathname lib inst w) \<noteq> '''' \<and>
     \<not> bacfile_read_only lib inst w \<and> bacfile_file_access_stream lib inst w"

lemma shell_world [simp]:
  "world (shell_error txt c) = world c" "world (shell_print txt c) = world c"
  "world (shell_fprintf txt c) = world c" "world (shell_warn txt c) = world c"
  by (simp_all add: shell_error_def shell_print_def shell_fprintf_def shell_warn_def)

lemma write_hex_eq:
  "world (snd (file_write_hex lib inst offset hex c)) =
     (if write_accepted lib inst hex (world c)
      then snd (bacfile_write_offset lib inst offset (hex2bin lib hex (FILE_CHUNK_SIZE lib)) (world c))
      else world c)"
  "fst (file_write_hex lib inst offset hex c) = 0 \<longleftrightarrow>
     write_accepted lib inst hex (world c) \<and>
     fst (bacfile_write_offset lib inst offset (hex2bin lib hex (FILE_CHUNK_SIZE lib)) (world c)) =
       length hex div 2"
  by (auto simp: file_write_hex_def file_writable_path_require_def file_path_require_def
      file_stream_require_def Let_def case_prod_beta write_accepted_def even_iff_mod_2_eq_zero)

lemma parse_fields [simp]:
  "world (snd (snd (file_instance_parse lib val c))) = world c"
  "world (snd (snd (file_offset_parse lib val c))) = world c"
  "world (snd (file_path_require lib inst c)) = world c"
  "world (snd (file_stream_require lib inst c)) = world c"
  by (simp_all add: file_instance_parse_def file_offset_parse_def file_path_require_def
      file_stream_require_def Let_def case_prod_beta split: option.split)

lemma instance_parse_ok:
  "fst (file_instance_parse lib val c) = 0 \<longleftrightarrow>
   (\<exists>inst. bacnet_string_to_uint32 lib val = Some inst \<and> bacfile_valid_instance lib inst (world c) \<and>
      fst (snd (file_instance_parse lib val c)) = inst)"
  by (auto simp: file_instance_parse_def Let_def case_prod_beta split: option.split)

lemma offset_parse_ok:
  "fst (file_offset_parse lib val c) = 0 \<longleftrightarrow>
   (\<exists>offset. bacnet_string_to_uint32 lib val = Some offset \<and> unat offset \<le> INT32_MAX \<and>
      fst (snd (file_offset_parse lib val c)) = offset)"
  by (auto simp: file_offset_parse_def split: option.split)

text \<open>What a command may do to the files: one complete chunk, to a file that may be written.\<close>

definition written_chunk :: "('v, 'w, 'z) file_lib_scheme \<Rightarrow> 'w \<Rightarrow> 'w \<Rightarrow> bool" where
  "written_chunk lib w w' \<longleftrightarrow>
     (\<exists>inst offset data. bacfile_valid_instance lib inst w \<and> \<not> bacfile_read_only lib inst w \<and>
        bacfile_file_access_stream lib inst w \<and> unat offset \<le> INT32_MAX \<and>
        0 < length data \<and> length data \<le> FILE_CHUNK_SIZE lib \<and>
        w' = snd (bacfile_write_offset lib inst offset data w))"

lemma write_hex_chunk:
  assumes "bacfile_valid_instance lib inst (world c)" "unat offset \<le> INT32_MAX"
    "file_write_hex lib inst offset hex c = (rc, c')"
  shows "world c' = world c \<or> written_chunk lib (world c) (world c')"
proof (cases "write_accepted lib inst hex (world c)")
  case True
  then have "hex \<noteq> []" "even (length hex)" "length hex \<le> 2 * FILE_CHUNK_SIZE lib"
    by (simp_all add: write_accepted_def)
  then have n: "0 < length hex div 2" "length hex div 2 \<le> FILE_CHUNK_SIZE lib"
    by (cases hex, simp, auto elim!: evenE)
  have "written_chunk lib (world c) (world c')"
    unfolding written_chunk_def
    using True assms n write_hex_eq(1) [of lib inst offset hex c]
    by (intro exI [of _ inst] exI [of _ offset] exI [of _ "hex2bin lib hex (FILE_CHUNK_SIZE lib)"])
      (auto simp: write_accepted_def)
  then show ?thesis by blast
next
  case False
  then show ?thesis using assms(3) write_hex_eq(1) [of lib inst offset hex c] by simp
qed

lemma cmd_write_chunk:
  assumes "cmd_file_write lib argv c = Some (rc, c')"
  shows "world c' = world c \<or> written_chunk lib (world c) (world c')"
proof -
  let ?i = "file_instance_parse lib (argv ! 1) c"
  let ?o = "file_offset_parse lib (argv ! 2) (snd (snd ?i))"
  have "world c' = world c \<or> fst ?i = 0 \<and> fst ?o = 0 \<and>
      file_write_hex lib (fst (snd ?i)) (fst (snd ?o)) (argv ! 3) (snd (snd ?o)) = (rc, c')"
    using assms by (auto simp: cmd_file_write_def Let_def case_prod_beta split: if_splits)
  then show ?thesis
    using write_hex_chunk [of lib "fst (snd ?i)" "snd (snd ?o)" "fst (snd ?o)" "argv ! 3" rc c']
    unfolding instance_parse_ok offset_parse_ok by auto
qed

lemma cmd_import_chunk:
  assumes "cmd_file_import lib argv c = Some (rc, c')"
  shows "world c' = world c \<or> written_chunk lib (world c) (world c')"
proof -
  have "world c' = world c \<or> (\<exists>inst offset hex c1. world c1 = world c \<and>
      bacfile_valid_instance lib inst (world c1) \<and> unat offset \<le> INT32_MAX \<and>
      file_write_hex lib inst offset hex c1 = (rc, c'))"
    using assms
    by (auto simp: cmd_file_import_def Let_def case_prod_beta not_less split: handler_splits)
  then show ?thesis using write_hex_chunk [where lib = lib and rc = rc and c' = c'] by metis
qed

lemma read_line_world: "file_read_line lib inst offset n c = Some (rc, c') \<Longrightarrow> world c' = world c"
  by (auto simp: file_read_line_def Let_def case_prod_beta split: if_splits)

lemma cmd_read_world: "cmd_file_read lib argv c = Some (rc, c') \<Longrightarrow> world c' = world c"
  by (auto simp: cmd_file_read_def Let_def case_prod_beta dest: read_line_world split: handler_splits
      dest!: arg_cong [where f = "world \<circ> snd"])

lemma instance_parse_eq:
  "bacnet_string_to_uint32 lib val = Some inst \<Longrightarrow> bacfile_valid_instance lib inst (world c) \<Longrightarrow>
   file_instance_parse lib val c = (0, inst, snd (query (bacfile_valid_instance lib inst) c))"
  by (simp add: file_instance_parse_def case_prod_beta)

lemma offset_parse_eq:
  "bacnet_string_to_uint32 lib val = Some offset \<Longrightarrow> unat offset \<le> INT32_MAX \<Longrightarrow>
   file_offset_parse lib val c = (0, offset, c)"
  by (simp add: file_offset_parse_def)

lemma cmd_write_success:
  assumes "bacnet_string_to_uint32 lib a1 = Some inst" "bacnet_string_to_uint32 lib a2 = Some offset"
    "cmd_file_write lib [a0, a1, a2, hex] c = Some (0, c')"
  shows "bacfile_valid_instance lib inst (world c) \<and> unat offset \<le> INT32_MAX \<and>
    write_accepted lib inst hex (world c) \<and>
    bacfile_write_offset lib inst offset (hex2bin lib hex (FILE_CHUNK_SIZE lib)) (world c) =
      (length hex div 2, world c') \<and> lock_depth c' = lock_depth c"
proof -
  have valid: "bacfile_valid_instance lib inst (world c)"
    using assms by (auto simp: cmd_file_write_def file_instance_parse_def Let_def case_prod_beta split: if_splits)
  note i = instance_parse_eq [OF assms(1) valid]
  have max: "unat offset \<le> INT32_MAX"
    using assms by (auto simp: cmd_file_write_def i file_offset_parse_def Let_def case_prod_beta split: if_splits)
  let ?c = "snd (query (bacfile_valid_instance lib inst) c)"
  have run: "file_write_hex lib inst offset hex ?c = (0, c')"
    using assms(3) by (simp add: cmd_file_write_def i offset_parse_eq [OF assms(2) max])
  have "lock_depth c' = lock_depth c"
    using extends_results(1) [OF run extends_query [OF extends_refl order_refl] order_refl]
    by (simp add: extends_def)
  with run show ?thesis
    using valid max write_hex_eq [of lib inst offset hex ?c] by (auto simp: prod_eq_iff)
qed

lemma accepted_chunk:
  assumes "hex_laws lib" "0 < length data" "length data \<le> FILE_CHUNK_SIZE lib"
  shows "hex2bin lib (hex_text data) (FILE_CHUNK_SIZE lib) = data"
  using assms by (simp add: hex2bin_text)

lemma cmd_read_success:
  assumes "hex_laws lib" "file_laws lib contents"
    "bacnet_string_to_uint32 lib a1 = Some inst" "bacnet_string_to_uint32 lib a2 = Some offset"
    "bacnet_string_to_uint32 lib a3 = Some n" "n \<noteq> 0" "unat n \<le> FILE_CHUNK_SIZE lib"
    "bacfile_valid_instance lib inst (world c)" "unat offset \<le> INT32_MAX"
    "default_text (bacfile_pathname lib inst (world c)) \<noteq> ''''" "bacfile_file_access_stream lib inst (world c)"
    "unat offset \<le> length (contents inst (world c))"
  shows "\<exists>c'. cmd_file_read lib [a0, a1, a2, a3] c = Some (0, c') \<and> world c' = world c \<and>
    last (trace c') = (lock_depth c', Print (''{\"instance\":'' @ dec (unat inst) @ '',\"offset\":'' @
       dec (unat offset) @ '',\"length\":'' @ dec (length (take (unat n) (drop (unat offset) (contents inst (world c))))) @
       '',\"data\":\"'' @ hex_text (take (unat n) (drop (unat offset) (contents inst (world c)))) @
       ''\",\"eof\":'' @ true_false (length (contents inst (world c)) < unat offset + unat n) @ ''}''))"
proof -
  let ?c1 = "snd (query (bacfile_valid_instance lib inst) c)"
  let ?c2 = "snd (query (bacfile_pathname lib inst) ?c1)"
  let ?c3 = "snd (query (bacfile_file_access_stream lib inst) ?c2)"
  let ?c4 = "snd (query (bacfile_file_size lib inst) ?c3)"
  let ?data = "take (unat n) (drop (unat offset) (contents inst (world c)))"
  have path: "file_path_require lib inst ?c1 = (0, ?c2)"
    using assms(10) by (simp add: file_path_require_def case_prod_beta)
  have stream: "file_stream_require lib inst ?c2 = (0, ?c3)"
    using assms(11) by (simp add: file_stream_require_def case_prod_beta)
  have size: "\<not> unat (bacfile_file_size lib inst (world c)) < unat offset"
    using assms(12) by (simp add: file_size_contents [OF assms(2)])
  have eq: "cmd_file_read lib [a0, a1, a2, a3] c = file_read_line lib inst offset (unat n) ?c4"
    using assms(6,7) size
    by (simp add: cmd_file_read_def instance_parse_eq [OF assms(3,8)] offset_parse_eq [OF assms(4,9)]
        assms(5) path stream case_prod_beta [of _ "query (bacfile_file_size lib inst) ?c3"] Let_def not_less)
  have hex: "?data \<noteq> [] \<Longrightarrow> bin2hex lib ?data (2 * FILE_CHUNK_SIZE lib + 1) = hex_text ?data"
    using assms(7) by (intro bin2hex_text [OF assms(1)]) simp
  have eof: "length ?data < unat n \<longleftrightarrow> length (contents inst (world c)) < unat offset + unat n"
    using assms(12) by auto
  show ?thesis
  proof (cases "?data = []")
    case True
    then show ?thesis
      by (simp add: eq file_read_line_def case_prod_beta Let_def file_read_contents [OF assms(2)] shell_print_def
          flip: eof del: take_eq_Nil drop_eq_Nil length_take)
  next
    case False
    have "\<not> unat n < length ?data" by simp
    with False show ?thesis using hex
      by (simp add: eq file_read_line_def case_prod_beta Let_def file_read_contents [OF assms(2)] shell_print_def
          flip: eof del: take_eq_Nil drop_eq_Nil length_take)
  qed
qed

lemma write_accepted_attributes:
  "same_attributes lib inst w w' \<Longrightarrow> write_accepted lib inst hex w' = write_accepted lib inst hex w"
  by (simp add: write_accepted_def same_attributes_def)

section \<open>Properties\<close>

text \<open>
  A number of an import chunk is taken exactly when its token has one to ten decimal digits and
  its value fits into 32 bits; the check before each step never rejects a number that fits.
\<close>

lemma import_number_exact:
  "file_import_uint32_parse token =
     (case token of
        None \<Rightarrow> None
      | Some s \<Rightarrow>
          if s \<noteq> [] \<and> length s \<le> 10 \<and> list_all c_isdigit s \<and> digits_value 10 s \<le> UINT32_MAX
          then Some (of_nat (digits_value 10 s)) else None)"
  by (cases token) (simp_all only: import_parse_exact option.case, simp add: file_import_uint32_parse_def)

text \<open>
  C12. The write and import commands either leave the files alone, or write one chunk of at most
  \<open>FILE_CHUNK_SIZE\<close> bytes at an offset a stream can have to a file that exists, has stream access
  and is not read-only; the other commands under the lock, but for config, never change anything.
\<close>

theorem file_write_safety:
  "(\<forall>rc c'. cmd_file_write lib argv c = Some (rc, c') \<longrightarrow>
      world c' = world c \<or> written_chunk lib (world c) (world c')) \<and>
   (\<forall>rc c'. cmd_file_import lib argv c = Some (rc, c') \<longrightarrow>
      world c' = world c \<or> written_chunk lib (world c) (world c')) \<and>
   (\<forall>rc c'. cmd_file_read lib argv c = Some (rc, c') \<longrightarrow> world c' = world c)"
proof (intro conjI allI impI)
  fix rc c'
  { assume "cmd_file_write lib argv c = Some (rc, c')"
    then show "world c' = world c \<or> written_chunk lib (world c) (world c')"
      by (rule cmd_write_chunk) }
  { assume "cmd_file_import lib argv c = Some (rc, c')"
    then show "world c' = world c \<or> written_chunk lib (world c) (world c')"
      by (rule cmd_import_chunk) }
  { assume "cmd_file_read lib argv c = Some (rc, c')"
    then show "world c' = world c" by (rule cmd_read_world) }
qed

text \<open>
  C29. What a successful write puts into a file is what a read of the same place prints: the bytes
  in lower-case hexadecimal, with the end of the file reported only when fewer bytes are there than
  asked for.
\<close>

theorem file_write_then_read:
  assumes "hex_laws lib" and "file_laws lib contents"
    and "bacnet_string_to_uint32 lib arg_inst = Some inst"
    and "bacnet_string_to_uint32 lib arg_offset = Some offset"
    and "bacnet_string_to_uint32 lib arg_len = Some (of_nat (length data))"
    and "0 < length data" and "length data \<le> FILE_CHUNK_SIZE lib" and "FILE_CHUNK_SIZE lib \<le> 64"
    and "unat offset \<le> length (contents inst (world c))"
    and "cmd_file_write lib [a0, arg_inst, arg_offset, hex_text data] c = Some (0, c')"
  shows "\<exists>c''. cmd_file_read lib [a0, arg_inst, arg_offset, arg_len] c' = Some (0, c'') \<and>
     last (trace c'') = (lock_depth c'', Print (''{\"instance\":'' @ dec (unat inst) @ '',\"offset\":'' @
       dec (unat offset) @ '',\"length\":'' @ dec (length data) @ '',\"data\":\"'' @ hex_text data @
       ''\",\"eof\":'' @ ''false'' @ ''}'')) \<and>
     world c'' = world c' \<and>
     contents inst (world c') = write_at (unat offset) data (contents inst (world c))"
proof -
  note w = cmd_write_success [OF assms(3,4,10)]
  have wrote: "bacfile_write_offset lib inst offset data (world c) = (length data, world c')"
    using w by (simp add: accepted_chunk [OF assms(1,6,7)])
  have now: "contents inst (world c') = write_at (unat offset) data (contents inst (world c))"
    by (rule file_write_contents [OF assms(2) wrote assms(9)])
  have n: "unat (of_nat (length data) :: u32) = length data"
    using assms(7,8) by (intro unat_of_nat_u32) simp
  have attr: "same_attributes lib inst (world c) (world c')"
    by (rule file_write_frame(1) [OF assms(2) wrote])
  have "(of_nat (length data) :: u32) \<noteq> 0" using n assms(6) by auto
  then have "\<exists>c''. cmd_file_read lib [a0, arg_inst, arg_offset, arg_len] c' = Some (0, c'') \<and> world c'' = world c' \<and>
    last (trace c'') = (lock_depth c'', Print (''{\"instance\":'' @ dec (unat inst) @ '',\"offset\":'' @
       dec (unat offset) @ '',\"length\":'' @ dec (length data) @ '',\"data\":\"'' @ hex_text data @
       ''\",\"eof\":'' @ true_false False @ ''}''))"
    using cmd_read_success [OF assms(1-5), of c' a0] w attr assms(7,9)
    by (simp add: n now write_at_read length_write_at write_accepted_def same_attributes_def)
  then show ?thesis by (auto simp: now true_false_def)
qed

text \<open>
  The commands list, info, config, read, write and import hold the task lock around everything
  they print or touch, and give it back.
\<close>

lemma file_commands_locked:
  "\<forall>h \<in> set [cmd_file_list lib, cmd_file_info lib, cmd_file_config lib, cmd_file_read lib,
             cmd_file_write lib, cmd_file_import lib].
     \<forall>rc c'. BACNET_SHELL_LOCK_HANDLER others h argv c = Some (rc, c') \<longrightarrow>
       extends (lock_depth c + 1) c c'"
  using cmd_list.locked_extends cmd_info.locked_extends cmd_config.locked_extends
    cmd_read.locked_extends cmd_write.locked_extends cmd_import.locked_extends
  by fastforce

section \<open>Witnesses\<close>

text \<open>
  A stack with two files, of which 1 may be written and 2 is empty and read-only; the world is the
  content of file 1, cut off where stream offsets end.
\<close>

definition small_limit :: nat where "small_limit = 2147483647"

definition small_contents :: "u32 \<Rightarrow> byte list \<Rightarrow> byte list" where
  "small_contents inst w = (if inst = 1 then take small_limit w else [])"

definition small_write :: "u32 \<Rightarrow> u32 \<Rightarrow> byte list \<Rightarrow> byte list \<Rightarrow> nat \<times> byte list" where
  "small_write inst offset data w =
     (let bs = small_contents 1 w
      in if inst = 1 \<and> unat offset \<le> length bs \<and> unat offset + length data \<le> small_limit
         then (length data, write_at (unat offset) data bs) else (0, w))"

text \<open>The parser of import chunks reads the text the export prints.\<close>

definition small_chunk_parse :: "string \<Rightarrow> int \<times> import_chunk" where
  "small_chunk_parse s =
     (let s1 = drop 12 s; i = takeWhile c_isdigit s1;
          s2 = drop 10 (dropWhile c_isdigit s1); off = takeWhile c_isdigit s2;
          s3 = drop 9 (dropWhile c_isdigit s2); hex = takeWhile (\<lambda>c. c \<noteq> CHR 0x22) s3
      in (7, \<lparr>chunk_instance = Some i, chunk_offset = Some off, chunk_data = Some hex\<rparr>))"

definition small_files :: "(unit, byte list) file_lib" where
  "small_files = json_lib.extend small_json
     \<lparr>FILE_CHUNK_SIZE = 2, FILE_CONFIG_COUNT = 1, MAX_APDU = 50,
      bacnet_string_to_uint32 = (\<lambda>s. file_import_uint32_parse (Some s)),
      bactext_object_type_strtol = (\<lambda>s. file_import_uint32_parse (Some s)),
      bactext_object_type_name = (\<lambda>n. ''object''),
      bacfile_valid_instance = (\<lambda>inst w. inst = 1 \<or> inst = 2),
      bacfile_pathname = (\<lambda>inst w. if inst = 1 then Some ''/a'' else Some ''/b''),
      bacfile_name_ansi = (\<lambda>inst w. Some ''name''),
      bacfile_file_type = (\<lambda>inst w. None),
      bacfile_file_size = (\<lambda>inst w. of_nat (length (small_contents inst w))),
      bacfile_read_only = (\<lambda>inst w. inst = 2),
      bacfile_file_access_stream = (\<lambda>inst w. True),
      bacfile_count = (\<lambda>w. 2), bacfile_index_to_instance = (\<lambda>i w. of_nat (i + 1)),
      file_read = (\<lambda>inst offset n w. take n (drop (unat offset) (small_contents inst w))),
      bacfile_write_offset = small_write,
      Device_Configuration_File = (\<lambda>i w. 1), Device_Configuration_File_Set = (\<lambda>i inst w. (True, w)),
      Device_Is_Configuration_File = (\<lambda>inst w. inst = 1),
      Device_Object_Functions_Find = (\<lambda>ty w. True),
      k_malloc_ok = (\<lambda>n c. True),
      hex2bin = (\<lambda>s n. case hex_read s of None \<Rightarrow> [] | Some bs \<Rightarrow> if length bs \<le> n then bs else []),
      bin2hex = (\<lambda>bs n. if 2 * length bs < n then hex_text bs else ''''),
      crc32_ieee_update = (\<lambda>crc bs. fold (\<lambda>b x. x * 31 + ucast b) bs crc),
      json_obj_parse = small_chunk_parse,
      create_object_decode_service_request =
        (\<lambda>bs n. if n < 4 then (-1, small_record\<lparr>application_data_len := 0\<rparr>) else (4, small_record))\<rparr>"

lemmas small_files_defs = small_files_def small_json_def json_lib.defs

lemma small_files_hex: "hex_laws small_files"
  by (simp add: hex_laws_def small_files_defs hex_text_def hex_read_cells)

lemma length_small_contents: "length (small_contents inst w) \<le> small_limit"
  by (simp add: small_contents_def)

lemma small_files_size: "unat (of_nat (length (small_contents inst w)) :: u64) = length (small_contents inst w)"
  using length_small_contents [of inst w] by (simp add: unat_of_nat small_limit_def)

lemma small_write_contents:
  assumes "small_write inst offset data w = (k, w')"
  shows "k = length data \<Longrightarrow> unat offset \<le> length (small_contents inst w) \<Longrightarrow>
      small_contents inst w' = write_at (unat offset) data (small_contents inst w)"
    and "inst' \<noteq> inst \<Longrightarrow> small_contents inst' w' = small_contents inst' w"
  using assms length_small_contents [of 1 w]
  by (auto simp: small_write_def Let_def length_write_at small_contents_def write_at_def split: if_splits)

lemma small_files_laws: "file_laws small_files small_contents"
  unfolding file_laws_def
  using small_write_contents by (simp add: small_files_defs small_files_size same_attributes_def)

definition files_console :: "byte list \<Rightarrow> byte list console" where
  "files_console w = \<lparr>lock_depth = 0, trace = [], world = w\<rparr>"

lemma small_write_runs:
  "fst (the (cmd_file_write small_files [''write'', ''1'', ''1'', ''ab''] (files_console [7, 8, 9]))) = 0"
  "world (snd (the (cmd_file_write small_files [''write'', ''1'', ''1'', ''ab''] (files_console [7, 8, 9])))) =
     [7, 171, 9]"
  "cmd_file_write small_files [''write'', ''1'', ''1'', ''ab''] (files_console [7, 8, 9]) = None \<longleftrightarrow> False"
  by code_simp+

lemma small_write_result:
  obtains c' where "cmd_file_write small_files [''write'', ''1'', ''1'', ''ab''] (files_console [7, 8, 9]) = Some (0, c')"
    "world c' = [7, 171, 9]"
  using small_write_runs by (metis not_None_eq option.sel prod.collapse)

lemma file_write_safety_witness: "written_chunk small_files [7, 8, 9] [7, 171, 9]"
proof -
  obtain c' where run: "cmd_file_write small_files [''write'', ''1'', ''1'', ''ab''] (files_console [7, 8, 9]) = Some (0, c')"
    and w: "world c' = [7, 171, 9]" by (rule small_write_result)
  have "world c' = world (files_console [7, 8, 9]) \<or> written_chunk small_files (world (files_console [7, 8, 9])) (world c')"
    using file_write_safety [of small_files "[''write'', ''1'', ''1'', ''ab'']" "files_console [7, 8, 9]"] run by blast
  then show ?thesis by (simp add: w files_console_def)
qed

lemma file_write_then_read_witness:
  "\<exists>c' c''. cmd_file_write small_files [''write'', ''1'', ''1'', ''ab''] (files_console [7, 8, 9]) = Some (0, c') \<and>
     cmd_file_read small_files [''write'', ''1'', ''1'', ''1''] c' = Some (0, c'') \<and>
     small_contents 1 (world c') = [7, 171, 9]"
proof -
  obtain c' where run: "cmd_file_write small_files [''write'', ''1'', ''1'', ''ab''] (files_console [7, 8, 9]) = Some (0, c')"
    by (rule small_write_result)
  have hex: "hex_text [171] = ''ab''" by code_simp
  have arg: "bacnet_string_to_uint32 small_files ''1'' = Some 1" by code_simp
  have contents: "small_contents 1 (world (files_console [7, 8, 9])) = [7, 8, 9]" by code_simp
  have "\<exists>c''. cmd_file_read small_files [''write'', ''1'', ''1'', ''1''] c' = Some (0, c'') \<and>
     last (trace c'') = (lock_depth c'', Print (''{\"instance\":'' @ dec (unat (1 :: u32)) @ '',\"offset\":'' @
       dec (unat (1 :: u32)) @ '',\"length\":'' @ dec (length [171 :: byte]) @ '',\"data\":\"'' @ hex_text [171] @
       ''\",\"eof\":'' @ ''false'' @ ''}'')) \<and>
     world c'' = world c' \<and>
     small_contents 1 (world c') = write_at (unat (1 :: u32)) [171] (small_contents 1 (world (files_console [7, 8, 9])))"
    by (rule file_write_then_read [OF small_files_hex small_files_laws arg arg _ _ _ _ _ run [folded hex]])
      (simp_all add: arg contents, simp_all add: small_files_defs)
  then show ?thesis using run by (auto simp: contents write_at_def)
qed

lemma small_info_runs:
  "BACNET_SHELL_LOCK_HANDLER (\<lambda>w. w) (cmd_file_write small_files) [''write'', ''1'', ''0'', ''ab''] (files_console [7]) = None \<longleftrightarrow> False"
  by code_simp

end
