(* ===== verification/File_Transfer.thy ===== *)
theory File_Transfer
  imports File_Shell
begin

text \<open>
  The commands of the File shell that run without the task lock and take it for each access to a
  file: dump, export and decode (\<open>subsys/bacnet_shell/bacnet_shell_file.c\<close> lines 149--331, 651--736,
  1035--1105 and 1234--1316). They work on a snapshot of the file's metadata, copied into memory of
  their own, and check before each access that the file is still the same.
\<close>

section \<open>The snapshot of a transfer\<close>

text \<open>The owned strings are \<^const>\<open>None\<close> where the pointer is NULL.\<close>

record file_transfer =
  ft_instance :: u32
  ft_file_size :: u32
  ft_read_only :: bool
  ft_pathname :: "string option"
  ft_name :: "string option"
  ft_mime_type :: "string option"

definition zero_transfer :: file_transfer where
  "zero_transfer =
     \<lparr>ft_instance = 0, ft_file_size = 0, ft_read_only = False,
      ft_pathname = None, ft_name = None, ft_mime_type = None\<rparr>"

definition file_cstring_own ::
    "('v, 'w, 'z) file_lib_scheme \<Rightarrow> string option \<Rightarrow> 'w console \<Rightarrow> int \<times> string option \<times> 'w console" where
  "file_cstring_own lib val c =
     (if k_malloc_ok lib (length (default_text val) + 1) c
      then (0, Some (default_text val), emit Alloc c)
      else (- ENOMEM, None, c))"

definition k_free :: "'a option \<Rightarrow> 's console \<Rightarrow> 's console" where
  "k_free ptr c = (case ptr of None \<Rightarrow> c | Some _ \<Rightarrow> emit Free c)"

definition file_transfer_release :: "file_transfer \<Rightarrow> 's console \<Rightarrow> file_transfer \<times> 's console" where
  "file_transfer_release t c =
     (t\<lparr>ft_pathname := None, ft_name := None, ft_mime_type := None\<rparr>,
      k_free (ft_mime_type t) (k_free (ft_name t) (k_free (ft_pathname t) c)))"

definition file_transfer_capture ::
    "('v, 'w, 'z) file_lib_scheme \<Rightarrow> u32 \<Rightarrow> 'w console \<Rightarrow> int \<times> file_transfer \<times> 'w console" where
  "file_transfer_capture lib inst c =
     (let (valid, c) = query (bacfile_valid_instance lib inst) c
      in if \<not> valid then (- ENOENT, zero_transfer, c)
      else let (pathname, c) = query (bacfile_pathname lib inst) c
      in if default_text pathname = '''' then (- EINVAL, zero_transfer, c)
      else let (stream, c) = query (bacfile_file_access_stream lib inst) c
      in if \<not> stream then (- ENOTSUP, zero_transfer, c)
      else let (file_size_max, c) = query (bacfile_file_size lib inst) c
      in if INT32_MAX < unat file_size_max then (- EOVERFLOW, zero_transfer, c)
      else let (err, path, c) = file_cstring_own lib pathname c;
               t = zero_transfer\<lparr>ft_pathname := path\<rparr>
      in if err \<noteq> 0 then (err, t, c)
      else let (name_ansi, c) = query (bacfile_name_ansi lib inst) c;
               (err, nm, c) = file_cstring_own lib name_ansi c;
               t = t\<lparr>ft_name := nm\<rparr>
      in if err \<noteq> 0 then (let (t, c) = file_transfer_release t c in (err, t, c))
      else let (mime_type, c) = query (bacfile_file_type lib inst) c;
               (err, mt, c) = file_cstring_own lib mime_type c;
               t = t\<lparr>ft_mime_type := mt\<rparr>
      in if err \<noteq> 0 then (let (t, c) = file_transfer_release t c in (err, t, c))
      else let (ro, c) = query (bacfile_read_only lib inst) c
      in (0, t\<lparr>ft_instance := inst, ft_file_size := ucast file_size_max, ft_read_only := ro\<rparr>, c))"

definition file_transfer_revalidate ::
    "('v, 'w, 'z) file_lib_scheme \<Rightarrow> file_transfer \<Rightarrow> 'w console \<Rightarrow> int \<times> 'w console" where
  "file_transfer_revalidate lib t c =
     (let (valid, c) = query (bacfile_valid_instance lib (ft_instance t)) c
      in if \<not> valid then (- ENOENT, c)
      else let (pathname, c) = query (bacfile_pathname lib (ft_instance t)) c
      in if pathname = None \<or> pathname \<noteq> ft_pathname t then (- ENOENT, c)
      else let (stream, c) = query (bacfile_file_access_stream lib (ft_instance t)) c
      in if \<not> stream then (- ENOENT, c)
      else let (n, c) = query (bacfile_file_size lib (ft_instance t)) c
      in if INT32_MAX < unat n then (- EOVERFLOW, c) else (0, c))"

definition file_transfer_status ::
    "u32 \<Rightarrow> int \<Rightarrow> bool \<Rightarrow> 's console \<Rightarrow> int \<times> 's console" where
  "file_transfer_status inst err backup c =
     (err,
      if err = - ENOENT then shell_error (''File instance '' @ dec (unat inst) @ '' does not exist'') c
      else if err = - EINVAL then shell_error (''File '' @ dec (unat inst) @ '' has no pathname'') c
      else if err = - ENOTSUP
      then shell_error (''File '' @ dec (unat inst) @ '' does not use stream access'') c
      else if err = - EOVERFLOW
      then shell_error (if backup then ''Backup file is too large for stream offsets''
                        else ''File is too large for stream offsets'') c
      else if err = - EPERM
      then shell_error (''File '' @ dec (unat inst) @ '' is not a configured backup file'') c
      else if err = - ENOMEM then shell_error ''Unable to copy file metadata'' c
      else c)"

definition file_transfer_open ::
    "('v, 'w, 'z) file_lib_scheme \<Rightarrow> ('w \<Rightarrow> 'w) \<Rightarrow> u32 \<Rightarrow> 'w console \<Rightarrow>
     int \<times> file_transfer \<times> 'w console" where
  "file_transfer_open lib others inst c =
     (let (err, t, c1) = file_transfer_capture lib inst (bacnet_lock others c);
          (err, c2) = file_transfer_status inst err False (bacnet_unlock c1)
      in (err, t, c2))"

definition file_backup_open ::
    "('v, 'w, 'z) file_lib_scheme \<Rightarrow> ('w \<Rightarrow> 'w) \<Rightarrow> u32 \<Rightarrow> 'w console \<Rightarrow>
     int \<times> file_transfer \<times> 'w console" where
  "file_backup_open lib others inst c =
     (let (err, t, c1) = file_transfer_capture lib inst (bacnet_lock others c);
          (err, t, c2) =
            (if err = 0
             then let (config, c') = query (Device_Is_Configuration_File lib inst) c1
                  in if config then (err, t, c')
                     else let (t', c'') = file_transfer_release t c' in (- EPERM, t', c'')
             else (err, t, c1));
          (err, c3) = file_transfer_status inst err True (bacnet_unlock c2)
      in (err, t, c3))"

definition file_transfer_read ::
    "('v, 'w, 'z) file_lib_scheme \<Rightarrow> ('w \<Rightarrow> 'w) \<Rightarrow> file_transfer \<Rightarrow> u32 \<Rightarrow> nat \<Rightarrow> 'w console \<Rightarrow>
     int \<times> byte list \<times> 'w console" where
  "file_transfer_read lib others t offset requested c =
     (let (err, c1) = file_transfer_revalidate lib t (bacnet_lock others c)
      in if err = 0
         then let (data, c2) = query (file_read lib (ft_instance t) offset requested) c1
              in (err, data, bacnet_unlock c2)
         else (err, [], bacnet_unlock c1))"

definition file_transfer_changed :: "u32 \<Rightarrow> int \<Rightarrow> 's console \<Rightarrow> int \<times> 's console" where
  "file_transfer_changed inst err c =
     (err, if err = - ENOENT
           then shell_error (''File '' @ dec (unat inst) @ '' changed during transfer'') c
           else shell_error ''File is too large for stream offsets'' c)"

section \<open>Transfers\<close>

definition dump_stop :: "u32 \<Rightarrow> file_transfer \<Rightarrow> int \<Rightarrow> 's console \<Rightarrow> int \<times> 's console" where
  "dump_stop inst t err c =
     (let (t, c) = file_transfer_release t c
      in if err \<noteq> 0 then file_transfer_changed inst err c else (0, c))"

lemma unat_minus_less:
  "n \<noteq> 0 \<Longrightarrow> n \<le> unat (w :: u32) \<Longrightarrow> unat (w - of_nat n) < unat w"
proof -
  assume n: "n \<noteq> 0" "n \<le> unat w"
  then have "unat (of_nat n :: u32) = n"
    using unat_u32_bound [of w] by (intro unat_of_nat_u32) linarith
  then show ?thesis using n by (simp add: unat_sub word_le_nat_alt)
qed

lemma unat_sub_less: "offset < (sz :: u32) \<Longrightarrow> unat (sz - offset) = unat sz - unat offset"
  by (rule unat_sub) simp

lemma unat_plus_within:
  "offset < (sz :: u32) \<Longrightarrow> n \<le> unat (sz - offset) \<Longrightarrow> unat (offset + of_nat n) = unat offset + n"
  using u32_advance [of offset sz "int n"] by (cases "n = 0") (simp_all add: unat_sub_less)

lemma unat_plus_closer:
  "offset < (sz :: u32) \<Longrightarrow> n \<noteq> 0 \<Longrightarrow> n \<le> unat (sz - offset) \<Longrightarrow>
   unat sz - unat (offset + of_nat n) < unat sz - unat offset"
  using unat_plus_within [of offset sz n] by (simp add: word_less_nat_alt)

lemma unat_advance_closer:
  "offset < (sz :: u32) \<Longrightarrow> 0 < k \<Longrightarrow> nat k \<le> m \<Longrightarrow> m \<le> unat (sz - offset) \<Longrightarrow>
   unat sz - unat (offset + of_int k) < unat sz - unat offset"
  using u32_advance [of offset sz k] by (simp add: unat_sub_less word_less_nat_alt)

function dump_from ::
    "('v, 'w, 'z) file_lib_scheme \<Rightarrow> ('w \<Rightarrow> 'w) \<Rightarrow> u32 \<Rightarrow> file_transfer \<Rightarrow> u32 \<Rightarrow> u32 \<Rightarrow> 'w console \<Rightarrow>
     (int \<times> 'w console) option" where
  "dump_from lib others inst t offset remaining c =
     (if remaining = 0 then Some (dump_stop inst t 0 c)
      else let requested = min (unat remaining) 16;
               (err, data, c) = file_transfer_read lib others t offset requested c
      in if err \<noteq> 0 then Some (dump_stop inst t err c)
      else if requested < length data then None
      else if data = [] then Some (dump_stop inst t 0 c)
      else let c = emit_all (file_dump_line offset data (length data)) c
      in if length data < requested then Some (dump_stop inst t 0 c)
         else dump_from lib others inst t (offset + of_nat (length data))
                (remaining - of_nat (length data)) c)"
  by pat_completeness auto

termination
  by (relation "measure (\<lambda>(lib, others, inst, t, offset, remaining, c). unat remaining)")
    (auto intro!: unat_minus_less)

declare dump_from.simps [simp del]

definition cmd_file_dump ::
    "('v, 'w, 'z) file_lib_scheme \<Rightarrow> ('w \<Rightarrow> 'w) \<Rightarrow> 'w shell_handler" where
  "cmd_file_dump lib others argv c =
     (if length argv < 2 \<or> 4 < length argv
      then Some (- EINVAL, shell_error ''Usage: bacnet file dump <instance> [offset] [len]'' c)
      else let (err, inst, c) = file_instance_number_parse lib (argv ! 1) c
      in if err \<noteq> 0 then Some (err, c)
      else let (err, offset, c) = (if 3 \<le> length argv then file_offset_parse lib (argv ! 2) c else (0, 0, c))
      in if err \<noteq> 0 then Some (err, c)
      else let wanted = (if length argv = 4 then bacnet_string_to_uint32 lib (argv ! 3) else Some 0)
      in case wanted of
           None \<Rightarrow> Some (- EINVAL, shell_error (''Invalid dump length: '' @ argv ! 3) c)
         | Some remaining \<Rightarrow>
           (let (err, t, c) = file_transfer_open lib others inst c
            in if err \<noteq> 0 then Some (err, c)
            else if ft_file_size t < offset
            then let c = shell_error (''Offset '' @ dec (unat offset) @ '' is past end of file ('' @
                           dec (unat (ft_file_size t)) @ '')'') c
                 in Some (- EINVAL, snd (file_transfer_release t c))
            else if length argv \<noteq> 4 then dump_from lib others inst t offset (ft_file_size t - offset) c
            else if of_nat INT32_MAX - offset < remaining
            then let c = shell_error ''Dump range exceeds the stream offset limit'' c
                 in Some (- EOVERFLOW, snd (file_transfer_release t c))
            else dump_from lib others inst t offset remaining c))"

section \<open>Export\<close>

definition export_chunk_text :: "u32 \<Rightarrow> u32 \<Rightarrow> string \<Rightarrow> string" where
  "export_chunk_text inst offset hex =
     ''{\"instance\":'' @ dec (unat inst) @ '',\"offset\":'' @ dec (unat offset) @
     '',\"data\":\"'' @ hex @ ''\"}''"

definition export_stop :: "string \<Rightarrow> file_transfer \<Rightarrow> 's console \<Rightarrow> int \<times> 's console" where
  "export_stop message t c = (- EIO, snd (file_transfer_release t (shell_error message c)))"

function export_from ::
    "('v, 'w, 'z) file_lib_scheme \<Rightarrow> ('w \<Rightarrow> 'w) \<Rightarrow> u32 \<Rightarrow> file_transfer \<Rightarrow> u32 \<Rightarrow> u32 \<Rightarrow> 'w console \<Rightarrow>
     (int \<times> 'w console) option" where
  "export_from lib others inst t crc offset c =
     (if ft_file_size t \<le> offset
      then let c = shell_print ''],'' c;
               c = shell_print (''\"crc32\":\"'' @ hex8_lower crc @ ''\"'') c;
               c = shell_print ''}'' c
           in Some (0, snd (file_transfer_release t c))
      else if FILE_CHUNK_SIZE lib = 0 then None
      else let requested = min (unat (ft_file_size t - offset)) (FILE_CHUNK_SIZE lib);
               (err, data, c) = file_transfer_read lib others t offset requested c
      in if err \<noteq> 0 then Some (dump_stop inst t err c)
      else if requested < length data then None
      else if length data \<noteq> requested
      then Some (export_stop (''Short read while exporting at offset '' @ dec (unat offset)) t c)
      else let crc = crc32_ieee_update lib crc data;
               hex = bin2hex lib data (2 * FILE_CHUNK_SIZE lib + 1)
      in if length hex \<noteq> 2 * length data
         then Some (export_stop ''Unable to encode export data as hex'' t c)
         else let c = shell_print (export_chunk_text inst offset hex @
                        (if offset + of_nat (length data) < ft_file_size t then '','' else '''')) c
              in export_from lib others inst t crc (offset + of_nat (length data)) c)"
  by pat_completeness auto

termination
  by (relation "measure (\<lambda>(lib, others, inst, t, crc, offset, c). unat (ft_file_size t) - unat offset)")
    (auto intro!: unat_plus_closer simp: not_le unat_sub_less, simp add: word_less_nat_alt)

declare export_from.simps [simp del]

definition cmd_file_export ::
    "('v, 'w, 'z) file_lib_scheme \<Rightarrow> ('w \<Rightarrow> 'w) \<Rightarrow> 'w shell_handler" where
  "cmd_file_export lib others argv c =
     (if length argv \<noteq> 2
      then Some (- EINVAL, shell_error ''Usage: bacnet file export <instance>'' c)
      else let (err, inst, c) = file_instance_number_parse lib (argv ! 1) c
      in if err \<noteq> 0 then Some (err, c)
      else let (err, t, c) = file_transfer_open lib others inst c
      in if err \<noteq> 0 then Some (err, c)
      else let c = shell_print ''{'' c;
               c = shell_print (''\"instance\":'' @ dec (unat inst) @ '','') c;
               c = shell_fprintf ''\"name\":'' c;
               c = print_texts (file_json_string (default_text (ft_name t))) c;
               c = shell_print '','' c;
               c = shell_fprintf ''\"mime_type\":'' c;
               c = print_texts (file_json_string (default_text (ft_mime_type t))) c;
               c = shell_print '','' c;
               c = shell_print (''\"size\":'' @ dec (unat (ft_file_size t)) @ '','') c;
               c = shell_print (''\"read_only\":'' @ true_false (ft_read_only t) @ '','') c;
               c = shell_print ''\"data\":['' c
           in export_from lib others inst t 0 0 c)"

section \<open>Backup files\<close>

definition decode_stop :: "int \<Rightarrow> string \<Rightarrow> file_transfer \<Rightarrow> 's console \<Rightarrow> int \<times> 's console" where
  "decode_stop err message t c = (err, snd (file_transfer_release t (shell_error message c)))"

text \<open>Under the lock: is the file still the same, and does the Device have objects of the type?\<close>

definition object_type_supported ::
    "('v, 'w, 'z) file_lib_scheme \<Rightarrow> ('w \<Rightarrow> 'w) \<Rightarrow> file_transfer \<Rightarrow> u32 \<Rightarrow> 'w console \<Rightarrow>
     int \<times> bool \<times> 'w console" where
  "object_type_supported lib others t ty c =
     (let (err, c) = file_transfer_revalidate lib t (bacnet_lock others c)
      in if err = 0
         then let (supported, c) = query (Device_Object_Functions_Find lib ty) c
              in (err, supported, bacnet_unlock c)
         else (err, False, bacnet_unlock c))"

function decode_from ::
    "('v, 'w, 'z) file_lib_scheme \<Rightarrow> ('w \<Rightarrow> 'w) \<Rightarrow> u32 \<Rightarrow> file_transfer \<Rightarrow> u32 \<Rightarrow> 'w console \<Rightarrow>
     (int \<times> 'w console) option" where
  "decode_from lib others inst t offset c =
     (if ft_file_size t \<le> offset then Some (0, snd (file_transfer_release t c))
      else let requested = min (unat (ft_file_size t - offset)) (MAX_APDU lib);
               (err, apdu, c) = file_transfer_read lib others t offset requested c
      in if err \<noteq> 0 then Some (dump_stop inst t err c)
      else if requested < length apdu then None
      else if apdu = []
      then Some (decode_stop (- EIO) (''Unable to read backup record at offset '' @ dec (unat offset)) t c)
      else let (decoded_len, data) = create_object_decode_service_request lib apdu (length apdu)
      in if decoded_len \<le> 0 \<or> length apdu < nat decoded_len
      then Some (decode_stop (- EBADMSG)
             (''Malformed or truncated CreateObject record at offset '' @ dec (unat offset)) t c)
      else let (err, supported, c) = object_type_supported lib others t (create_object_type data) c
      in if err \<noteq> 0 then Some (dump_stop inst t err c)
      else if \<not> supported
      then Some (decode_stop (- ENOTSUP) (''Unsupported object type '' @
             bactext_object_type_name lib (unat (create_object_type data)) @ '' at offset '' @
             dec (unat offset)) t c)
      else let err = file_initial_values_validate lib data
      in if err \<noteq> 0
      then Some (decode_stop err (''Malformed CreateObject initial values at offset '' @
             dec (unat offset)) t c)
      else case file_json_create_object lib offset data of
             None \<Rightarrow> None
           | Some evs \<Rightarrow>
               decode_from lib others inst t (offset + of_int decoded_len) (emit_all evs c))"
  by pat_completeness auto

termination
  by (relation "measure (\<lambda>(lib, others, inst, t, offset, c). unat (ft_file_size t) - unat offset)")
    (auto intro!: unat_advance_closer simp: not_le not_less)

declare decode_from.simps [simp del]

definition cmd_file_decode ::
    "('v, 'w, 'z) file_lib_scheme \<Rightarrow> ('w \<Rightarrow> 'w) \<Rightarrow> 'w shell_handler" where
  "cmd_file_decode lib others argv c =
     (if length argv \<noteq> 2
      then Some (- EINVAL, shell_error ''Usage: bacnet file decode <backup-instance>'' c)
      else let (err, inst, c) = file_instance_number_parse lib (argv ! 1) c
      in if err \<noteq> 0 then Some (err, c)
      else let (err, t, c) = file_backup_open lib others inst c
      in if err \<noteq> 0 then Some (err, c)
      else decode_from lib others inst t 0 c)"


section \<open>The lock and the memory of a transfer\<close>

text \<open>
  What a command may do that was called with the lock held \<open>d\<close> times: output happens exactly there,
  data and memory for copies are used with the lock taken once more, and memory is given back with
  or without it. \<open>held\<close> counts what is allocated and not freed.
\<close>

definition allowed :: "nat \<Rightarrow> nat \<Rightarrow> event \<Rightarrow> bool" where
  "allowed d k ev =
     (case ev of
        Access \<Rightarrow> k = d + 1 | Alloc \<Rightarrow> k = d + 1 | Free \<Rightarrow> k = d \<or> k = d + 1 | _ \<Rightarrow> k = d)"

definition weight :: "event \<Rightarrow> int" where
  "weight ev = (case ev of Alloc \<Rightarrow> 1 | Free \<Rightarrow> - 1 | _ \<Rightarrow> 0)"

definition held :: "(nat \<times> event) list \<Rightarrow> int" where
  "held evs = sum_list (map (weight \<circ> snd) evs)"

definition ran :: "nat \<Rightarrow> int \<Rightarrow> 's console \<Rightarrow> 's console \<Rightarrow> bool" where
  "ran d n c c' \<longleftrightarrow> lock_depth c' = lock_depth c \<and>
     (\<exists>evs. trace c' = trace c @ evs \<and> (\<forall>(k, ev) \<in> set evs. allowed d k ev) \<and> held evs = n)"

lemma ran_refl [simp]: "ran d 0 c c"
  by (simp add: ran_def held_def)

lemma ran_trans: "ran d m c c' \<Longrightarrow> ran d n c' c'' \<Longrightarrow> ran d (m + n) c c''"
  unfolding ran_def held_def by fastforce

lemma ran_emit: "allowed d (lock_depth c) ev \<Longrightarrow> ran d (weight ev) c (emit ev c)"
  by (simp add: ran_def held_def)

lemma ran_emits: "\<forall>ev \<in> set evs. allowed d (lock_depth c) ev \<and> weight ev = 0 \<Longrightarrow> ran d 0 c (emit_all evs c)"
proof (induction evs arbitrary: c)
  case (Cons ev evs)
  then show ?case using ran_trans [OF ran_emit [of d c ev], of 0 "emit_all evs (emit ev c)"]
    by (simp add: emit_all_def)
qed (simp add: emit_all_def)

lemma ran_depth: "ran d n c c' \<Longrightarrow> lock_depth c' = lock_depth c"
  by (simp add: ran_def)

lemma ran_extends: "ran (lock_depth c) n c c' \<Longrightarrow> extends (lock_depth c) c c'"
  unfolding ran_def extends_def allowed_def by (fastforce split: event.splits)

lemma ran_output:
  "ran d n c c' \<Longrightarrow> lock_depth c = d \<Longrightarrow> ran d n c (shell_error txt c')"
  "ran d n c c' \<Longrightarrow> lock_depth c = d \<Longrightarrow> ran d n c (shell_print txt c')"
  "ran d n c c' \<Longrightarrow> lock_depth c = d \<Longrightarrow> ran d n c (shell_fprintf txt c')"
  "ran d n c c' \<Longrightarrow> lock_depth c = d \<Longrightarrow> ran d n c (print_texts ts c')"
  using ran_trans [of d n c c' 0, OF _ ran_emits [of "[Error txt]"]]
    ran_trans [of d n c c' 0, OF _ ran_emits [of "[Print txt]"]]
    ran_trans [of d n c c' 0, OF _ ran_emits [of "[Fprint txt]"]]
    ran_trans [of d n c c' 0, OF _ ran_emits [of "map Fprint ts"]]
  by (auto simp: shell_error_def shell_print_def shell_fprintf_def print_texts_def emit_all_def
      allowed_def weight_def ran_depth)

lemma ran_query:
  "ran d n c c' \<Longrightarrow> lock_depth c = d + 1 \<Longrightarrow> ran d n c (snd (query f c'))"
proof -
  assume a: "ran d n c c'" "lock_depth c = d + 1"
  have "ran d 0 c' (snd (query f c'))"
    using a by (simp add: ran_def held_def query_def allowed_def weight_def)
  then show ?thesis using ran_trans [OF a(1), of 0] by simp
qed

lemma ran_alloc: "ran d n c c' \<Longrightarrow> lock_depth c = d + 1 \<Longrightarrow> ran d (n + 1) c (emit Alloc c')"
  using ran_trans [of d n c c' 1, OF _ ran_emit [of d c' Alloc, unfolded weight_def, simplified]]
  by (simp add: allowed_def ran_depth)

lemma ran_free: "ran d n c c' \<Longrightarrow> lock_depth c = d \<or> lock_depth c = d + 1 \<Longrightarrow> ran d (n - 1) c (emit Free c')"
  using ran_trans [of d n c c' "- 1", OF _ ran_emit [of d c' Free, unfolded weight_def, simplified]]
  by (auto simp: allowed_def ran_depth)

lemma ran_locked:
  "ran d n (bacnet_lock others c) c' \<Longrightarrow> ran d n c (bacnet_unlock c')"
  by (simp add: ran_def bacnet_lock_def bacnet_unlock_def)

text \<open>A transfer that owns its three copies.\<close>

definition owns :: "file_transfer \<Rightarrow> bool" where
  "owns t \<longleftrightarrow> ft_pathname t \<noteq> None \<and> ft_name t \<noteq> None \<and> ft_mime_type t \<noteq> None"

lemma ran_release:
  assumes "ran d n c c'" "lock_depth c = d \<or> lock_depth c = d + 1" "owns t"
  shows "ran d (n - 3) c (snd (file_transfer_release t c'))"
  using ran_free [OF ran_free [OF ran_free [OF assms(1,2)] assms(2)] assms(2)] assms(3)
  by (auto simp: file_transfer_release_def k_free_def owns_def)

text \<open>The same rules for rewriting: a step back from the last thing that happened.\<close>

lemma ran_back:
  "ran d (n - 1) c c' \<Longrightarrow> lock_depth c = d + 1 \<Longrightarrow> ran d n c (emit Alloc c')"
  "ran d (n + 1) c c' \<Longrightarrow> lock_depth c = d \<or> lock_depth c = d + 1 \<Longrightarrow> ran d n c (emit Free c')"
  using ran_alloc [of d "n - 1" c c'] ran_free [of d "n + 1" c c'] by simp_all

lemma capture_ran:
  assumes "file_transfer_capture lib inst c = (err, t, c')" "lock_depth c = d + 1"
  shows "ran d (if err = 0 then 3 else 0) c c' \<and> (err = 0 \<longrightarrow> owns t)"
  using assms
  by (auto simp: file_transfer_capture_def file_cstring_own_def file_transfer_release_def k_free_def
      Let_def case_prod_beta owns_def zero_transfer_def ran_back ran_query split: if_splits)

lemma revalidate_ran:
  "ran d n c c' \<Longrightarrow> lock_depth c = d + 1 \<Longrightarrow> ran d n c (snd (file_transfer_revalidate lib t c'))"
  by (simp add: file_transfer_revalidate_def Let_def case_prod_beta ran_query)

lemma status_ran:
  "ran d n c c' \<Longrightarrow> lock_depth c = d \<Longrightarrow> ran d n c (snd (file_transfer_status inst err backup c'))"
  "ran d n c c' \<Longrightarrow> lock_depth c = d \<Longrightarrow> ran d n c (snd (file_transfer_changed inst err c'))"
  "fst (file_transfer_status inst err backup c') = err"
  "fst (file_transfer_changed inst err c') = err"
  by (simp_all add: file_transfer_status_def file_transfer_changed_def ran_output)

lemma lock_depths [simp]:
  "lock_depth (bacnet_lock others c) = lock_depth c + 1" "lock_depth (bacnet_unlock c) = lock_depth c - 1"
  by (simp_all add: bacnet_lock_def bacnet_unlock_def)

lemma open_ran:
  assumes "file_transfer_open lib others inst c = (err, t, c')"
  shows "ran (lock_depth c) (if err = 0 then 3 else 0) c c' \<and> (err = 0 \<longrightarrow> owns t)"
proof -
  obtain e t1 c1 where cap: "file_transfer_capture lib inst (bacnet_lock others c) = (e, t1, c1)"
    by (cases "file_transfer_capture lib inst (bacnet_lock others c)") auto
  have inside: "ran (lock_depth c) (if e = 0 then 3 else 0) (bacnet_lock others c) c1" "e = 0 \<longrightarrow> owns t1"
    using capture_ran [OF cap, of "lock_depth c"] by simp_all
  from inside(2) ran_locked [OF inside(1)] show ?thesis using assms status_ran(1) [of "lock_depth c" _ c "bacnet_unlock c1" inst e False]
    by (auto simp: file_transfer_open_def cap status_ran case_prod_beta)
qed

lemma backup_open_ran:
  assumes "file_backup_open lib others inst c = (err, t, c')"
  shows "ran (lock_depth c) (if err = 0 then 3 else 0) c c' \<and> (err = 0 \<longrightarrow> owns t)"
proof -
  obtain e t1 c1 where cap: "file_transfer_capture lib inst (bacnet_lock others c) = (e, t1, c1)"
    by (cases "file_transfer_capture lib inst (bacnet_lock others c)") auto
  note inside = capture_ran [OF cap, of "lock_depth c"]
  let ?c2 = "snd (query (Device_Is_Configuration_File lib inst) c1)"
  show ?thesis
  proof (cases "e = 0")
    case True
    with inside have own: "ran (lock_depth c) 3 (bacnet_lock others c) ?c2" "owns t1"
      by (simp_all add: ran_query)
    note out = ran_locked [OF own(1)] ran_locked [OF ran_release [OF own(1) _ own(2)]]
    show ?thesis
      using assms True own(2) status_ran(1) [OF out(1), of inst e True]
        status_ran(1) [OF out(2), of inst "- EPERM" True]
      by (auto simp: file_backup_open_def cap status_ran case_prod_beta Let_def split: if_splits)
  next
    case False
    with inside have "ran (lock_depth c) 0 c (bacnet_unlock c1)" by (simp add: ran_locked)
    from status_ran(1) [OF this, of inst e True] show ?thesis
      using assms False by (auto simp: file_backup_open_def cap status_ran case_prod_beta Let_def)
  qed
qed

lemma read_ran:
  assumes "file_transfer_read lib others t offset n c' = (err, data, c'')"
    "ran d m c c'" "lock_depth c = d"
  shows "ran d m c c''"
proof -
  let ?r = "snd (file_transfer_revalidate lib t (bacnet_lock others c'))"
  have "ran d 0 (bacnet_lock others c') ?r"
    using revalidate_ran [OF ran_refl [of d "bacnet_lock others c'"], of lib t] ran_depth [OF assms(2)] assms(3)
    by simp
  then have "ran d 0 c' (bacnet_unlock ?r)" "ran d 0 c' (bacnet_unlock (snd (query f ?r)))" for f
    using ran_depth [OF assms(2)] assms(3) by (auto intro!: ran_locked ran_query)
  then have "ran d 0 c' c''" using assms(1)
    by (auto simp: file_transfer_read_def Let_def case_prod_beta split: if_splits)
  then show ?thesis using ran_trans [OF assms(2)] by fastforce
qed

lemma dump_stop_ran:
  assumes "ran d n c c'" "lock_depth c = d" "owns t"
  shows "ran d (n - 3) c (snd (dump_stop inst t err c'))"
    "ran d (n - 3) c (snd (export_stop msg t c'))"
    "ran d (n - 3) c (snd (decode_stop err msg t c'))"
  using ran_release [OF assms(1) _ assms(3)] ran_release [OF ran_output(1) [OF assms(1,2)] _ assms(3)] assms(2)
  by (simp_all add: dump_stop_def export_stop_def decode_stop_def case_prod_beta status_ran)

lemma ran_emit_list:
  assumes "ran d n c c'" "lock_depth c = d" "\<forall>ev \<in> set evs. allowed d d ev \<and> weight ev = 0"
  shows "ran d n c (emit_all evs c')"
  using ran_trans [OF assms(1) ran_emits [of evs d c']] assms(2,3) ran_depth [OF assms(1)] by simp

lemma dump_line_output: "ev \<in> set (file_dump_line offset data n) \<Longrightarrow> allowed d d ev \<and> weight ev = 0"
  by (auto simp: file_dump_line_def allowed_def weight_def)

lemma create_object_output:
  "file_json_create_object lib offset data = Some evs \<Longrightarrow> ev \<in> set evs \<Longrightarrow> allowed d d ev \<and> weight ev = 0"
  by (auto simp: file_json_create_object_def allowed_def weight_def split: bind_splits)

lemma dump_from_ran:
  "dump_from lib others inst t offset remaining c' = Some (rc, c'') \<Longrightarrow> ran d 3 c c' \<Longrightarrow> lock_depth c = d \<Longrightarrow>
   owns t \<Longrightarrow> ran d 0 c c''"
proof (induction "unat remaining" arbitrary: offset remaining c' rule: less_induct)
  case less
  let ?n = "min (unat remaining) 16"
  obtain err data c1 where read: "file_transfer_read lib others t offset ?n c' = (err, data, c1)"
    by (cases "file_transfer_read lib others t offset ?n c'") auto
  let ?c2 = "emit_all (file_dump_line offset data (length data)) c1"
  note r1 = read_ran [OF read less.prems(2,3)]
  have r2: "ran d 3 c ?c2"
    by (rule ran_emit_list [OF r1 less.prems(3)]) (simp add: dump_line_output)
  note stops = dump_stop_ran(1) [OF less.prems(2-4)] dump_stop_ran(1) [OF r1 less.prems(3,4)]
    dump_stop_ran(1) [OF r2 less.prems(3,4)]
  show ?case
  proof (cases "remaining \<noteq> 0 \<and> err = 0 \<and> data \<noteq> [] \<and> length data = ?n")
    case True
    then have "unat (remaining - of_nat (length data)) < unat remaining"
      by (intro unat_minus_less) (auto simp: unat_gt_0)
    from less.hyps [OF this _ r2 less.prems(3,4)] show ?thesis
      using less.prems(1) True by (subst (asm) (2) dump_from.simps) (simp add: read Let_def)
  next
    case False
    with less.prems(1) have "(rc, c'') \<in> {dump_stop inst t 0 c', dump_stop inst t err c1, dump_stop inst t 0 c1,
        dump_stop inst t 0 ?c2}"
      by (subst (asm) dump_from.simps) (auto simp: read Let_def split: if_splits)
    then show ?thesis using stops by (auto dest: arg_cong [where f = snd])
  qed
qed

lemma export_from_ran:
  "export_from lib others inst t crc offset c' = Some (rc, c'') \<Longrightarrow> ran d 3 c c' \<Longrightarrow> lock_depth c = d \<Longrightarrow>
   owns t \<Longrightarrow> ran d 0 c c''"
proof (induction "unat (ft_file_size t) - unat offset" arbitrary: crc offset c' rule: less_induct)
  case less
  let ?n = "min (unat (ft_file_size t - offset)) (FILE_CHUNK_SIZE lib)"
  obtain err data c1 where read: "file_transfer_read lib others t offset ?n c' = (err, data, c1)"
    by (cases "file_transfer_read lib others t offset ?n c'") auto
  note r1 = read_ran [OF read less.prems(2,3)]
  note print = ran_output(2) [OF _ less.prems(3)]
  note tail = print [OF print [OF print [OF less.prems(2)]]]
  note stops = dump_stop_ran(1,2) [OF r1 less.prems(3,4)] ran_release [OF tail _ less.prems(4)]
  show ?case
  proof (cases "offset < ft_file_size t \<and> FILE_CHUNK_SIZE lib \<noteq> 0 \<and> err = 0 \<and> length data = ?n \<and>
      length (bin2hex lib data (2 * FILE_CHUNK_SIZE lib + 1)) = 2 * length data")
    case True
    then have "length data \<noteq> 0" by (simp add: unat_sub_less word_less_nat_alt)
    with True have "unat (ft_file_size t) - unat (offset + of_nat (length data)) < unat (ft_file_size t) - unat offset"
      by (intro unat_plus_closer) auto
    from less.hyps [OF this _ print [OF r1] less.prems(3,4)] show ?thesis
      using less.prems(1) True not_le [of "ft_file_size t" offset]
      by (subst (asm) (2) export_from.simps) (simp add: read Let_def)
  next
    case False
    with less.prems(1) show ?thesis using stops less.prems(3)
      by (subst (asm) export_from.simps)
        (auto simp: read Let_def not_le split: if_splits dest!: arg_cong [where f = snd])
  qed
qed

lemma supported_ran:
  assumes "object_type_supported lib others t ty c' = (err, found, c'')" "ran d m c c'" "lock_depth c = d"
  shows "ran d m c c''"
proof -
  let ?r = "snd (file_transfer_revalidate lib t (bacnet_lock others c'))"
  have "ran d 0 (bacnet_lock others c') ?r"
    using revalidate_ran [OF ran_refl [of d "bacnet_lock others c'"], of lib t] ran_depth [OF assms(2)] assms(3)
    by simp
  then have "ran d 0 c' (bacnet_unlock ?r)" "ran d 0 c' (bacnet_unlock (snd (query f ?r)))" for f
    using ran_depth [OF assms(2)] assms(3) by (auto intro!: ran_locked ran_query)
  then have "ran d 0 c' c''" using assms(1)
    by (auto simp: object_type_supported_def Let_def case_prod_beta split: if_splits)
  then show ?thesis using ran_trans [OF assms(2)] by fastforce
qed

lemma decode_from_ran:
  "decode_from lib others inst t offset c' = Some (rc, c'') \<Longrightarrow> ran d 3 c c' \<Longrightarrow> lock_depth c = d \<Longrightarrow>
   owns t \<Longrightarrow> ran d 0 c c''"
proof (induction "unat (ft_file_size t) - unat offset" arbitrary: offset c' rule: less_induct)
  case less
  let ?n = "min (unat (ft_file_size t - offset)) (MAX_APDU lib)"
  obtain err apdu c1 where read: "file_transfer_read lib others t offset ?n c' = (err, apdu, c1)"
    by (cases "file_transfer_read lib others t offset ?n c'") auto
  obtain k data where dec: "create_object_decode_service_request lib apdu (length apdu) = (k, data)"
    by fastforce
  obtain err2 found c2 where sup: "object_type_supported lib others t (create_object_type data) c1 = (err2, found, c2)"
    by (cases "object_type_supported lib others t (create_object_type data) c1") auto
  note r1 = read_ran [OF read less.prems(2,3)]
  note r2 = supported_ran [OF sup r1 less.prems(3)]
  note stops = dump_stop_ran(1,3) [OF r1 less.prems(3,4)] dump_stop_ran(1,3) [OF r2 less.prems(3,4)]
    ran_release [OF less.prems(2) _ less.prems(4)]
  show ?case
  proof (cases "offset < ft_file_size t \<and> err = 0 \<and> length apdu \<le> ?n \<and> 0 < k \<and> nat k \<le> length apdu \<and>
      err2 = 0 \<and> found \<and> file_initial_values_validate lib data = 0 \<and> file_json_create_object lib offset data \<noteq> None")
    case True
    then obtain evs where evs: "file_json_create_object lib offset data = Some evs" by blast
    have r3: "ran d 3 c (emit_all evs c2)"
      by (rule ran_emit_list [OF r2 less.prems(3)]) (simp add: create_object_output [OF evs])
    have "unat (ft_file_size t) - unat (offset + of_int k) < unat (ft_file_size t) - unat offset"
      using True by (intro unat_advance_closer [where m = ?n]) auto
    note more_data = less.hyps [OF this _ r3 less.prems(3,4)]
    have facts: "\<not> ft_file_size t \<le> offset" "\<not> ?n < length apdu" "apdu \<noteq> []" "\<not> k \<le> 0"
      "\<not> length apdu < nat k" "err = 0" "err2 = 0" "found" "file_initial_values_validate lib data = 0"
      using True by auto
    have "decode_from lib others inst t offset c' = decode_from lib others inst t (offset + of_int k) (emit_all evs c2)"
      using facts by (subst decode_from.simps) (simp add: read dec sup evs Let_def)
    then show ?thesis using less.prems(1) more_data by simp
  next
    case False
    with less.prems(1) show ?thesis using stops less.prems(3)
      by (subst (asm) decode_from.simps)
        (auto simp: read dec sup Let_def not_le not_less split: if_splits option.splits
          dest!: arg_cong [where f = snd])
  qed
qed

lemma number_parse_ran:
  "ran (lock_depth c) 0 c (snd (snd (file_instance_number_parse lib val c)))"
  "ran d n c c' \<Longrightarrow> lock_depth c = d \<Longrightarrow> ran d n c (snd (snd (file_offset_parse lib val c')))"
  by (auto simp: file_instance_number_parse_def file_offset_parse_def ran_output split: option.split)

lemma cmd_dump_ran:
  assumes "cmd_file_dump lib others argv c = Some (rc, c')"
  shows "ran (lock_depth c) 0 c c'"
proof -
  let ?d = "lock_depth c"
  obtain ierr inst c1 where num: "file_instance_number_parse lib (argv ! Suc 0) c = (ierr, inst, c1)"
    by (cases "file_instance_number_parse lib (argv ! Suc 0) c") auto
  obtain oerr offset c2 where o: "(if 3 \<le> length argv then file_offset_parse lib (argv ! 2) c1 else (0, 0, c1)) =
      (oerr, offset, c2)"
    by (cases "if 3 \<le> length argv then file_offset_parse lib (argv ! 2) c1 else (0, 0, c1)") auto
  obtain err t c3 where op: "file_transfer_open lib others inst c2 = (err, t, c3)"
    by (cases "file_transfer_open lib others inst c2") auto
  note i = number_parse_ran(1) [of c lib "argv ! Suc 0", unfolded num snd_conv]
  have r2: "ran ?d 0 c c2"
    using number_parse_ran(2) [OF i refl, of lib "argv ! 2"] i o by (auto split: if_splits)
  have r3: "ran ?d (if err = 0 then 3 else 0) c c3" "err = 0 \<longrightarrow> owns t"
    using ran_trans [OF r2, of "if err = 0 then 3 else 0" c3] open_ran [OF op] ran_depth [OF r2] by auto
  show ?thesis
  proof (cases "err = 0")
    case True
    then have own: "ran ?d 3 c c3" "owns t" using r3 by simp_all
    note stops = ran_release [OF ran_output(1) [OF own(1) refl] _ own(2)]
    note run = dump_from_ran [OF _ own(1) refl own(2)]
    show ?thesis
      using assms stops run i r2 True
      by (auto simp: cmd_file_dump_def num o op Let_def ran_output split: handler_splits
          dest!: arg_cong [where f = snd])
  next
    case False
    then show ?thesis
      using assms i r2 r3
      by (auto simp: cmd_file_dump_def num o op Let_def ran_output split: handler_splits)
  qed
qed

lemma cmd_export_ran:
  assumes "cmd_file_export lib others argv c = Some (rc, c')"
  shows "ran (lock_depth c) 0 c c'"
proof -
  let ?d = "lock_depth c"
  obtain ierr inst c1 where num: "file_instance_number_parse lib (argv ! Suc 0) c = (ierr, inst, c1)"
    by (cases "file_instance_number_parse lib (argv ! Suc 0) c") auto
  obtain err t c3 where op: "file_transfer_open lib others inst c1 = (err, t, c3)"
    by (cases "file_transfer_open lib others inst c1") auto
  note i = number_parse_ran(1) [of c lib "argv ! Suc 0", unfolded num snd_conv]
  have r3: "ran ?d (if err = 0 then 3 else 0) c c3" "err = 0 \<longrightarrow> owns t"
    using ran_trans [OF i, of "if err = 0 then 3 else 0" c3] open_ran [OF op] ran_depth [OF i] by auto
  show ?thesis
  proof (cases "err = 0")
    case True
    then have own: "ran ?d 3 c c3" "owns t" using r3 by simp_all
    show ?thesis
      using assms i True own
      by (auto simp: cmd_file_export_def num op Let_def ran_output split: if_splits elim!: export_from_ran)
  next
    case False
    then show ?thesis using assms i r3
      by (auto simp: cmd_file_export_def num op Let_def ran_output split: if_splits)
  qed
qed

lemma cmd_decode_ran:
  assumes "cmd_file_decode lib others argv c = Some (rc, c')"
  shows "ran (lock_depth c) 0 c c'"
proof -
  let ?d = "lock_depth c"
  obtain ierr inst c1 where num: "file_instance_number_parse lib (argv ! Suc 0) c = (ierr, inst, c1)"
    by (cases "file_instance_number_parse lib (argv ! Suc 0) c") auto
  obtain err t c3 where op: "file_backup_open lib others inst c1 = (err, t, c3)"
    by (cases "file_backup_open lib others inst c1") auto
  note i = number_parse_ran(1) [of c lib "argv ! Suc 0", unfolded num snd_conv]
  have r3: "ran ?d (if err = 0 then 3 else 0) c c3" "err = 0 \<longrightarrow> owns t"
    using ran_trans [OF i, of "if err = 0 then 3 else 0" c3] backup_open_ran [OF op] ran_depth [OF i] by auto
  show ?thesis
  proof (cases "err = 0")
    case True
    then have own: "ran ?d 3 c c3" "owns t" using r3 by simp_all
    show ?thesis
      using assms i True own decode_from_ran [OF _ _ refl own(2)]
      by (auto simp: cmd_file_decode_def num op Let_def ran_output split: if_splits)
  next
    case False
    then show ?thesis using assms i r3
      by (auto simp: cmd_file_decode_def num op Let_def ran_output split: if_splits)
  qed
qed

text \<open>
  The contract of a command that is registered without the lock: besides what every command
  promises, it never prints with the lock and leaves no memory behind.
\<close>

locale unlocked_command =
  fixes handler :: "'e \<Rightarrow> 's shell_handler"
  assumes handler_ran: "handler e argv c = Some (rc, c') \<Longrightarrow> ran (lock_depth c) 0 c c'"
begin

lemma prints_unlocked:
  assumes "handler e argv c = Some (rc, c')"
  obtains evs where "trace c' = trace c @ evs" "\<forall>(k, ev) \<in> set evs. allowed (lock_depth c) k ev"
    "held evs = 0" "lock_depth c' = lock_depth c"
  using handler_ran [OF assms] by (auto simp: ran_def)

end

sublocale unlocked_command \<subseteq> shell_command handler
  by unfold_locales (rule ran_extends, rule handler_ran)

interpretation cmd_dump: unlocked_command "\<lambda>(lib, others). cmd_file_dump lib others"
  by unfold_locales (auto dest: cmd_dump_ran)

interpretation cmd_export: unlocked_command "\<lambda>(lib, others). cmd_file_export lib others"
  by unfold_locales (auto dest: cmd_export_ran)

interpretation cmd_decode: unlocked_command "\<lambda>(lib, others). cmd_file_decode lib others"
  by unfold_locales (auto dest: cmd_decode_ran)


section \<open>Transfers end\<close>

text \<open>Nothing reads more than it is asked to, and the length of decoded data is an \<open>int\<close>.\<close>

definition transfer_laws :: "('v, 'w, 'z) file_lib_scheme \<Rightarrow> bool" where
  "transfer_laws lib \<longleftrightarrow> 0 < FILE_CHUNK_SIZE lib \<and>
     (\<forall>inst offset n w. length (file_read lib inst offset n w) \<le> n) \<and>
     (\<forall>bs n. application_data_len (snd (create_object_decode_service_request lib bs n)) \<le> 2147483647)"

lemma read_length:
  assumes "transfer_laws lib" "file_transfer_read lib others t offset n c = (err, data, c')"
  shows "length data \<le> n"
  using assms by (auto simp: file_transfer_read_def Let_def case_prod_beta transfer_laws_def split: if_splits)

lemma dump_from_ends:
  assumes "transfer_laws lib"
  shows "dump_from lib others inst t offset remaining c \<noteq> None"
proof (induction "unat remaining" arbitrary: offset remaining c rule: less_induct)
  case less
  let ?n = "min (unat remaining) 16"
  obtain err data c1 where read: "file_transfer_read lib others t offset ?n c = (err, data, c1)"
    by (cases "file_transfer_read lib others t offset ?n c") auto
  have n: "\<not> ?n < length data" using read_length [OF assms read] by (simp only: not_less)
  show ?case
  proof (cases "remaining \<noteq> 0 \<and> data \<noteq> []")
    case True
    then have "unat (remaining - of_nat (length data)) < unat remaining"
      using n by (intro unat_minus_less) auto
    from less.hyps [OF this] n show ?thesis
      by (subst dump_from.simps) (simp add: read Let_def)
  next
    case False
    then show ?thesis using n by (subst dump_from.simps) (auto simp: read Let_def)
  qed
qed

lemma export_from_ends:
  assumes "transfer_laws lib"
  shows "export_from lib others inst t crc offset c \<noteq> None"
proof (induction "unat (ft_file_size t) - unat offset" arbitrary: crc offset c rule: less_induct)
  case less
  let ?n = "min (unat (ft_file_size t - offset)) (FILE_CHUNK_SIZE lib)"
  obtain err data c1 where read: "file_transfer_read lib others t offset ?n c = (err, data, c1)"
    by (cases "file_transfer_read lib others t offset ?n c") auto
  have n: "\<not> ?n < length data" using read_length [OF assms read] by (simp only: not_less)
  have chunk: "FILE_CHUNK_SIZE lib \<noteq> 0" using assms by (simp add: transfer_laws_def)
  show ?case
  proof (cases "offset < ft_file_size t \<and> length data = ?n")
    case True
    then have "length data \<noteq> 0" using chunk by (simp add: unat_sub_less word_less_nat_alt)
    with True have "unat (ft_file_size t) - unat (offset + of_nat (length data)) < unat (ft_file_size t) - unat offset"
      by (intro unat_plus_closer) auto
    note rest = less.hyps [OF this]
    have "length data = ?n" using True by blast
    from rest [unfolded this] n chunk show ?thesis
      by (subst export_from.simps) (auto simp: read Let_def)
  next
    case False
    then show ?thesis using n chunk by (subst export_from.simps) (auto simp: read Let_def)
  qed
qed

lemma decode_from_ends:
  assumes "transfer_laws lib"
  shows "decode_from lib others inst t offset c \<noteq> None"
proof (induction "unat (ft_file_size t) - unat offset" arbitrary: offset c rule: less_induct)
  case less
  let ?n = "min (unat (ft_file_size t - offset)) (MAX_APDU lib)"
  obtain err apdu c1 where read: "file_transfer_read lib others t offset ?n c = (err, apdu, c1)"
    by (cases "file_transfer_read lib others t offset ?n c") auto
  obtain k data where dec: "create_object_decode_service_request lib apdu (length apdu) = (k, data)"
    by fastforce
  obtain err2 found c2 where sup: "object_type_supported lib others t (create_object_type data) c1 = (err2, found, c2)"
    by (cases "object_type_supported lib others t (create_object_type data) c1") auto
  have n: "\<not> ?n < length apdu" using read_length [OF assms read] by (simp only: not_less)
  have len: "application_data_len data \<le> 2147483647" using assms dec unfolding transfer_laws_def by (metis snd_conv)
  show ?case
  proof (cases "offset < ft_file_size t \<and> 0 < k \<and> nat k \<le> length apdu \<and> file_initial_values_validate lib data = 0")
    case True
    then have "unat (ft_file_size t) - unat (offset + of_int k) < unat (ft_file_size t) - unat offset"
      using n by (intro unat_advance_closer [where m = ?n]) auto
    note next_record = less.hyps [OF this]
    obtain evs where "file_json_create_object lib offset data = Some evs"
      using create_object_eq [of lib data offset] True len by auto
    then show ?thesis using next_record n
      by (subst decode_from.simps) (auto simp: read dec sup Let_def)
  next
    case False
    then show ?thesis using n
      by (subst decode_from.simps) (auto simp: read dec sup Let_def not_less not_le)
  qed
qed

lemma cmd_transfers_end:
  assumes "transfer_laws lib"
  shows "cmd_file_dump lib others argv c \<noteq> None" "cmd_file_export lib others argv c \<noteq> None"
    "cmd_file_decode lib others argv c \<noteq> None"
  using dump_from_ends [OF assms] export_from_ends [OF assms] decode_from_ends [OF assms]
  by (simp_all add: cmd_file_dump_def cmd_file_export_def cmd_file_decode_def Let_def case_prod_beta
      split: option.split)

section \<open>What an export prints\<close>

lemma emit_all_fprints [simp]:
  "printed (trace (emit_all (map Fprint ts) c)) = printed (trace c)"
  "world (emit_all evs c) = world c"
  by (induction ts arbitrary: c, simp_all add: emit_all_def printed_def)
    (induction evs arbitrary: c, simp_all)

lemma print_texts_steps [simp]:
  "printed (trace (print_texts ts c)) = printed (trace c)" "world (print_texts ts c) = world c"
  by (simp_all add: print_texts_def)

lemma release_steps [simp]:
  "printed (trace (snd (file_transfer_release t c))) = printed (trace c)"
  "world (snd (file_transfer_release t c)) = world c"
  by (auto simp: file_transfer_release_def k_free_def split: option.split)

lemma lock_worlds [simp]:
  "world (bacnet_unlock c) = world c"
  by (simp add: bacnet_unlock_def)

text \<open>Pieces of a list, all but the last of the same length.\<close>

function pieces :: "nat \<Rightarrow> 'a list \<Rightarrow> 'a list list" where
  "pieces n xs = (if n = 0 \<or> xs = [] then [] else take n xs # pieces n (drop n xs))"
  by pat_completeness auto
termination by (relation "measure (\<lambda>(n, xs). length xs)") auto

declare pieces.simps [simp del]

lemma pieces_Nil [simp]: "pieces n [] = []"
  by (simp add: pieces.simps)

lemma pieces_step: "0 < n \<Longrightarrow> xs \<noteq> [] \<Longrightarrow> pieces n xs = take n xs # pieces n (drop n xs)"
  by (simp add: pieces.simps)

lemma pieces_eq_Nil: "0 < n \<Longrightarrow> pieces n xs = [] \<longleftrightarrow> xs = []"
  by (subst pieces.simps) simp

lemma concat_pieces: "0 < n \<Longrightarrow> concat (pieces n xs) = xs"
proof (induction n xs rule: pieces.induct)
  case (1 n xs)
  then show ?case by (cases "xs = []") (simp_all add: pieces_step)
qed

text \<open>The chunk objects of an export, and the lines they are printed in.\<close>

fun chunk_texts :: "u32 \<Rightarrow> nat \<Rightarrow> byte list list \<Rightarrow> string list" where
  "chunk_texts inst offset [] = []"
| "chunk_texts inst offset (p # ps) =
     export_chunk_text inst (of_nat offset) (hex_text p) # chunk_texts inst (offset + length p) ps"

fun comma_lines :: "string list \<Rightarrow> string list" where
  "comma_lines [] = []"
| "comma_lines [s] = [s]"
| "comma_lines (s # ss) = (s @ '','') # comma_lines ss"

definition crc_law :: "('v, 'w, 'z) file_lib_scheme \<Rightarrow> bool" where
  "crc_law lib \<longleftrightarrow>
     (\<forall>crc. crc32_ieee_update lib crc [] = crc) \<and>
     (\<forall>crc xs ys. crc32_ieee_update lib (crc32_ieee_update lib crc xs) ys =
        crc32_ieee_update lib crc (xs @ ys))"

text \<open>A file that stays as it is, whatever the other tasks do meanwhile.\<close>

definition same_file ::
    "('v, 'w, 'z) file_lib_scheme \<Rightarrow> (u32 \<Rightarrow> 'w \<Rightarrow> byte list) \<Rightarrow> u32 \<Rightarrow> 'w \<Rightarrow> 'w \<Rightarrow> bool" where
  "same_file lib contents inst w w' \<longleftrightarrow>
     same_attributes lib inst w w' \<and> contents inst w' = contents inst w"

definition file_stable ::
    "('v, 'w, 'z) file_lib_scheme \<Rightarrow> (u32 \<Rightarrow> 'w \<Rightarrow> byte list) \<Rightarrow> ('w \<Rightarrow> 'w) \<Rightarrow> u32 \<Rightarrow> bool" where
  "file_stable lib contents others inst \<longleftrightarrow> (\<forall>w. same_file lib contents inst w (others w))"

definition exportable ::
    "('v, 'w, 'z) file_lib_scheme \<Rightarrow> (u32 \<Rightarrow> 'w \<Rightarrow> byte list) \<Rightarrow> u32 \<Rightarrow> 'w \<Rightarrow> bool" where
  "exportable lib contents inst w \<longleftrightarrow>
     bacfile_valid_instance lib inst w \<and> default_text (bacfile_pathname lib inst w) \<noteq> '''' \<and>
     bacfile_file_access_stream lib inst w \<and> length (contents inst w) \<le> INT32_MAX"

definition snapshot ::
    "('v, 'w, 'z) file_lib_scheme \<Rightarrow> (u32 \<Rightarrow> 'w \<Rightarrow> byte list) \<Rightarrow> file_transfer \<Rightarrow> u32 \<Rightarrow> 'w \<Rightarrow> bool" where
  "snapshot lib contents t inst w \<longleftrightarrow>
     ft_instance t = inst \<and> ft_pathname t = bacfile_pathname lib inst w \<and>
     unat (ft_file_size t) = length (contents inst w) \<and> exportable lib contents inst w"

lemma same_file_trans:
  "same_file lib contents inst w w' \<Longrightarrow> same_file lib contents inst w' w'' \<Longrightarrow> same_file lib contents inst w w''"
  by (simp add: same_file_def same_attributes_def)

lemma same_file_snapshot:
  "same_file lib contents inst w w' \<Longrightarrow> snapshot lib contents t inst w \<Longrightarrow> snapshot lib contents t inst w'"
  by (simp add: same_file_def same_attributes_def snapshot_def exportable_def)

lemma lock_same:
  "file_stable lib contents others inst \<Longrightarrow> same_file lib contents inst (world c) (world (bacnet_lock others c))"
  by (simp add: file_stable_def bacnet_lock_def same_file_def same_attributes_def)

lemma revalidate_ok:
  assumes "file_laws lib contents" "snapshot lib contents t inst (world c)"
  shows "fst (file_transfer_revalidate lib t c) = 0"
    "world (snd (file_transfer_revalidate lib t c)) = world c"
    "printed (trace (snd (file_transfer_revalidate lib t c))) = printed (trace c)"
  using assms(2)
  by (auto simp: file_transfer_revalidate_def Let_def case_prod_beta snapshot_def exportable_def
      file_size_contents [OF assms(1)] default_text_def split: option.splits)

lemma transfer_read_ok:
  assumes "file_laws lib contents" "file_stable lib contents others inst"
    "snapshot lib contents t inst (world c)"
  obtains c' where
    "file_transfer_read lib others t offset n c = (0, take n (drop (unat offset) (contents inst (world c))), c')"
    "same_file lib contents inst (world c) (world c')" "printed (trace c') = printed (trace c)"
proof -
  let ?l = "bacnet_lock others c"
  note same = lock_same [OF assms(2), of c]
  note snap = same_file_snapshot [OF same assms(3)]
  note rv = revalidate_ok [OF assms(1) snap]
  have inst: "ft_instance t = inst" using assms(3) by (simp add: snapshot_def)
  have "contents inst (world ?l) = contents inst (world c)" using same by (simp add: same_file_def)
  then show ?thesis using that same rv
    by (simp add: file_transfer_read_def case_prod_beta Let_def inst file_read_contents [OF assms(1)])
qed

lemma take_length_take: "take (length (take k bs)) bs = take k bs"
  by (cases "k \<le> length bs") simp_all

lemma snapshot_offset:
  assumes "snapshot lib contents t inst w" "offset < ft_file_size t"
  shows "unat offset < length (contents inst w)"
    "unat (ft_file_size t - offset) = length (drop (unat offset) (contents inst w))"
  using assms by (simp_all add: snapshot_def unat_sub_less word_less_nat_alt)

lemma comma_lines_Cons:
  "comma_lines (s # ss) = (s @ (if ss = [] then '''' else '','')) # comma_lines ss"
  by (cases ss) simp_all

lemma chunk_texts_eq_Nil [simp]: "chunk_texts inst offset ps = [] \<longleftrightarrow> ps = []"
  by (cases ps) simp_all

lemma export_from_prints:
  assumes "file_laws lib contents" "hex_laws lib" "crc_law lib" "file_stable lib contents others inst"
    "0 < FILE_CHUNK_SIZE lib"
  shows "snapshot lib contents t inst (world c) \<Longrightarrow> unat offset \<le> length (contents inst (world c)) \<Longrightarrow>
    \<exists>c'. export_from lib others inst t crc offset c = Some (0, c') \<and>
      printed (trace c') = printed (trace c) @
        comma_lines (chunk_texts inst (unat offset)
          (pieces (FILE_CHUNK_SIZE lib) (drop (unat offset) (contents inst (world c))))) @
        [''],'', ''\"crc32\":\"'' @ hex8_lower (crc32_ieee_update lib crc
           (drop (unat offset) (contents inst (world c)))) @ ''\"'', ''}'']"
proof (induction "unat (ft_file_size t) - unat offset" arbitrary: crc offset c rule: less_induct)
  case less
  let ?bs = "drop (unat offset) (contents inst (world c))"
  let ?k = "FILE_CHUNK_SIZE lib"
  let ?p = "take ?k ?bs"
  have crc: "crc32_ieee_update lib crc [] = crc" for crc
    using assms(3) by (simp add: crc_law_def)
  show ?case
  proof (cases "offset < ft_file_size t")
    case False
    then have "unat (ft_file_size t) \<le> unat offset" by (simp add: word_le_nat_alt not_less)
    then have rest_empty: "?bs = []" using less.prems(1) by (simp add: snapshot_def)
    have "export_from lib others inst t crc offset c =
        (let c = shell_print ''],'' c; c = shell_print (''\"crc32\":\"'' @ hex8_lower crc @ ''\"'') c;
             c = shell_print ''}'' c in Some (0, snd (file_transfer_release t c)))"
      using False by (subst export_from.simps) (simp add: not_less)
    then show ?thesis by (simp add: crc rest_empty)
  next
    case True
    note off = snapshot_offset [OF less.prems(1) True]
    have n: "min (unat (ft_file_size t - offset)) ?k = length ?p" unfolding off(2) by (simp add: min.commute)
    obtain c1 where read: "file_transfer_read lib others t offset (length ?p) c = (0, take (length ?p) ?bs, c1)"
      and c1: "same_file lib contents inst (world c) (world c1)" "printed (trace c1) = printed (trace c)"
      by (rule transfer_read_ok [OF assms(1,4) less.prems(1), of offset "length ?p"])
    have p: "take (length ?p) ?bs = ?p" by (rule take_length_take)
    have some: "?p \<noteq> []" "?bs \<noteq> []" using off(1) assms(5) by simp_all
    have len: "length ?p \<le> unat (ft_file_size t - offset)" unfolding off(2) by simp
    have adv: "unat (offset + of_nat (length ?p)) = unat offset + length ?p"
      by (rule unat_plus_within [OF True len])
    have rest: "drop (unat offset + length ?p) (contents inst (world c)) = drop ?k ?bs"
      by (cases "?k \<le> length ?bs") (simp_all add: add.commute)
    have last_piece: "offset + of_nat (length ?p) < ft_file_size t \<longleftrightarrow> drop ?k ?bs \<noteq> []"
      unfolding word_less_nat_alt adv using less.prems(1) off(1) by (auto simp: snapshot_def)
    have hex: "bin2hex lib ?p (2 * ?k + 1) = hex_text ?p" by (rule bin2hex_text [OF assms(2)]) simp
    let ?line = "export_chunk_text inst offset (hex_text ?p) @ (if drop ?k ?bs \<noteq> [] then '','' else '''')"
    let ?c2 = "shell_print ?line c1"
    have not_done: "\<not> ft_file_size t \<le> offset" and chunk: "?k \<noteq> 0" using True assms(5) by simp_all
    have step: "export_from lib others inst t crc offset c =
        export_from lib others inst t (crc32_ieee_update lib crc ?p) (offset + of_nat (length ?p)) ?c2"
      by (subst export_from.simps)
        (simp only: not_done chunk n read p hex last_piece Let_def prod.case simp_thms if_True if_False
          length_hex_text less_irrefl)
    have w: "contents inst (world ?c2) = contents inst (world c)" using c1(1) by (simp add: same_file_def)
    have snap: "snapshot lib contents t inst (world ?c2)"
      using same_file_snapshot [OF c1(1) less.prems(1)] by simp
    have closer: "unat (ft_file_size t) - unat (offset + of_nat (length ?p)) < unat (ft_file_size t) - unat offset"
      using some len True by (intro unat_plus_closer) simp_all
    have bound: "unat (offset + of_nat (length ?p)) \<le> length (contents inst (world ?c2))"
      unfolding adv w using off(1) by simp
    from less.hyps [OF closer snap bound, of "crc32_ieee_update lib crc ?p", unfolded w adv rest]
    obtain c' where run: "export_from lib others inst t (crc32_ieee_update lib crc ?p)
          (offset + of_nat (length ?p)) ?c2 = Some (0, c')"
      and out: "printed (trace c') = printed (trace ?c2) @
        comma_lines (chunk_texts inst (unat offset + length ?p) (pieces ?k (drop ?k ?bs))) @
        [''],'', ''\"crc32\":\"'' @ hex8_lower (crc32_ieee_update lib (crc32_ieee_update lib crc ?p)
           (drop ?k ?bs)) @ ''\"'', ''}'']"
      by (elim exE conjE)
    have all: "crc32_ieee_update lib (crc32_ieee_update lib crc ?p) (drop ?k ?bs) = crc32_ieee_update lib crc ?bs"
      using assms(3) unfolding crc_law_def by (simp only: append_take_drop_id)
    show ?thesis
      using run out [unfolded all] assms(5) some(2)
      by (simp add: step pieces_step comma_lines_Cons pieces_eq_Nil c1(2)
          del: drop_drop drop_eq_Nil length_take length_drop)
  qed
qed

lemma capture_ok:
  assumes "file_laws lib contents" "exportable lib contents inst (world c)" "\<forall>n c. k_malloc_ok lib n c"
  obtains t c' where "file_transfer_capture lib inst c = (0, t, c')" "snapshot lib contents t inst (world c')"
    "world c' = world c" "printed (trace c') = printed (trace c)"
    "ft_read_only t = bacfile_read_only lib inst (world c)"
proof -
  have size: "unat (bacfile_file_size lib inst (world c)) = length (contents inst (world c))"
    by (rule file_size_contents [OF assms(1)])
  obtain p where path: "bacfile_pathname lib inst (world c) = Some p" "p \<noteq> ''''"
    using assms(2) by (auto simp: exportable_def default_text_def split: option.splits)
  have small: "length (contents inst (world c)) \<le> 2147483647"
    using assms(2) by (simp add: exportable_def INT32_MAX_def)
  then have cast: "unat (ucast (bacfile_file_size lib inst (world c)) :: u32) = length (contents inst (world c))"
    by (simp add: unsigned_ucast_eq unsigned_take_bit_eq take_bit_nat_eq_self size)
  show ?thesis
    by (rule that [of _ "snd (snd (file_transfer_capture lib inst c))"])
      (use assms(2,3) path small cast in \<open>auto simp: file_transfer_capture_def file_cstring_own_def Let_def
        case_prod_beta exportable_def size snapshot_def default_text_def INT32_MAX_def\<close>)
qed

lemma open_ok:
  assumes "file_laws lib contents" "file_stable lib contents others inst"
    "exportable lib contents inst (world c)" "\<forall>n c. k_malloc_ok lib n c"
  obtains t c' where "file_transfer_open lib others inst c = (0, t, c')" "snapshot lib contents t inst (world c')"
    "same_file lib contents inst (world c) (world c')" "printed (trace c') = printed (trace c)"
    "ft_read_only t = bacfile_read_only lib inst (world c)"
proof -
  note same = lock_same [OF assms(2), of c]
  have "exportable lib contents inst (world (bacnet_lock others c))"
    using assms(3) same by (simp add: exportable_def same_file_def same_attributes_def)
  from capture_ok [OF assms(1) this assms(4)] obtain t c' where
    cap: "file_transfer_capture lib inst (bacnet_lock others c) = (0, t, c')" "snapshot lib contents t inst (world c')"
    "world c' = world (bacnet_lock others c)" "printed (trace c') = printed (trace c)"
    "ft_read_only t = bacfile_read_only lib inst (world (bacnet_lock others c))" by auto
  show ?thesis
    by (rule that [of t "bacnet_unlock c'"])
      (use cap same in \<open>simp_all add: file_transfer_open_def file_transfer_status_def same_file_def same_attributes_def\<close>)
qed

definition export_head :: "u32 \<Rightarrow> nat \<Rightarrow> bool \<Rightarrow> string list" where
  "export_head inst n ro =
     [''{'', ''\"instance\":'' @ dec (unat inst) @ '','', '','', '','', ''\"size\":'' @ dec n @ '','',
      ''\"read_only\":'' @ true_false ro @ '','', ''\"data\":['']"

lemma export_prints_all:
  assumes "file_laws lib contents" "hex_laws lib" "crc_law lib" "file_stable lib contents others inst"
    "0 < FILE_CHUNK_SIZE lib" "\<forall>n c. k_malloc_ok lib n c"
    "exportable lib contents inst (world c)" "bacnet_string_to_uint32 lib arg = Some inst"
  shows "\<exists>c'. cmd_file_export lib others [a0, arg] c = Some (0, c') \<and>
    printed (trace c') = printed (trace c) @
      export_head inst (length (contents inst (world c))) (bacfile_read_only lib inst (world c)) @
      comma_lines (chunk_texts inst 0 (pieces (FILE_CHUNK_SIZE lib) (contents inst (world c)))) @
      [''],'', ''\"crc32\":\"'' @ hex8_lower (crc32_ieee_update lib 0 (contents inst (world c))) @ ''\"'', ''}'']"
proof -
  obtain t c1 where op: "file_transfer_open lib others inst c = (0, t, c1)" "snapshot lib contents t inst (world c1)"
    "same_file lib contents inst (world c) (world c1)" "printed (trace c1) = printed (trace c)"
    "ft_read_only t = bacfile_read_only lib inst (world c)"
    by (rule open_ok [OF assms(1,4,7,6)])
  have w: "contents inst (world c1) = contents inst (world c)" using op(3) by (simp add: same_file_def)
  have n: "unat (ft_file_size t) = length (contents inst (world c))" using op(2) w by (simp add: snapshot_def)
  have num: "file_instance_number_parse lib arg c = (0, inst, c)"
    using assms(8) by (simp add: file_instance_number_parse_def)
  have "\<exists>c2. cmd_file_export lib others [a0, arg] c = export_from lib others inst t 0 0 c2 \<and>
      world c2 = world c1 \<and> printed (trace c2) = printed (trace c) @
        export_head inst (length (contents inst (world c))) (bacfile_read_only lib inst (world c))"
    by (simp add: cmd_file_export_def num op(1) Let_def, rule exI, rule conjI, rule refl)
      (simp add: export_head_def op(4,5) n)
  then obtain c2 where c2: "cmd_file_export lib others [a0, arg] c = export_from lib others inst t 0 0 c2"
    "world c2 = world c1" "printed (trace c2) = printed (trace c) @
        export_head inst (length (contents inst (world c))) (bacfile_read_only lib inst (world c))"
    by blast
  show ?thesis
    using export_from_prints [OF assms(1-5), of t c2 0 0] op(2) by (simp add: c2 w)
qed

section \<open>Importing what was exported\<close>

text \<open>What Zephyr's JSON parser makes of a chunk object: its tokens, in the order of the fields.\<close>

definition chunk_law :: "('v, 'w, 'z) file_lib_scheme \<Rightarrow> bool" where
  "chunk_law lib \<longleftrightarrow> (\<forall>inst offset bs. bs \<noteq> [] \<longrightarrow>
     json_obj_parse lib (export_chunk_text inst offset (hex_text bs)) =
       (7, \<lparr>chunk_instance = Some (dec (unat inst)), chunk_offset = Some (dec (unat offset)),
            chunk_data = Some (hex_text bs)\<rparr>))"

definition importable ::
    "('v, 'w, 'z) file_lib_scheme \<Rightarrow> (u32 \<Rightarrow> 'w \<Rightarrow> byte list) \<Rightarrow> u32 \<Rightarrow> 'w \<Rightarrow> bool" where
  "importable lib contents inst w \<longleftrightarrow>
     bacfile_valid_instance lib inst w \<and> default_text (bacfile_pathname lib inst w) \<noteq> '''' \<and>
     \<not> bacfile_read_only lib inst w \<and> bacfile_file_access_stream lib inst w"

text \<open>The file takes what is written at its end, up to a length.\<close>

definition appends ::
    "('v, 'w, 'z) file_lib_scheme \<Rightarrow> (u32 \<Rightarrow> 'w \<Rightarrow> byte list) \<Rightarrow> u32 \<Rightarrow> nat \<Rightarrow> bool" where
  "appends lib contents inst n \<longleftrightarrow>
     (\<forall>w data offset. unat offset = length (contents inst w) \<longrightarrow> unat offset + length data \<le> n \<longrightarrow>
        fst (bacfile_write_offset lib inst offset data w) = length data)"

fun import_run :: "('v, 'w, 'z) file_lib_scheme \<Rightarrow> string list \<Rightarrow> 'w console \<Rightarrow> 'w console option" where
  "import_run lib [] c = Some c"
| "import_run lib (s # ss) c =
     (case cmd_file_import lib [''import'', s] c of
        Some (rc, c') \<Rightarrow> if rc = 0 then import_run lib ss c' else None
      | None \<Rightarrow> None)"

lemma import_chunk_ok:
  assumes "file_laws lib contents" "hex_laws lib" "chunk_law lib" "appends lib contents inst n"
    "importable lib contents inst (world c)" "data \<noteq> []" "length data \<le> FILE_CHUNK_SIZE lib"
    "length (contents inst (world c)) + length data \<le> n" "n \<le> INT32_MAX"
  obtains c' where
    "cmd_file_import lib [''import'', export_chunk_text inst (of_nat (length (contents inst (world c)))) (hex_text data)] c =
       Some (0, c')"
    "contents inst (world c') = contents inst (world c) @ data" "importable lib contents inst (world c')"
proof -
  let ?off = "of_nat (length (contents inst (world c))) :: u32"
  have off: "unat ?off = length (contents inst (world c))"
    using assms(8,9) by (intro unat_of_nat_u32) (simp add: INT32_MAX_def)
  let ?q = "snd (query (bacfile_valid_instance lib inst) c)"
  have acc: "write_accepted lib inst (hex_text data) (world ?q)"
    using assms(5-7) by (simp add: write_accepted_def importable_def hex2bin_text [OF assms(2)])
  have hex: "hex2bin lib (hex_text data) (FILE_CHUNK_SIZE lib) = data"
    by (rule hex2bin_text [OF assms(2,7)])
  obtain w' where wrote: "bacfile_write_offset lib inst ?off data (world c) = (length data, w')"
    using assms(4,8) off unfolding appends_def by (metis prod.collapse)
  obtain c' where run: "file_write_hex lib inst ?off (hex_text data) ?q = (0, c')"
    using write_hex_eq(2) [of lib inst ?off "hex_text data" ?q] acc wrote by (metis hex prod.collapse query_fields(3)
      fst_conv length_hex_text nonzero_mult_div_cancel_left zero_neq_numeral)
  have w: "world c' = w'"
    using write_hex_eq(1) [of lib inst ?off "hex_text data" ?q] acc wrote run by (simp add: hex)
  have "cmd_file_import lib [''import'', export_chunk_text inst ?off (hex_text data)] c = Some (0, c')"
    using assms(3,5,6,8,9) run off import_parse_dec [of ?off, unfolded off]
    by (simp add: cmd_file_import_def chunk_law_def import_parse_dec case_prod_beta importable_def not_less)
  moreover have "contents inst (world c') = contents inst (world c) @ data"
    using file_write_contents [OF assms(1) wrote] by (simp add: w off write_at_def)
  moreover have "importable lib contents inst (world c')"
    using file_write_frame(1) [OF assms(1) wrote, of inst] assms(5) by (simp add: w importable_def same_attributes_def)
  ultimately show ?thesis by (rule that)
qed

lemma import_run_ok:
  assumes "file_laws lib contents" "hex_laws lib" "chunk_law lib" "appends lib contents inst n" "n \<le> INT32_MAX"
  shows "importable lib contents inst (world c) \<Longrightarrow> length (contents inst (world c)) + length (concat ps) \<le> n \<Longrightarrow>
    \<forall>p \<in> set ps. p \<noteq> [] \<and> length p \<le> FILE_CHUNK_SIZE lib \<Longrightarrow>
    \<exists>c'. import_run lib (chunk_texts inst (length (contents inst (world c))) ps) c = Some c' \<and>
      contents inst (world c') = contents inst (world c) @ concat ps"
proof (induction ps arbitrary: c)
  case (Cons p ps)
  from Cons.prems obtain c1 where c1:
    "cmd_file_import lib [''import'', export_chunk_text inst (of_nat (length (contents inst (world c)))) (hex_text p)] c =
       Some (0, c1)"
    "contents inst (world c1) = contents inst (world c) @ p" "importable lib contents inst (world c1)"
    by (auto intro: import_chunk_ok [OF assms(1-4) Cons.prems(1) _ _ _ assms(5), of p])
  have "\<exists>c'. import_run lib (chunk_texts inst (length (contents inst (world c1))) ps) c1 = Some c' \<and>
      contents inst (world c') = contents inst (world c1) @ concat ps"
    using Cons.prems by (intro Cons.IH c1(3)) (simp_all add: c1(2))
  then show ?case by (simp add: c1)
qed simp

text \<open>All pieces but the last have the size asked for.\<close>

lemma pieces_full: "p \<in> set (butlast (pieces n xs)) \<Longrightarrow> length p = n"
proof (induction n xs rule: pieces.induct)
  case (1 n xs)
  then have nx: "0 < n" "xs \<noteq> []" by (cases "n = 0"; cases "xs = []"; simp add: pieces.simps)+
  have tail: "pieces n (drop n xs) \<noteq> []" "p = take n xs \<or> p \<in> set (butlast (pieces n (drop n xs)))"
    using "1.prems" unfolding pieces_step [OF nx] by (auto split: if_splits)
  then have "n < length xs" using nx(1) by (simp add: pieces_eq_Nil)
  then show ?case using tail(2) "1.IH" nx by auto
qed

lemma pieces_bounds: "p \<in> set (pieces n xs) \<Longrightarrow> p \<noteq> [] \<and> length p \<le> n"
proof (induction n xs rule: pieces.induct)
  case (1 n xs)
  then show ?case by (subst (asm) (2) pieces.simps) (auto split: if_splits)
qed

definition strip_comma :: "string \<Rightarrow> string" where
  "strip_comma s = (if last s = CHR '','' then butlast s else s)"

lemma strip_comma_lines:
  "\<forall>s \<in> set ss. last s \<noteq> CHR '','' \<Longrightarrow> map strip_comma (comma_lines ss) = ss"
  by (induction ss rule: comma_lines.induct) (simp_all add: strip_comma_def)

lemma chunk_texts_last: "s \<in> set (chunk_texts inst n ps) \<Longrightarrow> last s \<noteq> CHR '',''"
  by (induction inst n ps rule: chunk_texts.induct) (auto simp: export_chunk_text_def)

lemma length_comma_lines [simp]: "length (comma_lines ss) = length ss"
  by (induction ss rule: comma_lines.induct) simp_all

section \<open>Properties\<close>

text \<open>
  C8. The commands dump, export and decode print only while they do not hold the task lock, use the
  files and allocate memory only while they hold it, give it back, and free whatever memory they took, with the
  lock or without it, however they end.
\<close>

theorem file_transfers_unlocked:
  "(\<forall>rc c'. cmd_file_dump lib others argv c = Some (rc, c') \<longrightarrow> ran (lock_depth c) 0 c c') \<and>
   (\<forall>rc c'. cmd_file_export lib others argv c = Some (rc, c') \<longrightarrow> ran (lock_depth c) 0 c c') \<and>
   (\<forall>rc c'. cmd_file_decode lib others argv c = Some (rc, c') \<longrightarrow> ran (lock_depth c) 0 c c')"
  using cmd_dump.handler_ran [of "(lib, others)" argv c] cmd_export.handler_ran [of "(lib, others)" argv c]
    cmd_decode.handler_ran [of "(lib, others)" argv c]
  by simp

text \<open>
  C25. The commands dump, export and decode return, whatever the other tasks do to the files
  between two accesses; this needs a chunk size above zero and a stack that reads at most what it is
  asked for.
\<close>

theorem file_transfers_end:
  assumes "transfer_laws lib"
  shows "cmd_file_dump lib others argv c \<noteq> None \<and> cmd_file_export lib others argv c \<noteq> None \<and>
         cmd_file_decode lib others argv c \<noteq> None"
  using cmd_transfers_end [OF assms] by blast

text \<open>
  C18. The export of a file that stays as it is succeeds and prints the description of the file,
  every byte of it once and in order in chunks of exactly \<open>FILE_CHUNK_SIZE\<close> bytes, the last of which may be
  shorter, with commas between them, and the checksum of the whole content.
\<close>

theorem file_export_complete:
  assumes "file_laws lib contents" and "hex_laws lib" and "crc_law lib"
    and "file_stable lib contents others inst" and "0 < FILE_CHUNK_SIZE lib" and "\<forall>n c. k_malloc_ok lib n c"
    and "exportable lib contents inst (world c)" and "bacnet_string_to_uint32 lib arg = Some inst"
  shows "\<exists>c' ps. cmd_file_export lib others [a0, arg] c = Some (0, c') \<and>
    concat ps = contents inst (world c) \<and> (\<forall>p \<in> set ps. p \<noteq> [] \<and> length p \<le> FILE_CHUNK_SIZE lib) \<and>
    (\<forall>p \<in> set (butlast ps). length p = FILE_CHUNK_SIZE lib) \<and>
    printed (trace c') = printed (trace c) @
      export_head inst (length (contents inst (world c))) (bacfile_read_only lib inst (world c)) @
      comma_lines (chunk_texts inst 0 ps) @
      [''],'', ''\"crc32\":\"'' @ hex8_lower (crc32_ieee_update lib 0 (contents inst (world c))) @ ''\"'', ''}'']"
  using export_prints_all [OF assms, of a0] concat_pieces [OF assms(5), of "contents inst (world c)"]
    pieces_bounds [where n = "FILE_CHUNK_SIZE lib" and xs = "contents inst (world c)"]
    pieces_full [where n = "FILE_CHUNK_SIZE lib" and xs = "contents inst (world c)"]
  by fast

text \<open>
  C3. Importing the chunk objects of an export, one command each, into an empty file of the same
  number restores the content of the exported file.
\<close>

theorem file_export_import:
  assumes "file_laws lib contents" and "hex_laws lib" and "crc_law lib" and "chunk_law lib"
    and "file_stable lib contents others inst" and "0 < FILE_CHUNK_SIZE lib" and "\<forall>n c. k_malloc_ok lib n c"
    and "exportable lib contents inst (world c)" and "bacnet_string_to_uint32 lib arg = Some inst"
    and "appends lib contents inst (length (contents inst (world c)))"
    and "importable lib contents inst (world d)" and "contents inst (world d) = []"
  shows "\<exists>c' d'. cmd_file_export lib others [a0, arg] c = Some (0, c') \<and>
    import_run lib
      (map strip_comma (drop 7 (butlast (butlast (butlast (drop (length (printed (trace c)))
         (printed (trace c')))))))) d = Some d' \<and>
    contents inst (world d') = contents inst (world c)"
proof -
  let ?ps = "pieces (FILE_CHUNK_SIZE lib) (contents inst (world c))"
  obtain c' where run: "cmd_file_export lib others [a0, arg] c = Some (0, c')"
    and out: "printed (trace c') = printed (trace c) @
      export_head inst (length (contents inst (world c))) (bacfile_read_only lib inst (world c)) @
      comma_lines (chunk_texts inst 0 ?ps) @
      [''],'', ''\"crc32\":\"'' @ hex8_lower (crc32_ieee_update lib 0 (contents inst (world c))) @ ''\"'', ''}'']"
    using export_prints_all [OF assms(1-3,5-9), of a0] by blast
  have lines: "map strip_comma (drop 7 (butlast (butlast (butlast (drop (length (printed (trace c)))
      (printed (trace c'))))))) = chunk_texts inst 0 ?ps"
    using strip_comma_lines [of "chunk_texts inst 0 ?ps"] chunk_texts_last [of _ inst 0 ?ps]
    by (simp add: out butlast_append export_head_def)
  have limit: "length (contents inst (world c)) \<le> INT32_MAX"
    using assms(8) by (simp add: exportable_def)
  have "\<exists>d'. import_run lib (chunk_texts inst 0 ?ps) d = Some d' \<and> contents inst (world d') = concat ?ps"
    using import_run_ok [OF assms(1,2,4,10) limit assms(11), of ?ps]
    by (simp add: assms(12) concat_pieces [OF assms(6)] pieces_bounds)
  then show ?thesis using run lines concat_pieces [OF assms(6), of "contents inst (world c)"] by simp
qed

section \<open>Witnesses\<close>

lemma small_transfer_laws: "transfer_laws small_files"
  by (simp add: transfer_laws_def small_files_defs small_record_def)

lemma small_transfer_facts:
  "crc_law small_files" "file_stable small_files small_contents (\<lambda>w. w) inst"
  "0 < FILE_CHUNK_SIZE small_files" "\<forall>n c. k_malloc_ok small_files n c"
  "exportable small_files small_contents 1 w" "importable small_files small_contents 1 w"
  using length_small_contents [of 1 w]
  by (simp_all add: small_files_defs crc_law_def file_stable_def same_file_def same_attributes_def
      exportable_def importable_def default_text_def small_limit_def INT32_MAX_def)

lemma small_appends: "n \<le> small_limit \<Longrightarrow> appends small_files small_contents 1 n"
  by (simp add: appends_def small_files_defs small_write_def Let_def)

lemma takeWhile_digits: "takeWhile c_isdigit (dec n @ CHR '','' # s) = dec n"
  "dropWhile c_isdigit (dec n @ CHR '','' # s) = CHR '','' # s"
  using dec_isdigit [of _ n]
  by (simp_all add: takeWhile_append dropWhile_append c_isdigit_def)

lemma hex_digit_not_quote: "d < 16 \<Longrightarrow> hex_digit_lower d \<noteq> CHR 0x22"
  using digit_value_hex [of d] by (auto simp: digit_value_def c_isdigit_def)

lemma quote_not_in_hex: "CHR 0x22 \<notin> set (hex_text bs)"
proof -
  have "unat b div 16 < 16" for b :: byte using unat_u8_bound [of b] by linarith
  then show ?thesis
    by (induction bs) (auto simp: hex_text_def hex2_lower_def unat_nibbles hex_digit_not_quote [THEN not_sym])
qed

lemma small_chunk_law: "chunk_law small_files"
  using takeWhile_append_sep [OF quote_not_in_hex]
  by (simp add: chunk_law_def small_files_defs small_chunk_parse_def export_chunk_text_def Let_def takeWhile_digits)

lemma file_transfers_end_witness:
  "cmd_file_dump small_files (\<lambda>w. w) [''dump'', ''1''] (files_console [1, 2, 3]) \<noteq> None"
  using file_transfers_end [OF small_transfer_laws] by blast

lemma file_transfers_unlocked_witness:
  "\<exists>rc c'. cmd_file_export small_files (\<lambda>w. w) [''export'', ''1''] (files_console [1, 2, 3]) = Some (rc, c') \<and>
     ran 0 0 (files_console [1, 2, 3]) c'"
proof -
  obtain rc c' where run: "cmd_file_export small_files (\<lambda>w. w) [''export'', ''1''] (files_console [1, 2, 3]) = Some (rc, c')"
    using cmd_transfers_end(2) [OF small_transfer_laws] by (metis not_None_eq prod.collapse)
  have "ran (lock_depth (files_console [1, 2, 3])) 0 (files_console [1, 2, 3]) c'"
    using file_transfers_unlocked [of small_files "\<lambda>w. w" "[''export'', ''1'']" "files_console [1, 2, 3]"] run by blast
  then show ?thesis using run by (simp add: files_console_def)
qed

lemma small_arg: "bacnet_string_to_uint32 small_files ''1'' = Some 1"
  by code_simp

lemma file_export_complete_witness:
  "\<exists>c' ps. cmd_file_export small_files (\<lambda>w. w) [''export'', ''1''] (files_console [1, 2, 3]) = Some (0, c') \<and>
     concat ps = [1, 2, 3] \<and> (\<forall>p \<in> set (butlast ps). length p = 2) \<and>
     printed (trace c') = export_head 1 3 False @ comma_lines (chunk_texts 1 0 ps) @
       [''],'', ''\"crc32\":\"'' @ hex8_lower 1026 @ ''\"'', ''}'']"
proof -
  have contents: "small_contents 1 (world (files_console [1, 2, 3])) = [1, 2, 3]" by code_simp
  have crc: "crc32_ieee_update small_files 0 [1, 2, 3] = 1026" by code_simp
  have ro: "bacfile_read_only small_files 1 (world (files_console [1, 2, 3])) = False" by code_simp
  have chunk: "FILE_CHUNK_SIZE small_files = 2" by code_simp
  show ?thesis
    using file_export_complete [OF small_files_laws small_files_hex small_transfer_facts(1,2,3,4,5) small_arg,
        where c = "files_console [1, 2, 3]" and ?a0.0 = "''export''"]
    unfolding contents crc ro chunk by (simp add: files_console_def numeral_3_eq_3) blast
qed

lemma file_export_import_witness:
  "\<exists>c' d'. cmd_file_export small_files (\<lambda>w. w) [''export'', ''1''] (files_console [1, 2, 3]) = Some (0, c') \<and>
     import_run small_files
      (map strip_comma (drop 7 (butlast (butlast (butlast (printed (trace c'))))))) (files_console []) = Some d' \<and>
     small_contents 1 (world d') = [1, 2, 3]"
proof -
  have contents: "small_contents 1 (world (files_console [1, 2, 3])) = [1, 2, 3]"
    "small_contents 1 (world (files_console [])) = []" by code_simp+
  show ?thesis
    using file_export_import [OF small_files_laws small_files_hex small_transfer_facts(1) small_chunk_law
        small_transfer_facts(2,3,4,5) small_arg, where c = "files_console [1, 2, 3]" and ?a0.0 = "''export''"
        and d = "files_console []"] small_appends [of 3] small_transfer_facts(6)
    unfolding contents by (simp add: files_console_def numeral_3_eq_3 small_limit_def)
qed

end
