(* ===== verification/Device_Shell.thy ===== *)
theory Device_Shell
  imports Task_Lock
begin

text \<open>
  The smaller shell commands: listing, creating and deleting objects
  (\<open>subsys/bacnet_shell/bacnet_shell_objects.c\<close>), ReinitializeDevice (\<open>bacnet_shell_reinit.c\<close>), the
  clock (\<open>bacnet_shell_datetime.c\<close>) and two counters (\<open>bacnet_shell_packets.c\<close>,
  \<open>bacnet_shell_uptime.c\<close>). A NULL argument that is handed to a conversion of the BACnet stack counts
  as dereferenced. The two counters are printed with \<open>%ld\<close>; they stay below the largest \<open>long\<close>.
\<close>

section \<open>The device and the texts of the stack\<close>

text \<open>\<open>BACNET_CREATE_OBJECT_DATA\<close> and \<open>BACNET_DELETE_OBJECT_DATA\<close>, as far as the commands use them.\<close>

record object_data =
  data_type :: nat
  data_instance :: u32
  data_error :: nat

text \<open>\<open>BACNET_REINITIALIZE_DEVICE_DATA\<close>, with a character string of the stack as the password.\<close>

record 'p reinit_data =
  rd_state :: nat
  rd_password :: 'p
  rd_error :: nat

record ('p, 'd, 't, 'w) device_lib =
  BACNET_MAX_OBJECT :: nat
  BACNET_REINIT_MAX :: nat
  PROP_OBJECT_LIST_text :: string
  PROP_OBJECT_IDENTIFIER_text :: string
  object_type_text :: "nat \<Rightarrow> string"
  error_code_text :: "nat \<Rightarrow> string"
  ERROR_CODE_SUCCESS :: nat
  object_type_strtol :: "string \<Rightarrow> u32 option"
  string_to_uint32 :: "string \<Rightarrow> u32 option"
  Device_Object_List_Count :: "'w \<Rightarrow> nat"
  Device_Object_List_Identifier :: "nat \<Rightarrow> 'w \<Rightarrow> (nat \<times> u32) option"
  Device_Create_Object :: "object_data \<Rightarrow> 'w \<Rightarrow> bool \<times> object_data \<times> 'w"
  Device_Delete_Object :: "object_data \<Rightarrow> 'w \<Rightarrow> bool \<times> object_data \<times> 'w"
  stricmp_equal :: "string \<Rightarrow> string \<Rightarrow> bool"
  reinitialized_state_name :: "nat \<Rightarrow> string option"
  reinitialized_state_strtol :: "string \<Rightarrow> u32 option"
  no_password :: 'p
  characterstring_init_ansi :: "'p \<Rightarrow> string \<Rightarrow> 'p"
  Reinitialized_State :: "'w \<Rightarrow> nat"
  Device_Reinitialize :: "'p reinit_data \<Rightarrow> 'w \<Rightarrow> bool \<times> 'p reinit_data \<times> 'w"
  datetime_date_init_ascii :: "string \<Rightarrow> 'd option"
  datetime_time_init_ascii :: "string \<Rightarrow> 't option"
  datetime_timesync :: "'d \<Rightarrow> 't \<Rightarrow> bool \<Rightarrow> 'w \<Rightarrow> 'w"
  datetime_local :: "'w \<Rightarrow> 'd \<times> 't"
  datetime_date_to_ascii :: "'d \<Rightarrow> string"
  datetime_time_to_ascii :: "'t \<Rightarrow> string"
  packet_count :: "'w \<Rightarrow> nat"
  uptime_seconds :: "'w \<Rightarrow> nat"
  help_text :: string

section \<open>Objects\<close>

text \<open>
  The error code, the object type and the instance. The guard asks for one argument, the second one
  is read too.
\<close>

definition bacnet_object_instance_parse ::
    "('p, 'd, 't, 'w, 'z) device_lib_scheme \<Rightarrow> string list \<Rightarrow> 'w console \<Rightarrow>
     (int \<times> u16 \<times> u32 \<times> 'w console) option" where
  "bacnet_object_instance_parse lib argv c =
     (if length argv < 2 then
        (case argv_at argv 0 of
           None \<Rightarrow> None
         | Some name \<Rightarrow> Some (- EINVAL, 0, 0, shell_error (''parse: '' @ name @ '' <object-type> <instance>'') c))
      else case argv_at argv 1 of None \<Rightarrow> None | Some type_arg \<Rightarrow>
        (case object_type_strtol lib type_arg of
           None \<Rightarrow> Some (- EINVAL, 0, 0, shell_error (''parse: Invalid object-type: '' @ type_arg @ ''.'') c)
         | Some object_type \<Rightarrow>
             if BACNET_MAX_OBJECT lib < unat object_type then
               Some (- EINVAL, 0, 0, shell_error (''parse: Invalid object-type: '' @ type_arg @ ''. Must be 0-'' @
                 dec (BACNET_MAX_OBJECT lib) @ ''.'') c)
             else case argv_at argv 2 of None \<Rightarrow> None | Some inst_arg \<Rightarrow>
               (case string_to_uint32 lib inst_arg of
                  None \<Rightarrow> Some (- EINVAL, ucast object_type, 0,
                    shell_error (''parse: Invalid object-instance: '' @ inst_arg @ ''.'') c)
                | Some object_instance \<Rightarrow>
                    if BACNET_MAX_INSTANCE < unat object_instance then
                      Some (- EINVAL, ucast object_type, 0,
                        shell_error (''parse: Invalid object-instance: '' @ inst_arg @ ''. Must be 0-'' @
                          dec BACNET_MAX_INSTANCE @ ''.'') c)
                    else Some (0, ucast object_type, object_instance, c))))"

text \<open>One round of the list: the last index closes the array.\<close>

definition object_list_text ::
    "('p, 'd, 't, 'w, 'z) device_lib_scheme \<Rightarrow> nat \<Rightarrow> nat \<Rightarrow> nat \<times> u32 \<Rightarrow> string" where
  "object_list_text lib count array_index obj =
     ''{\"'' @ PROP_OBJECT_IDENTIFIER_text lib @ ''\":{\"'' @ object_type_text lib (fst obj) @ ''\":'' @
     dec (unat (snd obj)) @ ''}}'' @ (if array_index = count then ''],'' else '','')"

definition object_list_entry ::
    "('p, 'd, 't, 'w, 'z) device_lib_scheme \<Rightarrow> nat \<Rightarrow> nat \<Rightarrow> 'w console \<Rightarrow> 'w console" where
  "object_list_entry lib count array_index c =
     (let (found, c) = query (Device_Object_List_Identifier lib array_index) c
      in case found of
           None \<Rightarrow> c
         | Some obj \<Rightarrow> shell_print (object_list_text lib count array_index obj) c)"

definition cmd_object_list :: "('p, 'd, 't, 'w, 'z) device_lib_scheme \<Rightarrow> 'w shell_handler" where
  "cmd_object_list lib argv c =
     (let c = shell_print (''{\"'' @ PROP_OBJECT_LIST_text lib @ ''\": ['') c;
          (count, c) = query (Device_Object_List_Count lib) c;
          c = fold (object_list_entry lib count) [1..<Suc count] c
      in Some (0, shell_print (''\"object-list-size\": '' @ dec count @ ''}'') c))"

text \<open>The message when the device refuses; \<open>verb\<close> is \<open>create\<close> or \<open>delete\<close>.\<close>

definition object_refused ::
    "('p, 'd, 't, 'w, 'z) device_lib_scheme \<Rightarrow> string \<Rightarrow> object_data \<Rightarrow> string" where
  "object_refused lib verb data =
     verb @ '': Unable to '' @ verb @ '' object '' @ object_type_text lib (data_type data) @ ''('' @
     dec (data_type data) @ '')-'' @ dec (unat (data_instance data)) @ '': '' @
     error_code_text lib (data_error data)"

definition cmd_object_create :: "('p, 'd, 't, 'w, 'z) device_lib_scheme \<Rightarrow> 'w shell_handler" where
  "cmd_object_create lib argv c =
     (case bacnet_object_instance_parse lib argv c of
        None \<Rightarrow> None
      | Some (err, object_type, object_instance, c) \<Rightarrow>
          if err \<noteq> 0 then Some (err, c)
          else
            let ((status, data), c) = access (\<lambda>w.
                  let (status, data, w) = Device_Create_Object lib
                    \<lparr>data_type = unat object_type, data_instance = object_instance, data_error = 0\<rparr> w
                  in ((status, data), w)) c
            in if \<not> status then Some (- EINVAL, shell_error (object_refused lib ''create'' data) c)
               else Some (0, c))"

definition cmd_object_delete :: "('p, 'd, 't, 'w, 'z) device_lib_scheme \<Rightarrow> 'w shell_handler" where
  "cmd_object_delete lib argv c =
     (case bacnet_object_instance_parse lib argv c of
        None \<Rightarrow> None
      | Some (err, object_type, object_instance, c) \<Rightarrow>
          if err \<noteq> 0 then Some (err, c)
          else
            let ((status, data), c) = access (\<lambda>w.
                  let (status, data, w) = Device_Delete_Object lib
                    \<lparr>data_type = unat object_type, data_instance = object_instance, data_error = 0\<rparr> w
                  in ((status, data), w)) c
            in if \<not> status then Some (- EINVAL, shell_error (object_refused lib ''delete'' data) c)
               else Some (0, c))"

section \<open>ReinitializeDevice\<close>

definition reinit_help_line :: "('p, 'd, 't, 'w, 'z) device_lib_scheme \<Rightarrow> nat \<Rightarrow> 'w console \<Rightarrow> 'w console" where
  "reinit_help_line lib found_index c =
     (case reinitialized_state_name lib found_index of
        None \<Rightarrow> c
      | Some name \<Rightarrow> shell_print (''  \"'' @ name @ ''\"'' @
          (if found_index < BACNET_REINIT_MAX lib - 1 then '','' else '''')) c)"

text \<open>The state in the first argument, if it is one.\<close>

definition reinit_state_arg :: "('p, 'd, 't, 'w, 'z) device_lib_scheme \<Rightarrow> string list \<Rightarrow> nat" where
  "reinit_state_arg lib argv =
     (case argv_at argv 1 of
        None \<Rightarrow> BACNET_REINIT_MAX lib
      | Some arg \<Rightarrow> (case reinitialized_state_strtol lib arg of
            None \<Rightarrow> BACNET_REINIT_MAX lib | Some v \<Rightarrow> unat v))"

definition cmd_reinit :: "('p, 'd, 't, 'w, 'z) device_lib_scheme \<Rightarrow> 'w shell_handler" where
  "cmd_reinit lib argv c =
     (if length argv \<in> {1, 2, 3} then
        if 2 \<le> length argv \<and> stricmp_equal lib (argv ! 1) ''help'' then
          let c = shell_print ''{\"ReinitializeDeviceStates\":['' c;
              c = fold (reinit_help_line lib) [0..<BACNET_REINIT_MAX lib] c
          in Some (0, shell_print '']}'' c)
        else
          let state = reinit_state_arg lib argv;
              password = (if length argv = 3 then characterstring_init_ansi lib (no_password lib) (argv ! 2)
                          else no_password lib)
          in if state = BACNET_REINIT_MAX lib then
               let (st, c) = query (Reinitialized_State lib) c;
                   name = (case reinitialized_state_name lib st of None \<Rightarrow> ''Unknown'' | Some n \<Rightarrow> n)
               in Some (0, shell_print (''{\"ReinitializeDevice\":{\"state\":\"'' @ name @ ''\"}}'') c)
             else
               let ((status, rd), c) = access (\<lambda>w.
                     let (status, rd, w) = Device_Reinitialize lib
                       \<lparr>rd_state = state, rd_password = password, rd_error = 0\<rparr> w
                     in ((status, rd), w)) c;
                   error_name = error_code_text lib (if status then ERROR_CODE_SUCCESS lib else rd_error rd);
                   value_text = (case reinitialized_state_name lib (rd_state rd) of
                      None \<Rightarrow> dec_int (sint (of_nat (rd_state rd) :: u32)) | Some n \<Rightarrow> ''\"'' @ n @ ''\"'')
               in Some (0, shell_print (''{\"ReinitializeDevice-Request\":{\"state\":'' @ value_text @
                    '',\"error-code\":\"'' @ error_name @ ''\"}}'') c)
      else Some (- EINVAL, shell_print (help_text lib) c))"

section \<open>Clock and counters\<close>

definition cmd_date_time :: "('p, 'd, 't, 'w, 'z) device_lib_scheme \<Rightarrow> 'w shell_handler" where
  "cmd_date_time lib argv c =
     (let show_time = (\<lambda>c.
            let (now, c) = query (datetime_local lib) c
            in Some (0 :: int, shell_print (datetime_date_to_ascii lib (fst now) @ '' '' @
                 datetime_time_to_ascii lib (snd now)) c))
      in if length argv = 3 then
           (case (datetime_date_init_ascii lib (argv ! 1), datetime_time_init_ascii lib (argv ! 2)) of
              (Some bdate, Some btime) \<Rightarrow>
                show_time (snd (access (\<lambda>w. ((), datetime_timesync lib bdate btime False w)) c))
            | _ \<Rightarrow> Some (- EINVAL, shell_print '' date time format: YYYY/MM/DD HH:MM:SS.hh'' c))
         else if length argv = 1 then show_time c
         else Some (- EINVAL, shell_print (help_text lib) c))"

definition cmd_packets :: "('p, 'd, 't, 'w, 'z) device_lib_scheme \<Rightarrow> 'w shell_handler" where
  "cmd_packets lib argv c =
     (let (n, c) = query (packet_count lib) c
      in Some (0, shell_print (''BACnet thread packets received: '' @ dec n) c))"

definition cmd_uptime :: "('p, 'd, 't, 'w, 'z) device_lib_scheme \<Rightarrow> 'w shell_handler" where
  "cmd_uptime lib argv c =
     (let (n, c) = query (uptime_seconds lib) c
      in Some (0, shell_print (''BACnet thread uptime: '' @ dec n @ '' seconds'') c))"


section \<open>The lock\<close>

lemma extends_depth: "extends d c c' \<Longrightarrow> lock_depth c' = lock_depth c"
  by (simp add: extends_def)

lemma extends_object_list_entry [simp]:
  "extends d c c' \<Longrightarrow> d \<le> lock_depth c \<Longrightarrow> extends d c (object_list_entry lib n i c')"
  by (auto simp: object_list_entry_def case_prod_beta Let_def split: option.split)

lemma extends_reinit_help_line [simp]:
  "extends d c c' \<Longrightarrow> d \<le> lock_depth c \<Longrightarrow> extends d c (reinit_help_line lib i c')"
  by (auto simp: reinit_help_line_def split: option.split)

lemma parse_extends:
  "bacnet_object_instance_parse lib argv c = Some (err, ty, inst, c') \<Longrightarrow>
   extends (lock_depth c) c c' \<and> world c' = world c"
  by (auto simp: bacnet_object_instance_parse_def shell_error_def split: handler_splits)

lemma parse_accepted:
  "bacnet_object_instance_parse lib argv c = Some (0, ty, inst, c') \<Longrightarrow> BACNET_MAX_OBJECT lib < 65536 \<Longrightarrow>
   c' = c \<and> unat ty \<le> BACNET_MAX_OBJECT lib \<and> unat inst \<le> BACNET_MAX_INSTANCE"
  by (auto simp: bacnet_object_instance_parse_def unat_ucast_u16 split: handler_splits)

lemma parse_error:
  "bacnet_object_instance_parse lib argv c = Some (err, ty, inst, c') \<Longrightarrow> err \<noteq> 0 \<Longrightarrow> err = - EINVAL"
  by (auto simp: bacnet_object_instance_parse_def split: handler_splits)

interpretation cmd_object_list: shell_command cmd_object_list
  by unfold_locales (auto simp: cmd_object_list_def case_prod_beta Let_def intro!: extends_steps(1) extends_fold extends_object_list_entry extends_query)

interpretation cmd_object_create: shell_command cmd_object_create
  by unfold_locales
    (auto simp: cmd_object_create_def case_prod_beta Let_def split: handler_splits dest!: parse_extends
      intro!: extends_steps dest: extends_depth)

interpretation cmd_object_delete: shell_command cmd_object_delete
  by unfold_locales
    (auto simp: cmd_object_delete_def case_prod_beta Let_def split: handler_splits dest!: parse_extends
      intro!: extends_steps dest: extends_depth)

interpretation cmd_reinit: shell_command cmd_reinit
  by unfold_locales
    (auto simp: cmd_reinit_def case_prod_beta Let_def split: handler_splits
      intro!: extends_steps(1) extends_fold extends_object_list_entry extends_query)

interpretation cmd_date_time: shell_command cmd_date_time
  by unfold_locales (auto simp: cmd_date_time_def case_prod_beta Let_def split: handler_splits)

interpretation cmd_packets: shell_command cmd_packets
  by unfold_locales (auto simp: cmd_packets_def case_prod_beta Let_def)

interpretation cmd_uptime: shell_command cmd_uptime
  by unfold_locales (auto simp: cmd_uptime_def case_prod_beta Let_def)

lemma device_commands_locked:
  "\<forall>h \<in> set [cmd_object_list lib, cmd_object_create lib, cmd_object_delete lib, cmd_reinit lib,
             cmd_date_time lib, cmd_packets lib, cmd_uptime lib].
     \<forall>rc c'. BACNET_SHELL_LOCK_HANDLER others h argv c = Some (rc, c') \<longrightarrow>
       extends (lock_depth c + 1) c c'"
  using cmd_object_list.locked_extends cmd_object_create.locked_extends cmd_object_delete.locked_extends
    cmd_reinit.locked_extends cmd_date_time.locked_extends cmd_packets.locked_extends cmd_uptime.locked_extends
  by fastforce


section \<open>What the commands do\<close>

text \<open>The lines of the list: those of the objects that the device finds.\<close>

definition object_lines ::
    "('p, 'd, 't, 'w, 'z) device_lib_scheme \<Rightarrow> nat \<Rightarrow> 'w \<Rightarrow> nat list \<Rightarrow> string list" where
  "object_lines lib count w is =
     concat (map (\<lambda>i. case Device_Object_List_Identifier lib i w of
       None \<Rightarrow> [] | Some obj \<Rightarrow> [object_list_text lib count i obj]) is)"

lemma fold_object_list:
  "world (fold (object_list_entry lib count) is c) = world c \<and>
   printed (trace (fold (object_list_entry lib count) is c)) =
     printed (trace c) @ object_lines lib count (world c) is"
  by (induction "is" arbitrary: c)
    (auto simp: object_list_entry_def object_lines_def Let_def case_prod_beta shell_print_def split: option.split)

text \<open>Creating and deleting are one request to two functions of the device.\<close>

definition object_request ::
    "('p, 'd, 't, 'w, 'z) device_lib_scheme \<Rightarrow> string \<Rightarrow>
     (object_data \<Rightarrow> 'w \<Rightarrow> bool \<times> object_data \<times> 'w) \<Rightarrow> 'w shell_handler" where
  "object_request lib verb device argv c =
     (case bacnet_object_instance_parse lib argv c of
        None \<Rightarrow> None
      | Some (err, object_type, object_instance, c) \<Rightarrow>
          if err \<noteq> 0 then Some (err, c)
          else
            let ((status, data), c) = access (\<lambda>w.
                  let (status, data, w) = device
                    \<lparr>data_type = unat object_type, data_instance = object_instance, data_error = 0\<rparr> w
                  in ((status, data), w)) c
            in if \<not> status then Some (- EINVAL, shell_error (object_refused lib verb data) c)
               else Some (0, c))"

lemma object_requests:
  "cmd_object_create lib = object_request lib ''create'' (Device_Create_Object lib)"
  "cmd_object_delete lib = object_request lib ''delete'' (Device_Delete_Object lib)"
  by (intro ext, simp only: cmd_object_create_def object_request_def,
      intro ext, simp only: cmd_object_delete_def object_request_def)

lemma object_request_effect:
  assumes "BACNET_MAX_OBJECT lib < 65536" and run: "object_request lib verb device argv c = Some (rc, c')"
  shows "rc = - EINVAL \<and> world c' = world c \<or>
    (\<exists>ty inst data ok. ty \<le> BACNET_MAX_OBJECT lib \<and> unat inst \<le> BACNET_MAX_INSTANCE \<and>
       device \<lparr>data_type = ty, data_instance = inst, data_error = 0\<rparr> (world c) = (ok, data, world c') \<and>
       rc = (if ok then 0 else - EINVAL))"
proof -
  obtain err ty inst c1 where p: "bacnet_object_instance_parse lib argv c = Some (err, ty, inst, c1)"
    using run by (auto simp: object_request_def split: option.splits)
  show ?thesis
  proof (cases "err = 0")
    case True
    with parse_accepted [of lib argv c ty inst c1] p assms(1)
    have acc: "c1 = c" "unat ty \<le> BACNET_MAX_OBJECT lib" "unat inst \<le> BACNET_MAX_INSTANCE" by simp_all
    obtain ok data w where dev: "device
        \<lparr>data_type = unat ty, data_instance = inst, data_error = 0\<rparr> (world c) = (ok, data, w)" by (metis prod_cases3)
    then have "world c' = w \<and> rc = (if ok then 0 else - EINVAL)"
      using run p True acc(1)
      by (auto simp: object_request_def Let_def access_def shell_error_def split: if_splits)
    then show ?thesis using dev acc(2,3) by blast
  qed (use run p parse_error [OF p] parse_extends [OF p] in \<open>auto simp: object_request_def\<close>)
qed

lemma cmd_object_list_run:
  obtains c' where "cmd_object_list lib argv c = Some (0, c')" "world c' = world c"
    "printed (trace c') = printed (trace c) @ [''{\"'' @ PROP_OBJECT_LIST_text lib @ ''\": [''] @
       object_lines lib (Device_Object_List_Count lib (world c)) (world c)
         [1..<Suc (Device_Object_List_Count lib (world c))] @
       [''\"object-list-size\": '' @ dec (Device_Object_List_Count lib (world c)) @ ''}'']"
proof -
  let ?c1 = "shell_print (''{\"'' @ PROP_OBJECT_LIST_text lib @ ''\": ['') c"
  let ?n = "Device_Object_List_Count lib (world c)"
  let ?c2 = "fold (object_list_entry lib ?n) [1..<Suc ?n] (snd (query (Device_Object_List_Count lib) ?c1))"
  let ?c3 = "shell_print (''\"object-list-size\": '' @ dec ?n @ ''}'') ?c2"
  have w: "world ?c1 = world c" by (simp add: shell_print_def)
  have "cmd_object_list lib argv c = Some (0, ?c3)"
    unfolding cmd_object_list_def Let_def case_prod_beta query_fields w ..
  moreover have "world ?c3 = world c"
    using fold_object_list [of lib ?n "[1..<Suc ?n]" "snd (query (Device_Object_List_Count lib) ?c1)"] w
    by (simp add: shell_print_def del: upt_Suc)
  moreover have "printed (trace ?c3) = printed (trace c) @ [''{\"'' @ PROP_OBJECT_LIST_text lib @ ''\": [''] @
       object_lines lib ?n (world c) [1..<Suc ?n] @ [''\"object-list-size\": '' @ dec ?n @ ''}'']"
    using fold_object_list [of lib ?n "[1..<Suc ?n]" "snd (query (Device_Object_List_Count lib) ?c1)"] w
    by (simp add: shell_print_def del: upt_Suc)
  ultimately show thesis by (rule that)
qed

section \<open>Properties\<close>

text \<open>
  C32. Creating and deleting objects from the shell reaches the device only with an object type and
  an instance number in the range of the protocol, at most once, and the result of the command is
  that of the device; with other arguments the device is left alone and the command fails.
\<close>

theorem object_commands_checked:
  assumes "BACNET_MAX_OBJECT lib < 65536" and "run \<in> {(cmd_object_create lib, Device_Create_Object lib),
      (cmd_object_delete lib, Device_Delete_Object lib)}"
    and "fst run argv c = Some (rc, c')"
  shows "rc = - EINVAL \<and> world c' = world c \<or>
    (\<exists>ty inst data ok. ty \<le> BACNET_MAX_OBJECT lib \<and> unat inst \<le> BACNET_MAX_INSTANCE \<and>
       snd run \<lparr>data_type = ty, data_instance = inst, data_error = 0\<rparr> (world c) = (ok, data, world c') \<and>
       rc = (if ok then 0 else - EINVAL))"
proof -
  have "\<exists>verb. fst run = object_request lib verb (snd run)"
    using assms(2) object_requests [of lib] by auto
  then show ?thesis using object_request_effect [OF assms(1)] assms(3) by metis
qed

text \<open>
  The object list prints, between its first and its last line, one line for each object the
  device finds, in the order of the list; when all are found, every line but the last ends with a
  comma and the last one closes the array, so that the lines are the JSON text of the list.
\<close>

lemma object_list_json:
  assumes "0 < Device_Object_List_Count lib (world c)"
    and "\<forall>i. 1 \<le> i \<and> i \<le> Device_Object_List_Count lib (world c) \<longrightarrow>
      Device_Object_List_Identifier lib i (world c) = Some (obj i)"
  shows "\<exists>c'. cmd_object_list lib argv c = Some (0, c') \<and> world c' = world c \<and>
    (let n = Device_Object_List_Count lib (world c);
         entry = (\<lambda>i. ''{\"'' @ PROP_OBJECT_IDENTIFIER_text lib @ ''\":{\"'' @ object_type_text lib (fst (obj i)) @
           ''\":'' @ dec (unat (snd (obj i))) @ ''}}'')
     in printed (trace c') = printed (trace c) @ [''{\"'' @ PROP_OBJECT_LIST_text lib @ ''\": [''] @
          map (\<lambda>i. entry i @ '','') [1..<n] @ [entry n @ ''],''] @
          [''\"object-list-size\": '' @ dec n @ ''}''])"
proof -
  let ?n = "Device_Object_List_Count lib (world c)"
  obtain c' where c': "cmd_object_list lib argv c = Some (0, c')" "world c' = world c"
    "printed (trace c') = printed (trace c) @ [''{\"'' @ PROP_OBJECT_LIST_text lib @ ''\": [''] @
       object_lines lib ?n (world c) [1..<Suc ?n] @ [''\"object-list-size\": '' @ dec ?n @ ''}'']"
    by (rule cmd_object_list_run)
  have lines: "object_lines lib ?n (world c) is = map (\<lambda>i. object_list_text lib ?n i (obj i)) is"
    if "set is \<subseteq> {1..?n}" for "is"
    using that assms(2) by (induction "is") (auto simp: object_lines_def)
  have "[1..<Suc ?n] = [1..<?n] @ [?n]" using assms(1) by simp
  moreover have "map (\<lambda>i. object_list_text lib ?n i (obj i)) [1..<?n] =
      map (\<lambda>i. ''{\"'' @ PROP_OBJECT_IDENTIFIER_text lib @ ''\":{\"'' @ object_type_text lib (fst (obj i)) @
           ''\":'' @ dec (unat (snd (obj i))) @ ''}}'' @ '','') [1..<?n]"
    by (simp add: object_list_text_def)
  ultimately have "object_lines lib ?n (world c) [1..<Suc ?n] =
      map (\<lambda>i. ''{\"'' @ PROP_OBJECT_IDENTIFIER_text lib @ ''\":{\"'' @ object_type_text lib (fst (obj i)) @
           ''\":'' @ dec (unat (snd (obj i))) @ ''}}'' @ '','') [1..<?n] @
      [''{\"'' @ PROP_OBJECT_IDENTIFIER_text lib @ ''\":{\"'' @ object_type_text lib (fst (obj ?n)) @
           ''\":'' @ dec (unat (snd (obj ?n))) @ ''}}'' @ ''],'']"
    using assms(1) by (subst lines) (auto simp: object_list_text_def)
  then show ?thesis using c' by (simp add: Let_def del: upt_Suc)
qed

text \<open>An empty list, or one whose last object is not found, is never closed.\<close>

lemma object_list_not_closed:
  assumes "Device_Object_List_Count lib (world c) = 0"
  shows "\<exists>c'. cmd_object_list lib argv c = Some (0, c') \<and>
    printed (trace c') = printed (trace c) @ [''{\"'' @ PROP_OBJECT_LIST_text lib @ ''\": ['',
      ''\"object-list-size\": 0}'']"
proof -
  obtain c' where "cmd_object_list lib argv c = Some (0, c')"
    "printed (trace c') = printed (trace c) @ [''{\"'' @ PROP_OBJECT_LIST_text lib @ ''\": [''] @
       object_lines lib (Device_Object_List_Count lib (world c)) (world c)
         [1..<Suc (Device_Object_List_Count lib (world c))] @
       [''\"object-list-size\": '' @ dec (Device_Object_List_Count lib (world c)) @ ''}'']"
    by (rule cmd_object_list_run)
  then show ?thesis using assms by (simp add: object_lines_def dec.simps dec_digit_def)
qed

text \<open>A type without an instance passes the guard on the arguments; the NULL after it is read.\<close>

lemma object_parse_reads_null:
  assumes "object_type_strtol lib ty = Some t" "unat t \<le> BACNET_MAX_OBJECT lib"
  shows "cmd_object_create lib [''create'', ty] c = None"
  using assms by (simp add: cmd_object_create_def bacnet_object_instance_parse_def numeral_2_eq_2)

text \<open>
  Without a state that the stack knows, ReinitializeDevice only reports; with one, the device gets
  exactly one request, for that state, with the password of the third argument.
\<close>

lemma cmd_reinit_effect:
  assumes "cmd_reinit lib argv c = Some (rc, c')"
  shows "world c' = world c \<or>
    rc = 0 \<and> reinit_state_arg lib argv \<noteq> BACNET_REINIT_MAX lib \<and>
    (\<exists>pw rd ok. Device_Reinitialize lib \<lparr>rd_state = reinit_state_arg lib argv, rd_password = pw, rd_error = 0\<rparr>
       (world c) = (ok, rd, world c') \<and>
     pw = (if length argv = 3 then characterstring_init_ansi lib (no_password lib) (argv ! 2) else no_password lib))"
proof -
  have lines: "world (fold (reinit_help_line lib) xs d) = world d" for xs d
    by (induction xs arbitrary: d) (auto simp: reinit_help_line_def shell_print_def split: option.split)
  show ?thesis
    using assms lines
    by (auto simp: cmd_reinit_def Let_def case_prod_beta shell_print_def access_def query_def split: if_splits)
      (metis prod.collapse)+
qed

section \<open>Witnesses\<close>

text \<open>A device with the objects 8:1 and 0:7, as a list; creating adds at the end.\<close>

definition small_device :: "(string, unit, unit, (nat \<times> u32) list) device_lib" where
  "small_device =
     \<lparr>BACNET_MAX_OBJECT = 1023, BACNET_REINIT_MAX = 8, PROP_OBJECT_LIST_text = ''object-list'',
      PROP_OBJECT_IDENTIFIER_text = ''object-identifier'', object_type_text = dec, error_code_text = dec,
      ERROR_CODE_SUCCESS = 84,
      object_type_strtol = (\<lambda>s. if s = ''0'' then Some 0 else None),
      string_to_uint32 = (\<lambda>s. if s = ''9'' then Some 9 else None),
      Device_Object_List_Count = List.length,
      Device_Object_List_Identifier = (\<lambda>i w. if 1 \<le> i \<and> i \<le> List.length w then Some (w ! (i - 1)) else None),
      Device_Create_Object = (\<lambda>d w. (True, d, w @ [(data_type d, data_instance d)])),
      Device_Delete_Object = (\<lambda>d w. (False, d\<lparr>data_error := 31\<rparr>, w)),
      stricmp_equal = (=), reinitialized_state_name = (\<lambda>n. Some ''state''),
      reinitialized_state_strtol = (\<lambda>s. if s = ''coldstart'' then Some 0 else None),
      no_password = '''', characterstring_init_ansi = (\<lambda>p s. s), Reinitialized_State = (\<lambda>w. 7),
      Device_Reinitialize = (\<lambda>d w. (True, d, w)),
      datetime_date_init_ascii = (\<lambda>s. None), datetime_time_init_ascii = (\<lambda>s. None),
      datetime_timesync = (\<lambda>d t utc w. w), datetime_local = (\<lambda>w. ((), ())),
      datetime_date_to_ascii = (\<lambda>d. ''2026/10/01''), datetime_time_to_ascii = (\<lambda>t. ''12:00:00.00''),
      packet_count = (\<lambda>w. 3), uptime_seconds = (\<lambda>w. 4), help_text = ''help''\<rparr>"

definition device_console :: "(nat \<times> u32) list console" where
  "device_console = \<lparr>lock_depth = 0, trace = [], world = [(8, 1), (0, 7)]\<rparr>"

lemma small_device_create:
  "cmd_object_create small_device [''create'', ''0'', ''9''] device_console =
    Some (0, \<lparr>lock_depth = 0, trace = [(0, Access)], world = [(8, 1), (0, 7), (0, 9)]\<rparr>)"
  by code_simp

lemma object_commands_checked_witness:
  "\<exists>ty inst data ok. ty \<le> BACNET_MAX_OBJECT small_device \<and> unat inst \<le> BACNET_MAX_INSTANCE \<and>
     Device_Create_Object small_device \<lparr>data_type = ty, data_instance = inst, data_error = 0\<rparr> [(8, 1), (0, 7)] =
       (ok, data, [(8, 1), (0, 7), (0, 9)])"
  using object_commands_checked [of small_device "(cmd_object_create small_device, Device_Create_Object small_device)",
      simplified, OF _ small_device_create]
  by (simp add: device_console_def) (auto simp: small_device_def BACNET_MAX_INSTANCE_def)

lemma object_list_json_witness:
  "\<exists>c'. cmd_object_list small_device [''list''] device_console = Some (0, c') \<and>
    world c' = [(8, 1), (0, 7)] \<and> printed (trace c') \<noteq> []"
proof -
  have n: "Device_Object_List_Count small_device (world device_console) = 2"
    by (simp add: small_device_def device_console_def)
  have objs: "\<forall>i. 1 \<le> i \<and> i \<le> Device_Object_List_Count small_device (world device_console) \<longrightarrow>
      Device_Object_List_Identifier small_device i (world device_console) = Some ([(8, 1), (0, 7)] ! (i - 1))"
    by (simp add: small_device_def device_console_def)
  show ?thesis
    using object_list_json [of small_device device_console, OF _ objs, of "[''list'']"] n
    by (auto simp: Let_def) (auto simp: device_console_def)
qed

end
