(* ===== verification/Light_Shell.thy ===== *)
theory Light_Shell
  imports Task_Lock
begin

text \<open>
  The shell commands for lights (\<open>subsys/bacnet_shell/bacnet_shell_lighting_output.c\<close>). The Lighting
  Output object and the conversion of decimal fractions belong to the BACnet stack and the C library;
  \<open>'f\<close> are its floating-point numbers. A NULL argument handed to a conversion counts as dereferenced.
\<close>

section \<open>Lighting commands\<close>

datatype lighting_operation =
    BACNET_LIGHTS_NONE
  | BACNET_LIGHTS_FADE_TO
  | BACNET_LIGHTS_RAMP_TO
  | BACNET_LIGHTS_STEP_UP
  | BACNET_LIGHTS_STEP_DOWN
  | BACNET_LIGHTS_STEP_ON
  | BACNET_LIGHTS_STEP_OFF
  | BACNET_LIGHTS_WARN
  | BACNET_LIGHTS_WARN_OFF
  | BACNET_LIGHTS_WARN_RELINQUISH
  | BACNET_LIGHTS_STOP

record 'f lighting_command =
  operation :: lighting_operation
  use_ramp_rate :: bool
  use_step_increment :: bool
  use_fade_time :: bool
  use_priority :: bool
  use_target_level :: bool
  target_level :: 'f
  ramp_rate :: 'f
  step_increment :: 'f
  fade_time :: u32
  priority :: nat

definition BACNET_MIN_PRIORITY_nat :: nat where "BACNET_MIN_PRIORITY_nat = 1"
definition BACNET_MAX_PRIORITY_nat :: nat where "BACNET_MAX_PRIORITY_nat = 16"

lemmas priority_range = BACNET_MIN_PRIORITY_nat_def BACNET_MAX_PRIORITY_nat_def

text \<open>
  \<open>strtod\<close> returns the value as the \<open>float\<close> the commands convert it to and the number of characters it
  took; \<open>fixed1\<close> is \<open>%.1f\<close>.
\<close>

record ('f, 'w) light_lib =
  light_libc :: libc
  strtod :: "string \<Rightarrow> 'f \<times> nat"
  zero :: 'f
  hundred :: 'f
  INFINITY :: 'f
  above_zero :: "'f \<Rightarrow> bool"
  fixed1 :: "'f \<Rightarrow> string"
  strnicmp_equal :: "string \<Rightarrow> string \<Rightarrow> nat \<Rightarrow> bool"
  light_help :: string
  Lighting_Output_Valid_Instance :: "u32 \<Rightarrow> 'w \<Rightarrow> bool"
  Lighting_Output_Count :: "'w \<Rightarrow> nat"
  Lighting_Output_Index_To_Instance :: "nat \<Rightarrow> 'w \<Rightarrow> u32"
  Lighting_Output_Present_Value :: "u32 \<Rightarrow> 'w \<Rightarrow> 'f"
  Lighting_Output_Tracking_Value :: "u32 \<Rightarrow> 'w \<Rightarrow> 'f"
  Lighting_Output_Present_Value_Priority :: "u32 \<Rightarrow> 'w \<Rightarrow> nat"
  Lighting_Output_Overridden_Status :: "u32 \<Rightarrow> 'w \<Rightarrow> bool"
  Lighting_Output_Out_Of_Service :: "u32 \<Rightarrow> 'w \<Rightarrow> bool"
  Lighting_Output_Relinquish_Default :: "u32 \<Rightarrow> 'w \<Rightarrow> 'f"
  Lighting_Output_Priority_Array_Value :: "u32 \<Rightarrow> nat \<Rightarrow> 'w \<Rightarrow> 'f"
  Lighting_Output_Priority_Array_Relinquished :: "u32 \<Rightarrow> nat \<Rightarrow> 'w \<Rightarrow> bool"
  Lighting_Output_Default_Priority :: "u32 \<Rightarrow> 'w \<Rightarrow> nat"
  Lighting_Output_Overridden_Clear :: "u32 \<Rightarrow> 'w \<Rightarrow> 'w"
  Lighting_Output_Overridden_Ramp :: "u32 \<Rightarrow> 'f \<Rightarrow> 'f \<Rightarrow> 'w \<Rightarrow> 'w"
  Lighting_Output_Overridden_Momentary :: "u32 \<Rightarrow> 'f \<Rightarrow> 'w \<Rightarrow> 'w"
  Lighting_Output_Overridden_Set :: "u32 \<Rightarrow> 'f \<Rightarrow> 'w \<Rightarrow> 'w"
  Lighting_Output_Present_Value_Relinquish :: "u32 \<Rightarrow> nat \<Rightarrow> 'w \<Rightarrow> 'w"
  Lighting_Output_Present_Value_Set :: "u32 \<Rightarrow> 'f \<Rightarrow> nat \<Rightarrow> 'w \<Rightarrow> 'w"
  Lighting_Output_Lighting_Command_Set :: "u32 \<Rightarrow> 'f lighting_command \<Rightarrow> 'w \<Rightarrow> 'w"
  Lighting_Output_Blink_Warn_Feature_Set :: "u32 \<Rightarrow> 'f \<Rightarrow> u16 \<Rightarrow> u16 \<Rightarrow> 'w \<Rightarrow> 'w"
  Lighting_Output_Egress_Time_Set :: "u32 \<Rightarrow> u32 \<Rightarrow> 'w \<Rightarrow> 'w"

definition no_command :: "('f, 'w, 'z) light_lib_scheme \<Rightarrow> 'f lighting_command" where
  "no_command lib =
     \<lparr>operation = BACNET_LIGHTS_NONE, use_ramp_rate = False, use_step_increment = False, use_fade_time = False,
      use_priority = False, use_target_level = False, target_level = zero lib, ramp_rate = zero lib,
      step_increment = zero lib, fade_time = 0, priority = 0\<rparr>"

text \<open>A priority outside the range is not used.\<close>

definition with_priority :: "nat \<Rightarrow> ('f, 'z) lighting_command_scheme \<Rightarrow> ('f, 'z) lighting_command_scheme" where
  "with_priority p data =
     (if BACNET_MIN_PRIORITY_nat \<le> p \<and> p \<le> BACNET_MAX_PRIORITY_nat
      then data\<lparr>priority := p, use_priority := True\<rparr> else data)"

section \<open>Arguments\<close>

type_synonym 'w outcome = "(int \<times> 'w console) option"

definition usage :: "('f, 'w, 'z) light_lib_scheme \<Rightarrow> 'w console \<Rightarrow> 'w outcome" where
  "usage lib c = Some (- EINVAL, shell_print (light_help lib) c)"

definition invalid_arg :: "string list \<Rightarrow> nat \<Rightarrow> nat \<Rightarrow> string \<Rightarrow> 'w console \<Rightarrow> 'w outcome" where
  "invalid_arg argv i shown what c =
     (case argv_at argv shown of
        None \<Rightarrow> None
      | Some s \<Rightarrow> Some (- EINVAL, shell_error (''argv['' @ dec i @ '']='' @ s @ '' invalid '' @ what) c))"

text \<open>
  An argument that \<open>strtoul\<close> reads, converted to 32 bits, or the error with the argument \<open>shown\<close> in
  the message; the command goes on with \<open>k\<close>. \<open>optional_number\<close> is its use under a test of \<open>argc\<close>.
\<close>

definition number_arg ::
    "('f, 'w, 'z) light_lib_scheme \<Rightarrow> string list \<Rightarrow> nat \<Rightarrow> nat \<Rightarrow> string \<Rightarrow> 'w console \<Rightarrow>
     (u32 \<Rightarrow> 'w outcome) \<Rightarrow> 'w outcome" where
  "number_arg lib argv i shown what c k =
     (case argv_at argv i of
        None \<Rightarrow> None
      | Some s \<Rightarrow>
          let (long_value, taken) = strtoul (light_libc lib) 0 s
          in if taken = 0 then invalid_arg argv i shown what c else k (of_nat long_value))"

definition optional_number ::
    "('f, 'w, 'z) light_lib_scheme \<Rightarrow> string list \<Rightarrow> nat \<Rightarrow> nat \<Rightarrow> string \<Rightarrow> u32 \<Rightarrow> 'w console \<Rightarrow>
     (u32 \<Rightarrow> 'w outcome) \<Rightarrow> 'w outcome" where
  "optional_number lib argv i shown what dflt c k =
     (if i < length argv then number_arg lib argv i shown what c k else k dflt)"

definition percent_arg ::
    "('f, 'w, 'z) light_lib_scheme \<Rightarrow> string list \<Rightarrow> nat \<Rightarrow> string \<Rightarrow> 'w console \<Rightarrow>
     ('f \<Rightarrow> 'w outcome) \<Rightarrow> 'w outcome" where
  "percent_arg lib argv i what c k =
     (case argv_at argv i of
        None \<Rightarrow> None
      | Some s \<Rightarrow>
          let (double_value, taken) = strtod lib s
          in if taken = 0 then invalid_arg argv i i what c else k double_value)"

definition optional_percent ::
    "('f, 'w, 'z) light_lib_scheme \<Rightarrow> string list \<Rightarrow> nat \<Rightarrow> string \<Rightarrow> 'f \<Rightarrow> 'w console \<Rightarrow>
     ('f \<Rightarrow> 'w outcome) \<Rightarrow> 'w outcome" where
  "optional_percent lib argv i what dflt c k =
     (if i < length argv then percent_arg lib argv i what c k else k dflt)"

text \<open>The instance, checked to exist or not, or the usage when there is no argument.\<close>

definition instance_arg ::
    "('f, 'w, 'z) light_lib_scheme \<Rightarrow> string list \<Rightarrow> string \<Rightarrow> 'w console \<Rightarrow> (u32 \<Rightarrow> 'w outcome) \<Rightarrow> 'w outcome" where
  "instance_arg lib argv what c k =
     (if 1 < length argv then number_arg lib argv 1 1 what c k else usage lib c)"

definition checked_instance ::
    "('f, 'w, 'z) light_lib_scheme \<Rightarrow> string list \<Rightarrow> 'w console \<Rightarrow> (u32 \<Rightarrow> 'w console \<Rightarrow> 'w outcome) \<Rightarrow> 'w outcome" where
  "checked_instance lib argv c k =
     instance_arg lib argv ''instance'' c (\<lambda>inst.
       let (valid, c) = query (Lighting_Output_Valid_Instance lib inst) c
       in if valid then k inst c else invalid_arg argv 1 1 ''instance'' c)"

section \<open>Showing values\<close>

definition status_text :: "bool \<Rightarrow> bool \<Rightarrow> string" where
  "status_text overridden out_of_service =
     (if overridden then ''overridden'' else ''tracking'') @ '' '' @
     (if out_of_service then ''out-of-service'' else ''in-service'')"

definition cmd_lighting_output_value_print ::
    "('f, 'w, 'z) light_lib_scheme \<Rightarrow> u32 \<Rightarrow> 'w console \<Rightarrow> int \<times> 'w console" where
  "cmd_lighting_output_value_print lib inst c =
     (let (valid, c) = query (Lighting_Output_Valid_Instance lib inst) c
      in if \<not> valid then (- EINVAL, c)
      else
        let (present_value, c) = query (Lighting_Output_Present_Value lib inst) c;
            (tracking_value, c) = query (Lighting_Output_Tracking_Value lib inst) c;
            (prio, c) = query (Lighting_Output_Present_Value_Priority lib inst) c;
            (overridden, c) = query (Lighting_Output_Overridden_Status lib inst) c;
            (out_of_service, c) = query (Lighting_Output_Out_Of_Service lib inst) c
        in (0, shell_print (''lighting-output:'' @ dec (unat inst) @ '' '' @ fixed1 lib present_value @ ''%@'' @
              dec prio @ ''->'' @ fixed1 lib tracking_value @ '' '' @ status_text overridden out_of_service) c))"

definition list_light :: "('f, 'w, 'z) light_lib_scheme \<Rightarrow> nat \<Rightarrow> 'w console \<Rightarrow> 'w console" where
  "list_light lib index c =
     (let (inst, c) = query (Lighting_Output_Index_To_Instance lib index) c
      in snd (cmd_lighting_output_value_print lib inst c))"

definition cmd_lighting_output_list :: "('f, 'w, 'z) light_lib_scheme \<Rightarrow> 'w shell_handler" where
  "cmd_lighting_output_list lib argv c =
     (let (count, c) = query (Lighting_Output_Count lib) c
      in Some (0, fold (list_light lib) [0..<count] c))"

definition cmd_priority_array_value :: "('f, 'w, 'z) light_lib_scheme \<Rightarrow> bool \<Rightarrow> 'f \<Rightarrow> 'f" where
  "cmd_priority_array_value lib is_relinquished v = (if is_relinquished then INFINITY lib else v)"

text \<open>One round of the loop over the priorities: the entries so far and the console.\<close>

definition read_priority ::
    "('f, 'w, 'z) light_lib_scheme \<Rightarrow> u32 \<Rightarrow> nat \<Rightarrow> (bool \<times> 'f) list \<times> 'w console \<Rightarrow> (bool \<times> 'f) list \<times> 'w console" where
  "read_priority lib inst prio acc =
     (let (entries, c) = acc;
          (v, c) = query (Lighting_Output_Priority_Array_Value lib inst prio) c;
          (relinquished, c) = query (Lighting_Output_Priority_Array_Relinquished lib inst prio) c
      in (entries @ [(relinquished, v)], c))"

definition comma_separated :: "string list \<Rightarrow> string" where
  "comma_separated ss = concat (map (\<lambda>s. s @ '','') (butlast ss)) @ (if ss = [] then '''' else last ss)"

definition cmd_lighting_output_value_get :: "('f, 'w, 'z) light_lib_scheme \<Rightarrow> 'w shell_handler" where
  "cmd_lighting_output_value_get lib argv c =
     checked_instance lib argv c (\<lambda>inst c.
       let (relinquish_default, c) = query (Lighting_Output_Relinquish_Default lib inst) c;
           (entries, c) = fold (read_priority lib inst) [BACNET_MIN_PRIORITY_nat..<Suc BACNET_MAX_PRIORITY_nat] ([], c);
           (overridden, c) = query (Lighting_Output_Overridden_Status lib inst) c;
           (out_of_service, c) = query (Lighting_Output_Out_Of_Service lib inst) c;
           (tracking_value, c) = query (Lighting_Output_Tracking_Value lib inst) c;
           levels = map (\<lambda>(r, v). fixed1 lib (cmd_priority_array_value lib r v)) entries @
                    [fixed1 lib relinquish_default]
       in Some (0, shell_print (''lighting-output-'' @ dec_int (sint inst) @ '' '' @ fixed1 lib tracking_value @
            '' {'' @ comma_separated levels @ ''} '' @ status_text overridden out_of_service) c))"

definition cmd_lighting_output_track :: "('f, 'w, 'z) light_lib_scheme \<Rightarrow> 'w shell_handler" where
  "cmd_lighting_output_track lib argv c =
     checked_instance lib argv c (\<lambda>inst c.
       let (tracking_value, c) = query (Lighting_Output_Tracking_Value lib inst) c
       in Some (0, shell_print (''lighting-output-'' @ dec_int (sint inst) @ '' '' @ fixed1 lib tracking_value) c))"

section \<open>Changing values\<close>

text \<open>A change of the object, and the end of most commands: the change, then the value is shown.\<close>

definition change :: "('w \<Rightarrow> 'w) \<Rightarrow> 'w console \<Rightarrow> 'w console" where
  "change f c = snd (access (\<lambda>w. ((), f w)) c)"

definition change_and_show ::
    "('f, 'w, 'z) light_lib_scheme \<Rightarrow> u32 \<Rightarrow> ('w \<Rightarrow> 'w) \<Rightarrow> 'w console \<Rightarrow> 'w outcome" where
  "change_and_show lib inst f c = Some (cmd_lighting_output_value_print lib inst (change f c))"

definition show_light :: "('f, 'w, 'z) light_lib_scheme \<Rightarrow> u32 \<Rightarrow> 'w console \<Rightarrow> 'w outcome" where
  "show_light lib inst c = Some (cmd_lighting_output_value_print lib inst c)"

definition cmd_lighting_output_override :: "('f, 'w, 'z) light_lib_scheme \<Rightarrow> 'w shell_handler" where
  "cmd_lighting_output_override lib argv c =
     checked_instance lib argv c (\<lambda>inst c.
       if length argv \<le> 2 then show_light lib inst c
       else if strnicmp_equal lib (argv ! 2) ''clear'' 5 then
         change_and_show lib inst (Lighting_Output_Overridden_Clear lib inst) c
       else if strnicmp_equal lib (argv ! 2) ''ramp'' 4 then
         percent_arg lib argv 3 ''percentage'' c (\<lambda>level.
           percent_arg lib argv 4 ''ramp rate'' c (\<lambda>rate.
             change_and_show lib inst (Lighting_Output_Overridden_Ramp lib inst level rate) c))
       else
         percent_arg lib argv 2 ''percentage'' c (\<lambda>level.
           if 3 < length argv then
             if strnicmp_equal lib (argv ! 3) ''momentary'' 9
             then change_and_show lib inst (Lighting_Output_Overridden_Momentary lib inst level) c
             else usage lib c
           else change_and_show lib inst (Lighting_Output_Overridden_Set lib inst level) c))"

text \<open>The level, or none for \<open>NULL\<close>.\<close>

definition level_or_null ::
    "('f, 'w, 'z) light_lib_scheme \<Rightarrow> string list \<Rightarrow> 'w console \<Rightarrow> ('f option \<Rightarrow> 'w outcome) \<Rightarrow> 'w outcome" where
  "level_or_null lib argv c k =
     (if strnicmp_equal lib (argv ! 2) ''NULL'' 4 then k None
      else percent_arg lib argv 2 ''percentage'' c (\<lambda>level. k (Some level)))"

definition cmd_lighting_output_value_set :: "('f, 'w, 'z) light_lib_scheme \<Rightarrow> 'w shell_handler" where
  "cmd_lighting_output_value_set lib argv c =
     instance_arg lib argv ''instance number'' c (\<lambda>inst.
       if length argv \<le> 2 then show_light lib inst c
       else level_or_null lib argv c (\<lambda>level.
         let (default_priority, c) = query (Lighting_Output_Default_Priority lib inst) c
         in optional_number lib argv 3 3 ''priority'' (of_nat default_priority) c (\<lambda>prio.
              case level of
                None \<Rightarrow> change_and_show lib inst (Lighting_Output_Present_Value_Relinquish lib inst (unat prio)) c
              | Some v \<Rightarrow> change_and_show lib inst (Lighting_Output_Present_Value_Set lib inst v (unat prio)) c)))"

definition cmd_lighting_output_value_relinquish :: "('f, 'w, 'z) light_lib_scheme \<Rightarrow> 'w shell_handler" where
  "cmd_lighting_output_value_relinquish lib argv c =
     instance_arg lib argv ''instance number'' c (\<lambda>inst.
       let (default_priority, c) = query (Lighting_Output_Default_Priority lib inst) c
       in optional_number lib argv 2 2 ''priority'' (of_nat default_priority) c (\<lambda>prio.
            change_and_show lib inst (Lighting_Output_Present_Value_Relinquish lib inst (unat prio)) c))"

section \<open>Sending lighting commands\<close>

definition cmd_lighting_output_fade :: "('f, 'w, 'z) light_lib_scheme \<Rightarrow> 'w shell_handler" where
  "cmd_lighting_output_fade lib argv c =
     instance_arg lib argv ''instance number'' c (\<lambda>inst.
       if length argv \<le> 2 then show_light lib inst c
       else percent_arg lib argv 2 ''percentage'' c (\<lambda>level.
         optional_number lib argv 3 2 ''fade time'' 0 c (\<lambda>fade.
           optional_number lib argv 4 4 ''priority'' 0 c (\<lambda>prio.
             let data = (no_command lib)\<lparr>operation := BACNET_LIGHTS_FADE_TO, use_fade_time := True,
                   fade_time := fade, use_target_level := True, target_level := level\<rparr>
             in change_and_show lib inst
                  (Lighting_Output_Lighting_Command_Set lib inst (with_priority (unat prio) data)) c))))"

definition cmd_lighting_output_ramp :: "('f, 'w, 'z) light_lib_scheme \<Rightarrow> 'w shell_handler" where
  "cmd_lighting_output_ramp lib argv c =
     instance_arg lib argv ''instance number'' c (\<lambda>inst.
       if length argv \<le> 2 then show_light lib inst c
       else percent_arg lib argv 2 ''percentage'' c (\<lambda>level.
         optional_percent lib argv 3 ''percentage'' (hundred lib) c (\<lambda>rate.
           optional_number lib argv 4 4 ''priority'' 0 c (\<lambda>prio.
             let data = (no_command lib)\<lparr>operation := BACNET_LIGHTS_RAMP_TO\<rparr>;
                 data = (if above_zero lib rate then data\<lparr>use_ramp_rate := True, ramp_rate := rate\<rparr> else data);
                 data = data\<lparr>use_target_level := True, target_level := level\<rparr>
             in change_and_show lib inst
                  (Lighting_Output_Lighting_Command_Set lib inst (with_priority (unat prio) data)) c))))"

definition cmd_lighting_output_stop :: "('f, 'w, 'z) light_lib_scheme \<Rightarrow> 'w shell_handler" where
  "cmd_lighting_output_stop lib argv c =
     instance_arg lib argv ''instance number'' c (\<lambda>inst.
       optional_number lib argv 2 2 ''priority'' 0 c (\<lambda>prio.
         let data = (no_command lib)\<lparr>operation := BACNET_LIGHTS_STOP\<rparr>
         in change_and_show lib inst
              (Lighting_Output_Lighting_Command_Set lib inst (with_priority (unat prio) data)) c))"

definition cmd_lighting_output_step ::
    "('f, 'w, 'z) light_lib_scheme \<Rightarrow> lighting_operation \<Rightarrow> 'w shell_handler" where
  "cmd_lighting_output_step lib op argv c =
     instance_arg lib argv ''instance number'' c (\<lambda>inst.
       if length argv \<le> 2 then show_light lib inst c
       else percent_arg lib argv 2 ''percentage'' c (\<lambda>increment.
         optional_number lib argv 3 3 ''priority'' 0 c (\<lambda>prio.
           let data = (no_command lib)\<lparr>operation := op, use_step_increment := True, step_increment := increment\<rparr>
           in change_and_show lib inst
                (Lighting_Output_Lighting_Command_Set lib inst (with_priority (unat prio) data)) c)))"

definition cmd_lighting_output_step_up :: "('f, 'w, 'z) light_lib_scheme \<Rightarrow> 'w shell_handler" where
  "cmd_lighting_output_step_up lib = cmd_lighting_output_step lib BACNET_LIGHTS_STEP_UP"

definition cmd_lighting_output_step_down :: "('f, 'w, 'z) light_lib_scheme \<Rightarrow> 'w shell_handler" where
  "cmd_lighting_output_step_down lib = cmd_lighting_output_step lib BACNET_LIGHTS_STEP_DOWN"

definition cmd_lighting_output_step_on :: "('f, 'w, 'z) light_lib_scheme \<Rightarrow> 'w shell_handler" where
  "cmd_lighting_output_step_on lib = cmd_lighting_output_step lib BACNET_LIGHTS_STEP_ON"

definition cmd_lighting_output_step_off :: "('f, 'w, 'z) light_lib_scheme \<Rightarrow> 'w shell_handler" where
  "cmd_lighting_output_step_off lib = cmd_lighting_output_step lib BACNET_LIGHTS_STEP_OFF"

text \<open>The interval is cut off at 16 bits; the count is always 0.\<close>

definition cmd_lighting_output_blink ::
    "('f, 'w, 'z) light_lib_scheme \<Rightarrow> lighting_operation \<Rightarrow> 'w shell_handler" where
  "cmd_lighting_output_blink lib op argv c =
     instance_arg lib argv ''instance number'' c (\<lambda>inst.
       optional_number lib argv 2 2 ''egress seconds'' (60 * 5) c (\<lambda>egress.
         optional_number lib argv 3 3 ''interval ms'' 0 c (\<lambda>interval.
           optional_percent lib argv 4 ''off percentage'' (zero lib) c (\<lambda>off_value.
             optional_number lib argv 5 5 ''priority'' 0 c (\<lambda>prio.
               let c = change (Lighting_Output_Blink_Warn_Feature_Set lib inst off_value (ucast interval) 0) c;
                   c = change (Lighting_Output_Egress_Time_Set lib inst egress) c;
                   data = (no_command lib)\<lparr>operation := op\<rparr>
               in change_and_show lib inst
                    (Lighting_Output_Lighting_Command_Set lib inst (with_priority (unat prio) data)) c)))))"

definition cmd_lighting_output_blink_warn :: "('f, 'w, 'z) light_lib_scheme \<Rightarrow> 'w shell_handler" where
  "cmd_lighting_output_blink_warn lib = cmd_lighting_output_blink lib BACNET_LIGHTS_WARN"

definition cmd_lighting_output_blink_warn_off :: "('f, 'w, 'z) light_lib_scheme \<Rightarrow> 'w shell_handler" where
  "cmd_lighting_output_blink_warn_off lib = cmd_lighting_output_blink lib BACNET_LIGHTS_WARN_OFF"

definition cmd_lighting_output_blink_warn_relinquish :: "('f, 'w, 'z) light_lib_scheme \<Rightarrow> 'w shell_handler" where
  "cmd_lighting_output_blink_warn_relinquish lib = cmd_lighting_output_blink lib BACNET_LIGHTS_WARN_RELINQUISH"


section \<open>Reasoning about commands\<close>

text \<open>\<open>ends Q m\<close>: when the outcome \<open>m\<close> is defined, \<open>Q\<close> holds of its result and console.\<close>

definition ends :: "(int \<Rightarrow> 'w console \<Rightarrow> bool) \<Rightarrow> 'w outcome \<Rightarrow> bool" where
  "ends Q m \<longleftrightarrow> (\<forall>rc c'. m = Some (rc, c') \<longrightarrow> Q rc c')"

named_theorems ends_rules \<open>one rule for each building block of a command\<close>

lemma ends_Some [ends_rules]: "Q rc c \<Longrightarrow> ends Q (Some (rc, c))"
  by (simp add: ends_def)

lemma ends_show [ends_rules]:
  "Q (fst (cmd_lighting_output_value_print lib inst c)) (snd (cmd_lighting_output_value_print lib inst c)) \<Longrightarrow>
   ends Q (show_light lib inst c)"
  by (cases "cmd_lighting_output_value_print lib inst c") (simp add: ends_def show_light_def)

lemma ends_change [ends_rules]:
  "Q (fst (cmd_lighting_output_value_print lib inst (change f c)))
     (snd (cmd_lighting_output_value_print lib inst (change f c))) \<Longrightarrow>
   ends Q (change_and_show lib inst f c)"
  by (cases "cmd_lighting_output_value_print lib inst (change f c)") (simp add: ends_def change_and_show_def)

lemma ends_usage [ends_rules]: "(\<And>s. Q (- EINVAL) (shell_print s c)) \<Longrightarrow> ends Q (usage lib c)"
  by (simp add: ends_def usage_def)

lemma ends_invalid [ends_rules]: "(\<And>s. Q (- EINVAL) (shell_error s c)) \<Longrightarrow> ends Q (invalid_arg argv i shown what c)"
  by (auto simp: ends_def invalid_arg_def split: option.splits)

lemma ends_number [ends_rules]:
  assumes "\<And>v. ends Q (k v)" "\<And>s. Q (- EINVAL) (shell_error s c)"
  shows "ends Q (number_arg lib argv i shown what c k)"
    and "ends Q (optional_number lib argv i shown what dflt c k)"
proof -
  show "ends Q (number_arg lib argv i shown what c k)"
    using assms(1) ends_invalid [of Q c argv i shown what] assms(2)
    by (auto simp: number_arg_def case_prod_beta Let_def ends_def split: option.split)
  then show "ends Q (optional_number lib argv i shown what dflt c k)"
    using assms(1) by (simp add: optional_number_def)
qed

lemma ends_percent [ends_rules]:
  assumes "\<And>v. ends Q (k v)" "\<And>s. Q (- EINVAL) (shell_error s c)"
  shows "ends Q (percent_arg lib argv i what c k)"
    and "ends Q (optional_percent lib argv i what dflt' c k)"
proof -
  show "ends Q (percent_arg lib argv i what c k)"
    using assms(1) ends_invalid [of Q c argv i i what] assms(2)
    by (auto simp: percent_arg_def case_prod_beta Let_def ends_def split: option.split)
  then show "ends Q (optional_percent lib argv i what dflt' c k)"
    using assms(1) by (simp add: optional_percent_def)
qed

lemma ends_instance [ends_rules]:
  assumes "\<And>v. ends Q (k v)" "\<And>s. Q (- EINVAL) (shell_error s c)" "\<And>s. Q (- EINVAL) (shell_print s c)"
  shows "ends Q (instance_arg lib argv what c k)"
  unfolding instance_arg_def using assms by (auto intro!: ends_rules)

lemma ends_checked [ends_rules]:
  fixes c :: "'w console"
  assumes "\<And>v (f :: 'w \<Rightarrow> bool). ends Q (k v (snd (query f c)))" "\<And>s. Q (- EINVAL) (shell_error s c)"
    "\<And>s. Q (- EINVAL) (shell_print s c)" "\<And>s (f :: 'w \<Rightarrow> bool). Q (- EINVAL) (shell_error s (snd (query f c)))"
  shows "ends Q (checked_instance lib argv c k)"
  unfolding checked_instance_def Let_def case_prod_beta
  using assms by (auto intro!: ends_rules split: if_split)

lemma ends_level [ends_rules]:
  assumes "\<And>v. ends Q (k v)" "\<And>s. Q (- EINVAL) (shell_error s c)"
  shows "ends Q (level_or_null lib argv c k)"
  unfolding level_or_null_def using assms by (auto intro!: ends_rules)

lemma ends_if [ends_rules]: "(b \<Longrightarrow> ends Q m) \<Longrightarrow> (\<not> b \<Longrightarrow> ends Q m') \<Longrightarrow> ends Q (if b then m else m')"
  by simp

lemma ends_option [ends_rules]:
  "(x = None \<Longrightarrow> ends Q m) \<Longrightarrow> (\<And>v. x = Some v \<Longrightarrow> ends Q (g v)) \<Longrightarrow>
   ends Q (case x of None \<Rightarrow> m | Some v \<Rightarrow> g v)"
  by (cases x) simp_all

section \<open>The lock\<close>

lemma change_fields [simp]:
  "world (change f c) = f (world c)" "lock_depth (change f c) = lock_depth c"
  by (simp_all add: change_def)

lemma print_world [simp]: "world (snd (cmd_lighting_output_value_print lib inst c)) = world c"
  by (simp add: cmd_lighting_output_value_print_def Let_def case_prod_beta shell_print_def)

lemma extends_change [simp]:
  "extends d c c' \<Longrightarrow> d \<le> lock_depth c \<Longrightarrow> extends d c (change f c')"
  by (simp add: change_def)

lemma extends_print [simp]:
  "extends d c c' \<Longrightarrow> d \<le> lock_depth c \<Longrightarrow> extends d c (snd (cmd_lighting_output_value_print lib inst c'))"
  by (simp add: cmd_lighting_output_value_print_def Let_def case_prod_beta)

lemma extends_list_light [simp]:
  "extends d c c' \<Longrightarrow> d \<le> lock_depth c \<Longrightarrow> extends d c (list_light lib i c')"
  by (simp add: list_light_def Let_def case_prod_beta)

lemma extends_read_priorities:
  "extends d c (snd acc) \<Longrightarrow> d \<le> lock_depth c \<Longrightarrow> extends d c (snd (fold (read_priority lib inst) ps acc))"
  by (induction ps arbitrary: acc) (auto simp: read_priority_def Let_def case_prod_beta)

abbreviation (input) "kept c \<equiv> (\<lambda>_ c'. extends (lock_depth c) c c')"

lemma shell_commandI: "(\<And>e argv c. ends (kept c) (h e argv c)) \<Longrightarrow> shell_command h"
  by unfold_locales (auto simp: ends_def)

lemmas light_command_defs =
  cmd_lighting_output_fade_def cmd_lighting_output_ramp_def cmd_lighting_output_stop_def
  cmd_lighting_output_step_def cmd_lighting_output_blink_def cmd_lighting_output_override_def
  cmd_lighting_output_value_set_def cmd_lighting_output_value_relinquish_def cmd_lighting_output_track_def

lemmas light_operation_defs =
  cmd_lighting_output_step_up_def cmd_lighting_output_step_down_def cmd_lighting_output_step_on_def
  cmd_lighting_output_step_off_def cmd_lighting_output_blink_warn_def cmd_lighting_output_blink_warn_off_def
  cmd_lighting_output_blink_warn_relinquish_def

interpretation light_fade: shell_command cmd_lighting_output_fade
  by (rule shell_commandI, unfold light_command_defs Let_def case_prod_beta) (intro ends_rules; simp)

interpretation light_ramp: shell_command cmd_lighting_output_ramp
  by (rule shell_commandI, unfold light_command_defs Let_def case_prod_beta) (intro ends_rules; simp)

interpretation light_stop: shell_command cmd_lighting_output_stop
  by (rule shell_commandI, unfold light_command_defs Let_def case_prod_beta) (intro ends_rules; simp)

interpretation light_step: shell_command "\<lambda>(lib, op). cmd_lighting_output_step lib op"
  by (rule shell_commandI, unfold light_command_defs Let_def case_prod_beta) (intro ends_rules; simp)

interpretation light_blink: shell_command "\<lambda>(lib, op). cmd_lighting_output_blink lib op"
  by (rule shell_commandI, unfold light_command_defs Let_def case_prod_beta) (intro ends_rules; simp)

interpretation light_override: shell_command cmd_lighting_output_override
  by (rule shell_commandI, unfold light_command_defs Let_def case_prod_beta) (intro ends_rules; simp)

interpretation light_set: shell_command cmd_lighting_output_value_set
  by (rule shell_commandI, unfold light_command_defs Let_def case_prod_beta) (intro ends_rules; simp)

interpretation light_relinquish: shell_command cmd_lighting_output_value_relinquish
  by (rule shell_commandI, unfold light_command_defs Let_def case_prod_beta) (intro ends_rules; simp)

interpretation light_track: shell_command cmd_lighting_output_track
  by (rule shell_commandI, unfold light_command_defs Let_def case_prod_beta) (intro ends_rules; simp)

interpretation light_get: shell_command cmd_lighting_output_value_get
  by (rule shell_commandI, unfold cmd_lighting_output_value_get_def Let_def case_prod_beta)
    (intro ends_rules; simp add: extends_read_priorities)

interpretation light_list: shell_command cmd_lighting_output_list
  by (rule shell_commandI)
    (auto simp: cmd_lighting_output_list_def Let_def case_prod_beta intro!: ends_rules extends_fold)

lemma light_commands_locked:
  "\<forall>h \<in> set [cmd_lighting_output_list lib, cmd_lighting_output_value_get lib, cmd_lighting_output_track lib,
             cmd_lighting_output_override lib, cmd_lighting_output_value_set lib,
             cmd_lighting_output_value_relinquish lib, cmd_lighting_output_fade lib, cmd_lighting_output_ramp lib,
             cmd_lighting_output_stop lib, cmd_lighting_output_step lib op, cmd_lighting_output_blink lib op].
     \<forall>rc c'. BACNET_SHELL_LOCK_HANDLER others h argv c = Some (rc, c') \<longrightarrow>
       extends (lock_depth c + 1) c c'"
  using light_list.locked_extends light_get.locked_extends light_track.locked_extends
    light_override.locked_extends light_set.locked_extends light_relinquish.locked_extends
    light_fade.locked_extends light_ramp.locked_extends light_stop.locked_extends
    light_step.locked_extends [of _ "(lib, op)"] light_blink.locked_extends [of _ "(lib, op)"]
  by fastforce


section \<open>What the commands send\<close>

text \<open>
  A command that is well formed for its operation: the fields that the operation uses are flagged and
  no others, and a priority is flagged exactly when it is one.
\<close>

definition command_ok :: "('f, 'w, 'z) light_lib_scheme \<Rightarrow> lighting_operation \<Rightarrow> 'f lighting_command \<Rightarrow> bool" where
  "command_ok lib op data \<longleftrightarrow>
     operation data = op \<and>
     (if use_priority data then 1 \<le> priority data \<and> priority data \<le> 16 else priority data = 0) \<and>
     (use_fade_time data \<longleftrightarrow> op = BACNET_LIGHTS_FADE_TO) \<and>
     (use_target_level data \<longleftrightarrow> op \<in> {BACNET_LIGHTS_FADE_TO, BACNET_LIGHTS_RAMP_TO}) \<and>
     (use_ramp_rate data \<longrightarrow> op = BACNET_LIGHTS_RAMP_TO \<and> above_zero lib (ramp_rate data)) \<and>
     (use_step_increment data \<longleftrightarrow> op \<in> {BACNET_LIGHTS_STEP_UP, BACNET_LIGHTS_STEP_DOWN, BACNET_LIGHTS_STEP_ON,
        BACNET_LIGHTS_STEP_OFF})"

lemmas command_ok_defs = command_ok_def with_priority_def no_command_def priority_range

definition sent :: "('f, 'w, 'z) light_lib_scheme \<Rightarrow> lighting_operation \<Rightarrow> 'w \<Rightarrow> 'w \<Rightarrow> bool" where
  "sent lib op w w' \<longleftrightarrow>
     w' = w \<or> (\<exists>inst data. command_ok lib op data \<and> w' = Lighting_Output_Lighting_Command_Set lib inst data w)"

lemma sentI [intro]:
  "command_ok lib op data \<Longrightarrow> sent lib op w (Lighting_Output_Lighting_Command_Set lib inst data w)"
  by (auto simp: sent_def)

lemma sent_refl [simp]: "sent lib op w w"
  by (simp add: sent_def)

abbreviation (input) "sends lib op c \<equiv> (\<lambda>_ c'. sent lib op (world c) (world c'))"

lemma shell_print_world [simp]: "world (shell_print s c) = world c" "world (shell_error s c) = world c"
  by (simp_all add: shell_print_def shell_error_def)

lemma fade_sends: "ends (sends lib BACNET_LIGHTS_FADE_TO c) (cmd_lighting_output_fade lib argv c)"
  unfolding cmd_lighting_output_fade_def Let_def
  by (intro ends_rules; (simp; fail)?) (auto simp: command_ok_defs)

lemma ramp_sends: "ends (sends lib BACNET_LIGHTS_RAMP_TO c) (cmd_lighting_output_ramp lib argv c)"
  unfolding cmd_lighting_output_ramp_def Let_def
  by (intro ends_rules; (simp; fail)?) (auto simp: command_ok_defs)

lemma stop_sends: "ends (sends lib BACNET_LIGHTS_STOP c) (cmd_lighting_output_stop lib argv c)"
  unfolding cmd_lighting_output_stop_def Let_def
  by (intro ends_rules; (simp; fail)?) (auto simp: command_ok_defs)

lemma step_sends:
  "op \<in> {BACNET_LIGHTS_STEP_UP, BACNET_LIGHTS_STEP_DOWN, BACNET_LIGHTS_STEP_ON, BACNET_LIGHTS_STEP_OFF} \<Longrightarrow>
   ends (sends lib op c) (cmd_lighting_output_step lib op argv c)"
  unfolding cmd_lighting_output_step_def Let_def
  by (intro ends_rules; (simp; fail)?) (auto simp: command_ok_defs)

lemma blink_sends:
  "op \<in> {BACNET_LIGHTS_WARN, BACNET_LIGHTS_WARN_OFF, BACNET_LIGHTS_WARN_RELINQUISH} \<Longrightarrow>
   ends (\<lambda>_ c'. world c' = world c \<or>
       (\<exists>inst data off_value interval egress. command_ok lib op data \<and>
          world c' = Lighting_Output_Lighting_Command_Set lib inst data
            (Lighting_Output_Egress_Time_Set lib inst egress
              (Lighting_Output_Blink_Warn_Feature_Set lib inst off_value interval 0 (world c)))))
     (cmd_lighting_output_blink lib op argv c)"
  unfolding cmd_lighting_output_blink_def Let_def
  by (intro ends_rules; (simp; fail)?) (simp, intro disjI2 exI conjI refl, auto simp: command_ok_defs)

text \<open>A number printed in decimal is read back.\<close>

lemma number_arg_dec:
  assumes "libc_ok (light_libc lib)" "n < 4294967296" "argv_at argv i = Some (dec n)"
  shows "number_arg lib argv i shown what c k = k (of_nat n)"
proof -
  have "min n (ulong_max (light_libc lib)) = n" using assms(1,2) by (simp add: libc_ok_def UINT32_MAX_def)
  then show ?thesis
    using assms(3) strtoul_dec [of "light_libc lib" n] by (simp add: number_arg_def)
qed

lemma optional_number_dec:
  assumes "libc_ok (light_libc lib)" "n < 4294967296" "argv_at argv i = Some (dec n)"
  shows "optional_number lib argv i shown what dflt c k = k (of_nat n)"
  using number_arg_dec [OF assms] assms(3) by (auto simp: optional_number_def argv_at_def split: if_splits)

lemma percent_arg_level:
  "argv_at argv i = Some s \<Longrightarrow> strtod lib s = (v, n) \<Longrightarrow> 0 < n \<Longrightarrow> percent_arg lib argv i what c k = k v"
  by (simp add: percent_arg_def)

section \<open>Properties\<close>

text \<open>
  C38. The commands fade, ramp, stop and step send the Lighting Output at most one lighting command,
  whatever their arguments: one of the operation asked for, with exactly the fields flagged that the
  operation uses, a ramp rate above zero, and a priority only when it is between 1 and 16; or they
  leave the object alone. The blink commands set the blink feature and the egress time before it.
\<close>

theorem light_commands_well_formed:
  assumes "h argv c = Some (rc, c')" and "(h, op) \<in> {(cmd_lighting_output_fade lib, BACNET_LIGHTS_FADE_TO),
      (cmd_lighting_output_ramp lib, BACNET_LIGHTS_RAMP_TO), (cmd_lighting_output_stop lib, BACNET_LIGHTS_STOP),
      (cmd_lighting_output_step_up lib, BACNET_LIGHTS_STEP_UP),
      (cmd_lighting_output_step_down lib, BACNET_LIGHTS_STEP_DOWN),
      (cmd_lighting_output_step_on lib, BACNET_LIGHTS_STEP_ON),
      (cmd_lighting_output_step_off lib, BACNET_LIGHTS_STEP_OFF),
      (cmd_lighting_output_blink_warn lib, BACNET_LIGHTS_WARN),
      (cmd_lighting_output_blink_warn_off lib, BACNET_LIGHTS_WARN_OFF),
      (cmd_lighting_output_blink_warn_relinquish lib, BACNET_LIGHTS_WARN_RELINQUISH)}"
  shows "world c' = world c \<or>
    (\<exists>inst data w. command_ok lib op data \<and> world c' = Lighting_Output_Lighting_Command_Set lib inst data w \<and>
       (if op \<in> {BACNET_LIGHTS_WARN, BACNET_LIGHTS_WARN_OFF, BACNET_LIGHTS_WARN_RELINQUISH}
        then \<exists>off_value interval egress. w = Lighting_Output_Egress_Time_Set lib inst egress
               (Lighting_Output_Blink_Warn_Feature_Set lib inst off_value interval 0 (world c))
        else w = world c))"
proof (cases "op \<in> {BACNET_LIGHTS_WARN, BACNET_LIGHTS_WARN_OFF, BACNET_LIGHTS_WARN_RELINQUISH}")
  case True
  then have "h = cmd_lighting_output_blink lib op" using assms(2) by (auto simp: light_operation_defs)
  then show ?thesis
    using blink_sends [where op = op and lib = lib and c = c and argv = argv] True assms(1)
    by (auto simp: ends_def) blast+
next
  case False
  then have "ends (sends lib op c) (h argv c)"
    using assms(2) by (auto simp: light_operation_defs intro: fade_sends ramp_sends stop_sends step_sends)
  then show ?thesis using False assms(1) by (auto simp: ends_def sent_def)
qed

text \<open>
  Numbers typed in decimal reach the light as they are: a fade with an instance, a level, a time
  and a priority sends exactly this fade, setting a level with a priority writes exactly this level,
  and both answer with the values of the light, or with an error when it does not exist.
\<close>

lemma light_numbers_exact:
  assumes "libc_ok (light_libc lib)" "i < 4294967296" "t < 4294967296" "p < 4294967296"
    and "strtod lib level = (v, n)" "0 < n" "\<not> strnicmp_equal lib level ''NULL'' 4"
  shows "cmd_lighting_output_fade lib [name, dec i, level, dec t, dec p] c =
      Some (cmd_lighting_output_value_print lib (of_nat i)
        (change (Lighting_Output_Lighting_Command_Set lib (of_nat i)
          (with_priority p ((no_command lib)\<lparr>operation := BACNET_LIGHTS_FADE_TO, use_fade_time := True,
             fade_time := of_nat t, use_target_level := True, target_level := v\<rparr>))) c)) \<and>
    cmd_lighting_output_value_set lib [name, dec i, level, dec p] c =
      Some (cmd_lighting_output_value_print lib (of_nat i)
        (change (Lighting_Output_Present_Value_Set lib (of_nat i) v p)
          (snd (query (Lighting_Output_Default_Priority lib (of_nat i)) c))))"
  using assms
  by (simp add: cmd_lighting_output_fade_def cmd_lighting_output_value_set_def instance_arg_def number_arg_dec
      optional_number_dec percent_arg_level level_or_null_def change_and_show_def unat_of_nat_u32 Let_def
      case_prod_beta)

text \<open>The override \<open>ramp\<close> reads the level and the rate whether they were given or not.\<close>

lemma override_ramp_reads_null:
  assumes "libc_ok (light_libc lib)" "i < 4294967296" "Lighting_Output_Valid_Instance lib (of_nat i) (world c)"
    and "strnicmp_equal lib ''ramp'' ''ramp'' 4" "\<not> strnicmp_equal lib ''ramp'' ''clear'' 5"
  shows "cmd_lighting_output_override lib [name, dec i, ''ramp''] c = None"
  using assms
  by (simp add: cmd_lighting_output_override_def checked_instance_def instance_arg_def number_arg_dec
      percent_arg_def Let_def case_prod_beta)

section \<open>Witnesses\<close>

text \<open>One light, whose state is the list of the commands and levels it got.\<close>

definition small_light :: "(nat, (u32 \<times> nat \<times> nat) list) light_lib" where
  "small_light =
     \<lparr>light_libc = \<lparr>ulong_max = 4294967295, scan_overflow = (\<lambda>v. v)\<rparr>, strtod = (\<lambda>s. (50, List.length s)), zero = 0,
      hundred = 100, INFINITY = 999, above_zero = (\<lambda>v. 0 < v), fixed1 = (\<lambda>v. dec v @ ''.0''),
      strnicmp_equal = (\<lambda>s t n. take n s = take n t), light_help = ''help'',
      Lighting_Output_Valid_Instance = (\<lambda>i w. i = 1), Lighting_Output_Count = (\<lambda>w. 1),
      Lighting_Output_Index_To_Instance = (\<lambda>i w. 1), Lighting_Output_Present_Value = (\<lambda>i w. 50),
      Lighting_Output_Tracking_Value = (\<lambda>i w. 40), Lighting_Output_Present_Value_Priority = (\<lambda>i w. 16),
      Lighting_Output_Overridden_Status = (\<lambda>i w. False), Lighting_Output_Out_Of_Service = (\<lambda>i w. False),
      Lighting_Output_Relinquish_Default = (\<lambda>i w. 0), Lighting_Output_Priority_Array_Value = (\<lambda>i p w. 0),
      Lighting_Output_Priority_Array_Relinquished = (\<lambda>i p w. True), Lighting_Output_Default_Priority = (\<lambda>i w. 16),
      Lighting_Output_Overridden_Clear = (\<lambda>i w. w), Lighting_Output_Overridden_Ramp = (\<lambda>i v r w. w),
      Lighting_Output_Overridden_Momentary = (\<lambda>i v w. w), Lighting_Output_Overridden_Set = (\<lambda>i v w. w),
      Lighting_Output_Present_Value_Relinquish = (\<lambda>i p w. w),
      Lighting_Output_Present_Value_Set = (\<lambda>i v p w. w @ [(i, v, p)]),
      Lighting_Output_Lighting_Command_Set = (\<lambda>i d w. w @ [(i, target_level d, priority d)]),
      Lighting_Output_Blink_Warn_Feature_Set = (\<lambda>i v t n w. w), Lighting_Output_Egress_Time_Set = (\<lambda>i t w. w)\<rparr>"

definition light_console :: "(u32 \<times> nat \<times> nat) list console" where
  "light_console = \<lparr>lock_depth = 0, trace = [], world = []\<rparr>"

lemma small_light_fade:
  "map_option (\<lambda>(rc, c). (rc, world c)) (cmd_lighting_output_fade small_light [''fade'', ''1'', ''50'', ''2000'', ''8'']
     light_console) = Some (0, [(1, 50, 8)])"
  by code_simp

lemma light_commands_well_formed_witness:
  "\<exists>inst data. command_ok small_light BACNET_LIGHTS_FADE_TO data \<and>
     [(1, 50, 8)] = Lighting_Output_Lighting_Command_Set small_light inst data []"
proof -
  obtain c' where run: "cmd_lighting_output_fade small_light [''fade'', ''1'', ''50'', ''2000'', ''8''] light_console =
      Some (0, c')" "world c' = [(1, 50, 8)]"
    using small_light_fade by (auto simp: map_option_eq_Some)
  have w: "world light_console = []" by (simp add: light_console_def)
  show ?thesis
    using light_commands_well_formed [of "cmd_lighting_output_fade small_light"
        "[''fade'', ''1'', ''50'', ''2000'', ''8'']" light_console 0 c' BACNET_LIGHTS_FADE_TO small_light]
    by (simp add: run w)
qed

lemma light_numbers_exact_witness:
  "map_option (\<lambda>(rc, c). (rc, world c)) (cmd_lighting_output_fade small_light
     [''fade'', dec 1, ''50'', dec 2000, dec 8] light_console) = Some (0, [(1, 50, 8)])"
proof -
  have ok: "libc_ok (light_libc small_light)" by (simp add: small_light_def libc_ok_def UINT32_MAX_def)
  have "cmd_lighting_output_fade small_light [''fade'', dec 1, ''50'', dec 2000, dec 8] light_console =
      Some (cmd_lighting_output_value_print small_light 1
        (change (Lighting_Output_Lighting_Command_Set small_light 1
          (with_priority 8 ((no_command small_light)\<lparr>operation := BACNET_LIGHTS_FADE_TO, use_fade_time := True,
             fade_time := 2000, use_target_level := True, target_level := 50\<rparr>))) light_console))"
    using light_numbers_exact [OF ok, of 1 2000 8 "''50''" 50 2 "''fade''" light_console]
    by (simp add: small_light_def)
  then show ?thesis by (simp only:) code_simp
qed

end
