(* ===== verification/Property_Shell.thy ===== *)
theory Property_Shell
  imports File_Json
begin

text \<open>
  The shell commands for properties (\<open>subsys/bacnet_shell/bacnet_shell_property.c\<close>): parsing an
  object, a property and an index, reading and writing a value, printing values as JSON, and listing
  the properties of an object. The Device object, the encoders and decoders and the text tables of
  the BACnet stack are the record \<open>property_lib\<close>.
\<close>

section \<open>The device and the texts of the stack\<close>

text \<open>\<open>BACNET_READ_PROPERTY_DATA\<close>, with the buffer of the command as its application data.\<close>

record read_data =
  rp_object_type :: u16
  rp_object_instance :: u32
  rp_object_property :: u32
  rp_array_index :: u32
  rp_application_data :: "byte list"
  rp_error_class :: nat
  rp_error_code :: nat

text \<open>\<open>BACNET_WRITE_PROPERTY_DATA\<close>; the length of the data is that of the list.\<close>

record write_data =
  wr_object_type :: u16
  wr_object_instance :: u32
  wr_object_property :: u32
  wr_array_index :: u32
  wr_application_data :: "byte list"
  wr_priority :: u8
  wr_error_class :: nat
  wr_error_code :: nat

text \<open>One of the three property lists: the pointer to its elements, up to the -1, and its count.\<close>

record plist =
  pList :: "int list option"
  pcount :: u32

definition OBJECT_DEVICE :: u32 where "OBJECT_DEVICE = 8"
definition BACNET_NO_PRIORITY_int :: int where "BACNET_NO_PRIORITY_int = 0"
definition BACNET_MIN_PRIORITY_int :: int where "BACNET_MIN_PRIORITY_int = 1"

lemmas priority_defs = BACNET_NO_PRIORITY_int_def BACNET_MIN_PRIORITY_int_def BACNET_MAX_PRIORITY_def

text \<open>
  \<open>to_ascii\<close> is \<open>bacnet_snprintf_to_ascii\<close> with \<open>%s\<close> and the size of the buffer, \<open>bacapp_snprintf_value\<close>
  gives the length it returns and the text.
\<close>

record ('v, 'w) property_lib =
  prop_libc :: libc
  CONFIG_BACNET_MAX_APDU_SIZE :: nat
  MAX_WRITE_DATA :: nat
  MAX_BACNET_PROPERTY_ID :: u32
  MAX_APDU :: nat
  sizeof_read_data :: nat
  sizeof_write_data :: nat
  sizeof_value :: nat
  sizeof_property_value :: nat
  property_help :: string
  ERROR_CODE_INVALID_ARRAY_INDEX :: nat
  ERROR_CLASS_PROPERTY :: nat
  ERROR_CODE_UNEXPECTED_DATA :: nat
  ERROR_CODE_SUCCESS :: nat
  object_type_strtol :: "string \<Rightarrow> u32 option"
  string_to_uint32 :: "string \<Rightarrow> u32 option"
  property_strtol :: "string \<Rightarrow> u32 option"
  application_tag_strtol :: "string \<Rightarrow> u32 option"
  enumerated_strtoul :: "u16 \<Rightarrow> u32 \<Rightarrow> string \<Rightarrow> u32 option"
  property_name_default :: "nat \<Rightarrow> string option"
  error_class_name_default :: "nat \<Rightarrow> string option"
  error_code_name_default :: "nat \<Rightarrow> string option"
  error_class_name :: "nat \<Rightarrow> string"
  error_code_name :: "nat \<Rightarrow> string"
  application_tag_name :: "nat \<Rightarrow> string"
  object_type_name :: "nat \<Rightarrow> string"
  PROP_OBJECT_IDENTIFIER_name :: string
  PROP_PROPERTY_LIST_name :: string
  to_ascii :: "nat \<Rightarrow> string \<Rightarrow> string"
  bacnet_ultoa :: "nat \<Rightarrow> nat \<Rightarrow> string"
  strnicmp_equal :: "string \<Rightarrow> string \<Rightarrow> nat \<Rightarrow> bool"
  property_list_commandable_member :: "u16 \<Rightarrow> u32 \<Rightarrow> bool"
  bacapp_known_property_tag :: "u16 \<Rightarrow> u32 \<Rightarrow> int"
  value_list_init :: "'v app_value \<Rightarrow> 'v app_value"
  bacapp_decode_known_array_property ::
    "byte list \<Rightarrow> nat \<Rightarrow> 'v app_value \<Rightarrow> u16 \<Rightarrow> u32 \<Rightarrow> u32 \<Rightarrow> int \<times> 'v app_value"
  bacapp_snprintf_value :: "read_data \<Rightarrow> 'v app_value \<Rightarrow> int \<times> string"
  bacapp_parse_application_data :: "int \<Rightarrow> string \<Rightarrow> 'v app_value \<Rightarrow> bool \<times> 'v app_value"
  bacapp_encode_data :: "'v app_value \<Rightarrow> int \<times> byte list"
  Device_Object_Instance_Number :: "'w \<Rightarrow> u32"
  Device_Read_Property :: "read_data \<Rightarrow> 'w \<Rightarrow> int \<times> read_data \<times> 'w"
  Device_Write_Property :: "write_data \<Rightarrow> 'w \<Rightarrow> bool \<times> write_data \<times> 'w"
  Device_Objects_Property_List :: "u16 \<Rightarrow> u32 \<Rightarrow> 'w \<Rightarrow> plist \<times> plist \<times> plist"

definition show_help :: "('v, 'w, 'z) property_lib_scheme \<Rightarrow> 'w console \<Rightarrow> 'w console" where
  "show_help lib c = shell_print (property_help lib) c"

section \<open>Arguments\<close>

text \<open>
  The error, the object type and the instance. A device is its own instance, whatever the argument;
  other instances are not compared with the largest one.
\<close>

definition bacnet_shell_object_type_instance_parse ::
    "('v, 'w, 'z) property_lib_scheme \<Rightarrow> string list \<Rightarrow> 'w console \<Rightarrow> int \<times> u16 \<times> u32 \<times> 'w console" where
  "bacnet_shell_object_type_instance_parse lib argv c =
     (if length argv < 2 then (- EINVAL, 0, 0, show_help lib c)
      else case object_type_strtol lib (argv ! 1) of
        None \<Rightarrow> (- EINVAL, 0, 0, shell_error ''ERROR: invalid object-type'' c)
      | Some found_index \<Rightarrow>
          if UINT16_MAX \<le> unat found_index then
            (- EINVAL, 0, 0, shell_error (''ERROR: Invalid object-type: '' @ argv ! 1 @ ''. Must be 0-'' @
               dec UINT16_MAX @ ''.'') c)
          else if found_index = OBJECT_DEVICE then
            let (inst, c) = query (Device_Object_Instance_Number lib) c
            in (0, ucast found_index, inst, c)
          else if 2 < length argv then
            (case string_to_uint32 lib (argv ! 2) of
               None \<Rightarrow> (- EINVAL, ucast found_index, 0,
                 shell_error (''parse: Invalid object-instance: '' @ argv ! 2 @ ''. Must be 0-'' @
                   dec BACNET_MAX_INSTANCE @ ''.'') c)
             | Some inst \<Rightarrow> (0, ucast found_index, inst, c))
          else (- EINVAL, ucast found_index, 0, show_help lib c))"

text \<open>\<open>sscanf(s, "%79[^[][%u]", \<dots>)\<close> on a text that starts with a letter: the count, the name, the index.\<close>

definition sscanf_name_index :: "libc \<Rightarrow> string \<Rightarrow> int \<times> string \<times> nat option" where
  "sscanf_name_index lc s =
     (let name = take 79 (takeWhile (\<lambda>ch. ch \<noteq> CHR ''['') s)
      in if name = [] then (if s = [] then - 1 else 0, [], None)
         else case scan_index lc UINT32_MAX (drop (length name) s) of
                None \<Rightarrow> (1, name, None)
              | Some i \<Rightarrow> (2, name, Some i))"

definition c_isalpha_head :: "string \<Rightarrow> bool" where
  "c_isalpha_head s = (case s of [] \<Rightarrow> False | ch # _ \<Rightarrow> c_isalpha ch)"

text \<open>The property and its index: the error, the property identifier and the array index.\<close>

definition property_arg ::
    "('v, 'w, 'z) property_lib_scheme \<Rightarrow> string \<Rightarrow> 'w console \<Rightarrow> int \<times> u32 \<times> u32 \<times> 'w console" where
  "property_arg lib arg c =
     (if c_isalpha_head arg then
        let (scan_count, name, index) = sscanf_name_index (prop_libc lib) arg
        in if scan_count < 1 then (- EINVAL, 0, BACNET_ARRAY_ALL, shell_error (''parse: missing property: '' @ arg @ ''.'') c)
        else case property_strtol lib name of
               None \<Rightarrow> (- EINVAL, 0, BACNET_ARRAY_ALL, shell_error (''parse: invalid property name: '' @ arg @ ''.'') c)
             | Some found_index \<Rightarrow>
                 (0, found_index, (case index of None \<Rightarrow> BACNET_ARRAY_ALL | Some i \<Rightarrow> of_nat i), c)
      else
        let (scan_count, v, index) = sscanf_lu_index (prop_libc lib) UINT32_MAX arg;
            unsigned_value = (case v of None \<Rightarrow> 0 | Some n \<Rightarrow> n)
        in if scan_count < 1 then (- EINVAL, 0, BACNET_ARRAY_ALL, shell_error (''parse: missing property: '' @ arg @ ''.'') c)
        else if UINT32_MAX < unsigned_value then
          (- EINVAL, 0, BACNET_ARRAY_ALL, shell_error (''parse: Invalid property: '' @ arg @ ''. Must be 0-'' @
             dec UINT32_MAX @ ''.'') c)
        else (0, of_nat unsigned_value, (case index of None \<Rightarrow> BACNET_ARRAY_ALL | Some i \<Rightarrow> of_nat i), c))"

definition bacnet_shell_property_parse ::
    "('v, 'w, 'z) property_lib_scheme \<Rightarrow> string list \<Rightarrow> 'w console \<Rightarrow>
     int \<times> u16 \<times> u32 \<times> u32 \<times> u32 \<times> 'w console" where
  "bacnet_shell_property_parse lib argv c =
     (if length argv < 4 then
        (- EINVAL, 0, 0, 0, BACNET_ARRAY_ALL, shell_error (''parse: '' @ hd argv @
           '' <object-type> <instance> <property>[index] [value]'') c)
      else
        let (err, ty, inst, c) = bacnet_shell_object_type_instance_parse lib argv c
        in if err < 0 then (err, ty, inst, 0, BACNET_ARRAY_ALL, c)
        else let (err, prop, index, c) = property_arg lib (argv ! 3) c
        in (err, ty, inst, prop, index, c))"

section \<open>JSON\<close>

text \<open>
  The scan of \<open>cmd_json_is_quoted\<close> from the end of the text: the position, the decimal points so far
  and whether only digits were seen.
\<close>

fun scan_digits :: "string \<Rightarrow> nat \<Rightarrow> nat \<Rightarrow> bool \<Rightarrow> bool" where
  "scan_digits v 0 decimal_points digits_only = digits_only"
| "scan_digits v (Suc n) decimal_points digits_only =
     (if c_isdigit (v ! n) then scan_digits v n decimal_points digits_only
      else if n = 0 \<and> v ! n = CHR ''-'' then scan_digits v n decimal_points digits_only
      else if v ! n = CHR ''.'' then
        scan_digits v n (Suc decimal_points) (if 1 < Suc decimal_points then False else digits_only)
      else scan_digits v n decimal_points False)"

definition cmd_json_is_quoted :: "string \<Rightarrow> bool" where
  "cmd_json_is_quoted v =
     (if v = ''true'' \<or> v = ''false'' \<or> v = ''null'' then False
      else if v \<noteq> [] \<and> hd v = CHR 0x22 then False
      else if v \<noteq> [] then \<not> scan_digits v (length v) 0 True
      else True)"

definition quote_mark :: "string \<Rightarrow> string" where
  "quote_mark v = (if cmd_json_is_quoted v then [CHR 0x22] else [])"

definition cmd_json_print_key_value ::
    "string \<Rightarrow> string \<Rightarrow> string \<Rightarrow> string \<Rightarrow> string \<Rightarrow> 'w console \<Rightarrow> 'w console" where
  "cmd_json_print_key_value prefix key v suffix tail c =
     shell_print (prefix @ ''{\"'' @ key @ ''\": '' @ quote_mark v @ v @ quote_mark v @ ''}'' @ suffix @ tail) c"

definition cmd_json_print_list_value ::
    "string \<Rightarrow> string \<Rightarrow> bool \<Rightarrow> bool \<Rightarrow> string \<Rightarrow> 'w console \<Rightarrow> 'w console" where
  "cmd_json_print_list_value key v first_value last_value tail c =
     (let c = (if first_value then shell_print (''{\"'' @ key @ ''\": ['') c else c);
          c = shell_print (quote_mark v @ v @ quote_mark v @ (if last_value then '']'' else '','')) c
      in if last_value then shell_print (''}'' @ tail) c else c)"

text \<open>The first \<open>n\<close> bytes of a buffer, which must have them.\<close>

definition cmd_json_print_hex_dump ::
    "string \<Rightarrow> string \<Rightarrow> byte list \<Rightarrow> nat \<Rightarrow> string \<Rightarrow> string \<Rightarrow> 'w console \<Rightarrow> 'w console option" where
  "cmd_json_print_hex_dump prefix key buffer n suffix tail c =
     (if length buffer < n then None
      else Some (cmd_json_print_key_value prefix key (concat (map hex2_lower (take n buffer))) suffix tail c))"

definition cmd_json_print_key_error ::
    "string \<Rightarrow> string \<Rightarrow> string \<Rightarrow> string \<Rightarrow> 'w console \<Rightarrow> 'w console" where
  "cmd_json_print_key_error key error_class error_code tail c =
     shell_print (''{\"'' @ key @ ''\": {\"error-class\": '' @ error_class @ '', \"error-code\": '' @ error_code @
       ''}}'' @ tail) c"

definition cmd_json_print_property_value_tag ::
    "('v, 'w, 'z) property_lib_scheme \<Rightarrow> string \<Rightarrow> u32 \<Rightarrow> nat \<Rightarrow> u8 \<Rightarrow> string \<Rightarrow> bool \<Rightarrow> string \<Rightarrow>
     'w console \<Rightarrow> 'w console" where
  "cmd_json_print_property_value_tag lib property index prio value_tag value_string success tail c =
     shell_print (''{\"'' @ property @ ''\": {\"array-index\": '' @ dec (unat index) @ '', \"priority\": '' @ dec prio @
       '', \"value-tag\": \"'' @ application_tag_name lib (unat value_tag) @ ''\", \"value\": \"'' @ value_string @
       ''\", \"success\": '' @ (if success then ''true'' else ''false'') @ ''}}'' @ tail) c"

definition bactext_name :: "('v, 'w, 'z) property_lib_scheme \<Rightarrow> string option \<Rightarrow> nat \<Rightarrow> nat \<Rightarrow> string" where
  "bactext_name lib name v n = (case name of None \<Rightarrow> bacnet_ultoa lib v n | Some s \<Rightarrow> to_ascii lib n s)"

definition property_text :: "('v, 'w, 'z) property_lib_scheme \<Rightarrow> u32 \<Rightarrow> string" where
  "property_text lib prop = bactext_name lib (property_name_default lib (unat prop)) (unat prop) 80"

text \<open>The output for one value, whose encoding is the first \<open>len\<close> bytes of the buffer.\<close>

definition show_value ::
    "('v, 'w, 'z) property_lib_scheme \<Rightarrow> read_data \<Rightarrow> string \<Rightarrow> bool \<Rightarrow> string \<Rightarrow> byte list \<Rightarrow> nat \<Rightarrow> bool \<Rightarrow> bool \<Rightarrow>
     bool \<Rightarrow> 'v app_value \<Rightarrow> 'w console \<Rightarrow> 'w console option" where
  "show_value lib rp key skip_print tail apdu len first_value list_value last_value v c =
     (if skip_print then Some c
      else
        let (str_len, str) = bacapp_snprintf_value lib rp v
        in if 0 < str_len then
             Some (if list_value then cmd_json_print_list_value key str first_value last_value tail c
                   else cmd_json_print_key_value [] key str [] tail c)
           else cmd_json_print_hex_dump [] key apdu len [] tail c)"

text \<open>
  The loop of \<open>cmd_value_print\<close> over the values of a buffer: what is left of the buffer and how much
  of it is valid, whether this is the first value and whether there are several, the variable the
  decoder fills.
\<close>

function print_values ::
    "('v, 'w, 'z) property_lib_scheme \<Rightarrow> read_data \<Rightarrow> string \<Rightarrow> bool \<Rightarrow> string \<Rightarrow> byte list \<Rightarrow> nat \<Rightarrow> bool \<Rightarrow> bool \<Rightarrow>
     'v app_value \<Rightarrow> 'w console \<Rightarrow> ('v app_value \<times> 'w console) option" where
  "print_values lib rp key skip_print tail apdu apdu_len first_value list_value v c =
     (let (len, v) = bacapp_decode_known_array_property lib apdu apdu_len v (rp_object_type rp)
            (rp_object_property rp) (rp_array_index rp)
      in if len < 0 then map_option (Pair v) (cmd_json_print_hex_dump [] key apdu apdu_len [] tail c)
      else
        let list_value = (list_value \<or> first_value \<and> 0 < len \<and> nat len < apdu_len);
            last_value = (apdu_len \<le> nat len)
        in case show_value lib rp key skip_print tail apdu (nat len) first_value list_value last_value v c of
             None \<Rightarrow> None
           | Some c \<Rightarrow>
               if last_value \<or> len = 0 then Some (v, c)
               else print_values lib rp key skip_print tail (drop (nat len) apdu) (apdu_len - nat len) False
                      list_value v c)"
  by pat_completeness auto

termination
  by (relation "measure (\<lambda>(lib, rp, key, skip, tail, apdu, apdu_len, rest). apdu_len)") auto

declare print_values.simps [simp del]

definition cmd_value_print ::
    "('v, 'w, 'z) property_lib_scheme \<Rightarrow> read_data \<Rightarrow> 'v app_value \<Rightarrow> int \<Rightarrow> bool \<Rightarrow> string \<Rightarrow> 'w console \<Rightarrow>
     ('v app_value \<times> 'w console) option" where
  "cmd_value_print lib rp v apdu_len skip_print tail c =
     (let key = property_text lib (rp_object_property rp)
      in if apdu_len < 0 then
           Some (v, cmd_json_print_key_error key
             (bactext_name lib (error_class_name_default lib (rp_error_class rp)) (rp_error_class rp) 80)
             (bactext_name lib (error_code_name_default lib (rp_error_code rp)) (rp_error_code rp) 80) tail c)
         else if apdu_len = 0 then
           Some (v\<lparr>tag := of_int (bacapp_known_property_tag lib (rp_object_type rp) (rp_object_property rp))\<rparr>,
             cmd_json_print_key_value [] key ''null'' [] tail c)
         else print_values lib rp key skip_print tail (rp_application_data rp) (nat apdu_len) True False v c)"

section \<open>The properties of an object\<close>

definition read_property ::
    "('v, 'w, 'z) property_lib_scheme \<Rightarrow> read_data \<Rightarrow> 'w console \<Rightarrow> int \<times> read_data \<times> 'w console" where
  "read_property lib rp c =
     (let ((apdu_len, rp), c) = access (\<lambda>w.
            let (apdu_len, rp, w) = Device_Read_Property lib rp w in ((apdu_len, rp), w)) c
      in (apdu_len, rp, c))"

definition property_count :: "plist \<times> plist \<times> plist \<Rightarrow> u32" where
  "property_count ls = (case ls of (req, opt, prop) \<Rightarrow> pcount req + pcount opt + pcount prop)"

definition object_head ::
    "('v, 'w, 'z) property_lib_scheme \<Rightarrow> u16 \<Rightarrow> u32 \<Rightarrow> 'w console \<Rightarrow> 'w console" where
  "object_head lib ty inst c =
     shell_print (''\"'' @ PROP_PROPERTY_LIST_name lib @ ''\": ['')
       (shell_print (''{\"'' @ PROP_OBJECT_IDENTIFIER_name lib @ ''\":\"('' @ object_type_name lib (unat ty) @ '':'' @
          dec (unat inst) @ '')\",'') c)"

definition size_line :: "u32 \<Rightarrow> 'w console \<Rightarrow> 'w console" where
  "size_line count c = shell_print (''\"property-list-size\": '' @ dec_int (sint count) @ ''}'') c"

text \<open>
  One round of the loops of \<open>cmd_print_value_all\<close>: the number of properties so far, the text that is
  put after a value, the request, the value.
\<close>

type_synonym 'v all_state = "u32 \<times> string \<times> read_data \<times> 'v app_value"

definition print_property ::
    "('v, 'w, 'z) property_lib_scheme \<Rightarrow> u32 \<Rightarrow> int \<Rightarrow> 'v all_state \<times> 'w console \<Rightarrow> ('v all_state \<times> 'w console) option" where
  "print_property lib count prop s =
     (let ((counter, tail, rp, v), c) = s;
          counter = counter + 1;
          (apdu_len, rp, c) = read_property lib (rp\<lparr>rp_object_property := of_int prop\<rparr>) c;
          tail = (if counter = count then ''],'' else tail)
      in case cmd_value_print lib rp (value_list_init lib v) apdu_len False tail c of
           None \<Rightarrow> None
         | Some (v, c) \<Rightarrow> Some ((counter, tail, rp, v), c))"

fun each_property :: "(int \<Rightarrow> 'a \<Rightarrow> 'a option) \<Rightarrow> int list \<Rightarrow> 'a \<Rightarrow> 'a option" where
  "each_property f [] s = Some s"
| "each_property f (prop # props) s = (case f prop s of None \<Rightarrow> None | Some s \<Rightarrow> each_property f props s)"

text \<open>A list without elements to read is a dereference of NULL.\<close>

definition over_list :: "(int \<Rightarrow> 'a \<Rightarrow> 'a option) \<Rightarrow> plist \<Rightarrow> 'a option \<Rightarrow> 'a option" where
  "over_list f l s =
     (case (s, pList l) of (Some s, Some props) \<Rightarrow> each_property f props s | _ \<Rightarrow> None)"

text \<open>
  The lists of an object between its header and its size, with one routine for the required and the
  optional properties and one for the proprietary ones, which are given the count.
\<close>

definition print_lists ::
    "('v, 'w, 'z) property_lib_scheme \<Rightarrow> u16 \<Rightarrow> u32 \<Rightarrow>
     (u32 \<Rightarrow> int \<Rightarrow> 'a \<times> 'w console \<Rightarrow> ('a \<times> 'w console) option) \<Rightarrow>
     (u32 \<Rightarrow> int \<Rightarrow> 'a \<times> 'w console \<Rightarrow> ('a \<times> 'w console) option) \<Rightarrow> 'a \<Rightarrow> 'w console \<Rightarrow> 'w console option" where
  "print_lists lib ty inst f g s c =
     (let ((req, opt, prop), c) = query (Device_Objects_Property_List lib ty inst) c;
          count = property_count (req, opt, prop);
          c = object_head lib ty inst c
      in case over_list (g count) prop (over_list (f count) opt (over_list (f count) req (Some (s, c)))) of
           None \<Rightarrow> None
         | Some (s, c) \<Rightarrow> Some (size_line count c))"

definition cmd_print_value_all ::
    "('v, 'w, 'z) property_lib_scheme \<Rightarrow> read_data \<Rightarrow> 'w console \<Rightarrow> 'w console option" where
  "cmd_print_value_all lib rp c =
     print_lists lib (rp_object_type rp) (rp_object_instance rp) (print_property lib) (print_property lib)
       (0, '','', rp, zero_value) c"

section \<open>Reading and writing a value\<close>

text \<open>
  The command \<open>value\<close> with a value: the request that is read, with the second attempt at the first
  element when the index does not exist and a value is to be written.
\<close>

definition read_value ::
    "('v, 'w, 'z) property_lib_scheme \<Rightarrow> read_data \<Rightarrow> bool \<Rightarrow> 'w console \<Rightarrow> int \<times> read_data \<times> 'w console" where
  "read_value lib rp writing c =
     (let (apdu_len, rp, c) = read_property lib rp c
      in if apdu_len < 0 \<and> rp_array_index rp \<noteq> BACNET_ARRAY_ALL \<and> rp_array_index rp \<noteq> 1 \<and>
            rp_error_code rp = ERROR_CODE_INVALID_ARRAY_INDEX lib \<and> writing
         then read_property lib (rp\<lparr>rp_array_index := 1\<rparr>) c
         else (apdu_len, rp, c))"

text \<open>
  The priority after an \<open>@\<close> and the text before it, which is cut off there; and whether what is left
  starts with \<open>NULL\<close>. Only commandable properties have either.
\<close>

definition priority_suffix :: "libc \<Rightarrow> string \<Rightarrow> int \<times> string" where
  "priority_suffix lc s =
     (case dropWhile (\<lambda>ch. ch \<noteq> CHR ''@'') s of
        [] \<Rightarrow> (BACNET_NO_PRIORITY_int, s)
      | at # rest \<Rightarrow>
          let prio = fst (strtol lc 0 rest);
              prio = (if prio < BACNET_MIN_PRIORITY_int then BACNET_NO_PRIORITY_int else prio);
              prio = (if int (unat BACNET_MAX_PRIORITY) < prio then BACNET_NO_PRIORITY_int else prio)
          in (prio, takeWhile (\<lambda>ch. ch \<noteq> CHR ''@'') s))"

definition write_text ::
    "('v, 'w, 'z) property_lib_scheme \<Rightarrow> u16 \<Rightarrow> u32 \<Rightarrow> string \<Rightarrow> int \<times> string \<times> bool" where
  "write_text lib ty property s =
     (if property_list_commandable_member lib ty property then
        let (prio, s) = priority_suffix (prop_libc lib) s
        in (prio, s, strnicmp_equal lib s ''NULL'' 4)
      else (BACNET_NO_PRIORITY_int, s, False))"

text \<open>The text as a value: by the tag that was given, or that of the value that was read.\<close>

definition tag_of_string :: "('v, 'w, 'z) property_lib_scheme \<Rightarrow> string \<Rightarrow> int" where
  "tag_of_string lib s =
     (case application_tag_strtol lib s of
        Some found_index \<Rightarrow> int (unat found_index)
      | None \<Rightarrow> fst (strtol (prop_libc lib) 0 s))"

definition parse_value ::
    "('v, 'w, 'z) property_lib_scheme \<Rightarrow> u16 \<Rightarrow> u32 \<Rightarrow> string \<Rightarrow> string option \<Rightarrow> bool \<Rightarrow> 'v app_value \<Rightarrow>
     bool \<times> 'v app_value" where
  "parse_value lib ty property s tag_string null_value v =
     (if null_value then (True, v\<lparr>tag := BACNET_APPLICATION_TAG_NULL\<rparr>)
      else case tag_string of
        Some tag_text \<Rightarrow> bacapp_parse_application_data lib (tag_of_string lib tag_text) s v
      | None \<Rightarrow>
          if tag v = BACNET_APPLICATION_TAG_ENUMERATED then
            (case enumerated_strtoul lib ty property s of
               None \<Rightarrow> (False, v)
             | Some found_index \<Rightarrow>
                 (True, v\<lparr>tag := BACNET_APPLICATION_TAG_ENUMERATED, content := Enumerated found_index\<rparr>))
          else bacapp_parse_application_data lib (int (unat (tag v))) s v)"

definition bacnet_shell_write_property_parameter_init ::
    "('v, 'w, 'z) property_lib_scheme \<Rightarrow> read_data \<Rightarrow> int \<Rightarrow> write_data \<Rightarrow> write_data" where
  "bacnet_shell_write_property_parameter_init lib rp len wp =
     wp\<lparr>wr_object_type := rp_object_type rp, wr_object_instance := rp_object_instance rp,
        wr_object_property := rp_object_property rp, wr_array_index := rp_array_index rp,
        wr_application_data := (if 0 < len then take (nat len) (rp_application_data rp) else []),
        wr_priority := of_int BACNET_NO_PRIORITY_int, wr_error_code := ERROR_CODE_SUCCESS lib\<rparr>"

definition zero_write_data :: write_data where
  "zero_write_data =
     \<lparr>wr_object_type = 0, wr_object_instance = 0, wr_object_property = 0, wr_array_index = 0,
      wr_application_data = [], wr_priority = 0, wr_error_class = 0, wr_error_code = 0\<rparr>"

text \<open>
  The request that is written: the encoding goes to the buffer of the command, which has no room for
  more than an APDU, and at most the size of the request's own buffer is copied.
\<close>

definition write_request ::
    "('v, 'w, 'z) property_lib_scheme \<Rightarrow> read_data \<Rightarrow> u32 \<Rightarrow> int \<Rightarrow> int \<Rightarrow> byte list \<Rightarrow> write_data" where
  "write_request lib rp index prio apdu_len bs =
     (bacnet_shell_write_property_parameter_init lib rp 0 zero_write_data)
       \<lparr>wr_array_index := index, wr_priority := of_int prio,
        wr_application_data := take (nat (min apdu_len (int (MAX_WRITE_DATA lib))))
          (bs @ drop (length bs) (rp_application_data rp))\<rparr>"

definition write_property ::
    "('v, 'w, 'z) property_lib_scheme \<Rightarrow> write_data \<Rightarrow> 'w console \<Rightarrow> bool \<times> write_data \<times> 'w console" where
  "write_property lib wp c =
     (let ((status, wp), c) = access (\<lambda>w.
            let (status, wp, w) = Device_Write_Property lib wp w in ((status, wp), w)) c
      in (status, wp, c))"

definition write_value ::
    "('v, 'w, 'z) property_lib_scheme \<Rightarrow> read_data \<Rightarrow> u16 \<Rightarrow> u32 \<Rightarrow> u32 \<Rightarrow> string \<Rightarrow> string option \<Rightarrow> 'v app_value \<Rightarrow>
     'w console \<Rightarrow> 'w console option" where
  "write_value lib rp ty property index value_string tag_string v c =
     (let (prio, s, null_value) = write_text lib ty property value_string;
          (status, v) = parse_value lib ty property s tag_string null_value v;
          key = property_text lib property
      in if \<not> status then
           Some (cmd_json_print_property_value_tag lib key index (nat prio) (tag v) s False [] c)
         else
           let (apdu_len, bs) = bacapp_encode_data lib v
           in if CONFIG_BACNET_MAX_APDU_SIZE lib < length bs \<or> apdu_len < 0 then None
           else if apdu_len = 0 then
             Some (cmd_json_print_key_error key (error_class_name lib (ERROR_CLASS_PROPERTY lib))
               (error_code_name lib (ERROR_CODE_UNEXPECTED_DATA lib)) [] c)
           else
             let (written, wp, c) = write_property lib (write_request lib rp index prio apdu_len bs) c
             in Some (if written
                  then cmd_json_print_property_value_tag lib key index (nat prio) (tag v) s True [] c
                  else cmd_json_print_key_error key (error_class_name lib (wr_error_class wp))
                    (error_code_name lib (wr_error_code wp)) [] c))"

definition read_request ::
    "('v, 'w, 'z) property_lib_scheme \<Rightarrow> u16 \<Rightarrow> u32 \<Rightarrow> u32 \<Rightarrow> u32 \<Rightarrow> read_data" where
  "read_request lib ty inst property index =
     \<lparr>rp_object_type = ty, rp_object_instance = inst, rp_object_property = property, rp_array_index = index,
      rp_application_data = replicate (CONFIG_BACNET_MAX_APDU_SIZE lib) 0, rp_error_class = 0, rp_error_code = 0\<rparr>"

text \<open>The value of one property, read unless a tag was given, and then written if there is a value.\<close>

definition cmd_property_value ::
    "('v, 'w, 'z) property_lib_scheme \<Rightarrow> u16 \<Rightarrow> u32 \<Rightarrow> u32 \<Rightarrow> u32 \<Rightarrow> string option \<Rightarrow> string option \<Rightarrow>
     'w console \<Rightarrow> (int \<times> 'w console) option" where
  "cmd_property_value lib ty inst property index value_string tag_string c =
     (let rp = read_request lib ty inst property index;
          v = value_list_init lib zero_value;
          was_read =
            (if tag_string = None then
               let (apdu_len, rp, c) = read_value lib rp (value_string \<noteq> None) c
               in map_option (\<lambda>(v, c). (apdu_len, rp, v, c))
                    (cmd_value_print lib rp v apdu_len (value_string \<noteq> None) [] c)
             else Some (0, rp, v, c))
      in case was_read of
           None \<Rightarrow> None
         | Some (apdu_len, rp, v, c) \<Rightarrow>
             (case value_string of
                None \<Rightarrow> Some (0, c)
              | Some s \<Rightarrow>
                  if apdu_len < 0 \<and> tag_string = None then Some (- EINVAL, c)
                  else map_option (Pair 0) (write_value lib rp ty property index s tag_string v c)))"

definition cmd_value :: "('v, 'w, 'z) property_lib_scheme \<Rightarrow> 'w shell_handler" where
  "cmd_value lib argv c =
     (let argc = length argv
      in if argc = 2 \<or> argc = 3 then
           let (err, ty, inst, c) = bacnet_shell_object_type_instance_parse lib argv c
           in if err \<noteq> 0 then Some (err, c)
           else map_option (Pair 0) (cmd_print_value_all lib
             (read_request lib ty inst (MAX_BACNET_PROPERTY_ID lib) BACNET_ARRAY_ALL) c)
         else if 3 < argc then
           let (err, ty, inst, property, index, c) = bacnet_shell_property_parse lib argv c
           in if err \<noteq> 0 then Some (err, c)
           else cmd_property_value lib ty inst property index
             (if 4 < argc then Some (argv ! 4) else None) (if 5 < argc then Some (argv ! 5) else None) c
         else Some (- EINVAL, show_help lib c))"

section \<open>Listing\<close>

text \<open>One round of the loops of \<open>cmd_list\<close>; the numbers of proprietary properties have no name.\<close>

definition list_property ::
    "('v, 'w, 'z) property_lib_scheme \<Rightarrow> u32 \<Rightarrow> int \<Rightarrow> u32 \<times> 'w console \<Rightarrow> (u32 \<times> 'w console) option" where
  "list_property lib count property s =
     (let (counter, c) = s;
          counter = counter + 1
      in Some (counter, shell_print (''\"'' @ property_text lib (of_int property) @ ''\"'' @
           (if counter = count then ''],'' else '','')) c))"

definition list_proprietary ::
    "('v, 'w, 'z) property_lib_scheme \<Rightarrow> u32 \<Rightarrow> int \<Rightarrow> u32 \<times> 'w console \<Rightarrow> (u32 \<times> 'w console) option" where
  "list_proprietary lib count property s =
     (let (counter, c) = s;
          counter = counter + 1
      in Some (counter, shell_print
           (dec (nat (property mod (int (ulong_max (prop_libc lib)) + 1))) @ '' '' @
            (if counter = count then ''],'' else '','')) c))"

definition cmd_list :: "('v, 'w, 'z) property_lib_scheme \<Rightarrow> 'w shell_handler" where
  "cmd_list lib argv c =
     (let argc = length argv
      in if argc = 2 \<or> argc = 3 then
           let (err, ty, inst, c) = bacnet_shell_object_type_instance_parse lib argv c
           in if err \<noteq> 0 then Some (err, show_help lib c)
           else map_option (Pair 0) (print_lists lib ty inst (list_property lib) (list_proprietary lib) 0 c)
         else Some (- EINVAL, show_help lib c))"

definition cmd_size :: "('v, 'w, 'z) property_lib_scheme \<Rightarrow> 'w shell_handler" where
  "cmd_size lib argv c =
     Some (0, fold (\<lambda>(key, n, rest). shell_print (key @ dec n @ rest))
       [(''{\"read-property-data-size\": '', sizeof_read_data lib, '',''),
        (''\"application-data-unit-size\": '', MAX_APDU lib, '',''),
        (''\"write-property-data-size\": '', sizeof_write_data lib, '',''),
        (''\"application-data-value-size\": '', sizeof_value lib, '',''),
        (''\"object-property-value-size\": '', sizeof_property_value lib, ''}'')] c)"

section \<open>The lock\<close>

text \<open>\<open>quiet\<close>: nothing but output and uses of the data that leave it alone.\<close>

definition quiet :: "'w console \<Rightarrow> 'w console \<Rightarrow> bool" where
  "quiet c c' \<longleftrightarrow> extends (lock_depth c) c c' \<and> world c' = world c"

lemma quiet_refl [simp]: "quiet c c"
  by (simp add: quiet_def)

lemma quiet_print [simp]: "quiet c c' \<Longrightarrow> quiet c (shell_print s c')" "quiet c c' \<Longrightarrow> quiet c (shell_error s c')"
  by (auto simp: quiet_def shell_print_def shell_error_def extends_emit)

lemma quiet_query [simp]: "quiet c c' \<Longrightarrow> quiet c (snd (query f c'))"
  by (simp add: quiet_def)

lemma quiet_extends: "quiet c c' \<Longrightarrow> extends (lock_depth c) c c'"
  by (simp add: quiet_def)

lemma quiet_trans: "quiet c c' \<Longrightarrow> quiet c' c'' \<Longrightarrow> quiet c c''"
  by (auto simp: quiet_def extends_def)

lemma quiet_help [simp]: "quiet c c' \<Longrightarrow> quiet c (show_help lib c')"
  by (simp add: show_help_def)

lemma parse_object_quiet:
  "bacnet_shell_object_type_instance_parse lib argv c = (err, ty, inst, c') \<Longrightarrow> quiet c c'"
  by (auto simp: bacnet_shell_object_type_instance_parse_def Let_def case_prod_beta split: if_splits option.splits)

lemma property_arg_quiet: "property_arg lib arg c = (err, property, index, c') \<Longrightarrow> quiet c c'"
  by (auto simp: property_arg_def Let_def case_prod_beta split: if_splits option.splits)

lemma parse_property_quiet:
  "bacnet_shell_property_parse lib argv c = (err, ty, inst, property, index, c') \<Longrightarrow> quiet c c'"
  by (auto simp: bacnet_shell_property_parse_def split: if_splits prod.splits
      dest!: parse_object_quiet property_arg_quiet intro: quiet_trans)

lemma json_print_quiet [simp]:
  "quiet c c' \<Longrightarrow> quiet c (cmd_json_print_key_value prefix key v suffix tail c')"
  "quiet c c' \<Longrightarrow> quiet c (cmd_json_print_list_value key v first_value last_value tail c')"
  "quiet c c' \<Longrightarrow> quiet c (cmd_json_print_key_error key error_class error_code tail c')"
  "quiet c c' \<Longrightarrow> quiet c (cmd_json_print_property_value_tag lib key index prio t s ok tail c')"
  by (simp_all add: cmd_json_print_key_value_def cmd_json_print_list_value_def cmd_json_print_key_error_def
      cmd_json_print_property_value_tag_def Let_def)

lemma hex_dump_quiet:
  "cmd_json_print_hex_dump prefix key buffer n suffix tail c = Some c' \<Longrightarrow> quiet c c'"
  by (auto simp: cmd_json_print_hex_dump_def split: if_splits)

lemma show_value_quiet:
  "show_value lib rp key skip_print tail apdu len first_value list_value last_value v c = Some c' \<Longrightarrow> quiet c c'"
  by (auto simp: show_value_def case_prod_beta Let_def split: if_splits dest: hex_dump_quiet)

lemma print_values_quiet:
  "print_values lib rp key skip_print tail apdu n first_value list_value v c = Some (v', c') \<Longrightarrow> quiet c c'"
proof (induction n arbitrary: apdu first_value list_value v c rule: less_induct)
  case (less n)
  show ?case using less.prems
    by (subst (asm) print_values.simps)
      (auto simp: Let_def split: if_splits option.splits prod.splits
        dest!: hex_dump_quiet show_value_quiet less.IH [rotated] intro: quiet_trans)
qed

lemma value_print_quiet: "cmd_value_print lib rp v n skip_print tail c = Some (v', c') \<Longrightarrow> quiet c c'"
  by (auto simp: cmd_value_print_def Let_def split: if_splits dest: print_values_quiet)

text \<open>Reading and writing use the data of the device once each.\<close>

lemma read_property_extends:
  "read_property lib rp c = (n, rp', c') \<Longrightarrow> extends (lock_depth c) c c'"
  by (auto simp: read_property_def Let_def case_prod_beta)

lemma write_property_extends:
  "write_property lib wp c = (ok, wp', c') \<Longrightarrow> extends (lock_depth c) c c'"
  by (auto simp: write_property_def Let_def case_prod_beta)

lemma read_value_extends: "read_value lib rp writing c = (n, rp', c') \<Longrightarrow> extends (lock_depth c) c c'"
  by (auto simp: read_value_def split: prod.splits if_splits dest!: read_property_extends intro: extends_then)

lemma json_print_extends [simp]:
  "extends d c c' \<Longrightarrow> d \<le> lock_depth c \<Longrightarrow> extends d c (cmd_json_print_key_error key error_class error_code tail c')"
  "extends d c c' \<Longrightarrow> d \<le> lock_depth c \<Longrightarrow>
   extends d c (cmd_json_print_property_value_tag lib key index prio t s ok tail c')"
  by (simp_all add: cmd_json_print_key_error_def cmd_json_print_property_value_tag_def Let_def)

lemma write_value_extends:
  "write_value lib rp ty property index s t v c = Some c' \<Longrightarrow> extends (lock_depth c) c c'"
  by (auto simp: write_value_def Let_def split: prod.splits if_splits dest!: write_property_extends
      intro: quiet_extends)

definition keeps :: "(int \<Rightarrow> 'a \<times> 'w console \<Rightarrow> ('a \<times> 'w console) option) \<Rightarrow> bool" where
  "keeps f \<longleftrightarrow>
     (\<forall>property s s'. f property s = Some s' \<longrightarrow> extends (lock_depth (snd s)) (snd s) (snd s'))"

lemma each_property_extends:
  "keeps f \<Longrightarrow> each_property f props s = Some s' \<Longrightarrow> extends (lock_depth (snd s)) (snd s) (snd s')"
proof (induction props arbitrary: s)
  case (Cons property props)
  then obtain t where "f property s = Some t" "each_property f props t = Some s'"
    by (auto split: option.splits)
  then show ?case using Cons.IH Cons.prems(1) by (meson extends_then keeps_def order_refl)
qed simp

lemma over_list_extends:
  "keeps f \<Longrightarrow> over_list f l s = Some s' \<Longrightarrow> \<exists>t. s = Some t \<and> extends (lock_depth (snd t)) (snd t) (snd s')"
  by (auto simp: over_list_def split: option.splits dest: each_property_extends)

lemma print_property_keeps: "keeps (print_property lib count)"
  by (auto simp: keeps_def print_property_def Let_def split: prod.splits option.splits if_splits
      dest!: read_property_extends value_print_quiet quiet_extends intro: extends_then)

lemma object_head_quiet [simp]: "quiet c c' \<Longrightarrow> quiet c (object_head lib ty inst c')"
  by (simp add: object_head_def)

lemma size_line_extends [simp]:
  "extends d c c' \<Longrightarrow> d \<le> lock_depth c \<Longrightarrow> extends d c (size_line count c')"
  by (simp add: size_line_def)

lemma object_head_extends [simp]:
  "extends d c c' \<Longrightarrow> d \<le> lock_depth c \<Longrightarrow> extends d c (object_head lib ty inst c')"
  by (simp add: object_head_def)

lemma over_lists_extends:
  assumes "keeps f" "keeps g" "over_list g l3 (over_list f l2 (over_list f l1 (Some s))) = Some s'"
  shows "extends (lock_depth (snd s)) (snd s) (snd s')"
proof -
  obtain s2 where s2: "over_list f l2 (over_list f l1 (Some s)) = Some s2" "extends (lock_depth (snd s2)) (snd s2) (snd s')"
    using over_list_extends [OF assms(2,3)] by blast
  obtain s1 where s1: "over_list f l1 (Some s) = Some s1" "extends (lock_depth (snd s1)) (snd s1) (snd s2)"
    using over_list_extends [OF assms(1) s2(1)] by blast
  have "extends (lock_depth (snd s)) (snd s) (snd s1)"
    using over_list_extends [OF assms(1) s1(1)] by auto
  then show ?thesis using s1(2) s2(2) by (meson extends_then order_refl)
qed

lemma list_property_keeps: "keeps (list_property lib count)" "keeps (list_proprietary lib count)"
  by (auto simp: keeps_def list_property_def list_proprietary_def Let_def case_prod_beta)

lemma print_lists_extends:
  assumes "\<And>count. keeps (f count)" "\<And>count. keeps (g count)" "print_lists lib ty inst f g s c = Some c'"
  shows "extends (lock_depth c) c c'"
proof -
  obtain req opt prps where ls: "Device_Objects_Property_List lib ty inst (world c) = (req, opt, prps)"
    by (metis prod.exhaust)
  let ?c = "object_head lib ty inst (snd (query (Device_Objects_Property_List lib ty inst) c))"
  let ?count = "property_count (req, opt, prps)"
  obtain s' c2 where run: "over_list (g ?count) prps (over_list (f ?count) opt
      (over_list (f ?count) req (Some (s, ?c)))) = Some (s', c2)" "c' = size_line ?count c2"
    using assms(3) by (auto simp: print_lists_def Let_def case_prod_beta ls split: option.splits)
  have "extends (lock_depth ?c) ?c c2"
    using over_lists_extends [OF assms(1,2) run(1)] by simp
  then have "extends (lock_depth c) c c2"
    by (rule extends_then [rotated 2]) simp_all
  then show ?thesis by (simp add: run(2))
qed

lemma cmd_print_value_all_extends: "cmd_print_value_all lib rp c = Some c' \<Longrightarrow> extends (lock_depth c) c c'"
  unfolding cmd_print_value_all_def by (rule print_lists_extends [OF print_property_keeps print_property_keeps])

lemma cmd_property_value_extends:
  assumes "cmd_property_value lib ty inst property index value_string tag_string c = Some (rc, c')"
  shows "extends (lock_depth c) c c'"
  using assms
  by (auto simp: cmd_property_value_def Let_def split: option.splits if_splits prod.splits
      dest!: write_value_extends value_print_quiet quiet_extends read_value_extends
      intro: extends_then)

lemma help_extends [simp]: "extends d c c' \<Longrightarrow> d \<le> lock_depth c \<Longrightarrow> extends d c (show_help lib c')"
  by (simp add: show_help_def)

interpretation property_value_command: shell_command cmd_value
  by unfold_locales
    (auto simp: cmd_value_def Let_def split: prod.splits if_splits
      dest!: parse_object_quiet parse_property_quiet quiet_extends cmd_property_value_extends
        cmd_print_value_all_extends
      intro: extends_then)

interpretation property_list_command: shell_command cmd_list
  by unfold_locales
    (auto simp: cmd_list_def Let_def split: prod.splits if_splits
      dest!: parse_object_quiet quiet_extends print_lists_extends [OF list_property_keeps]
      intro: extends_then)

interpretation property_size_command: shell_command cmd_size
  by unfold_locales (auto simp: cmd_size_def)

lemma property_commands_locked:
  "\<forall>h \<in> set [cmd_value lib, cmd_list lib, cmd_size lib].
     \<forall>rc c'. BACNET_SHELL_LOCK_HANDLER others h argv c = Some (rc, c') \<longrightarrow> extends (lock_depth c + 1) c c'"
  using property_value_command.locked_extends property_list_command.locked_extends property_size_command.locked_extends by fastforce

section \<open>Which texts are quoted\<close>

text \<open>The texts the printer takes for numbers: digits with at most one point, after an optional sign.\<close>

definition unsigned_text :: "string \<Rightarrow> bool" where
  "unsigned_text s \<longleftrightarrow>
     list_all (\<lambda>ch. c_isdigit ch \<or> ch = CHR ''.'') s \<and> length (filter (\<lambda>ch. ch = CHR ''.'') s) \<le> 1"

definition number_text :: "string \<Rightarrow> bool" where
  "number_text v \<longleftrightarrow> (case v of [] \<Rightarrow> False | ch # s \<Rightarrow> unsigned_text (if ch = CHR ''-'' then s else v))"

lemma scan_digits_iff:
  "n \<le> length v \<Longrightarrow> scan_digits v n k b \<longleftrightarrow> b \<and>
     (\<forall>i<n. c_isdigit (v ! i) \<or> i = 0 \<and> v ! i = CHR ''-'' \<or> v ! i = CHR ''.'') \<and>
     (let dots = length (filter (\<lambda>ch. ch = CHR ''.'') (take n v)) in dots = 0 \<or> k + dots \<le> 1)"
proof (induction n arbitrary: k b)
  case (Suc n)
  have "take (Suc n) v = take n v @ [v ! n]" using Suc.prems by (simp add: take_Suc_conv_app_nth)
  moreover have "\<not> c_isdigit (CHR ''.'')" "\<not> c_isdigit (CHR ''-'')" by (simp_all add: c_isdigit_def)
  ultimately show ?case using Suc by (auto simp: less_Suc_eq Let_def)
qed (simp add: Let_def)

lemma number_text_iff:
  assumes "v \<noteq> []"
  shows "number_text v \<longleftrightarrow> scan_digits v (length v) 0 True"
proof -
  obtain ch s where v: "v = ch # s" using assms by (cases v) auto
  have "\<not> c_isdigit (CHR ''-'')" by (simp add: c_isdigit_def)
  moreover have "scan_digits v (length v) 0 True \<longleftrightarrow>
      (\<forall>i<length v. c_isdigit (v ! i) \<or> i = 0 \<and> v ! i = CHR ''-'' \<or> v ! i = CHR ''.'') \<and>
      length (filter (\<lambda>ch. ch = CHR ''.'') v) \<le> 1"
    using scan_digits_iff [of "length v" v 0 True] by (auto simp: Let_def simp del: scan_digits.simps)
  moreover have "\<dots> \<longleftrightarrow> (c_isdigit ch \<or> ch = CHR ''-'' \<or> ch = CHR ''.'') \<and>
      list_all (\<lambda>ch. c_isdigit ch \<or> ch = CHR ''.'') s \<and> length (filter (\<lambda>ch. ch = CHR ''.'') v) \<le> 1"
    by (simp add: v All_less_Suc2 list_all_length)
  ultimately show ?thesis by (auto simp: v number_text_def unsigned_text_def simp del: scan_digits.simps)
qed

text \<open>
  C35. Exactly the key words of JSON, texts that are quoted already, and texts that look like a decimal
  number - digits with at most one point after an optional minus - are printed without quotation marks.
\<close>

theorem json_quoting:
  "cmd_json_is_quoted v \<longleftrightarrow>
     \<not> (v \<in> {''true'', ''false'', ''null''} \<or> (\<exists>s. v = CHR 0x22 # s) \<or> number_text v)"
proof -
  have "\<not> number_text []" "\<And>s. v = CHR 0x22 # s \<longleftrightarrow> v \<noteq> [] \<and> hd v = CHR 0x22 \<and> tl v = s"
    by (cases v; auto simp: number_text_def)+
  then show ?thesis by (cases "v = []") (auto simp: cmd_json_is_quoted_def number_text_iff)
qed

text \<open>A lone sign or point counts as a number.\<close>

lemma lone_sign_unquoted: "\<not> cmd_json_is_quoted ''-''" "\<not> cmd_json_is_quoted ''.''"
  by (simp_all add: cmd_json_is_quoted_def c_isdigit_def)

section \<open>What is printed for a buffer\<close>

text \<open>
  The values of a buffer: the decoder takes it apart completely, each value from what the previous one
  left, and every value has a text.
\<close>

fun buffer_values ::
    "('v, 'w, 'z) property_lib_scheme \<Rightarrow> read_data \<Rightarrow> byte list \<Rightarrow> nat \<Rightarrow> 'v app_value \<Rightarrow> 'v app_value list \<Rightarrow> bool" where
  "buffer_values lib rp apdu n v [] \<longleftrightarrow> False"
| "buffer_values lib rp apdu n v (x # xs) \<longleftrightarrow>
     (case bacapp_decode_known_array_property lib apdu n v (rp_object_type rp) (rp_object_property rp)
        (rp_array_index rp) of (len, v') \<Rightarrow>
       v' = x \<and> 0 < len \<and> 0 < fst (bacapp_snprintf_value lib rp x) \<and>
       (if xs = [] then n \<le> nat len
        else nat len < n \<and> buffer_values lib rp (drop (nat len) apdu) (n - nat len) x xs))"

definition value_text :: "('v, 'w, 'z) property_lib_scheme \<Rightarrow> read_data \<Rightarrow> 'v app_value \<Rightarrow> string" where
  "value_text lib rp v = (let s = snd (bacapp_snprintf_value lib rp v) in quote_mark s @ s @ quote_mark s)"

text \<open>The lines for the elements of a JSON array, up to the end of the object.\<close>

fun array_lines :: "string list \<Rightarrow> string \<Rightarrow> string list" where
  "array_lines [] tail = []"
| "array_lines [s] tail = [s @ '']'', ''}'' @ tail]"
| "array_lines (s # ss) tail = (s @ '','') # array_lines ss tail"

definition json_lines :: "string \<Rightarrow> string list \<Rightarrow> string \<Rightarrow> string list" where
  "json_lines key ss tail =
     (case ss of
        [s] \<Rightarrow> [''{\"'' @ key @ ''\": '' @ s @ ''}'' @ tail]
      | _ \<Rightarrow> (''{\"'' @ key @ ''\": ['') # array_lines ss tail)"

lemma print_more_values:
  assumes "buffer_values lib rp apdu n v xs"
  shows "\<exists>c'. print_values lib rp key False tail apdu n False True v c = Some (last xs, c') \<and>
    printed (trace c') = printed (trace c) @ array_lines (map (value_text lib rp) xs) tail"
  using assms
proof (induction xs arbitrary: apdu n v c)
  case (Cons x xs)
  obtain len where d: "bacapp_decode_known_array_property lib apdu n v (rp_object_type rp)
      (rp_object_property rp) (rp_array_index rp) = (len, x)"
    and len: "0 < len" "0 < fst (bacapp_snprintf_value lib rp x)"
    using Cons.prems by (auto split: prod.splits)
  let ?t = "snd (bacapp_snprintf_value lib rp x)"
  let ?c = "cmd_json_print_list_value key ?t False (n \<le> nat len) tail c"
  have step: "print_values lib rp key False tail apdu n False True v c =
      (if n \<le> nat len then Some (x, ?c)
       else print_values lib rp key False tail (drop (nat len) apdu) (n - nat len) False True x ?c)"
    using len by (subst print_values.simps) (simp add: d show_value_def Let_def case_prod_beta)
  show ?case
  proof (cases "xs = []")
    case True
    then have "n \<le> nat len" using Cons.prems d by simp
    then show ?thesis using step True
      by (simp add: cmd_json_print_list_value_def value_text_def Let_def)
  next
    case False
    then have rest: "\<not> n \<le> nat len" "buffer_values lib rp (drop (nat len) apdu) (n - nat len) x xs"
      using Cons.prems d by auto
    obtain y ys where xs: "xs = y # ys" using False by (cases xs) auto
    show ?thesis using Cons.IH [OF rest(2), of ?c] step rest(1)
      by (auto simp: xs cmd_json_print_list_value_def value_text_def Let_def)
  qed
qed simp

text \<open>
  C34. A buffer that decodes completely is printed completely: one value as a key with its value, several
  as an array under the key, each value once and in order, separated by commas and closed after the
  last; the variable of the command ends up as the last value.
\<close>

theorem property_values_printed:
  assumes "buffer_values lib rp (rp_application_data rp) (nat n) v xs" "0 < n"
  shows "\<exists>c'. cmd_value_print lib rp v n False tail c = Some (last xs, c') \<and>
    printed (trace c') = printed (trace c) @
      json_lines (property_text lib (rp_object_property rp)) (map (value_text lib rp) xs) tail"
proof -
  obtain x ys where xs: "xs = x # ys" using assms(1) by (cases xs) auto
  obtain len where d: "bacapp_decode_known_array_property lib (rp_application_data rp) (nat n) v (rp_object_type rp)
      (rp_object_property rp) (rp_array_index rp) = (len, x)"
    and len: "0 < len" "0 < fst (bacapp_snprintf_value lib rp x)"
    and rest: "if ys = [] then nat n \<le> nat len else nat len < nat n \<and>
      buffer_values lib rp (drop (nat len) (rp_application_data rp)) (nat n - nat len) x ys"
    using assms(1) by (auto simp: xs split: prod.splits)
  let ?key = "property_text lib (rp_object_property rp)"
  let ?t = "snd (bacapp_snprintf_value lib rp x)"
  show ?thesis
  proof (cases "ys = []")
    case True
    then have "\<not> len < n" using rest len assms(2) by simp
    then show ?thesis using True rest len assms(2)
      by (simp add: cmd_value_print_def print_values.simps d show_value_def Let_def case_prod_beta xs
          json_lines_def value_text_def cmd_json_print_key_value_def)
  next
    case False
    let ?c = "cmd_json_print_list_value ?key ?t True False tail c"
    have "cmd_value_print lib rp v n False tail c =
        print_values lib rp ?key False tail (drop (nat len) (rp_application_data rp)) (nat n - nat len) False True x ?c"
      using rest len assms(2) False not_le [of "nat n" "nat len"]
      by (subst cmd_value_print_def, subst print_values.simps)
        (simp add: d show_value_def Let_def case_prod_beta)
    moreover obtain z zs where "ys = z # zs" using False by (cases ys) auto
    ultimately show ?thesis
      using print_more_values [of lib rp "drop (nat len) (rp_application_data rp)" "nat n - nat len" x ys ?key tail ?c]
        rest False
      by (auto simp: xs json_lines_def value_text_def cmd_json_print_list_value_def Let_def)
  qed
qed

section \<open>The list of properties\<close>

text \<open>The lines for the entries of a list: each with a comma, and the one that makes up the count with the
  bracket.\<close>

fun entry_lines :: "u32 \<Rightarrow> u32 \<Rightarrow> string list \<Rightarrow> string list" where
  "entry_lines count k [] = []"
| "entry_lines count k (e # es) = (e @ (if k + 1 = count then ''],'' else '','')) # entry_lines count (k + 1) es"

lemma entry_lines_append:
  "entry_lines count k (xs @ ys) = entry_lines count k xs @ entry_lines count (k + of_nat (length xs)) ys"
  by (induction xs arbitrary: k) (simp_all add: add_ac)

lemma entry_lines_closed:
  "es \<noteq> [] \<Longrightarrow> length es < 4294967296 \<Longrightarrow> k + of_nat (length es) = count \<Longrightarrow>
   entry_lines count k es = map (\<lambda>e. e @ '','') (butlast es) @ [last es @ '']'' @ '','']"
proof (induction es arbitrary: k)
  case (Cons e es)
  show ?case
  proof (cases "es = []")
    case False
    have "of_nat (length es) \<noteq> (0 :: u32)"
    proof
      assume "of_nat (length es) = (0 :: u32)"
      then have "unat (of_nat (length es) :: u32) = 0" by simp
      then show False using False Cons.prems(2) unat_of_nat_u32 [of "length es"] by simp
    qed
    then have "k + 1 \<noteq> count" using Cons.prems(3) by (auto simp: add_ac)
    then show ?thesis using Cons False by (simp add: add_ac)
  qed (use Cons.prems in simp)
qed simp

definition named_entry :: "('v, 'w, 'z) property_lib_scheme \<Rightarrow> int \<Rightarrow> string" where
  "named_entry lib property = ''\"'' @ property_text lib (of_int property) @ ''\"''"

definition numbered_entry :: "('v, 'w, 'z) property_lib_scheme \<Rightarrow> int \<Rightarrow> string" where
  "numbered_entry lib property = dec (nat (property mod (int (ulong_max (prop_libc lib)) + 1))) @ '' ''"

lemma each_listed:
  assumes "\<And>property k c. f property (k, c) =
      Some (k + 1, shell_print (entry property @ (if k + 1 = count then ''],'' else '','')) c)"
  shows "\<exists>c'. each_property f props (k, c) = Some (k + of_nat (length props), c') \<and>
    printed (trace c') = printed (trace c) @ entry_lines count k (map entry props)"
proof (induction props arbitrary: k c)
  case (Cons property props)
  then show ?case
    using Cons [of "k + 1" "shell_print (entry property @ (if k + 1 = count then ''],'' else '','')) c"]
    by (auto simp: assms add_ac)
qed simp

text \<open>
  C36. The command \<open>list\<close> prints every property that the device reports for an object once and in order,
  the required and optional ones by name and the proprietary ones by number, as an array that is
  closed after the last one when the counts of the lists are right and there is one at all.
\<close>

theorem property_list_printed:
  assumes "bacnet_shell_object_type_instance_parse lib argv c = (0, ty, inst, c1)" "length argv \<in> {2, 3}"
    and "Device_Objects_Property_List lib ty inst (world c1) =
      (\<lparr>pList = Some rs, pcount = of_nat (length rs)\<rparr>, \<lparr>pList = Some os, pcount = of_nat (length os)\<rparr>,
       \<lparr>pList = Some ps, pcount = of_nat (length ps)\<rparr>)"
    and "es = map (named_entry lib) (rs @ os) @ map (numbered_entry lib) ps" "es \<noteq> []" "length es < 4294967296"
  shows "\<exists>c'. cmd_list lib argv c = Some (0, c') \<and>
    printed (trace c') = printed (trace c1) @
      [''{\"'' @ PROP_OBJECT_IDENTIFIER_name lib @ ''\":\"('' @ object_type_name lib (unat ty) @ '':'' @
         dec (unat inst) @ '')\",'',
       ''\"'' @ PROP_PROPERTY_LIST_name lib @ ''\": [''] @
      map (\<lambda>e. e @ '','') (butlast es) @ [last es @ '']'' @ '',''] @
      [''\"property-list-size\": '' @ dec_int (sint (of_nat (length es) :: u32)) @ ''}'']"
proof -
  let ?count = "of_nat (length es) :: u32"
  have count: "of_nat (length rs) + of_nat (length os) + of_nat (length ps) = ?count" using assms(4) by simp
  let ?c = "object_head lib ty inst (snd (query (Device_Objects_Property_List lib ty inst) c1))"
  have named: "\<And>property k c. list_property lib ?count property (k, c) = Some (k + 1,
      shell_print (named_entry lib property @ (if k + 1 = ?count then ''],'' else '','')) c)"
    by (simp add: list_property_def named_entry_def Let_def)
  have numbered: "\<And>property k c. list_proprietary lib ?count property (k, c) = Some (k + 1,
      shell_print (numbered_entry lib property @ (if k + 1 = ?count then ''],'' else '','')) c)"
    by (simp add: list_proprietary_def numbered_entry_def Let_def)
  obtain ca where a: "each_property (list_property lib ?count) rs (0, ?c) = Some (of_nat (length rs), ca)"
    "printed (trace ca) = printed (trace ?c) @ entry_lines ?count 0 (map (named_entry lib) rs)"
    using each_listed [of "list_property lib ?count" "named_entry lib" ?count, OF named, where props = rs and k = 0 and c = ?c] by auto
  obtain cb where b: "each_property (list_property lib ?count) os (of_nat (length rs), ca) =
      Some (of_nat (length rs) + of_nat (length os), cb)"
    "printed (trace cb) = printed (trace ca) @ entry_lines ?count (of_nat (length rs)) (map (named_entry lib) os)"
    using each_listed [of "list_property lib ?count" "named_entry lib" ?count, OF named, where props = os and k = "of_nat (length rs)" and c = ca] by auto
  obtain cc where c: "each_property (list_proprietary lib ?count) ps (of_nat (length rs) + of_nat (length os), cb) =
      Some (of_nat (length rs) + of_nat (length os) + of_nat (length ps), cc)"
    "printed (trace cc) = printed (trace cb) @
       entry_lines ?count (of_nat (length rs) + of_nat (length os)) (map (numbered_entry lib) ps)"
    using each_listed [of "list_proprietary lib ?count" "numbered_entry lib" ?count, OF numbered, where props = ps and k = "of_nat (length rs) + of_nat (length os)" and c = cb] by auto
  have "cmd_list lib argv c = Some (0, size_line ?count cc)"
    using assms(2) a(1) b(1) c(1)
    by (auto simp: cmd_list_def print_lists_def over_list_def property_count_def Let_def case_prod_beta assms(1,3) count)
  moreover have "printed (trace cc) = printed (trace ?c) @ entry_lines ?count 0 es"
    by (simp add: a(2) b(2) c(2) assms(4) entry_lines_append)
  ultimately show ?thesis
    using entry_lines_closed [OF assms(5,6), of 0 ?count] by (simp add: size_line_def object_head_def)
qed

text \<open>With no property at all the array stays open.\<close>

lemma empty_list_open:
  assumes "bacnet_shell_object_type_instance_parse lib argv c = (0, ty, inst, c1)" "length argv \<in> {2, 3}"
    and "Device_Objects_Property_List lib ty inst (world c1) =
      (\<lparr>pList = Some [], pcount = 0\<rparr>, \<lparr>pList = Some [], pcount = 0\<rparr>, \<lparr>pList = Some [], pcount = 0\<rparr>)"
  shows "\<exists>c'. cmd_list lib argv c = Some (0, c') \<and>
    printed (trace c') = printed (trace c1) @
      [''{\"'' @ PROP_OBJECT_IDENTIFIER_name lib @ ''\":\"('' @ object_type_name lib (unat ty) @ '':'' @
         dec (unat inst) @ '')\",'',
       ''\"'' @ PROP_PROPERTY_LIST_name lib @ ''\": ['', ''\"property-list-size\": 0}'']"
  using assms(2)
  by (auto simp: cmd_list_def print_lists_def over_list_def property_count_def Let_def case_prod_beta assms(1,3)
      size_line_def object_head_def dec_int_def dec.simps [of 0] dec_digit_def)

text \<open>The instance that is given for a device is not looked at.\<close>

lemma device_instance_ignored:
  "object_type_strtol lib ty = Some OBJECT_DEVICE \<Longrightarrow>
   bacnet_shell_object_type_instance_parse lib [name, ty, inst] c =
     (0, 8, Device_Object_Instance_Number lib (world c), snd (query (Device_Object_Instance_Number lib) c))"
  by (simp add: bacnet_shell_object_type_instance_parse_def OBJECT_DEVICE_def UINT16_MAX_def Let_def case_prod_beta)

text \<open>The largest object type of the message is refused, and an instance above the largest is taken.\<close>

lemma object_range_as_parsed:
  "object_type_strtol lib ty = Some 65535 \<Longrightarrow> fst (bacnet_shell_object_type_instance_parse lib [name, ty, i] c) = - EINVAL"
  "object_type_strtol lib ty = Some 1 \<Longrightarrow> string_to_uint32 lib i = Some inst \<Longrightarrow>
   bacnet_shell_object_type_instance_parse lib [name, ty, i] c = (0, 1, inst, c)"
  by (simp_all add: bacnet_shell_object_type_instance_parse_def OBJECT_DEVICE_def UINT16_MAX_def)

section \<open>What is written\<close>

text \<open>Reading a property leaves the device alone and does not change what was asked for.\<close>

definition reads_leave_alone :: "('v, 'w, 'z) property_lib_scheme \<Rightarrow> bool" where
  "reads_leave_alone lib \<longleftrightarrow>
     (\<forall>rp w. case Device_Read_Property lib rp w of (n, rp', w') \<Rightarrow>
        w' = w \<and> rp_object_type rp' = rp_object_type rp \<and> rp_object_instance rp' = rp_object_instance rp \<and>
        rp_object_property rp' = rp_object_property rp \<and>
        length (rp_application_data rp') = length (rp_application_data rp))"

text \<open>The encoder returns the number of bytes it writes.\<close>

definition encoder_counts :: "('v, 'w, 'z) property_lib_scheme \<Rightarrow> bool" where
  "encoder_counts lib \<longleftrightarrow>
     (\<forall>v. fst (bacapp_encode_data lib v) = int (length (snd (bacapp_encode_data lib v))))"

text \<open>A request for one object and one property.\<close>

definition same_request :: "read_data \<Rightarrow> read_data \<Rightarrow> bool" where
  "same_request rp rp' \<longleftrightarrow> rp_object_type rp' = rp_object_type rp \<and> rp_object_instance rp' = rp_object_instance rp \<and>
     rp_object_property rp' = rp_object_property rp \<and>
     length (rp_application_data rp') = length (rp_application_data rp)"

lemma read_property_alone:
  "reads_leave_alone lib \<Longrightarrow> read_property lib rp c = (n, rp', c') \<Longrightarrow> world c' = world c \<and> same_request rp rp'"
  unfolding reads_leave_alone_def same_request_def
  by (drule spec [of _ rp], drule spec [of _ "world c"]) (auto simp: read_property_def access_def Let_def split: prod.splits)

lemma read_value_alone:
  assumes "reads_leave_alone lib" "read_value lib rp writing c = (n, rp', c')"
  shows "world c' = world c \<and> same_request rp rp'"
  using assms(2) read_property_alone [OF assms(1)]
  by (fastforce simp: read_value_def same_request_def split: prod.splits if_splits)

text \<open>
  A write that the command may ask for: this object, property and index, no priority or one between 1
  and 16 for a commandable property, and as data the encoding of the value the text stands for.
\<close>

definition write_ok ::
    "('v, 'w, 'z) property_lib_scheme \<Rightarrow> u16 \<Rightarrow> u32 \<Rightarrow> u32 \<Rightarrow> u32 \<Rightarrow> string \<Rightarrow> string option \<Rightarrow> write_data \<Rightarrow> bool" where
  "write_ok lib ty inst property index s tag_string wp \<longleftrightarrow>
     wr_object_type wp = ty \<and> wr_object_instance wp = inst \<and> wr_object_property wp = property \<and>
     wr_array_index wp = index \<and> unat (wr_priority wp) \<le> 16 \<and>
     (wr_priority wp \<noteq> 0 \<longrightarrow> property_list_commandable_member lib ty property \<and> CHR ''@'' \<in> set s) \<and>
     (\<exists>v v'. let (prio, text, null_value) = write_text lib ty property s
        in parse_value lib ty property text tag_string null_value v = (True, v') \<and>
           wr_application_data wp = take (MAX_WRITE_DATA lib) (snd (bacapp_encode_data lib v')) \<and>
           length (wr_application_data wp) \<le> CONFIG_BACNET_MAX_APDU_SIZE lib)"

lemma priority_suffix_range:
  assumes "priority_suffix lc s = (prio, text)"
  shows "0 \<le> prio" "prio \<le> 16" "prio \<noteq> 0 \<Longrightarrow> CHR ''@'' \<in> set s"
proof -
  show "0 \<le> prio" "prio \<le> 16"
    using assms by (auto simp: priority_suffix_def priority_defs Let_def split: list.splits if_splits)
  show "CHR ''@'' \<in> set s" if "prio \<noteq> 0"
  proof (rule ccontr)
    assume "CHR ''@'' \<notin> set s"
    then have "dropWhile (\<lambda>ch. ch \<noteq> CHR ''@'') s = []" by (auto simp: dropWhile_eq_Nil_conv)
    then have "priority_suffix lc s = (BACNET_NO_PRIORITY_int, s)" by (simp only: priority_suffix_def list.case)
    then show False using assms that by (simp add: BACNET_NO_PRIORITY_int_def)
  qed
qed

lemma write_value_world:
  assumes run: "write_value lib rp ty property index s tag_string v c = Some c'"
    and rp: "rp_object_type rp = ty" "rp_object_instance rp = inst" "rp_object_property rp = property"
    and enc: "encoder_counts lib"
  shows "world c' = world c \<or>
    (\<exists>wp. write_ok lib ty inst property index s tag_string wp \<and>
       world c' = snd (snd (Device_Write_Property lib wp (world c))))"
proof -
  obtain prio body null_value where wt: "write_text lib ty property s = (prio, body, null_value)"
    by (metis prod.exhaust)
  obtain status v' where pv: "parse_value lib ty property body tag_string null_value v = (status, v')" by force
  obtain n bs where e: "bacapp_encode_data lib v' = (n, bs)" by force
  have n: "n = int (length bs)" using enc unfolding encoder_counts_def by (metis e fst_conv snd_conv)
  let ?wp = "write_request lib rp index prio n bs"
  show ?thesis
  proof (cases "status \<and> 0 < n \<and> length bs \<le> CONFIG_BACNET_MAX_APDU_SIZE lib")
    case False
    then have "world c' = world c"
      using run by (auto simp: write_value_def wt pv e n Let_def shell_print_def cmd_json_print_key_error_def
          cmd_json_print_property_value_tag_def split: if_splits)
    then show ?thesis ..
  next
    case True
    have prio: "0 \<le> prio" "prio \<le> 16"
      "prio \<noteq> 0 \<Longrightarrow> property_list_commandable_member lib ty property \<and> CHR ''@'' \<in> set s"
      using wt priority_suffix_range [of "prop_libc lib" s]
      by (auto simp: write_text_def BACNET_NO_PRIORITY_int_def Let_def split: if_splits prod.splits)
    have word: "unat (of_int prio :: u8) = nat prio"
      using prio(1,2) by (simp add: unat_eq_nat_uint uint_word_of_int_eq take_bit_int_eq_self)
    have fields: "wr_object_type ?wp = ty" "wr_object_instance ?wp = inst" "wr_object_property ?wp = property"
      "wr_array_index ?wp = index" "wr_priority ?wp = of_int prio"
      using rp by (simp_all add: write_request_def bacnet_shell_write_property_parameter_init_def)
    have "nat (min n (int (MAX_WRITE_DATA lib))) = min (length bs) (MAX_WRITE_DATA lib)"
      by (simp add: n flip: of_nat_min)
    then have data: "wr_application_data ?wp = take (MAX_WRITE_DATA lib) bs"
      by (simp add: write_request_def min_def)
    have "\<exists>v v'. parse_value lib ty property body tag_string null_value v = (True, v') \<and>
        wr_application_data ?wp = take (MAX_WRITE_DATA lib) (snd (bacapp_encode_data lib v')) \<and>
        length (wr_application_data ?wp) \<le> CONFIG_BACNET_MAX_APDU_SIZE lib"
      using True pv e data by (intro exI [of _ v] exI [of _ v']) auto
    moreover have "of_int prio \<noteq> (0 :: u8) \<Longrightarrow> prio \<noteq> 0" by auto
    ultimately have "write_ok lib ty inst property index s tag_string ?wp"
      using prio word unfolding write_ok_def by (simp add: fields wt)
    moreover have "world c' = snd (snd (Device_Write_Property lib ?wp (world c)))"
      using run True
      by (auto simp: write_value_def wt pv e Let_def write_property_def access_def shell_print_def
          cmd_json_print_key_error_def cmd_json_print_property_value_tag_def split: if_splits prod.splits)
    ultimately show ?thesis by blast
  qed
qed

lemma property_value_world:
  assumes laws: "reads_leave_alone lib" "encoder_counts lib"
    and run: "cmd_property_value lib ty inst property index value_string tag_string c = Some (rc, c')"
  shows "world c' = world c \<or>
    (\<exists>s wp. value_string = Some s \<and> write_ok lib ty inst property index s tag_string wp \<and>
       world c' = snd (snd (Device_Write_Property lib wp (world c))))"
proof -
  let ?rp = "read_request lib ty inst property index"
  have rp: "rp_object_type rp = ty \<and> rp_object_instance rp = inst \<and> rp_object_property rp = property"
    if "same_request ?rp rp" for rp
    using that by (simp add: same_request_def read_request_def)
  obtain apdu_len :: int and rp v c1 where first: "world c1 = world c" "same_request ?rp rp"
    and rest: "(case value_string of
                None \<Rightarrow> Some (0, c1)
              | Some s \<Rightarrow>
                  if apdu_len < 0 \<and> tag_string = None then Some (- EINVAL, c1)
                  else map_option (Pair 0) (write_value lib rp ty property index s tag_string v c1)) = Some (rc, c')"
    using run
  proof (cases tag_string)
    case None
    obtain n rp c0 where rv: "read_value lib ?rp (value_string \<noteq> None) c = (n, rp, c0)" by (metis prod.exhaust)
    have c0: "world c0 = world c" "same_request ?rp rp" using read_value_alone [OF laws(1) rv] by simp_all
    show ?thesis
    proof (cases "cmd_value_print lib rp (value_list_init lib zero_value) n (value_string \<noteq> None) [] c0")
      case (Some r)
      obtain v c1 where r: "r = (v, c1)" by force
      have "world c1 = world c" using value_print_quiet [OF Some [unfolded r]] c0 by (simp add: quiet_def)
      then show ?thesis
        using run that [of c1 rp n v] rv Some c0 unfolding None by (simp add: cmd_property_value_def Let_def r)
    qed (use run None rv in \<open>simp add: cmd_property_value_def Let_def\<close>)
  next
    case (Some t)
    then show ?thesis using run that [of c ?rp 0 "value_list_init lib zero_value"] unfolding Some
      by (simp add: cmd_property_value_def same_request_def Let_def)
  qed
  show ?thesis
  proof (cases value_string)
    case None
    then show ?thesis using rest first by simp
  next
    case (Some s)
    then show ?thesis
      using rest first rp [OF first(2)] write_value_world [OF _ _ _ _ laws(2), of rp ty property index s tag_string v c1 c' inst]
      by (auto split: if_splits)
  qed
qed

lemma each_property_keeps:
  assumes "\<And>property s s'. P s \<Longrightarrow> f property s = Some s' \<Longrightarrow> P s'"
  shows "P s \<Longrightarrow> each_property f props s = Some s' \<Longrightarrow> P s'"
proof (induction props arbitrary: s)
  case (Cons property props)
  then obtain t where "f property s = Some t" "each_property f props t = Some s'" by (auto split: option.splits)
  then show ?case using Cons assms by blast
qed simp

lemma over_list_keeps:
  assumes "\<And>property s s'. P s \<Longrightarrow> f property s = Some s' \<Longrightarrow> P s'"
    and "\<And>t. s = Some t \<Longrightarrow> P t" "over_list f l s = Some s'"
  shows "P s'"
proof -
  obtain t props where t: "s = Some t" "each_property f props t = Some s'"
    using assms(3) by (auto simp: over_list_def split: option.splits)
  show ?thesis
    by (rule each_property_keeps [where P = P and f = f, OF _ assms(2) [OF t(1)] t(2)]) (rule assms(1))
qed

lemma print_property_world:
  assumes "reads_leave_alone lib" "print_property lib count property s = Some s'"
  shows "world (snd s') = world (snd s)"
  using assms(2)
  by (auto simp: print_property_def Let_def quiet_def split: prod.splits option.splits if_splits
      dest!: value_print_quiet read_property_alone [OF assms(1)])

lemma print_all_world:
  assumes "reads_leave_alone lib" "cmd_print_value_all lib rp c = Some c'"
  shows "world c' = world c"
proof -
  let ?P = "\<lambda>s. world (snd s) = world c"
  note one = print_property_world [OF assms(1)]
  have lines: "world (object_head lib ty inst c0) = world c0" "world (size_line k c0) = world c0" for ty inst k c0
    by (simp_all add: object_head_def size_line_def shell_print_def)
  have step: "?P s'" if "over_list (print_property lib k) l s = Some s'" "\<And>t. s = Some t \<Longrightarrow> ?P t" for k l s s'
    by (rule over_list_keeps [where P = ?P and f = "print_property lib k", OF _ that(2,1)]) (auto dest: one)
  have all: "?P s'"
    if "over_list (print_property lib k) l3 (over_list (print_property lib k) l2
          (over_list (print_property lib k) l1 (Some s))) = Some s'" "?P s" for k l1 l2 l3 s s'
  proof (rule step [OF that(1)])
    fix t2 assume t2: "over_list (print_property lib k) l2 (over_list (print_property lib k) l1 (Some s)) = Some t2"
    show "?P t2"
    proof (rule step [OF t2])
      fix t1 assume "over_list (print_property lib k) l1 (Some s) = Some t1"
      then show "?P t1" by (rule step) (use that(2) in simp)
    qed
  qed
  show ?thesis
    using assms(2) all
    by (auto simp: cmd_print_value_all_def print_lists_def Let_def case_prod_beta lines split: option.splits)
qed

text \<open>
  C33. The command \<open>value\<close> changes the device by at most one write: only when a value was given, of the
  object, property and index that were parsed, with the encoding of the value as the data, and with a
  priority between 1 and 16 only where an \<open>@\<close> asks for one of a commandable property. Every other
  way through the command leaves the device alone.
\<close>

theorem value_command_safety:
  assumes "reads_leave_alone lib" "encoder_counts lib" and "cmd_value lib argv c = Some (rc, c')"
  shows "world c' = world c \<or>
    (\<exists>ty inst property index c1 wp. 4 < length argv \<and>
       bacnet_shell_property_parse lib argv c = (0, ty, inst, property, index, c1) \<and>
       write_ok lib ty inst property index (argv ! 4) (if 5 < length argv then Some (argv ! 5) else None) wp \<and>
       world c' = snd (snd (Device_Write_Property lib wp (world c))))"
proof (cases "3 < length argv")
  case True
  obtain err ty inst property index c1 where p:
    "bacnet_shell_property_parse lib argv c = (err, ty, inst, property, index, c1)" by (metis prod.exhaust)
  have c1: "world c1 = world c" using parse_property_quiet [OF p] by (simp add: quiet_def)
  show ?thesis
  proof (cases "err = 0")
    case False
    then show ?thesis using assms(3) True c1 by (simp add: cmd_value_def p Let_def)
  next
    case ok: True
    have "cmd_property_value lib ty inst property index (if 4 < length argv then Some (argv ! 4) else None)
        (if 5 < length argv then Some (argv ! 5) else None) c1 = Some (rc, c')"
      using assms(3) True ok by (simp add: cmd_value_def p Let_def)
    from property_value_world [OF assms(1,2) this] show ?thesis
      using ok p by (auto simp: c1 split: if_splits)
  qed
next
  case False
  then show ?thesis
    using assms(3)
    by (auto simp: cmd_value_def Let_def quiet_def show_help_def shell_print_def split: prod.splits if_splits
        dest!: parse_object_quiet print_all_world [OF assms(1)])
qed

section \<open>Witnesses\<close>

text \<open>
  Values of one byte that is their encoding, and a device whose state is the data, the priority and
  the index of the last write. Object type 1 and property 85 have their numbers as names.
\<close>

definition byte_text :: "unit app_value \<Rightarrow> string" where
  "byte_text v = (case content v of Unsigned_Int n \<Rightarrow> dec (unat n) | _ \<Rightarrow> ''?'')"

definition small_properties :: "(unit, byte list \<times> u8 \<times> u32) property_lib" where
  "small_properties =
     \<lparr>prop_libc = \<lparr>ulong_max = 4294967295, scan_overflow = (\<lambda>v. v)\<rparr>, CONFIG_BACNET_MAX_APDU_SIZE = 4,
      MAX_WRITE_DATA = 4, MAX_BACNET_PROPERTY_ID = 0x3FFFFF, MAX_APDU = 4, sizeof_read_data = 1, sizeof_write_data = 1,
      sizeof_value = 1, sizeof_property_value = 1, property_help = ''help'', ERROR_CODE_INVALID_ARRAY_INDEX = 42,
      ERROR_CLASS_PROPERTY = 2, ERROR_CODE_UNEXPECTED_DATA = 3, ERROR_CODE_SUCCESS = 84,
      object_type_strtol = (\<lambda>s. if s = ''1'' then Some 1 else None), string_to_uint32 = (\<lambda>s. Some 7),
      property_strtol = (\<lambda>s. if s = ''present-value'' then Some 85 else None), application_tag_strtol = (\<lambda>s. None),
      enumerated_strtoul = (\<lambda>t p s. None), property_name_default = (\<lambda>n. if n = 85 then Some ''present-value'' else None),
      error_class_name_default = (\<lambda>n. None), error_code_name_default = (\<lambda>n. None), error_class_name = (\<lambda>n. ''class''),
      error_code_name = (\<lambda>n. ''code''), application_tag_name = (\<lambda>n. ''Unsigned''), object_type_name = (\<lambda>n. ''ao''),
      PROP_OBJECT_IDENTIFIER_name = ''object-identifier'', PROP_PROPERTY_LIST_name = ''property-list'',
      to_ascii = (\<lambda>n s. s), bacnet_ultoa = (\<lambda>v n. dec v), strnicmp_equal = (\<lambda>s t n. take n s = take n t),
      property_list_commandable_member = (\<lambda>t p. p = 85), bacapp_known_property_tag = (\<lambda>t p. 2),
      value_list_init = (\<lambda>v. v),
      bacapp_decode_known_array_property = (\<lambda>bs n v t p i. if n = 0 then (- 1, v) else
        (1, v\<lparr>tag := 2, content := Unsigned_Int (ucast (hd bs))\<rparr>)),
      bacapp_snprintf_value = (\<lambda>rp v. (int (length (byte_text v)), byte_text v)),
      bacapp_parse_application_data = (\<lambda>t s v. (True, v\<lparr>tag := 2, content := Unsigned_Int (of_nat (length s))\<rparr>)),
      bacapp_encode_data = (\<lambda>v. case content v of Unsigned_Int n \<Rightarrow> (1, [ucast n]) | _ \<Rightarrow> (0, [])),
      Device_Object_Instance_Number = (\<lambda>w. 260), Device_Read_Property = (\<lambda>rp w. (1, rp, w)),
      Device_Write_Property = (\<lambda>wp w. (True, wp, (wr_application_data wp, wr_priority wp, wr_array_index wp))),
      Device_Objects_Property_List = (\<lambda>t i w. (\<lparr>pList = Some [85], pcount = 1\<rparr>, \<lparr>pList = Some [], pcount = 0\<rparr>,
        \<lparr>pList = Some [], pcount = 0\<rparr>))\<rparr>"

definition property_console :: "(byte list \<times> u8 \<times> u32) console" where
  "property_console = \<lparr>lock_depth = 0, trace = [], world = ([], 0, 0)\<rparr>"

lemma small_properties_laws: "reads_leave_alone small_properties" "encoder_counts small_properties"
  by (simp_all add: small_properties_def reads_leave_alone_def encoder_counts_def split: app_union.split)

lemma property_values_printed_witness:
  "\<exists>c'. cmd_value_print small_properties (read_request small_properties 1 7 85 3)
      (zero_value \<lparr>tag := 2\<rparr>) 3 False [] property_console = Some (\<lparr>context_specific = False, tag = 2, content = Unsigned_Int 0\<rparr>, c') \<and>
    printed (trace c') = [''{\"present-value\": ['', ''0,'', ''0,'', ''0]'', ''}'']"
proof -
  let ?v = "\<lparr>context_specific = False, tag = 2, content = Unsigned_Int 0\<rparr> :: unit app_value"
  let ?rp = "read_request small_properties 1 7 85 3"
  have "buffer_values small_properties ?rp (rp_application_data ?rp) (nat 3) (zero_value\<lparr>tag := 2\<rparr>) [?v, ?v, ?v]"
    by code_simp
  moreover have "json_lines (property_text small_properties (rp_object_property ?rp))
      (map (value_text small_properties ?rp) [?v, ?v, ?v]) [] =
      [''{\"present-value\": ['', ''0,'', ''0,'', ''0]'', ''}'']"
    by code_simp
  moreover have "trace property_console = []" by (simp add: property_console_def)
  ultimately show ?thesis
    using property_values_printed [of small_properties ?rp 3 "zero_value\<lparr>tag := 2\<rparr>" "[?v, ?v, ?v]" "[]" property_console]
    by (simp del: buffer_values.simps)
qed

lemma small_write:
  "map_option (\<lambda>(rc, c). (rc, world c)) (cmd_value small_properties [''value'', ''1'', ''7'', ''85'', ''12345@8''] property_console) =
     Some (0, ([5], 8, 0xFFFFFFFF))"
  by code_simp

lemma value_command_safety_witness:
  "\<exists>ty inst property index wp. write_ok small_properties ty inst property index ''12345@8'' None wp \<and>
     ([5], 8, 0xFFFFFFFF) = (wr_application_data wp, wr_priority wp, wr_array_index wp)"
proof -
  obtain c' where run: "cmd_value small_properties [''value'', ''1'', ''7'', ''85'', ''12345@8''] property_console = Some (0, c')"
    "world c' = ([5], 8, 0xFFFFFFFF)"
    using small_write by (auto simp: map_option_eq_Some)
  have "snd (snd (Device_Write_Property small_properties wp w)) = (wr_application_data wp, wr_priority wp, wr_array_index wp)"
    for wp w by (simp add: small_properties_def)
  moreover have "world property_console = ([], 0, 0)" by (simp add: property_console_def)
  ultimately obtain ty inst property index wp where
    "write_ok small_properties ty inst property index ''12345@8'' None wp"
    "([5], 8, 0xFFFFFFFF) = (wr_application_data wp, wr_priority wp, wr_array_index wp)"
    using value_command_safety [OF small_properties_laws run(1)] by (auto simp: run(2))
  then show ?thesis by blast
qed

lemma property_list_printed_witness:
  "\<exists>c'. cmd_list small_properties [''list'', ''1'', ''7''] property_console = Some (0, c') \<and>
     printed (trace c') = [''{\"object-identifier\":\"(ao:7)\",'', ''\"property-list\": ['', ''\"present-value\"],'',
       ''\"property-list-size\": 1}'']"
proof -
  have parse: "bacnet_shell_object_type_instance_parse small_properties [''list'', ''1'', ''7''] property_console =
      (0, 1, 7, property_console)"
    by (simp add: bacnet_shell_object_type_instance_parse_def small_properties_def OBJECT_DEVICE_def UINT16_MAX_def)
  have entries: "[''\"present-value\"''] = map (named_entry small_properties) ([85] @ []) @ map (numbered_entry small_properties) []"
    by code_simp
  have lists: "Device_Objects_Property_List small_properties 1 7 (world property_console) =
      (\<lparr>pList = Some [85], pcount = of_nat (length [85 :: int])\<rparr>,
       \<lparr>pList = Some [], pcount = of_nat (length ([] :: int list))\<rparr>,
       \<lparr>pList = Some [], pcount = of_nat (length ([] :: int list))\<rparr>)"
    by (simp add: small_properties_def)
  have texts: "PROP_OBJECT_IDENTIFIER_name small_properties = ''object-identifier''"
    "PROP_PROPERTY_LIST_name small_properties = ''property-list''" "object_type_name small_properties (Suc 0) = ''ao''"
    "trace property_console = []" "dec 7 = ''7''" "dec_int 1 = ''1''"
    by (simp_all add: small_properties_def property_console_def dec_int_def dec.simps [of 7] dec.simps [of "Suc 0"]
        dec_digit_def)
  show ?thesis
    using property_list_printed [OF parse _ lists entries] by (simp add: texts)
qed

end
