(* ===== verification/Shell_Tree.thy ===== *)
theory Shell_Tree
  imports Settings_Shell File_Transfer Device_Shell Light_Shell Property_Shell
begin

text \<open>
  The tree of shell commands: the static tables in which the files of \<open>subsys/bacnet_shell\<close> and
  \<open>subsys/bacnet_settings\<close> register their handlers below the command \<open>bacnet\<close>
  (\<open>bacnet_shell.c\<close>), with the macros of \<open>bacnet_shell.h\<close>. The help texts are left out.
\<close>

section \<open>Entries\<close>

text \<open>
  The syntax of a command, its subcommands, its handler or NULL, and the numbers of mandatory and
  optional arguments; \<open>SHELL_CMD\<close> leaves both at zero, which Zephyr takes for any number.
\<close>

datatype 's shell_entry =
  Shell_Entry string "'s shell_entry list" "'s shell_handler option" nat nat

definition SHELL_CMD :: "string \<Rightarrow> 's shell_entry list \<Rightarrow> 's shell_handler option \<Rightarrow> 's shell_entry" where
  "SHELL_CMD syn subcmd handler = Shell_Entry syn subcmd handler 0 0"

definition SHELL_COND_CMD ::
    "bool \<Rightarrow> string \<Rightarrow> 's shell_entry list \<Rightarrow> 's shell_handler option \<Rightarrow> 's shell_entry list" where
  "SHELL_COND_CMD flag syn subcmd handler = (if flag then [SHELL_CMD syn subcmd handler] else [])"

definition BACNET_SHELL_CMD :: "('s \<Rightarrow> 's) \<Rightarrow> string \<Rightarrow> 's shell_handler \<Rightarrow> 's shell_entry" where
  "BACNET_SHELL_CMD others syn handler = SHELL_CMD syn [] (Some (BACNET_SHELL_LOCK_HANDLER others handler))"

definition BACNET_SHELL_COND_CMD :: "bool \<Rightarrow> ('s \<Rightarrow> 's) \<Rightarrow> string \<Rightarrow> 's shell_handler \<Rightarrow> 's shell_entry list" where
  "BACNET_SHELL_COND_CMD flag others syn handler =
     SHELL_COND_CMD flag syn [] (Some (BACNET_SHELL_LOCK_HANDLER others handler))"

definition BACNET_SHELL_CMD_ADD :: "('s \<Rightarrow> 's) \<Rightarrow> string \<Rightarrow> 's shell_handler \<Rightarrow> nat \<Rightarrow> nat \<Rightarrow> 's shell_entry" where
  "BACNET_SHELL_CMD_ADD others syn handler mand opt =
     Shell_Entry syn [] (Some (BACNET_SHELL_LOCK_HANDLER others handler)) mand opt"

section \<open>Tables\<close>

text \<open>
  The two commands that list the stored values set the static callback of the storage; as commands
  they have a result and a console.
\<close>

definition listing :: "(string list \<Rightarrow> 's console \<Rightarrow> int \<times> 'r \<times> 's console) \<Rightarrow> 's shell_handler" where
  "listing f argv c = (case f argv c of (rc, _, c') \<Rightarrow> Some (rc, c'))"

definition sub_bacnet_storage_cmds ::
    "('s \<Rightarrow> 's) \<Rightarrow> target \<Rightarrow> (load_param, 's, 'a) settings_scheme \<Rightarrow> ('p, 's console, 'b) settings_scheme \<Rightarrow>
     (unit, 's console) restore \<Rightarrow> ('s, 'c) flash_scheme \<Rightarrow> 's shell_entry list" where
  "sub_bacnet_storage_cmds others tg st stc rst fl =
     [BACNET_SHELL_CMD others ''erase'' (storage_cmd_erase fl),
      BACNET_SHELL_CMD others ''list'' (listing (storage_cmd_list tg stc rst)),
      BACNET_SHELL_CMD others ''string'' (storage_cmd_string tg st),
      BACNET_SHELL_CMD others ''delete'' (storage_cmd_delete tg st)]"

definition sub_bacnet_settings_cmds ::
    "('s \<Rightarrow> 's) \<Rightarrow> target \<Rightarrow> (load_param, 's, 'a) settings_scheme \<Rightarrow> ('p, 's console, 'b) settings_scheme \<Rightarrow>
     (unit, 's console) restore \<Rightarrow> ('v, 'y) bacapp_text_scheme \<Rightarrow> 's shell_entry list" where
  "sub_bacnet_settings_cmds others tg st stc rst tx =
     [BACNET_SHELL_CMD others ''list'' (listing (settings_cmd_list tg stc rst)),
      BACNET_SHELL_CMD others ''value'' (settings_cmd_value tg st tx),
      BACNET_SHELL_CMD others ''delete'' (settings_cmd_delete tg st)]"

text \<open>Dump, export and decode are registered without the lock.\<close>

definition file_sub_cmd :: "('s \<Rightarrow> 's) \<Rightarrow> ('v, 's, 'z) file_lib_scheme \<Rightarrow> 's shell_entry list" where
  "file_sub_cmd others lib =
     [BACNET_SHELL_CMD others ''list'' (cmd_file_list lib),
      BACNET_SHELL_CMD others ''info'' (cmd_file_info lib),
      BACNET_SHELL_CMD others ''config'' (cmd_file_config lib),
      BACNET_SHELL_CMD others ''read'' (cmd_file_read lib),
      BACNET_SHELL_CMD others ''write'' (cmd_file_write lib),
      SHELL_CMD ''dump'' [] (Some (cmd_file_dump lib others)),
      SHELL_CMD ''export'' [] (Some (cmd_file_export lib others)),
      BACNET_SHELL_CMD others ''import'' (cmd_file_import lib),
      SHELL_CMD ''decode'' [] (Some (cmd_file_decode lib others))]"

text \<open>\<open>flag\<close> is \<open>CONFIG_BACNET_BASIC_OBJECT_LIGHTING_OUTPUT\<close>.\<close>

definition lighting_output_step_sub_cmd :: "bool \<Rightarrow> ('s \<Rightarrow> 's) \<Rightarrow> ('f, 's, 'z) light_lib_scheme \<Rightarrow> 's shell_entry list" where
  "lighting_output_step_sub_cmd flag others lib = concat
     [BACNET_SHELL_COND_CMD flag others ''up'' (cmd_lighting_output_step_up lib),
      BACNET_SHELL_COND_CMD flag others ''down'' (cmd_lighting_output_step_down lib),
      BACNET_SHELL_COND_CMD flag others ''on'' (cmd_lighting_output_step_on lib),
      BACNET_SHELL_COND_CMD flag others ''off'' (cmd_lighting_output_step_off lib)]"

definition lighting_output_blink_sub_cmd :: "bool \<Rightarrow> ('s \<Rightarrow> 's) \<Rightarrow> ('f, 's, 'z) light_lib_scheme \<Rightarrow> 's shell_entry list" where
  "lighting_output_blink_sub_cmd flag others lib = concat
     [BACNET_SHELL_COND_CMD flag others ''warn'' (cmd_lighting_output_blink_warn lib),
      BACNET_SHELL_COND_CMD flag others ''warn_off'' (cmd_lighting_output_blink_warn_off lib),
      BACNET_SHELL_COND_CMD flag others ''warn_relinquish'' (cmd_lighting_output_blink_warn_relinquish lib)]"

definition lighting_output_sub_cmd :: "bool \<Rightarrow> ('s \<Rightarrow> 's) \<Rightarrow> ('f, 's, 'z) light_lib_scheme \<Rightarrow> 's shell_entry list" where
  "lighting_output_sub_cmd flag others lib = concat
     [BACNET_SHELL_COND_CMD flag others ''list'' (cmd_lighting_output_list lib),
      BACNET_SHELL_COND_CMD flag others ''get'' (cmd_lighting_output_value_get lib),
      BACNET_SHELL_COND_CMD flag others ''set'' (cmd_lighting_output_value_set lib),
      BACNET_SHELL_COND_CMD flag others ''relinquish'' (cmd_lighting_output_value_relinquish lib),
      BACNET_SHELL_COND_CMD flag others ''fade'' (cmd_lighting_output_fade lib),
      BACNET_SHELL_COND_CMD flag others ''ramp'' (cmd_lighting_output_ramp lib),
      BACNET_SHELL_COND_CMD flag others ''stop'' (cmd_lighting_output_stop lib),
      SHELL_COND_CMD flag ''step'' (lighting_output_step_sub_cmd flag others lib) None,
      SHELL_COND_CMD flag ''blink'' (lighting_output_blink_sub_cmd flag others lib) None,
      BACNET_SHELL_COND_CMD flag others ''override'' (cmd_lighting_output_override lib),
      BACNET_SHELL_COND_CMD flag others ''track'' (cmd_lighting_output_track lib)]"

definition object_sub_cmd :: "('s \<Rightarrow> 's) \<Rightarrow> ('p, 'd, 't, 's, 'z) device_lib_scheme \<Rightarrow> 's shell_entry list" where
  "object_sub_cmd others lib =
     [BACNET_SHELL_CMD others ''list'' (cmd_object_list lib),
      BACNET_SHELL_CMD others ''create'' (cmd_object_create lib),
      BACNET_SHELL_CMD others ''delete'' (cmd_object_delete lib)]"

definition sub_bacnet_property_cmds :: "('s \<Rightarrow> 's) \<Rightarrow> ('v, 's, 'z) property_lib_scheme \<Rightarrow> 's shell_entry list" where
  "sub_bacnet_property_cmds others lib =
     [BACNET_SHELL_CMD others ''list'' (cmd_list lib),
      BACNET_SHELL_CMD others ''size'' (cmd_size lib),
      BACNET_SHELL_CMD others ''value'' (cmd_value lib)]"

text \<open>What the files add to the command \<open>bacnet\<close> with \<open>SHELL_SUBCMD_ADD\<close>.\<close>

definition storage_group ::
    "('s \<Rightarrow> 's) \<Rightarrow> target \<Rightarrow> (load_param, 's, 'a) settings_scheme \<Rightarrow> ('p, 's console, 'b) settings_scheme \<Rightarrow>
     (unit, 's console) restore \<Rightarrow> ('s, 'c) flash_scheme \<Rightarrow> 's shell_entry" where
  "storage_group others tg st stc rst fl = Shell_Entry ''storage'' (sub_bacnet_storage_cmds others tg st stc rst fl) None 1 0"

definition settings_group ::
    "('s \<Rightarrow> 's) \<Rightarrow> target \<Rightarrow> (load_param, 's, 'a) settings_scheme \<Rightarrow> ('p, 's console, 'b) settings_scheme \<Rightarrow>
     (unit, 's console) restore \<Rightarrow> ('v, 'y) bacapp_text_scheme \<Rightarrow> 's shell_entry" where
  "settings_group others tg st stc rst tx = Shell_Entry ''settings'' (sub_bacnet_settings_cmds others tg st stc rst tx) None 1 0"

definition file_group ::
    "('s \<Rightarrow> 's) \<Rightarrow> ('v, 's, 'z) file_lib_scheme \<Rightarrow> 's shell_entry" where
  "file_group others lib = Shell_Entry ''file'' (file_sub_cmd others lib) None 1 0"

definition light_group ::
    "bool \<Rightarrow> ('s \<Rightarrow> 's) \<Rightarrow> ('f, 's, 'z) light_lib_scheme \<Rightarrow> 's shell_entry" where
  "light_group flag others lib = Shell_Entry ''light'' (lighting_output_sub_cmd flag others lib) None 1 0"

definition object_group ::
    "('s \<Rightarrow> 's) \<Rightarrow> ('p, 'd, 't, 's, 'z) device_lib_scheme \<Rightarrow> 's shell_entry" where
  "object_group others lib = Shell_Entry ''object'' (object_sub_cmd others lib) None 1 0"

definition property_group ::
    "('s \<Rightarrow> 's) \<Rightarrow> ('v, 's, 'z) property_lib_scheme \<Rightarrow> 's shell_entry" where
  "property_group others lib = Shell_Entry ''property'' (sub_bacnet_property_cmds others lib) None 1 0"

definition time_cmd :: "('s \<Rightarrow> 's) \<Rightarrow> ('p, 'd, 't, 's, 'z) device_lib_scheme \<Rightarrow> 's shell_entry" where
  "time_cmd others lib = BACNET_SHELL_CMD_ADD others ''time'' (cmd_date_time lib) 1 2"

definition packets_cmd :: "('s \<Rightarrow> 's) \<Rightarrow> ('p, 'd, 't, 's, 'z) device_lib_scheme \<Rightarrow> 's shell_entry" where
  "packets_cmd others lib = BACNET_SHELL_CMD_ADD others ''packets'' (cmd_packets lib) 1 0"

definition reinit_cmd :: "('s \<Rightarrow> 's) \<Rightarrow> ('p, 'd, 't, 's, 'z) device_lib_scheme \<Rightarrow> 's shell_entry" where
  "reinit_cmd others lib = BACNET_SHELL_CMD_ADD others ''reinit'' (cmd_reinit lib) 0 0"

definition uptime_cmd :: "('s \<Rightarrow> 's) \<Rightarrow> ('p, 'd, 't, 's, 'z) device_lib_scheme \<Rightarrow> 's shell_entry" where
  "uptime_cmd others lib = BACNET_SHELL_CMD_ADD others ''uptime'' (cmd_uptime lib) 1 0"

text \<open>The set of subcommands of \<open>bacnet\<close>, to which the files add theirs.\<close>

definition sub_bacnet_cmds ::
    "bool \<Rightarrow> ('s \<Rightarrow> 's) \<Rightarrow> target \<Rightarrow> (load_param, 's, 'a) settings_scheme \<Rightarrow> ('p, 's console, 'b) settings_scheme \<Rightarrow>
     (unit, 's console) restore \<Rightarrow> ('s, 'c) flash_scheme \<Rightarrow> ('v, 'y) bacapp_text_scheme \<Rightarrow>
     ('v1, 's, 'z1) file_lib_scheme \<Rightarrow> ('f, 's, 'z2) light_lib_scheme \<Rightarrow> ('p1, 'd, 't, 's, 'z3) device_lib_scheme \<Rightarrow>
     ('v2, 's, 'z4) property_lib_scheme \<Rightarrow> 's shell_entry list" where
  "sub_bacnet_cmds flag others tg st stc rst fl tx files lo dev pr =
     [storage_group others tg st stc rst fl, settings_group others tg st stc rst tx, file_group others files,
      light_group flag others lo, object_group others dev, property_group others pr,
      time_cmd others dev, packets_cmd others dev, reinit_cmd others dev, uptime_cmd others dev]"

section \<open>What is registered\<close>

text \<open>The handlers of a table with the words that lead to them.\<close>

fun registered :: "'s shell_entry \<Rightarrow> (string list \<times> 's shell_handler) list" where
  "registered (Shell_Entry syn subcmd handler mand opt) =
     (case handler of None \<Rightarrow> [] | Some h \<Rightarrow> [([syn], h)]) @
     map (\<lambda>(path, h). (syn # path, h)) (concat (map registered subcmd))"

definition commands :: "'s shell_entry list \<Rightarrow> (string list \<times> 's shell_handler) list" where
  "commands es = concat (map registered es)"

definition unlocked_paths :: "string list list" where
  "unlocked_paths = [[''file'', ''dump''], [''file'', ''export''], [''file'', ''decode'']]"

text \<open>
  \<open>holds_lock P d h\<close>: a run of the handler from a console with \<open>P\<close> gives back the lock it takes, and
  everything it does happens at least \<open>d\<close> levels deeper than the call.
\<close>

definition holds_lock :: "('s console \<Rightarrow> bool) \<Rightarrow> nat \<Rightarrow> 's shell_handler \<Rightarrow> bool" where
  "holds_lock P d h \<longleftrightarrow>
     (\<forall>argv c rc c'. P c \<longrightarrow> h argv c = Some (rc, c') \<longrightarrow> extends (lock_depth c + d) c c')"

lemma holds_lock_wrapped:
  assumes "\<And>argv c rc c'. P c \<Longrightarrow> h argv (bacnet_lock others c) = Some (rc, c') \<Longrightarrow>
      extends (lock_depth (bacnet_lock others c)) (bacnet_lock others c) c'"
  shows "holds_lock P 1 (BACNET_SHELL_LOCK_HANDLER others h)"
  unfolding holds_lock_def
proof (intro allI impI)
  fix argv c rc c'
  assume "P c" "BACNET_SHELL_LOCK_HANDLER others h argv c = Some (rc, c')"
  then obtain c1 where "h argv (bacnet_lock others c) = Some (rc, c1)" and c': "c' = bacnet_unlock c1"
    by (auto simp: BACNET_SHELL_LOCK_HANDLER_def split: option.splits)
  from assms [OF \<open>P c\<close> this(1)] show "extends (lock_depth c + 1) c c'"
    by (auto simp: extends_def c' bacnet_lock_def bacnet_unlock_def)
qed

lemma listing_extends:
  assumes "settings_laws stc good view" "good c"
  shows "listing (storage_cmd_list tg stc rst) argv c = Some (rc, c') \<Longrightarrow> extends (lock_depth c) c c'"
    and "listing (settings_cmd_list tg stc rst) argv c = Some (rc, c') \<Longrightarrow> extends (lock_depth c) c c'"
  using load_printing_extends [OF assms, of tg]
  by (auto simp: listing_def storage_cmd_list_def settings_cmd_list_def
      settings_print_storage_data_def list_callback Let_def case_prod_beta
      split: if_splits)

text \<open>All handlers that the macros wrap, and the three that are not wrapped.\<close>

lemma wrapped_storage:
  "holds_lock P 1 (BACNET_SHELL_LOCK_HANDLER others (storage_cmd_erase fl))"
  "holds_lock P 1 (BACNET_SHELL_LOCK_HANDLER others (storage_cmd_string tg st))"
  "holds_lock P 1 (BACNET_SHELL_LOCK_HANDLER others (storage_cmd_delete tg st))"
  using storage_commands_locked [of others tg st _ _ fl] unfolding holds_lock_def by simp_all

lemma wrapped_settings:
  "holds_lock P 1 (BACNET_SHELL_LOCK_HANDLER others (settings_cmd_value tg st tx))"
  "holds_lock P 1 (BACNET_SHELL_LOCK_HANDLER others (settings_cmd_delete tg st))"
  using settings_commands_locked [of others tg st tx] unfolding holds_lock_def by simp_all

lemma wrapped_files:
  "holds_lock P 1 (BACNET_SHELL_LOCK_HANDLER others (cmd_file_list files))"
  "holds_lock P 1 (BACNET_SHELL_LOCK_HANDLER others (cmd_file_info files))"
  "holds_lock P 1 (BACNET_SHELL_LOCK_HANDLER others (cmd_file_config files))"
  "holds_lock P 1 (BACNET_SHELL_LOCK_HANDLER others (cmd_file_read files))"
  "holds_lock P 1 (BACNET_SHELL_LOCK_HANDLER others (cmd_file_write files))"
  "holds_lock P 1 (BACNET_SHELL_LOCK_HANDLER others (cmd_file_import files))"
  using file_commands_locked [of files others] unfolding holds_lock_def by simp_all

lemma wrapped_device:
  "holds_lock P 1 (BACNET_SHELL_LOCK_HANDLER others (cmd_object_list dev))"
  "holds_lock P 1 (BACNET_SHELL_LOCK_HANDLER others (cmd_object_create dev))"
  "holds_lock P 1 (BACNET_SHELL_LOCK_HANDLER others (cmd_object_delete dev))"
  "holds_lock P 1 (BACNET_SHELL_LOCK_HANDLER others (cmd_reinit dev))"
  "holds_lock P 1 (BACNET_SHELL_LOCK_HANDLER others (cmd_date_time dev))"
  "holds_lock P 1 (BACNET_SHELL_LOCK_HANDLER others (cmd_packets dev))"
  "holds_lock P 1 (BACNET_SHELL_LOCK_HANDLER others (cmd_uptime dev))"
  using device_commands_locked [of dev others] unfolding holds_lock_def by simp_all

lemma wrapped_lights:
  "holds_lock P 1 (BACNET_SHELL_LOCK_HANDLER others (cmd_lighting_output_list lo))"
  "holds_lock P 1 (BACNET_SHELL_LOCK_HANDLER others (cmd_lighting_output_value_get lo))"
  "holds_lock P 1 (BACNET_SHELL_LOCK_HANDLER others (cmd_lighting_output_track lo))"
  "holds_lock P 1 (BACNET_SHELL_LOCK_HANDLER others (cmd_lighting_output_override lo))"
  "holds_lock P 1 (BACNET_SHELL_LOCK_HANDLER others (cmd_lighting_output_value_set lo))"
  "holds_lock P 1 (BACNET_SHELL_LOCK_HANDLER others (cmd_lighting_output_value_relinquish lo))"
  "holds_lock P 1 (BACNET_SHELL_LOCK_HANDLER others (cmd_lighting_output_fade lo))"
  "holds_lock P 1 (BACNET_SHELL_LOCK_HANDLER others (cmd_lighting_output_ramp lo))"
  "holds_lock P 1 (BACNET_SHELL_LOCK_HANDLER others (cmd_lighting_output_stop lo))"
  "holds_lock P 1 (BACNET_SHELL_LOCK_HANDLER others (cmd_lighting_output_step lo op))"
  "holds_lock P 1 (BACNET_SHELL_LOCK_HANDLER others (cmd_lighting_output_blink lo op))"
  using light_commands_locked [of lo op others] unfolding holds_lock_def by simp_all

lemma wrapped_properties:
  "holds_lock P 1 (BACNET_SHELL_LOCK_HANDLER others (cmd_list pr))"
  "holds_lock P 1 (BACNET_SHELL_LOCK_HANDLER others (cmd_size pr))"
  "holds_lock P 1 (BACNET_SHELL_LOCK_HANDLER others (cmd_value pr))"
  using property_commands_locked [of pr others] unfolding holds_lock_def by simp_all

lemma unwrapped_commands:
  "holds_lock P 0 (cmd_file_dump files others)" "holds_lock P 0 (cmd_file_export files others)"
  "holds_lock P 0 (cmd_file_decode files others)"
  using cmd_dump.handler_extends [of "(files, others)"] cmd_export.handler_extends [of "(files, others)"]
    cmd_decode.handler_extends [of "(files, others)"]
  by (auto simp: holds_lock_def)

text \<open>The listing commands need a settings subsystem that works on the console, before and after the wait.\<close>

lemma wrapped_listings:
  assumes "settings_laws stc good view" "\<And>c. good c \<Longrightarrow> good (bacnet_lock others c)"
  shows "holds_lock good 1 (BACNET_SHELL_LOCK_HANDLER others (listing (storage_cmd_list tg stc rst)))"
    and "holds_lock good 1 (BACNET_SHELL_LOCK_HANDLER others (listing (settings_cmd_list tg stc rst)))"
  by (rule holds_lock_wrapped, erule listing_extends [OF assms(1) assms(2), rotated], assumption)+

lemmas shell_macros = SHELL_CMD_def SHELL_COND_CMD_def BACNET_SHELL_CMD_def BACNET_SHELL_COND_CMD_def
  BACNET_SHELL_CMD_ADD_def

lemmas shell_tables = sub_bacnet_cmds_def storage_group_def settings_group_def file_group_def light_group_def
  object_group_def property_group_def sub_bacnet_storage_cmds_def sub_bacnet_settings_cmds_def file_sub_cmd_def
  lighting_output_sub_cmd_def lighting_output_step_sub_cmd_def lighting_output_blink_sub_cmd_def object_sub_cmd_def
  sub_bacnet_property_cmds_def time_cmd_def packets_cmd_def reinit_cmd_def uptime_cmd_def

definition tree_paths :: "bool \<Rightarrow> string list list" where
  "tree_paths flag =
     map (\<lambda>w. [''storage'', w]) [''erase'', ''list'', ''string'', ''delete''] @
     map (\<lambda>w. [''settings'', w]) [''list'', ''value'', ''delete''] @
     map (\<lambda>w. [''file'', w])
       [''list'', ''info'', ''config'', ''read'', ''write'', ''dump'', ''export'', ''import'', ''decode''] @
     (if flag then
        map (\<lambda>w. [''light'', w]) [''list'', ''get'', ''set'', ''relinquish'', ''fade'', ''ramp'', ''stop''] @
        map (\<lambda>w. [''light'', ''step'', w]) [''up'', ''down'', ''on'', ''off''] @
        map (\<lambda>w. [''light'', ''blink'', w]) [''warn'', ''warn_off'', ''warn_relinquish''] @
        map (\<lambda>w. [''light'', w]) [''override'', ''track'']
      else []) @
     map (\<lambda>w. [''object'', w]) [''list'', ''create'', ''delete''] @
     map (\<lambda>w. [''property'', w]) [''list'', ''size'', ''value''] @
     [[''time''], [''packets''], [''reinit''], [''uptime'']]"

lemma tree_paths_registered:
  "map fst (commands (sub_bacnet_cmds flag others tg st stc rst fl tx files lo dev pr)) = tree_paths flag"
  by (cases flag) (simp_all add: commands_def tree_paths_def shell_tables shell_macros)

lemma tree_handlers:
  assumes "settings_laws stc good view" "\<And>c. good c \<Longrightarrow> good (bacnet_lock others c)"
  shows "list_all (\<lambda>(path, h). holds_lock good (if path \<in> set unlocked_paths then 0 else 1) h)
    (commands (sub_bacnet_cmds flag others tg st stc rst fl tx files lo dev pr))"
proof -
  note wrapped = wrapped_listings [OF assms] wrapped_storage wrapped_settings wrapped_files wrapped_device
    wrapped_lights wrapped_properties unwrapped_commands
  show ?thesis
    by (cases flag)
      (simp_all add: commands_def shell_tables shell_macros unlocked_paths_def wrapped [unfolded One_nat_def]
        cmd_lighting_output_step_up_def cmd_lighting_output_step_down_def cmd_lighting_output_step_on_def
        cmd_lighting_output_step_off_def cmd_lighting_output_blink_warn_def cmd_lighting_output_blink_warn_off_def
        cmd_lighting_output_blink_warn_relinquish_def)
qed

end
