(* ===== verification/Reinit.thy ===== *)
theory Reinit
  imports Prelude
begin

text \<open>
  The ReinitializeDevice task (\<open>subsys/bacnet_osif/bacnet_reinit.c\<close>, with the clock of
  \<open>bacnet_mstimer.c\<close>): a task that is run again and again, restarts its timer while the device is
  idle, and reboots when a cold or warm start was requested and the timer has expired. The timer
  and the Device object belong to the BACnet stack. A reboot ends the run; it is the last action.
\<close>

datatype action =
    Coldstart_Callback
  | Log_Panic
  | Reboot_Cold
  | Reboot_Warm
  | Not_Supported   \<comment> \<open>the error message of a build without reboot\<close>

definition BACNET_REINIT_COLDSTART :: nat where "BACNET_REINIT_COLDSTART = 0"
definition BACNET_REINIT_WARMSTART :: nat where "BACNET_REINIT_WARMSTART = 1"
definition BACNET_REINIT_IDLE :: nat where "BACNET_REINIT_IDLE = 255"

lemmas reinit_states = BACNET_REINIT_COLDSTART_def BACNET_REINIT_WARMSTART_def BACNET_REINIT_IDLE_def

text \<open>
  The timer of type \<open>'t\<close> and the Device object of type \<open>'w\<close>. The functions of the timer take the
  time of \<open>mstimer_now\<close>. \<open>CONFIG_REBOOT\<close> is the build option.
\<close>

record ('t, 'w) reinit_lib =
  CONFIG_REBOOT :: bool
  mstimer_set :: "u32 \<Rightarrow> u32 \<Rightarrow> 't"
  mstimer_restart :: "'t \<Rightarrow> u32 \<Rightarrow> 't"
  mstimer_expired :: "'t \<Rightarrow> u32 \<Rightarrow> bool"
  Device_Reinitialized_State :: "'w \<Rightarrow> nat"
  Device_Reinitialize_State_Set :: "nat \<Rightarrow> 'w \<Rightarrow> 'w"

record ('t, 'w) reinit =
  uptime :: nat
  Reinitialize_Timer :: 't
  device :: 'w
  actions :: "action list"
  halted :: bool

text \<open>
  \<open>k_uptime_get_32\<close> is the uptime in milliseconds, cut off at 32 bits; the \<open>unsigned long\<close> that it is
  returned as is taken to have 32 bits, as on the 32-bit targets of the port. The wider type of a
  64-bit target would not wrap around together with the clock.
\<close>

definition mstimer_now :: "('t, 'w) reinit \<Rightarrow> u32" where
  "mstimer_now s = of_nat (uptime s)"

definition act :: "action \<Rightarrow> ('t, 'w) reinit \<Rightarrow> ('t, 'w) reinit" where
  "act a s = s\<lparr>actions := actions s @ [a]\<rparr>"

text \<open>The end of both cases: the reboot, or the way back to idle where reboots are not supported.\<close>

definition reboot_or_idle ::
    "('t, 'w, 'z) reinit_lib_scheme \<Rightarrow> action \<Rightarrow> ('t, 'w) reinit \<Rightarrow> ('t, 'w) reinit" where
  "reboot_or_idle lib reboot s =
     (if CONFIG_REBOOT lib
      then (act reboot (act Log_Panic (s\<lparr>Reinitialize_Timer := mstimer_set lib 0 (mstimer_now s)\<rparr>)))
             \<lparr>halted := True\<rparr>
      else act Not_Supported (s\<lparr>Reinitialize_Timer := mstimer_restart lib (Reinitialize_Timer s) (mstimer_now s),
             device := Device_Reinitialize_State_Set lib BACNET_REINIT_IDLE (device s)\<rparr>))"

definition bacnet_reinitialize_device_task ::
    "('t, 'w, 'z) reinit_lib_scheme \<Rightarrow> ('w \<Rightarrow> 'w) option \<Rightarrow> ('t, 'w) reinit \<Rightarrow> ('t, 'w) reinit" where
  "bacnet_reinitialize_device_task lib coldstart_callback s =
     (let state = Device_Reinitialized_State lib (device s);
          expired = mstimer_expired lib (Reinitialize_Timer s) (mstimer_now s)
      in if state = BACNET_REINIT_COLDSTART then
           (if expired
            then reboot_or_idle lib Reboot_Cold
                   (case coldstart_callback of
                      None \<Rightarrow> s
                    | Some f \<Rightarrow> act Coldstart_Callback (s\<lparr>device := f (device s)\<rparr>))
            else s)
         else if state = BACNET_REINIT_WARMSTART then
           (if expired then reboot_or_idle lib Reboot_Warm s else s)
         else if state = BACNET_REINIT_IDLE then
           s\<lparr>Reinitialize_Timer := mstimer_restart lib (Reinitialize_Timer s) (mstimer_now s)\<rparr>
         else s)"

definition bacnet_reinitialize_device_init ::
    "('t, 'w, 'z) reinit_lib_scheme \<Rightarrow> u32 \<Rightarrow> ('t, 'w) reinit \<Rightarrow> ('t, 'w) reinit" where
  "bacnet_reinitialize_device_init lib timeout_ms s =
     s\<lparr>Reinitialize_Timer := mstimer_set lib timeout_ms (mstimer_now s)\<rparr>"

section \<open>Runs\<close>

text \<open>
  The timer of the stack: \<open>start\<close> is when it was started, \<open>interval\<close> how long it runs. A timer of
  interval 0 is disabled. Differences of times wrap around at 32 bits.
\<close>

definition timer_laws ::
    "('t, 'w, 'z) reinit_lib_scheme \<Rightarrow> ('t \<Rightarrow> u32) \<Rightarrow> ('t \<Rightarrow> u32) \<Rightarrow> bool" where
  "timer_laws lib start interval \<longleftrightarrow>
     (\<forall>ms now. start (mstimer_set lib ms now) = now \<and> interval (mstimer_set lib ms now) = ms) \<and>
     (\<forall>t now. start (mstimer_restart lib t now) = now \<and> interval (mstimer_restart lib t now) = interval t) \<and>
     (\<forall>t now. mstimer_expired lib t now \<longleftrightarrow> interval t \<noteq> 0 \<and> interval t \<le> now - start t)"

text \<open>
  \<open>reinit_run lib cb ms s idle\<close>: after the initialisation with \<open>ms\<close> the system is in state \<open>s\<close>, and
  \<open>idle\<close> is the uptime at which the task last started to wait: when it last saw the device idle, or
  gave up a restart that is not supported. Time passes, other tasks do anything to the Device
  object, and the task runs as long as the system was not rebooted.
\<close>

definition waits_again :: "('t, 'w, 'z) reinit_lib_scheme \<Rightarrow> ('t, 'w) reinit \<Rightarrow> bool" where
  "waits_again lib s \<longleftrightarrow>
     Device_Reinitialized_State lib (device s) = BACNET_REINIT_IDLE \<or>
     \<not> CONFIG_REBOOT lib \<and> mstimer_expired lib (Reinitialize_Timer s) (mstimer_now s) \<and>
     Device_Reinitialized_State lib (device s) \<in> {BACNET_REINIT_COLDSTART, BACNET_REINIT_WARMSTART}"

inductive reinit_run ::
    "('t, 'w, 'z) reinit_lib_scheme \<Rightarrow> ('w \<Rightarrow> 'w) option \<Rightarrow> u32 \<Rightarrow> ('t, 'w) reinit \<Rightarrow> nat \<Rightarrow> bool"
  for lib cb ms where
  start: "actions s = [] \<Longrightarrow> \<not> halted s \<Longrightarrow>
     reinit_run lib cb ms (bacnet_reinitialize_device_init lib ms s) (uptime s)"
| elapse: "reinit_run lib cb ms s idle \<Longrightarrow> \<not> halted s \<Longrightarrow>
     reinit_run lib cb ms (s\<lparr>uptime := uptime s + d\<rparr>) idle"
| others: "reinit_run lib cb ms s idle \<Longrightarrow> \<not> halted s \<Longrightarrow>
     reinit_run lib cb ms (s\<lparr>device := w\<rparr>) idle"
| run_task: "reinit_run lib cb ms s idle \<Longrightarrow> \<not> halted s \<Longrightarrow>
     reinit_run lib cb ms (bacnet_reinitialize_device_task lib cb s)
       (if waits_again lib s then uptime s else idle)"

lemma timer_expired:
  "timer_laws lib start interval \<Longrightarrow>
   mstimer_expired lib t now \<longleftrightarrow> interval t \<noteq> 0 \<and> interval t \<le> now - start t"
  by (simp add: timer_laws_def)

lemma timer_started:
  assumes "timer_laws lib start interval"
  shows "start (mstimer_set lib ms now) = now" "interval (mstimer_set lib ms now) = ms"
    "start (mstimer_restart lib t now) = now" "interval (mstimer_restart lib t now) = interval t"
  using assms by (simp_all add: timer_laws_def)

text \<open>The invariant of runs: before a reboot the timer runs since \<open>idle\<close> with the given delay.\<close>

definition waiting ::
    "('t \<Rightarrow> u32) \<Rightarrow> ('t \<Rightarrow> u32) \<Rightarrow> u32 \<Rightarrow> ('t, 'w) reinit \<Rightarrow> nat \<Rightarrow> bool" where
  "waiting start interval ms s idle \<longleftrightarrow>
     idle \<le> uptime s \<and>
     (\<not> halted s \<longrightarrow> start (Reinitialize_Timer s) = of_nat idle \<and> interval (Reinitialize_Timer s) = ms)"

lemma waited_long_enough:
  assumes "ms \<le> of_nat now - of_nat idle" "idle \<le> now"
  shows "unat (ms :: u32) \<le> now - idle"
proof -
  have "of_nat now - of_nat idle = (of_nat (now - idle) :: u32)" using assms(2) by simp
  then have "unat ms \<le> unat (of_nat (now - idle) :: u32)" using assms(1) by (simp add: word_le_nat_alt)
  also have "\<dots> \<le> now - idle" by (simp add: unat_of_nat)
  finally show ?thesis .
qed

lemma reboot_or_idle_fields [simp]:
  "uptime (reboot_or_idle lib r s) = uptime s"
  "halted (reboot_or_idle lib r s) \<longleftrightarrow> CONFIG_REBOOT lib \<or> halted s"
  by (simp_all add: reboot_or_idle_def act_def)

lemma task_uptime [simp]: "uptime (bacnet_reinitialize_device_task lib cb s) = uptime s"
  by (auto simp: bacnet_reinitialize_device_task_def act_def Let_def split: option.split)

lemma run_waiting:
  assumes "timer_laws lib start interval"
  shows "reinit_run lib cb ms s idle \<Longrightarrow> waiting start interval ms s idle"
proof (induction rule: reinit_run.induct)
  case (run_task s idle)
  then show ?case
    by (auto simp: waiting_def bacnet_reinitialize_device_task_def Let_def reboot_or_idle_def act_def
        waits_again_def timer_started [OF assms] mstimer_now_def reinit_states
        split: option.splits if_splits)
qed (simp_all add: waiting_def bacnet_reinitialize_device_init_def timer_started [OF assms] mstimer_now_def)

section \<open>Reboots\<close>

definition reboots :: "action set" where
  "reboots = {Reboot_Cold, Reboot_Warm}"

text \<open>After a reboot nothing happens; before it there was none, and the delay has passed.\<close>

definition rebooted_late :: "('t, 'w, 'z) reinit_lib_scheme \<Rightarrow> u32 \<Rightarrow> ('t, 'w) reinit \<Rightarrow> nat \<Rightarrow> bool" where
  "rebooted_late lib ms s idle \<longleftrightarrow>
     (if halted s
      then CONFIG_REBOOT lib \<and> 0 < unat ms \<and> unat ms \<le> uptime s - idle \<and>
        (\<exists>before r. actions s = before @ [Log_Panic, r] \<and> r \<in> reboots \<and> set before \<inter> reboots = {})
      else set (actions s) \<inter> reboots = {})"

lemma expired_late:
  assumes "timer_laws lib start interval" "waiting start interval ms s idle" "\<not> halted s"
    "mstimer_expired lib (Reinitialize_Timer s) (mstimer_now s)"
  shows "0 < unat ms \<and> unat ms \<le> uptime s - idle"
proof -
  have "ms \<noteq> 0" "ms \<le> of_nat (uptime s) - of_nat idle" "idle \<le> uptime s"
    using assms by (auto simp: timer_expired [OF assms(1)] waiting_def mstimer_now_def)
  then show ?thesis using waited_long_enough [of ms "uptime s" idle] by (simp add: unat_gt_0)
qed

lemma task_rebooted_late:
  assumes "timer_laws lib start interval" "waiting start interval ms s idle" "\<not> halted s"
    "rebooted_late lib ms s idle"
  shows "rebooted_late lib ms (bacnet_reinitialize_device_task lib cb s)
    (if waits_again lib s then uptime s else idle)"
  using assms(3,4) expired_late [OF assms(1-3)]
  by (auto simp: rebooted_late_def bacnet_reinitialize_device_task_def Let_def reboot_or_idle_def act_def
      waits_again_def reboots_def reinit_states split: option.splits)

lemma run_rebooted_late:
  assumes "timer_laws lib start interval"
  shows "reinit_run lib cb ms s idle \<Longrightarrow> rebooted_late lib ms s idle"
proof (induction rule: reinit_run.induct)
  case (run_task s idle)
  then show ?case
    by (intro task_rebooted_late [OF assms run_waiting [OF assms]])
qed (simp_all add: rebooted_late_def bacnet_reinitialize_device_init_def)

lemma task_reboots:
  assumes "timer_laws lib start interval" "waiting start interval ms s idle" "\<not> halted s"
    "ms \<noteq> 0" "unat ms \<le> uptime s - idle" "uptime s - idle < 2 ^ 32"
  shows "mstimer_expired lib (Reinitialize_Timer s) (mstimer_now s)"
proof -
  have t: "start (Reinitialize_Timer s) = of_nat idle" "interval (Reinitialize_Timer s) = ms" "idle \<le> uptime s"
    using assms(2,3) by (simp_all add: waiting_def)
  have diff: "mstimer_now s - of_nat idle = of_nat (uptime s - idle)" using t(3) by (simp add: mstimer_now_def)
  have "unat (of_nat (uptime s - idle) :: u32) = uptime s - idle" using assms(6) by (intro unat_of_nat_u32) simp
  then show ?thesis using assms(4,5) by (simp add: timer_expired [OF assms(1)] t(1,2) diff word_le_nat_alt)
qed

section \<open>Properties\<close>

text \<open>
  C9. With an \<open>unsigned long\<close> of 32 bits, the device reboots at most once and as the last thing it does, only in a build that supports
  it, and never before the configured delay has passed since the task last saw the device idle, so
  that the answer to the request can be sent; the 32-bit clock may wrap around as often as it likes.
\<close>

theorem reinit_waits_before_reboot:
  assumes "timer_laws lib start interval" and "reinit_run lib cb ms s idle"
  shows "if halted s
    then CONFIG_REBOOT lib \<and> 0 < unat ms \<and> unat ms \<le> uptime s - idle \<and>
      (\<exists>before r. actions s = before @ [Log_Panic, r] \<and> r \<in> {Reboot_Cold, Reboot_Warm} \<and>
         Reboot_Cold \<notin> set before \<and> Reboot_Warm \<notin> set before)
    else Reboot_Cold \<notin> set (actions s) \<and> Reboot_Warm \<notin> set (actions s)"
  using run_rebooted_late [OF assms] by (auto simp: rebooted_late_def reboots_def)

text \<open>
  C26. A requested restart happens: when the delay, which is not zero, has passed and the task runs
  within the period of the clock, a device with reboot support reboots, cold or warm as requested,
  after the callback of a cold start; a device without goes back to idle.
\<close>

theorem reinit_reboots:
  assumes "timer_laws lib start interval" and "reinit_run lib cb ms s idle" and "\<not> halted s"
    and "ms \<noteq> 0" and "unat ms \<le> uptime s - idle" and "uptime s - idle < 2 ^ 32"
    and "Device_Reinitialized_State lib (device s) = state"
    and "state \<in> {BACNET_REINIT_COLDSTART, BACNET_REINIT_WARMSTART}"
    and "\<forall>w. Device_Reinitialized_State lib (Device_Reinitialize_State_Set lib BACNET_REINIT_IDLE w) =
               BACNET_REINIT_IDLE"
  shows "let s' = bacnet_reinitialize_device_task lib cb s;
             callback = (if state = BACNET_REINIT_COLDSTART \<and> cb \<noteq> None then [Coldstart_Callback] else [])
         in if CONFIG_REBOOT lib
            then halted s' \<and> actions s' = actions s @ callback @
              [Log_Panic, if state = BACNET_REINIT_COLDSTART then Reboot_Cold else Reboot_Warm]
            else \<not> halted s' \<and> actions s' = actions s @ callback @ [Not_Supported] \<and>
              Device_Reinitialized_State lib (device s') = BACNET_REINIT_IDLE"
  using assms(3,7-9) task_reboots [OF assms(1) run_waiting [OF assms(1,2)] assms(3-6)]
  by (auto simp: bacnet_reinitialize_device_task_def Let_def reboot_or_idle_def act_def reinit_states)

section \<open>Witnesses\<close>

definition small_timer :: "(u32 \<times> u32, nat) reinit_lib" where
  "small_timer =
     \<lparr>CONFIG_REBOOT = True, mstimer_set = (\<lambda>ms now. (now, ms)), mstimer_restart = (\<lambda>t now. (now, snd t)),
      mstimer_expired = (\<lambda>t now. snd t \<noteq> 0 \<and> snd t \<le> now - fst t),
      Device_Reinitialized_State = (\<lambda>w. w), Device_Reinitialize_State_Set = (\<lambda>st w. st)\<rparr>"

lemma small_timer_laws: "timer_laws small_timer fst snd"
  by (simp add: timer_laws_def small_timer_def)

definition booted :: "(u32 \<times> u32, nat) reinit" where
  "booted = \<lparr>uptime = 4294967290, Reinitialize_Timer = (0, 0), device = 255, actions = [], halted = False\<rparr>"

text \<open>A cold start, requested 10 ms after the initialisation; the clock wraps around meanwhile.\<close>

definition requested :: "(u32 \<times> u32, nat) reinit" where
  "requested = (bacnet_reinitialize_device_init small_timer 10 booted)
     \<lparr>uptime := uptime (bacnet_reinitialize_device_init small_timer 10 booted) + 10, device := 0\<rparr>"

lemma requested_run: "reinit_run small_timer None 10 requested 4294967290"
proof -
  have "reinit_run small_timer None 10 (bacnet_reinitialize_device_init small_timer 10 booted) (uptime booted)"
    by (rule reinit_run.start) (simp_all add: booted_def)
  from reinit_run.others [OF reinit_run.elapse [OF this, of 10], of 0] show ?thesis
    by (simp add: requested_def booted_def bacnet_reinitialize_device_init_def)
qed

lemma reinit_reboots_witness:
  "halted (bacnet_reinitialize_device_task small_timer None requested) \<and>
   actions (bacnet_reinitialize_device_task small_timer None requested) = [Log_Panic, Reboot_Cold]"
  using reinit_reboots [OF small_timer_laws requested_run, of 0]
  by (simp add: requested_def booted_def bacnet_reinitialize_device_init_def small_timer_def reinit_states Let_def)

lemma reinit_waits_before_reboot_witness:
  "10 \<le> uptime (bacnet_reinitialize_device_task small_timer None requested) - 4294967290 \<and>
   (\<exists>before r. actions (bacnet_reinitialize_device_task small_timer None requested) = before @ [Log_Panic, r] \<and>
      Reboot_Cold \<notin> set before \<and> Reboot_Warm \<notin> set before)"
proof -
  let ?s = "bacnet_reinitialize_device_task small_timer None requested"
  have "\<not> halted requested" "\<not> waits_again small_timer requested" and halt: "halted ?s"
    by (simp_all add: requested_def booted_def bacnet_reinitialize_device_init_def waits_again_def
        bacnet_reinitialize_device_task_def reboot_or_idle_def act_def mstimer_now_def
        small_timer_def reinit_states Let_def)
  then have "reinit_run small_timer None 10 ?s 4294967290"
    using reinit_run.run_task [OF requested_run] by simp
  from reinit_waits_before_reboot [OF small_timer_laws this] halt show ?thesis by auto
qed

end
