(* ===== verification/Datalink.thy ===== *)
theory Datalink
  imports Libc
begin

unbundle bit_operations_syntax

text \<open>
  What the two datalinks share (\<open>subsys/bacnet_datalink/bip-init.c\<close> and \<open>bip6-init.c\<close>): byte order,
  the socket calls of Zephyr, the split of a timeout, and how a received packet is turned into the
  NPDU in its place.
\<close>

section \<open>Byte order\<close>

text \<open>Network byte order on a little-endian or big-endian target.\<close>

definition htons :: "bool \<Rightarrow> u16 \<Rightarrow> u16" where
  "htons little_endian w = (if little_endian then word_rotl 8 w else w)"

definition ntohs :: "bool \<Rightarrow> u16 \<Rightarrow> u16" where
  "ntohs = htons"

lemma ntohs_htons [simp]: "ntohs e (htons e w) = w" "htons e (ntohs e w) = w"
  by (auto simp: ntohs_def htons_def bit_eq_iff bit_simps mod_add_left_eq)

text \<open>The memory of a word: its bytes from the lowest address on.\<close>

definition mem_u32 :: "bool \<Rightarrow> u32 \<Rightarrow> byte list" where
  "mem_u32 little_endian w =
     (let bs = [ucast w, ucast (drop_bit 8 w), ucast (drop_bit 16 w), ucast (drop_bit 24 w)]
      in if little_endian then bs else rev bs)"

definition u32_mem :: "bool \<Rightarrow> byte list \<Rightarrow> u32" where
  "u32_mem little_endian bs =
     (let cs = (if little_endian then bs else rev bs)
      in ucast (cs ! 0) OR push_bit 8 (ucast (cs ! 1)) OR push_bit 16 (ucast (cs ! 2)) OR
         push_bit 24 (ucast (cs ! 3)))"

definition mem_u16 :: "bool \<Rightarrow> u16 \<Rightarrow> byte list" where
  "mem_u16 little_endian w =
     (let bs = [ucast w, ucast (drop_bit 8 w)] in if little_endian then bs else rev bs)"

lemma length_mem [simp]: "length (mem_u32 e w) = 4" "length (mem_u16 e v) = 2"
  by (simp_all add: mem_u32_def mem_u16_def Let_def)

lemma byte_bit_high [simp]:
  "\<not> bit (a :: byte) (8 + n)" "\<not> bit (a :: byte) (16 + n)" "\<not> bit (a :: byte) (24 + n)"
  by (auto dest: bit_imp_le_length)

lemma mem_u32_nth:
  "mem_u32 e (u32_mem e [a, b, c, d]) = [a, b, c, d]"
  by (cases e) (auto simp: mem_u32_def u32_mem_def Let_def bit_eq_iff bit_simps)

lemma mem_u32_mem [simp]:
  assumes "length bs = 4"
  shows "mem_u32 e (u32_mem e bs) = bs"
proof -
  obtain a b c d where "bs = [a, b, c, d]" using assms by (auto simp: length_Suc_conv numeral_eq_Suc)
  then show ?thesis by (simp only: mem_u32_nth)
qed

text \<open>The bytes of a port in network order: the high byte comes first on every target.\<close>

lemma mem_htons: "mem_u16 e (htons e w) = [ucast (drop_bit 8 w), ucast w]"
  by (auto simp: mem_u16_def htons_def Let_def bit_eq_iff bit_simps add.commute)

section \<open>Interface numbers\<close>

text \<open>\<open>atoi\<close>, as the \<open>int\<close> that \<open>strtol\<close> is converted to.\<close>

definition atoi :: "libc \<Rightarrow> string \<Rightarrow> int" where
  "atoi lc s = sint (word_of_int (fst (strtol lc 10 s)) :: u32)"

section \<open>Sockets\<close>

text \<open>
  The socket calls of Zephyr on the world \<open>'w\<close>, for addresses of type \<open>'a\<close>. \<open>zsock_recvfrom\<close> returns
  its result, the bytes it stores at the start of the buffer and the address of the sender;
  \<open>zsock_select\<close> its result and the descriptors that are ready.
\<close>

datatype sockopt =
    SO_REUSEADDR
  | SO_BROADCAST
  | IPV6_ADD_MEMBERSHIP "byte list" int

record ('w, 'a) socket_lib =
  little_endian :: bool
  zsock_socket :: "'w \<Rightarrow> int \<times> 'w"
  zsock_setsockopt :: "int \<Rightarrow> sockopt \<Rightarrow> 'w \<Rightarrow> int \<times> 'w"
  zsock_bind :: "int \<Rightarrow> 'a \<Rightarrow> 'w \<Rightarrow> int \<times> 'w"
  zsock_close :: "int \<Rightarrow> 'w \<Rightarrow> 'w"
  zsock_sendto :: "int \<Rightarrow> byte list \<Rightarrow> 'a \<Rightarrow> 'w \<Rightarrow> int \<times> 'w"
  zsock_select :: "int \<Rightarrow> int list \<Rightarrow> nat \<times> nat \<Rightarrow> 'w \<Rightarrow> int \<times> int set \<times> 'w"
  zsock_recvfrom :: "int \<Rightarrow> nat \<Rightarrow> 'w \<Rightarrow> int \<times> byte list \<times> 'a \<times> 'w"

text \<open>What is documented of opening and closing: \<open>fds\<close> are the descriptors in use.\<close>

definition socket_laws :: "('w, 'a, 'z) socket_lib_scheme \<Rightarrow> ('w \<Rightarrow> int set) \<Rightarrow> bool" where
  "socket_laws lib fds \<longleftrightarrow>
     (\<forall>w fd w'. zsock_socket lib w = (fd, w') \<longrightarrow>
        0 \<le> fd \<and> fd \<notin> fds w \<and> fds w' = insert fd (fds w) \<or> fd = - 1 \<and> fds w' = fds w) \<and>
     (\<forall>fd opt w rc w'. zsock_setsockopt lib fd opt w = (rc, w') \<longrightarrow> - 1 \<le> rc \<and> fds w' = fds w) \<and>
     (\<forall>fd a w rc w'. zsock_bind lib fd a w = (rc, w') \<longrightarrow> - 1 \<le> rc \<and> fds w' = fds w) \<and>
     (\<forall>fd w. fds (zsock_close lib fd w) = fds w - {fd})"

lemma socket_law:
  assumes "socket_laws lib fds"
  shows "zsock_socket lib w = (fd, w') \<Longrightarrow>
      0 \<le> fd \<and> fd \<notin> fds w \<and> fds w' = insert fd (fds w) \<or> fd = - 1 \<and> fds w' = fds w"
    and "zsock_setsockopt lib fd opt w = (rc, w') \<Longrightarrow> - 1 \<le> rc \<and> fds w' = fds w"
    and "zsock_bind lib fd a w = (rc, w') \<Longrightarrow> - 1 \<le> rc \<and> fds w' = fds w"
    and "fds (zsock_close lib fd w) = fds w - {fd}"
proof -
  show "zsock_socket lib w = (fd, w') \<Longrightarrow>
      0 \<le> fd \<and> fd \<notin> fds w \<and> fds w' = insert fd (fds w) \<or> fd = - 1 \<and> fds w' = fds w"
    using assms [unfolded socket_laws_def, THEN conjunct1] by (elim allE impE)
  show "zsock_setsockopt lib fd opt w = (rc, w') \<Longrightarrow> - 1 \<le> rc \<and> fds w' = fds w"
    using assms [unfolded socket_laws_def, THEN conjunct2, THEN conjunct1] by (elim allE impE)
  show "zsock_bind lib fd a w = (rc, w') \<Longrightarrow> - 1 \<le> rc \<and> fds w' = fds w"
    using assms [unfolded socket_laws_def, THEN conjunct2, THEN conjunct2, THEN conjunct1] by (elim allE impE)
  show "fds (zsock_close lib fd w) = fds w - {fd}"
    using assms [unfolded socket_laws_def, THEN conjunct2, THEN conjunct2, THEN conjunct2] by (elim allE)
qed

text \<open>A datagram is cut off at the size of the buffer; the result is the number of bytes stored.\<close>

definition recv_laws :: "('w, 'a, 'z) socket_lib_scheme \<Rightarrow> bool" where
  "recv_laws lib \<longleftrightarrow>
     (\<forall>fd n w rc data a w'. zsock_recvfrom lib fd n w = (rc, data, a, w') \<longrightarrow>
        rc \<le> int n \<and> length data = nat rc)"

lemma recv_law:
  "recv_laws lib \<Longrightarrow> zsock_recvfrom lib fd n w = (rc, data, a, w') \<Longrightarrow> rc \<le> int n \<and> length data = nat rc"
  unfolding recv_laws_def by (elim allE impE)

text \<open>Seconds and microseconds of a timeout in milliseconds.\<close>

definition select_timeout :: "nat \<Rightarrow> nat \<times> nat" where
  "select_timeout timeout =
     (if 1000 \<le> timeout
      then (timeout div 1000, 1000 * (timeout - timeout div 1000 * 1000))
      else (0, 1000 * timeout))"

lemma select_timeout_exact:
  "select_timeout t = (s, us) \<Longrightarrow> us < 1000000 \<and> 1000000 * s + us = 1000 * t"
proof -
  assume s: "select_timeout t = (s, us)"
  have t: "t div 1000 * 1000 + t mod 1000 = t" "t mod 1000 < 1000" by simp_all
  show ?thesis
  proof (cases "1000 \<le> t")
    case True
    then have "s = t div 1000" "us = 1000 * (t mod 1000)"
      using s by (simp_all add: select_timeout_def minus_div_mult_eq_mod)
    then show ?thesis using t by linarith
  qed (use s in \<open>simp add: select_timeout_def\<close>)
qed

section \<open>The NPDU of a packet\<close>

text \<open>
  The loop that moves the NPDU to the start of the buffer, one byte at a time. Reading outside the
  buffer is \<^const>\<open>None\<close>.
\<close>

definition shift_byte :: "nat \<Rightarrow> nat \<Rightarrow> byte list \<Rightarrow> byte list" where
  "shift_byte offset i npdu = npdu[i := npdu ! (offset + i)]"

definition shift_npdu :: "byte list \<Rightarrow> nat \<Rightarrow> nat \<Rightarrow> byte list option" where
  "shift_npdu npdu offset npdu_len =
     (if length npdu < offset + npdu_len then None
      else Some (fold (shift_byte offset) [0..<npdu_len] npdu))"

text \<open>The length is computed in 16 bits and a packet that is longer than the buffer is dropped.\<close>

definition deliver_npdu ::
    "byte list \<Rightarrow> int \<Rightarrow> int \<Rightarrow> nat \<Rightarrow> (nat \<times> byte list) option" where
  "deliver_npdu npdu received_bytes offset max_npdu =
     (if offset \<le> 0 then Some (0, npdu)
      else let npdu_len = unat (of_int (received_bytes - offset) :: u16)
           in if npdu_len \<le> max_npdu
              then map_option (Pair npdu_len) (shift_npdu npdu (nat offset) npdu_len)
              else Some (0, npdu))"

lemma shift_prefix:
  "0 < offset \<Longrightarrow> offset + n \<le> length npdu \<Longrightarrow>
   fold (shift_byte offset) [0..<n] npdu = take n (drop offset npdu) @ drop n npdu"
proof (induction n)
  case (Suc n)
  then have IH: "fold (shift_byte offset) [0..<n] npdu = take n (drop offset npdu) @ drop n npdu" by simp
  have "(take n (drop offset npdu) @ drop n npdu) ! (offset + n) = npdu ! (offset + n)"
    using Suc.prems by (simp add: nth_append add.commute [of n offset])
  moreover have "(take n (drop offset npdu) @ drop n npdu)[n := x] =
      take n (drop offset npdu) @ x # drop (Suc n) npdu" for x
    using Suc.prems by (simp add: list_update_append Cons_nth_drop_Suc [symmetric])
  moreover have "take (Suc n) (drop offset npdu) = take n (drop offset npdu) @ [npdu ! (offset + n)]"
    using Suc.prems by (simp add: take_Suc_conv_app_nth)
  moreover have "shift_byte offset n xs = xs[n := xs ! (offset + n)]" for xs
    by (simp add: shift_byte_def)
  ultimately show ?case using IH by simp
qed simp

lemma shift_npdu_eq:
  "0 < offset \<Longrightarrow> offset + n \<le> length npdu \<Longrightarrow>
   shift_npdu npdu offset n = Some (overlay (take n (drop offset npdu)) npdu)"
  by (simp add: shift_npdu_def shift_prefix overlay_def)

lemma deliver_npdu_eq:
  assumes "0 < offset" "offset \<le> received" "nat received \<le> length npdu" "received < 65536"
    "nat received \<le> max_npdu"
  shows "deliver_npdu npdu received offset max_npdu =
    Some (nat (received - offset), overlay (take (nat (received - offset)) (drop (nat offset) npdu)) npdu)"
proof -
  have "(of_int (received - offset) :: u16) = of_nat (nat (received - offset))" using assms(2) by simp
  then have len: "unat (of_int (received - offset) :: u16) = nat (received - offset)"
    using assms(1,4) unat_of_nat_u16 [of "nat (received - offset)"] by simp
  have "nat offset + nat (received - offset) = nat received" using assms(1,2) by simp
  then show ?thesis using assms len by (simp add: deliver_npdu_def Let_def shift_npdu_eq)
qed

text \<open>The NPDU of a packet of \<open>rc\<close> bytes stands at the start of the buffer.\<close>

lemma deliver_npdu_packet:
  assumes "length buf = length npdu" "m \<le> length npdu" "m < 65536" "0 < rc" "rc \<le> int m" "offset \<le> rc"
  obtains n npdu' where "deliver_npdu buf rc offset m = Some (n, npdu')"
    "int n = (if offset \<le> 0 then 0 else rc - offset)"
    "0 < n \<Longrightarrow> take n npdu' = take n (drop (nat offset) buf)"
proof (cases "offset \<le> 0")
  case False
  let ?n = "nat (rc - offset)"
  have "deliver_npdu buf rc offset m = Some (?n, overlay (take ?n (drop (nat offset) buf)) buf)"
    using False assms by (intro deliver_npdu_eq) auto
  moreover have "take ?n (overlay (take ?n (drop (nat offset) buf)) buf) = take ?n (drop (nat offset) buf)"
    using False assms by (subst take_overlay_prefix) auto
  ultimately show thesis using False assms(6) that by simp
qed (use that in \<open>simp add: deliver_npdu_def\<close>)

lemma deliver_npdu_bound:
  "deliver_npdu npdu received offset max_npdu = Some (n, npdu') \<Longrightarrow> n \<le> max_npdu"
  by (auto simp: deliver_npdu_def Let_def split: if_splits)

section \<open>The contract of a datalink\<close>

text \<open>
  What the network layer relies on in both datalinks: a receive never yields more than the buffer
  was said to hold, a datalink that is not valid yields nothing and touches nothing, and cleaning up
  closes the sockets and leaves it invalid.
\<close>

locale datalink =
  fixes ok :: "'e \<Rightarrow> ('w \<Rightarrow> int set) \<Rightarrow> bool"
    and valid :: "'s \<Rightarrow> bool"
    and sockets :: "'s \<Rightarrow> int set"
    and receive :: "'e \<Rightarrow> 's \<Rightarrow> 'a \<Rightarrow> byte list \<Rightarrow> nat \<Rightarrow> nat \<Rightarrow> 'w \<Rightarrow> (nat \<times> 'a \<times> byte list \<times> 'w) option"
    and cleanup :: "'e \<Rightarrow> 's \<Rightarrow> 'w \<Rightarrow> 's \<times> 'w"
  assumes receive_bound: "receive e s src npdu m t w = Some (n, src', npdu', w') \<Longrightarrow> n \<le> m"
    and receive_invalid: "\<not> valid s \<Longrightarrow> receive e s src npdu m t w = Some (0, src, npdu, w)"
    and cleanup_closes: "ok e fds \<Longrightarrow> cleanup e s w = (s', w') \<Longrightarrow>
      \<not> valid s' \<and> sockets s' = {} \<and> fds w' = fds w - sockets s"
begin

lemma receive_after_cleanup:
  assumes "ok e fds" "cleanup e s w = (s', w')"
  shows "receive e s' src npdu m t w' = Some (0, src, npdu, w')"
  using cleanup_closes [OF assms] by (simp add: receive_invalid)

lemma cleanup_twice:
  assumes "ok e fds" "cleanup e s w = (s', w')" "cleanup e s' w' = (s'', w'')"
  shows "fds w'' = fds w - sockets s"
  using cleanup_closes [OF assms(1,2)] cleanup_closes [OF assms(1,3)] by simp

end

end
