(* ===== verification/Bip.thy ===== *)
theory Bip
  imports Datalink
begin

unbundle bit_operations_syntax

text \<open>
  The BACnet/IP datalink (\<open>subsys/bacnet_datalink/bip-init.c\<close>): its two sockets, its addresses, the
  way it finds its interface and waits for an address, sending and receiving, and its life cycle.
\<close>

section \<open>State\<close>

text \<open>Addresses and port are kept in network byte order, a socket that is not open is -1.\<close>

record bip =
  BIP_Socket :: int
  BIP_Broadcast_Socket :: int
  BIP_Port :: u16
  BIP_Address :: u32
  BIP_Broadcast_Addr :: u32

record sockaddr_in =
  sin_port :: u16
  sin_addr :: u32

text \<open>\<open>BACNET_IP_ADDRESS\<close> and \<open>BACNET_ADDRESS\<close>; the latter's arrays hold \<open>MAX_MAC_LEN\<close> bytes.\<close>

record ip_address =
  address :: "byte list"
  port :: u16

record bacnet_address =
  mac_len :: nat
  mac :: "byte list"
  net :: nat
  len :: nat
  adr :: "byte list"

definition IP_ADDRESS_MAX :: nat where "IP_ADDRESS_MAX = 4"
definition BIP_ADDRESS_MAX :: nat where "BIP_ADDRESS_MAX = 6"
definition BACNET_BROADCAST_NETWORK :: nat where "BACNET_BROADCAST_NETWORK = 65535"
definition BVLL_TYPE_BACNET_IP :: byte where "BVLL_TYPE_BACNET_IP = 0x81"

text \<open>
  One address of an interface, with \<open>address.family == AF_INET\<close> and \<open>addr_type == NET_ADDR_DHCP\<close> as
  flags.
\<close>

record if_addr =
  is_used :: bool
  is_inet :: bool
  is_dhcp :: bool
  s4_addr :: "byte list"
  netmask :: "byte list"

text \<open>
  What the datalink calls. \<open>'i\<close> are the network interfaces, \<open>'n\<close> the \<open>BACNET_NPDU_DATA\<close>;
  \<open>ipv4_config\<close> reads the \<open>NET_IF_MAX_IPV4_ADDR\<close> addresses of an interface, or finds no IPv4
  configuration, and \<open>next_event\<close> is the next network event: its interface, and whether it is
  \<open>NET_EVENT_IPV4_ADDR_ADD\<close>. The BVLC layer of the stack returns the offset of the NPDU in a packet;
  it reads the state of the datalink and may change the source address and the buffer.
\<close>

record ('w, 'i, 'n) bip_lib = "('w, sockaddr_in) socket_lib" +
  bip_libc :: libc
  CONFIG_BACDL_BIP_ADDRESS_INDEX :: "nat option"
  CONFIG_NET_DHCPV4 :: bool
  NET_IF_MAX_IPV4_ADDR :: nat
  net_if_get_by_index :: "int \<Rightarrow> 'w \<Rightarrow> 'i option"
  net_if_get_default :: "'w \<Rightarrow> 'i option"
  net_if_is_up :: "'i \<Rightarrow> 'w \<Rightarrow> bool"
  net_if_up :: "'i \<Rightarrow> 'w \<Rightarrow> int \<times> 'w"
  net_if_ipv4_addr_add :: "'i \<Rightarrow> u32 \<Rightarrow> 'w \<Rightarrow> 'w"
  net_if_ipv4_set_netmask_by_addr :: "'i \<Rightarrow> u32 \<Rightarrow> u32 \<Rightarrow> 'w \<Rightarrow> 'w"
  net_dhcpv4_start :: "'i \<Rightarrow> 'w \<Rightarrow> 'w"
  ipv4_config :: "'i \<Rightarrow> 'w \<Rightarrow> if_addr list option"
  next_event :: "'w \<Rightarrow> ('i \<times> bool) \<times> 'w"
  bvlc_init :: "'w \<Rightarrow> 'w"
  bvlc_handler :: "bip \<Rightarrow> ip_address \<Rightarrow> bacnet_address \<Rightarrow> byte list \<Rightarrow> u16 \<Rightarrow> 'w \<Rightarrow>
    int \<times> bacnet_address \<times> byte list \<times> 'w"
  bvlc_broadcast_handler :: "bip \<Rightarrow> ip_address \<Rightarrow> bacnet_address \<Rightarrow> byte list \<Rightarrow> u16 \<Rightarrow> 'w \<Rightarrow>
    int \<times> bacnet_address \<times> byte list \<times> 'w"
  bvlc_send_pdu :: "bip \<Rightarrow> bacnet_address \<Rightarrow> 'n \<Rightarrow> byte list \<Rightarrow> nat \<Rightarrow> 'w \<Rightarrow> int \<times> 'w"

definition bip_reset :: "bool \<Rightarrow> u16 \<Rightarrow> bip" where
  "bip_reset e config_port =
     \<lparr>BIP_Socket = - 1, BIP_Broadcast_Socket = - 1, BIP_Port = htons e config_port, BIP_Address = 0,
      BIP_Broadcast_Addr = 0\<rparr>"

section \<open>Addresses\<close>

definition bip_set_port :: "bool \<Rightarrow> u16 \<Rightarrow> bip \<Rightarrow> bip" where
  "bip_set_port e p s = s\<lparr>BIP_Port := htons e p\<rparr>"

definition bip_get_port :: "bool \<Rightarrow> bip \<Rightarrow> u16" where
  "bip_get_port e s = ntohs e (BIP_Port s)"

text \<open>The common part of the two: the MAC address of an IPv4 address and the port.\<close>

definition bip_mac :: "bool \<Rightarrow> u32 \<Rightarrow> u16 \<Rightarrow> byte list \<Rightarrow> byte list" where
  "bip_mac e addr p m =
     (let m = overlay (mem_u32 e addr) m
      in take IP_ADDRESS_MAX m @ overlay (mem_u16 e p) (drop IP_ADDRESS_MAX m))"

definition bip_get_my_address :: "bool \<Rightarrow> bip \<Rightarrow> bacnet_address option \<Rightarrow> bacnet_address option" where
  "bip_get_my_address e s addr =
     map_option (\<lambda>a. a\<lparr>mac_len := BIP_ADDRESS_MAX, mac := bip_mac e (BIP_Address s) (BIP_Port s) (mac a),
       net := 0, len := 0, adr := replicate (length (adr a)) 0\<rparr>) addr"

definition bip_get_broadcast_address :: "bool \<Rightarrow> bip \<Rightarrow> bacnet_address option \<Rightarrow> bacnet_address option" where
  "bip_get_broadcast_address e s dest =
     map_option (\<lambda>a. a\<lparr>mac_len := BIP_ADDRESS_MAX,
       mac := bip_mac e (BIP_Broadcast_Addr s) (BIP_Port s) (mac a),
       net := BACNET_BROADCAST_NETWORK, len := 0, adr := replicate (length (adr a)) 0\<rparr>) dest"

definition bip_set_addr :: "bool \<Rightarrow> ip_address option \<Rightarrow> bip \<Rightarrow> bool \<times> bip" where
  "bip_set_addr e addr s =
     (case addr of
        None \<Rightarrow> (False, s)
      | Some a \<Rightarrow> (True, s\<lparr>BIP_Address := u32_mem e (address a), BIP_Port := htons e (port a)\<rparr>))"

definition bip_get_addr :: "bool \<Rightarrow> bip \<Rightarrow> ip_address option \<Rightarrow> bool \<times> ip_address option" where
  "bip_get_addr e s addr =
     (case addr of
        None \<Rightarrow> (False, None)
      | Some a \<Rightarrow> (True, Some (a\<lparr>address := mem_u32 e (BIP_Address s), port := ntohs e (BIP_Port s)\<rparr>)))"

definition bip_set_broadcast_addr :: "bool \<Rightarrow> ip_address option \<Rightarrow> bip \<Rightarrow> bool \<times> bip" where
  "bip_set_broadcast_addr e addr s =
     (case addr of
        None \<Rightarrow> (False, s)
      | Some a \<Rightarrow> (True, s\<lparr>BIP_Broadcast_Addr := u32_mem e (address a)\<rparr>))"

definition bip_get_broadcast_addr :: "bool \<Rightarrow> bip \<Rightarrow> ip_address option \<Rightarrow> bool \<times> ip_address option" where
  "bip_get_broadcast_addr e s addr =
     (case addr of
        None \<Rightarrow> (False, None)
      | Some a \<Rightarrow> (True, Some (a\<lparr>address := mem_u32 e (BIP_Broadcast_Addr s),
          port := ntohs e (BIP_Port s)\<rparr>)))"

definition bip_set_subnet_prefix :: "byte \<Rightarrow> bool" where
  "bip_set_subnet_prefix prefix = False"

text \<open>The search for the prefix: the mask loses its lowest bit in each round.\<close>

function subnet_prefix_from :: "u32 \<Rightarrow> u32 \<Rightarrow> u32 \<Rightarrow> nat \<Rightarrow> nat" where
  "subnet_prefix_from addr broadcast m prefix =
     (if 32 < prefix then prefix
      else if addr OR m = broadcast then prefix
      else subnet_prefix_from addr broadcast (push_bit 1 m) (Suc prefix))"
  by auto
termination by (relation "measure (\<lambda>(_, _, _, prefix). 33 - prefix)") auto

declare subnet_prefix_from.simps [simp del]

definition bip_get_subnet_prefix :: "bip \<Rightarrow> byte" where
  "bip_get_subnet_prefix s =
     of_nat (subnet_prefix_from (BIP_Address s) (BIP_Broadcast_Addr s) 0xFFFFFFFE 1)"

section \<open>Sending and receiving\<close>

definition bip_send_mpdu ::
    "('w, 'i, 'n, 'z) bip_lib_scheme \<Rightarrow> bip \<Rightarrow> ip_address \<Rightarrow> byte list \<Rightarrow> u16 \<Rightarrow> 'w \<Rightarrow> int \<times> 'w" where
  "bip_send_mpdu lib s dest mtu mtu_len w =
     (if BIP_Socket s < 0 then (BIP_Socket s, w)
      else zsock_sendto lib (BIP_Socket s) (take (unat mtu_len) mtu)
        \<lparr>sin_port = htons (little_endian lib) (port dest),
         sin_addr = u32_mem (little_endian lib) (address dest)\<rparr> w)"

definition bip_send_pdu ::
    "('w, 'i, 'n, 'z) bip_lib_scheme \<Rightarrow> bip \<Rightarrow> bacnet_address \<Rightarrow> 'n \<Rightarrow> byte list \<Rightarrow> nat \<Rightarrow> 'w \<Rightarrow> int \<times> 'w" where
  "bip_send_pdu lib s dest npdu_data pdu pdu_len w = bvlc_send_pdu lib s dest npdu_data pdu pdu_len w"

definition bip_receive ::
    "('w, 'i, 'n, 'z) bip_lib_scheme \<Rightarrow> bip \<Rightarrow> bacnet_address \<Rightarrow> byte list \<Rightarrow> nat \<Rightarrow> nat \<Rightarrow> 'w \<Rightarrow>
     (nat \<times> bacnet_address \<times> byte list \<times> 'w) option" where
  "bip_receive lib s src npdu max_npdu timeout w =
     (if BIP_Socket s < 0 then Some (0, src, npdu, w)
      else
        let m = max (BIP_Socket s) (BIP_Broadcast_Socket s);
            (ready, read_fds, w) =
              zsock_select lib (m + 1) [BIP_Socket s, BIP_Broadcast_Socket s] (select_timeout timeout) w
        in if ready \<le> 0 then Some (0, src, npdu, w)
        else
          let socket = (if BIP_Socket s \<in> read_fds then BIP_Socket s else BIP_Broadcast_Socket s);
              (received_bytes, data, sin, w) = zsock_recvfrom lib socket max_npdu w;
              npdu = overlay data npdu
          in if received_bytes \<le> 0 then Some (0, src, npdu, w)
          else if npdu ! 0 \<noteq> BVLL_TYPE_BACNET_IP then Some (0, src, npdu, w)
          else
            let addr = \<lparr>address = mem_u32 (little_endian lib) (sin_addr sin),
                        port = ntohs (little_endian lib) (sin_port sin)\<rparr>;
                handler = (if socket = BIP_Socket s then bvlc_handler lib else bvlc_broadcast_handler lib);
                (offset, src, npdu, w) = handler s addr src npdu (of_int received_bytes) w
            in map_option (\<lambda>(npdu_len, npdu). (npdu_len, src, npdu, w))
                 (deliver_npdu npdu received_bytes offset max_npdu))"

section \<open>The interface and its address\<close>

text \<open>An address that the loop of \<open>ipv4_address_index\<close> does not skip.\<close>

definition usable :: "('w, 'i, 'n, 'z) bip_lib_scheme \<Rightarrow> nat \<Rightarrow> if_addr \<Rightarrow> bool" where
  "usable lib i a \<longleftrightarrow>
     (case CONFIG_BACDL_BIP_ADDRESS_INDEX lib of None \<Rightarrow> True | Some k \<Rightarrow> i = k) \<and>
     is_used a \<and> is_inet a \<and> u32_mem (little_endian lib) (s4_addr a) \<noteq> 0 \<and>
     (CONFIG_NET_DHCPV4 lib \<longrightarrow> is_dhcp a)"

fun address_index_from :: "('w, 'i, 'n, 'z) bip_lib_scheme \<Rightarrow> nat \<Rightarrow> if_addr list \<Rightarrow> int" where
  "address_index_from lib i [] = - 1"
| "address_index_from lib i (a # as) = (if usable lib i a then int i else address_index_from lib (Suc i) as)"

definition ipv4_address_index :: "('w, 'i, 'n, 'z) bip_lib_scheme \<Rightarrow> 'i \<Rightarrow> 'w \<Rightarrow> int" where
  "ipv4_address_index lib iface w =
     (case ipv4_config lib iface w of
        None \<Rightarrow> - 1
      | Some unicast \<Rightarrow> address_index_from lib 0 unicast)"

text \<open>The semaphore counts to 1; the callback gives it when an address was added to the interface.\<close>

definition event_cb_handler :: "'i \<Rightarrow> nat \<Rightarrow> 'i \<times> bool \<Rightarrow> nat" where
  "event_cb_handler iface sem event =
     (if fst event = iface \<and> snd event then min 1 (Suc sem) else sem)"

text \<open>
  Taking the semaphore: the events of the network are delivered while the thread waits. The loop
  around it, and with it the whole wait, is \<^const>\<open>None\<close> when no event ever makes an address usable.
\<close>

partial_function (option) sem_take ::
    "('w, 'i, 'n, 'z) bip_lib_scheme \<Rightarrow> 'i \<Rightarrow> nat \<Rightarrow> 'w \<Rightarrow> (nat \<times> 'w) option" where
  "sem_take lib iface sem w =
     (if 0 < sem then Some (sem - 1, w)
      else sem_take lib iface (event_cb_handler iface sem (fst (next_event lib w))) (snd (next_event lib w)))"

partial_function (option) wait_from ::
    "('w, 'i, 'n, 'z) bip_lib_scheme \<Rightarrow> 'i \<Rightarrow> int \<Rightarrow> nat \<Rightarrow> 'w \<Rightarrow> (int \<times> 'w) option" where
  "wait_from lib iface index sem w =
     (if index < 0
      then Option.bind (sem_take lib iface sem w)
        (\<lambda>(sem, w). wait_from lib iface (ipv4_address_index lib iface w) sem w)
      else Some (index, w))"

definition wait_for_ipv4_address ::
    "('w, 'i, 'n, 'z) bip_lib_scheme \<Rightarrow> 'i \<Rightarrow> 'w \<Rightarrow> (int \<times> 'w) option" where
  "wait_for_ipv4_address lib iface w =
     (let index = ipv4_address_index lib iface w;
          w = (if CONFIG_NET_DHCPV4 lib \<and> index < 0 then net_dhcpv4_start lib iface w else w)
      in wait_from lib iface index 0 w)"

text \<open>The interface that \<open>ifname\<close> names; \<open>index\<close> -1 stands for the default interface.\<close>

definition select_interface ::
    "('w, 'i, 'n, 'z) bip_lib_scheme \<Rightarrow> string option \<Rightarrow> 'w \<Rightarrow> 'i option" where
  "select_interface lib ifname w =
     (let index = (case ifname of None \<Rightarrow> - 1 | Some name \<Rightarrow> atoi (bip_libc lib) name);
          iface = (case ifname of
             None \<Rightarrow> None
           | Some name \<Rightarrow> if index = 0 \<and> name \<noteq> ''0'' then None else net_if_get_by_index lib index w)
      in if index = - 1 then net_if_get_default lib w else iface)"

text \<open>Taking over the address at the index, with the broadcast address of its netmask.\<close>

definition use_address :: "('w, 'i, 'n, 'z) bip_lib_scheme \<Rightarrow> if_addr \<Rightarrow> bip \<Rightarrow> bip" where
  "use_address lib a s =
     (let e = little_endian lib;
          unicast = \<lparr>address = s4_addr a, port = ntohs e (BIP_Port s)\<rparr>;
          broadcast = \<lparr>address = map2 (\<lambda>x m. x OR NOT m) (s4_addr a) (netmask a), port = ntohs e (BIP_Port s)\<rparr>
      in snd (bip_set_broadcast_addr e (Some broadcast) (snd (bip_set_addr e (Some unicast) s))))"

definition bip_set_interface ::
    "('w, 'i, 'n, 'z) bip_lib_scheme \<Rightarrow> string option \<Rightarrow> bip \<Rightarrow> 'w \<Rightarrow> (bip \<times> 'w) option" where
  "bip_set_interface lib ifname s w =
     (case select_interface lib ifname w of
        None \<Rightarrow> Some (s, w)
      | Some iface \<Rightarrow>
          let (ret, w) = (if net_if_is_up lib iface w then (0, w) else net_if_up lib iface w)
          in if ret < 0 \<and> ret \<noteq> - EALREADY then Some (s, w)
          else if BIP_Address s \<noteq> 0 then
            Some (s, net_if_ipv4_set_netmask_by_addr lib iface (BIP_Address s) (BIP_Broadcast_Addr s)
                       (net_if_ipv4_addr_add lib iface (BIP_Address s) w))
          else if (case CONFIG_BACDL_BIP_ADDRESS_INDEX lib of
                     None \<Rightarrow> False | Some k \<Rightarrow> NET_IF_MAX_IPV4_ADDR lib \<le> k) then
            Some (s, w)
          else
            Option.bind (wait_for_ipv4_address lib iface w) (\<lambda>(index, w).
              map_option (\<lambda>unicast. (use_address lib (unicast ! nat index) s, w)) (ipv4_config lib iface w)))"

section \<open>Life cycle\<close>

definition createSocket :: "('w, 'i, 'n, 'z) bip_lib_scheme \<Rightarrow> sockaddr_in \<Rightarrow> 'w \<Rightarrow> int \<times> 'w" where
  "createSocket lib sin w =
     (let (sock_fd, w) = zsock_socket lib w
      in if sock_fd < 0 then (sock_fd, w)
      else let (status, w) = zsock_setsockopt lib sock_fd SO_REUSEADDR w
      in if status < 0 then (status, zsock_close lib sock_fd w)
      else let (status, w) = zsock_bind lib sock_fd sin w
      in if status < 0 then (status, zsock_close lib sock_fd w)
      else (sock_fd, w))"

text \<open>The sockets of \<open>bip_init\<close>, after the address is known.\<close>

definition bip_open :: "('w, 'i, 'n, 'z) bip_lib_scheme \<Rightarrow> bip \<Rightarrow> 'w \<Rightarrow> bool \<times> bip \<times> 'w" where
  "bip_open lib s w =
     (if BIP_Address s = 0 then (False, s, w)
      else
        let (sock_fd, w) = createSocket lib \<lparr>sin_port = BIP_Port s, sin_addr = BIP_Address s\<rparr> w;
            s = s\<lparr>BIP_Socket := sock_fd\<rparr>
        in if sock_fd < 0 then (False, s, w)
        else
          let (sock_fd, w) = createSocket lib \<lparr>sin_port = BIP_Port s, sin_addr = 0\<rparr> w;
              s = s\<lparr>BIP_Broadcast_Socket := sock_fd\<rparr>
          in if sock_fd < 0 then (False, s, w)
          else (True, s, bvlc_init lib w))"

definition bip_init ::
    "('w, 'i, 'n, 'z) bip_lib_scheme \<Rightarrow> string option \<Rightarrow> bip \<Rightarrow> 'w \<Rightarrow> (bool \<times> bip \<times> 'w) option" where
  "bip_init lib ifname s w =
     map_option (\<lambda>(s, w). bip_open lib s w)
       (if BIP_Address s = 0 then bip_set_interface lib ifname s w else Some (s, w))"

definition bip_valid :: "bip \<Rightarrow> bool" where
  "bip_valid s \<longleftrightarrow> BIP_Socket s \<noteq> - 1"

definition bip_cleanup :: "('w, 'i, 'n, 'z) bip_lib_scheme \<Rightarrow> bip \<Rightarrow> 'w \<Rightarrow> bip \<times> 'w" where
  "bip_cleanup lib s w =
     (let w = (if BIP_Socket s \<noteq> - 1 then zsock_close lib (BIP_Socket s) w else w);
          s = s\<lparr>BIP_Socket := - 1\<rparr>;
          w = (if BIP_Broadcast_Socket s \<noteq> - 1 then zsock_close lib (BIP_Broadcast_Socket s) w else w)
      in (s\<lparr>BIP_Broadcast_Socket := - 1\<rparr>, w))"


section \<open>Facts on addresses\<close>

lemma overlay_append:
  "length xs \<le> length buf \<Longrightarrow> take (length xs) (overlay xs buf) = xs \<and> drop (length xs) (overlay xs buf) = drop (length xs) buf"
  by (simp add: overlay_def)

lemma bip_mac_eq:
  assumes "6 \<le> length m"
  shows "bip_mac e (u32_mem e bs) (htons e p) m =
    take 4 (mem_u32 e (u32_mem e bs)) @ [ucast (drop_bit 8 p), ucast p] @ drop 6 m"
  using assms overlay_append [of "mem_u32 e (u32_mem e bs)" m]
  by (simp add: bip_mac_def Let_def IP_ADDRESS_MAX_def mem_htons overlay_def)

text \<open>The mask of a round is all ones from bit \<open>prefix\<close> on.\<close>

lemma host_mask_bit: "bit (NOT (mask n) :: u32) i \<longleftrightarrow> n \<le> i \<and> i < 32"
  by (auto simp: bit_simps)

lemma mask_step: "push_bit 1 (NOT (mask p) :: u32) = NOT (mask (Suc p))"
  by (rule bit_word_eqI) (simp only: host_mask_bit bit_push_bit_iff possible_bit_word, auto)

lemma mask_first: "(0xFFFFFFFE :: u32) = NOT (mask 1)"
  by (simp add: mask_eq_exp_minus_1)

lemma or_mask_eq_iff:
  assumes "q < n" "n \<le> 32"
  shows "a OR NOT (mask q) = a OR NOT (mask n) \<longleftrightarrow> (\<forall>i. q \<le> i \<and> i < n \<longrightarrow> bit (a :: u32) i)"
proof -
  have "x = y \<longleftrightarrow> (\<forall>i < 32. bit x i = bit y i)" for x y :: u32
    using bit_word_eqI [of x y] by auto
  then have "a OR NOT (mask q) = a OR NOT (mask n) \<longleftrightarrow>
      (\<forall>i < 32. (bit a i \<or> q \<le> i \<and> i < 32) = (bit a i \<or> n \<le> i \<and> i < 32))"
    by (simp only: bit_or_iff host_mask_bit)
  also have "\<dots> \<longleftrightarrow> (\<forall>i. q \<le> i \<and> i < n \<longrightarrow> bit a i)"
  proof
    assume *: "\<forall>i<32. (bit a i \<or> q \<le> i \<and> i < 32) = (bit a i \<or> n \<le> i \<and> i < 32)"
    show "\<forall>i. q \<le> i \<and> i < n \<longrightarrow> bit a i"
    proof (intro allI impI)
      fix i assume i: "q \<le> i \<and> i < n"
      then show "bit a i" using * [THEN spec, of i] assms by simp
    qed
  next
    assume *: "\<forall>i. q \<le> i \<and> i < n \<longrightarrow> bit a i"
    show "\<forall>i<32. (bit a i \<or> q \<le> i \<and> i < 32) = (bit a i \<or> n \<le> i \<and> i < 32)"
    proof (intro allI impI)
      fix i :: nat assume "i < 32"
      then show "(bit a i \<or> q \<le> i \<and> i < 32) = (bit a i \<or> n \<le> i \<and> i < 32)"
        using * [THEN spec, of i] assms by linarith
    qed
  qed
  finally show ?thesis .
qed

lemma subnet_prefix_from_least:
  "p \<le> 33 \<Longrightarrow>
   let r = subnet_prefix_from a b (NOT (mask p)) p
   in p \<le> r \<and> r \<le> 33 \<and> (\<forall>q. p \<le> q \<and> q < r \<longrightarrow> a OR NOT (mask q) \<noteq> b) \<and>
      (r \<le> 32 \<longrightarrow> a OR NOT (mask r) = b)"
proof (induction "33 - p" arbitrary: p)
  case 0
  then have "p = 33" by simp
  then show ?case by (auto simp: subnet_prefix_from.simps Let_def)
next
  case (Suc n)
  let ?r = "subnet_prefix_from a b (NOT (mask (Suc p))) (Suc p)"
  have p: "p \<le> 32" using Suc.hyps(2) by simp
  show ?case
  proof (cases "a OR NOT (mask p) = b")
    case True
    then show ?thesis using p by (auto simp: subnet_prefix_from.simps [of _ _ _ p] Let_def)
  next
    case False
    have IH: "Suc p \<le> ?r \<and> ?r \<le> 33 \<and> (\<forall>q. Suc p \<le> q \<and> q < ?r \<longrightarrow> a OR NOT (mask q) \<noteq> b) \<and>
      (?r \<le> 32 \<longrightarrow> a OR push_bit ?r (- 1) = b)"
      using Suc.hyps(1) [of "Suc p"] Suc.hyps(2) p by (simp add: Let_def)
    have "subnet_prefix_from a b (NOT (mask p)) p = ?r"
      using False p by (simp only: subnet_prefix_from.simps [of a b "NOT (mask p)" p] not_less if_False mask_step) simp
    moreover have "a OR NOT (mask q) \<noteq> b" if "p \<le> q" "q < ?r" for q
      using that IH False by (cases "q = p") (auto simp: Suc_le_eq)
    ultimately show ?thesis using IH by (simp add: Let_def)
  qed
qed

text \<open>
  For a broadcast address with ones from bit \<open>n\<close> on, the search ends at \<open>n\<close> when bit \<open>n - 1\<close> of the
  address is clear, and too early otherwise.
\<close>

lemma subnet_prefix_exact:
  assumes "1 \<le> n" "n \<le> 32" and b: "BIP_Broadcast_Addr s = BIP_Address s OR NOT (mask n)"
  shows "unat (bip_get_subnet_prefix s) \<le> n \<and>
    (unat (bip_get_subnet_prefix s) = n \<longleftrightarrow> n = 1 \<or> \<not> bit (BIP_Address s) (n - 1))"
proof -
  define r where "r = subnet_prefix_from (BIP_Address s) (BIP_Broadcast_Addr s) (NOT (mask 1)) 1"
  have "r \<le> 33" and below: "\<And>q. 1 \<le> q \<Longrightarrow> q < r \<Longrightarrow> BIP_Address s OR NOT (mask q) \<noteq> BIP_Broadcast_Addr s"
    and hit: "r \<le> 32 \<Longrightarrow> BIP_Address s OR NOT (mask r) = BIP_Broadcast_Addr s" and "1 \<le> r"
    using subnet_prefix_from_least [of 1 "BIP_Address s" "BIP_Broadcast_Addr s"] by (simp_all add: Let_def r_def)
  have "r \<le> n" using below [of n] assms(1) b by (metis leI)
  have "bip_get_subnet_prefix s = of_nat r"
    by (simp only: bip_get_subnet_prefix_def r_def mask_first)
  then have r: "unat (bip_get_subnet_prefix s) = r" using \<open>r \<le> 33\<close> by (simp add: unat_of_nat)
  have "r = n \<longleftrightarrow> n = 1 \<or> \<not> bit (BIP_Address s) (n - 1)"
  proof
    assume rn: "r = n"
    show "n = 1 \<or> \<not> bit (BIP_Address s) (n - 1)"
    proof (rule ccontr)
      assume "\<not> (n = 1 \<or> \<not> bit (BIP_Address s) (n - 1))"
      then have n: "1 \<le> n - 1" "n - 1 < n" "bit (BIP_Address s) (n - 1)" using assms(1) by auto
      then have "\<And>i. n - 1 \<le> i \<Longrightarrow> i < n \<Longrightarrow> bit (BIP_Address s) i" by (metis le_antisym Suc_leI Suc_pred' diff_Suc_1 le_zero_eq less_Suc_eq_le not_gr_zero zero_less_diff)
      then have "BIP_Address s OR NOT (mask (n - 1)) = BIP_Broadcast_Addr s"
        using or_mask_eq_iff [OF n(2) assms(2)] b by simp
      then show False using below [OF n(1)] n(2) rn by simp
    qed
  next
    assume n: "n = 1 \<or> \<not> bit (BIP_Address s) (n - 1)"
    show "r = n"
    proof (rule ccontr)
      assume "r \<noteq> n"
      then have "r < n" using \<open>r \<le> n\<close> by simp
      then have "\<forall>i. r \<le> i \<and> i < n \<longrightarrow> bit (BIP_Address s) i"
        using hit or_mask_eq_iff [of r n] assms(2) b by simp
      then have "bit (BIP_Address s) (n - 1)" using \<open>r < n\<close> by simp
      then show False using n \<open>r < n\<close> \<open>1 \<le> r\<close> by simp
    qed
  qed
  then show ?thesis using r \<open>r \<le> n\<close> by simp
qed


text \<open>On a little-endian target the bytes of an address are the bits of its word in order.\<close>

lemma bit_u32_mem:
  "bit (u32_mem True [a, b, c, d]) i \<longleftrightarrow>
     (if i < 8 then bit a i else if i < 16 then bit b (i - 8)
      else if i < 24 then bit c (i - 16) else i < 32 \<and> bit d (i - 24))"
  by (auto simp: u32_mem_def bit_simps dest: bit_imp_le_length)

lemma byte_bit_7: "bit (b :: byte) 7 \<longleftrightarrow> 128 \<le> b"
proof -
  have "bit b 7 \<longleftrightarrow> bit (unat b) 7" by (simp add: bit_unsigned_iff)
  also have "\<dots> \<longleftrightarrow> odd (unat b div 128)" by (simp add: bit_iff_odd)
  also have "\<dots> \<longleftrightarrow> 128 \<le> unat b"
  proof -
    have "unat b div 128 < 2" using unat_u8_bound [of b] by (intro less_mult_imp_div_less) simp
    then have "unat b div 128 = 0 \<or> unat b div 128 = 1" by linarith
    then show ?thesis using unat_u8_bound [of b] by (auto simp: div_eq_0_iff)
  qed
  finally show ?thesis by (simp add: word_le_nat_alt)
qed

definition octet_mask :: "nat \<Rightarrow> byte list" where
  "octet_mask k = replicate k 255 @ replicate (4 - k) 0"

lemma octet_cases: "1 \<le> k \<Longrightarrow> k \<le> 4 \<Longrightarrow> k = 1 \<or> k = 2 \<or> k = 3 \<or> k = (4 :: nat)"
  by auto

lemma octet_broadcast:
  assumes "length bs = 4" "1 \<le> k" "k \<le> 4"
  shows "u32_mem True (map2 (\<lambda>x m. x OR NOT m) bs (octet_mask k)) = u32_mem True bs OR NOT (mask (8 * k))"
    and "bit (u32_mem True bs) (8 * k - 1) \<longleftrightarrow> 128 \<le> bs ! (k - 1)"
proof -
  obtain a b c d where bs: "bs = [a, b, c, d]"
    using assms(1) by (auto simp: length_Suc_conv numeral_eq_Suc)
  have octets: "octet_mask 1 = [255, 0, 0, 0]" "octet_mask 2 = [255, 255, 0, 0]"
    "octet_mask 3 = [255, 255, 255, 0]" "octet_mask 4 = [255, 255, 255, 255]"
    by (simp_all add: octet_mask_def numeral_eq_Suc)
  have "(255 :: byte) = - 1" by simp
  then have word: "x OR NOT 255 = x" "x OR NOT 0 = - 1" for x :: byte
    by (simp_all only: bit.compl_one bit.disj_zero_right bit.compl_zero bit.disj_one_right)
  let ?m = "\<lambda>k. map2 (\<lambda>x m. x OR NOT m) bs (octet_mask k)"
  have m: "?m 1 = [a, - 1, - 1, - 1]" "?m 2 = [a, b, - 1, - 1]" "?m 3 = [a, b, c, - 1]" "?m 4 = [a, b, c, d]"
    by (simp_all only: bs octets zip_Cons_Cons zip_Nil list.map prod.case word)
  show "u32_mem True (?m k) = u32_mem True bs OR NOT (mask (8 * k))"
  proof (rule bit_word_eqI)
    fix i assume "i < LENGTH(32)"
    then have i: "i < 32" by simp
    have one: "bit (- 1 :: byte) n \<longleftrightarrow> n < 8" for n by (simp add: bit_simps)
    show "bit (u32_mem True (?m k)) i \<longleftrightarrow> bit (u32_mem True bs OR NOT (mask (8 * k))) i"
      using octet_cases [OF assms(2,3)] i
      by (elim disjE) (simp_all only: m [unfolded bs] one bs bit_u32_mem bit_or_iff host_mask_bit, auto)
  qed
  show "bit (u32_mem True bs) (8 * k - 1) \<longleftrightarrow> 128 \<le> bs ! (k - 1)"
    using octet_cases [OF assms(2,3)]
    by (elim disjE) (simp_all add: bs bit_u32_mem byte_bit_7)
qed

lemma use_address_word:
  assumes "little_endian lib" "length (s4_addr a) = 4" "netmask a = octet_mask k" "1 \<le> k" "k \<le> 4"
  shows "BIP_Broadcast_Addr (use_address lib a s) = BIP_Address (use_address lib a s) OR NOT (mask (8 * k))"
    and "bit (BIP_Address (use_address lib a s)) (8 * k - 1) \<longleftrightarrow> 128 \<le> s4_addr a ! (k - 1)"
  using octet_broadcast [OF assms(2,4,5)] assms(1,3)
  by (simp_all add: use_address_def bip_set_addr_def bip_set_broadcast_addr_def Let_def)

section \<open>Receiving\<close>

text \<open>What the BVLC handlers promise: the offset lies in the packet, the buffer keeps its size.\<close>

definition handler_ok ::
    "(bip \<Rightarrow> ip_address \<Rightarrow> bacnet_address \<Rightarrow> byte list \<Rightarrow> u16 \<Rightarrow> 'w \<Rightarrow>
      int \<times> bacnet_address \<times> byte list \<times> 'w) \<Rightarrow> bool" where
  "handler_ok h \<longleftrightarrow>
     (\<forall>s addr src npdu n w offset src' npdu' w'. h s addr src npdu n w = (offset, src', npdu', w') \<longrightarrow>
        offset \<le> uint n \<and> length npdu' = length npdu)"

lemma handler_okD:
  "handler_ok h \<Longrightarrow> h s addr src npdu n w = (offset, src', npdu', w') \<Longrightarrow>
   offset \<le> uint n \<and> length npdu' = length npdu"
  unfolding handler_ok_def by (elim allE impE)

lemma bip_receive_bound:
  "bip_receive lib s src npdu m t w = Some (n, src', npdu', w') \<Longrightarrow> n \<le> m"
  by (auto simp: bip_receive_def Let_def split: prod.splits if_splits dest: deliver_npdu_bound)

lemma uint_received:
  "0 < rc \<Longrightarrow> rc < 65536 \<Longrightarrow> uint (of_int rc :: u16) = rc"
  by (simp add: unsigned_of_int take_bit_int_eq_self)

text \<open>
  What a received packet comes to: \<open>packet\<close> is what \<open>zsock_recvfrom\<close> stored, \<open>buf\<close> the buffer that the
  handler leaves.
\<close>

definition delivered ::
    "('w, 'i, 'n, 'z) bip_lib_scheme \<Rightarrow> bip \<Rightarrow> bacnet_address \<Rightarrow> byte list \<Rightarrow>
     int \<Rightarrow> byte list \<Rightarrow> sockaddr_in \<Rightarrow> 'w \<Rightarrow> nat \<Rightarrow> bacnet_address \<Rightarrow> byte list \<Rightarrow> 'w \<Rightarrow> bool" where
  "delivered lib s src npdu socket packet sin w n src' npdu' w' \<longleftrightarrow>
     (let handler = (if socket = BIP_Socket s then bvlc_handler lib else bvlc_broadcast_handler lib);
          (offset, src1, buf, w1) = handler s
            \<lparr>address = mem_u32 (little_endian lib) (sin_addr sin),
             port = ntohs (little_endian lib) (sin_port sin)\<rparr>
            src (overlay packet npdu) (of_nat (length packet)) w
      in src' = src1 \<and> w' = w1 \<and> int n = (if offset \<le> 0 then 0 else int (length packet) - offset) \<and>
         (0 < n \<longrightarrow> take n npdu' = take n (drop (nat offset) buf)))"

lemma bip_receive_packet:
  assumes "recv_laws lib" "handler_ok (bvlc_handler lib)" "handler_ok (bvlc_broadcast_handler lib)"
    and "m \<le> length npdu" "m < 65536" "0 \<le> BIP_Socket s"
    and sel: "zsock_select lib (max (BIP_Socket s) (BIP_Broadcast_Socket s) + 1)
      [BIP_Socket s, BIP_Broadcast_Socket s] (select_timeout t) w = (ready, fds, w1)"
    and "0 < ready"
    and recv: "zsock_recvfrom lib (if BIP_Socket s \<in> fds then BIP_Socket s else BIP_Broadcast_Socket s) m w1 =
      (rc, packet, sin, w2)"
    and "0 < rc" "packet ! 0 = BVLL_TYPE_BACNET_IP"
  shows "\<exists>n src' npdu' w'. bip_receive lib s src npdu m t w = Some (n, src', npdu', w') \<and>
    delivered lib s src npdu (if BIP_Socket s \<in> fds then BIP_Socket s else BIP_Broadcast_Socket s)
      packet sin w2 n src' npdu' w'"
proof -
  define socket where "socket = (if BIP_Socket s \<in> fds then BIP_Socket s else BIP_Broadcast_Socket s)"
  define handler where "handler = (if socket = BIP_Socket s then bvlc_handler lib else bvlc_broadcast_handler lib)"
  obtain offset src1 buf w3 where h: "handler s
      \<lparr>address = mem_u32 (little_endian lib) (sin_addr sin), port = ntohs (little_endian lib) (sin_port sin)\<rparr>
      src (overlay packet npdu) (of_int rc) w2 = (offset, src1, buf, w3)"
    by (metis prod_cases4)
  have ok: "handler_ok handler" using assms(2,3) by (simp add: handler_def)
  have rc: "rc \<le> int m" "length packet = nat rc" using recv_law [OF assms(1) recv] by simp_all
  then have len: "uint (of_int rc :: u16) = rc" "rc = int (length packet)"
    using uint_received [of rc] assms(5,10) by simp_all
  have off: "offset \<le> rc" "length buf = length npdu" using handler_okD [OF ok h] len(1) by simp_all
  have first: "overlay packet npdu ! 0 = BVLL_TYPE_BACNET_IP"
    using assms(4,10,11) rc by (simp add: overlay_def nth_append)
  have eq: "bip_receive lib s src npdu m t w =
      map_option (\<lambda>(n, npdu). (n, src1, npdu, w3)) (deliver_npdu buf rc offset m)"
    using assms(6,8,10) sel recv first h
    by (simp add: bip_receive_def Let_def socket_def [symmetric] handler_def [symmetric])
  obtain n npdu' where "deliver_npdu buf rc offset m = Some (n, npdu')"
    "int n = (if offset \<le> 0 then 0 else rc - offset)"
    "0 < n \<Longrightarrow> take n npdu' = take n (drop (nat offset) buf)"
    using deliver_npdu_packet [OF off(2) assms(4,5,10) rc(1) off(1)] by metis
  then show ?thesis
    using h len(2) unfolding eq delivered_def Let_def socket_def [symmetric] handler_def [symmetric] by auto
qed


section \<open>The life cycle of the sockets\<close>

definition bip_sockets :: "bip \<Rightarrow> int set" where
  "bip_sockets s = {BIP_Socket s, BIP_Broadcast_Socket s} - {- 1}"

lemma bip_cleanup_closes:
  "socket_laws lib fds \<Longrightarrow> bip_cleanup lib s w = (s', w') \<Longrightarrow>
   \<not> bip_valid s' \<and> bip_sockets s' = {} \<and> fds w' = fds w - bip_sockets s"
  by (cases "BIP_Socket s = - 1"; cases "BIP_Broadcast_Socket s = - 1")
    (auto simp: bip_cleanup_def bip_valid_def bip_sockets_def Let_def socket_law(4))

interpretation bip: datalink socket_laws bip_valid bip_sockets bip_receive bip_cleanup
  by unfold_locales (auto simp: bip_receive_bound bip_receive_def bip_valid_def dest: bip_cleanup_closes)

lemma createSocket_fds:
  assumes "socket_laws lib fds" "createSocket lib sin w = (fd, w')"
  shows "0 \<le> fd \<and> fd \<notin> fds w \<and> fds w' = insert fd (fds w) \<or> fd = - 1 \<and> fds w' = fds w"
proof -
  obtain fd0 w1 where sock: "zsock_socket lib w = (fd0, w1)" by fastforce
  obtain st1 w2 where opt: "zsock_setsockopt lib fd0 SO_REUSEADDR w1 = (st1, w2)" by fastforce
  obtain st2 w3 where bnd: "zsock_bind lib fd0 sin w2 = (st2, w3)" by fastforce
  note laws = socket_law(1) [OF assms(1) sock] socket_law(2) [OF assms(1) opt]
    socket_law(3) [OF assms(1) bnd] socket_law(4) [OF assms(1)]
  from assms(2) laws show ?thesis
    by (auto simp: createSocket_def sock opt bnd split: if_splits)
qed

text \<open>The calls on network interfaces and of the BVLC layer leave the descriptors alone.\<close>

definition interface_laws :: "('w, 'i, 'n, 'z) bip_lib_scheme \<Rightarrow> ('w \<Rightarrow> int set) \<Rightarrow> bool" where
  "interface_laws lib fds \<longleftrightarrow>
     (\<forall>i w. fds (snd (net_if_up lib i w)) = fds w) \<and>
     (\<forall>i a w. fds (net_if_ipv4_addr_add lib i a w) = fds w) \<and>
     (\<forall>i a b w. fds (net_if_ipv4_set_netmask_by_addr lib i a b w) = fds w) \<and>
     (\<forall>i w. fds (net_dhcpv4_start lib i w) = fds w) \<and>
     (\<forall>w. fds (snd (next_event lib w)) = fds w) \<and>
     (\<forall>w. fds (bvlc_init lib w) = fds w)"

lemma interface_law:
  assumes "interface_laws lib fds"
  shows "fds (snd (net_if_up lib i w)) = fds w" "fds (net_if_ipv4_addr_add lib i a w) = fds w"
    "fds (net_if_ipv4_set_netmask_by_addr lib i a b w) = fds w" "fds (net_dhcpv4_start lib i w) = fds w"
    "fds (snd (next_event lib w)) = fds w" "fds (bvlc_init lib w) = fds w"
  using assms by (simp_all add: interface_laws_def)

lemma sem_take_fds:
  "sem_take lib iface sem w = Some r \<Longrightarrow> interface_laws lib fds \<Longrightarrow> fds (snd r) = fds w"
  by (induction rule: sem_take.raw_induct [rotated, consumes 1, case_names step]) (auto simp: interface_law split: if_splits)

lemma wait_from_fds:
  "wait_from lib iface index sem w = Some r \<Longrightarrow> interface_laws lib fds \<Longrightarrow> fds (snd r) = fds w"
  by (induction rule: wait_from.raw_induct [rotated, consumes 1, case_names step])
    (auto simp: bind_eq_Some_conv split: if_splits dest!: sem_take_fds [where fds = fds])


lemma wait_for_ipv4_address_cases:
  assumes "wait_for_ipv4_address lib iface w = Some r"
  obtains w1 where "wait_from lib iface (ipv4_address_index lib iface w) 0 w1 = Some r"
    "w1 = w \<or> w1 = net_dhcpv4_start lib iface w \<and> ipv4_address_index lib iface w < 0"
  using assms by (auto simp: wait_for_ipv4_address_def Let_def split: if_splits)

lemma wait_for_ipv4_address_fds:
  assumes "wait_for_ipv4_address lib iface w = Some r" "interface_laws lib fds"
  shows "fds (snd r) = fds w"
proof -
  obtain w1 where "wait_from lib iface (ipv4_address_index lib iface w) 0 w1 = Some r"
    "w1 = w \<or> w1 = net_dhcpv4_start lib iface w \<and> ipv4_address_index lib iface w < 0"
    by (rule wait_for_ipv4_address_cases [OF assms(1)])
  then show ?thesis using wait_from_fds [OF _ assms(2)] interface_law(4) [OF assms(2)] by metis
qed


lemma select_frame [simp]:
  "BIP_Socket (use_address lib a s) = BIP_Socket s"
  "BIP_Broadcast_Socket (use_address lib a s) = BIP_Broadcast_Socket s"
  "bip_sockets (use_address lib a s) = bip_sockets s"
  by (simp_all add: use_address_def bip_set_addr_def bip_set_broadcast_addr_def Let_def bip_sockets_def)

lemma bip_set_interface_frame:
  assumes "bip_set_interface lib ifname s w = Some (s', w')" "interface_laws lib fds"
  shows "bip_sockets s' = bip_sockets s \<and> fds w' = fds w"
proof (cases "select_interface lib ifname w")
  case (Some iface)
  obtain ret w1 where up: "(if net_if_is_up lib iface w then (0, w) else net_if_up lib iface w) = (ret, w1)"
    by fastforce
  then have w1: "fds w1 = fds w" using interface_law(1) [OF assms(2), of iface w] by (auto split: if_splits)
  have "s' = s \<and> fds w' = fds w1 \<or>
    (\<exists>index unicast. wait_for_ipv4_address lib iface w1 = Some (index, w') \<and>
      s' = use_address lib (unicast ! nat index) s)"
    using assms(1) Some
    by (auto simp: bip_set_interface_def up interface_law [OF assms(2)] bind_eq_Some_conv split: if_splits option.splits)
  then show ?thesis using w1 wait_for_ipv4_address_fds [OF _ assms(2), of iface w1] by auto
qed (use assms(1) in \<open>simp add: bip_set_interface_def\<close>)

lemma bip_open_opens:
  assumes "socket_laws lib fds" "interface_laws lib fds" "bip_sockets s = {}" "bip_open lib s w = (ok, s', w')"
  shows "fds w' = fds w \<union> bip_sockets s'" "bip_sockets s' \<inter> fds w = {}" "BIP_Address s' = BIP_Address s"
    "ok \<Longrightarrow> BIP_Address s \<noteq> 0 \<and> 0 \<le> BIP_Socket s' \<and> 0 \<le> BIP_Broadcast_Socket s' \<and>
      BIP_Socket s' \<noteq> BIP_Broadcast_Socket s'"
    "\<not> ok \<Longrightarrow> BIP_Broadcast_Socket s' = - 1"
proof -
  obtain fd1 w1 where fd1: "createSocket lib \<lparr>sin_port = BIP_Port s, sin_addr = BIP_Address s\<rparr> w = (fd1, w1)"
    by fastforce
  obtain fd2 w2 where fd2: "createSocket lib \<lparr>sin_port = BIP_Port s, sin_addr = 0\<rparr> w1 = (fd2, w2)"
    by fastforce
  have none: "BIP_Socket s = - 1" "BIP_Broadcast_Socket s = - 1"
    using assms(3) by (auto simp: bip_sockets_def)
  note laws = createSocket_fds [OF assms(1) fd1] createSocket_fds [OF assms(1) fd2] interface_law(6) [OF assms(2)]
  have cases: "BIP_Address s = 0 \<and> \<not> ok \<and> s' = s \<and> w' = w \<or>
    BIP_Address s \<noteq> 0 \<and> fd1 < 0 \<and> \<not> ok \<and> s' = s\<lparr>BIP_Socket := fd1\<rparr> \<and> w' = w1 \<or>
    BIP_Address s \<noteq> 0 \<and> 0 \<le> fd1 \<and> fd2 < 0 \<and> \<not> ok \<and>
      s' = s\<lparr>BIP_Socket := fd1, BIP_Broadcast_Socket := fd2\<rparr> \<and> w' = w2 \<or>
    BIP_Address s \<noteq> 0 \<and> 0 \<le> fd1 \<and> 0 \<le> fd2 \<and> ok \<and>
      s' = s\<lparr>BIP_Socket := fd1, BIP_Broadcast_Socket := fd2\<rparr> \<and> w' = bvlc_init lib w2"
    using assms(4) by (simp add: bip_open_def Let_def fd1 fd2 split: if_splits)
  show "fds w' = fds w \<union> bip_sockets s'" "bip_sockets s' \<inter> fds w = {}" "BIP_Address s' = BIP_Address s"
    "ok \<Longrightarrow> BIP_Address s \<noteq> 0 \<and> 0 \<le> BIP_Socket s' \<and> 0 \<le> BIP_Broadcast_Socket s' \<and>
      BIP_Socket s' \<noteq> BIP_Broadcast_Socket s'"
    "\<not> ok \<Longrightarrow> BIP_Broadcast_Socket s' = - 1"
    using cases laws none by (elim disjE conjE; auto simp: bip_sockets_def)+
qed


section \<open>Waiting for an address\<close>



text \<open>The world after \<open>k\<close> more network events.\<close>

definition after_events :: "('w, 'i, 'n, 'z) bip_lib_scheme \<Rightarrow> nat \<Rightarrow> 'w \<Rightarrow> 'w" where
  "after_events lib k w = ((\<lambda>w. snd (next_event lib w)) ^^ k) w"

lemma after_events_simps [simp]:
  "after_events lib 0 w = w"
  "after_events lib (Suc k) w = after_events lib k (snd (next_event lib w))"
  by (simp_all add: after_events_def funpow_swap1 del: funpow.simps(2) add: funpow_Suc_right)


lemma wait_from_now [simp]: "\<not> index < 0 \<Longrightarrow> wait_from lib iface index sem w = Some (index, w)"
  by (simp add: wait_from.simps)


section \<open>Properties\<close>

text \<open>
  C11. A packet that the two sockets deliver is handed to the handler of its socket with the
  address of its sender, and the receive ends with the NPDU of it at the start of the buffer: its
  length is the packet without the offset that the handler returned, no more than the buffer holds,
  and its bytes are those behind the offset. No access leaves the buffer.
\<close>

theorem bip_receive_delivers:
  assumes "recv_laws lib" "handler_ok (bvlc_handler lib)" "handler_ok (bvlc_broadcast_handler lib)"
    and "m \<le> length npdu" "m < 65536" "0 \<le> BIP_Socket s"
    and "zsock_select lib (max (BIP_Socket s) (BIP_Broadcast_Socket s) + 1)
      [BIP_Socket s, BIP_Broadcast_Socket s] (select_timeout t) w = (ready, fds, w1)" "0 < ready"
    and "zsock_recvfrom lib (if BIP_Socket s \<in> fds then BIP_Socket s else BIP_Broadcast_Socket s) m w1 =
      (rc, packet, sin, w2)"
    and "0 < rc" "packet ! 0 = BVLL_TYPE_BACNET_IP"
  shows "\<exists>n src' npdu' w'. bip_receive lib s src npdu m t w = Some (n, src', npdu', w') \<and> n \<le> m \<and>
    delivered lib s src npdu (if BIP_Socket s \<in> fds then BIP_Socket s else BIP_Broadcast_Socket s)
      packet sin w2 n src' npdu' w'"
  using bip_receive_packet [OF assms] bip_receive_bound by meson

text \<open>
  C6. An initialisation of a datalink without sockets opens two sockets that were not in use and
  succeeds, or fails and keeps at most the first of them; whatever it opened is what the sockets of
  the datalink are, so that the cleanup after it, successful or not, leaves no descriptor behind and
  the datalink invalid. The address survives the cleanup, and with it the next initialisation does
  not wait for the network.
\<close>

theorem bip_life_cycle:
  assumes "socket_laws lib fds" "interface_laws lib fds" "bip_sockets s = {}"
    and "bip_init lib ifname s w = Some (ok, s', w')" and "bip_cleanup lib s' w' = (s'', w'')"
  shows "fds w' = fds w \<union> bip_sockets s' \<and> bip_sockets s' \<inter> fds w = {} \<and>
    (if ok then 0 \<le> BIP_Socket s' \<and> 0 \<le> BIP_Broadcast_Socket s' \<and>
         BIP_Socket s' \<noteq> BIP_Broadcast_Socket s' \<and> BIP_Address s' \<noteq> 0
     else BIP_Broadcast_Socket s' = - 1) \<and>
    \<not> bip_valid s'' \<and> bip_sockets s'' = {} \<and> fds w'' = fds w \<and> BIP_Address s'' = BIP_Address s' \<and>
    (BIP_Address s' \<noteq> 0 \<longrightarrow> bip_init lib ifname' s'' w'' = Some (bip_open lib s'' w''))"
proof -
  obtain s0 w0 where pre: "(if BIP_Address s = 0 then bip_set_interface lib ifname s w else Some (s, w)) = Some (s0, w0)"
    and opn: "bip_open lib s0 w0 = (ok, s', w')"
    using assms(4) by (auto simp: bip_init_def)
  have s0: "bip_sockets s0 = {}" "fds w0 = fds w"
    using pre bip_set_interface_frame [OF _ assms(2)] assms(3) by (auto split: if_splits)
  note open_facts = bip_open_opens [OF assms(1,2) s0(1) opn]
  have addr: "BIP_Address s'' = BIP_Address s'"
    using assms(5) by (auto simp: bip_cleanup_def Let_def)
  show ?thesis
    using open_facts s0 addr bip.cleanup_closes [OF assms(1,5)] by (auto simp: bip_init_def)
qed


text \<open>
  C30. The subnet prefix is computed from the address and the broadcast address. After the
  interface's address with a netmask of \<open>k\<close> whole octets was taken over on a little-endian target,
  it is the prefix \<open>8 * k\<close> of the netmask exactly when the last octet of the network part is below
  128; otherwise it is shorter.
\<close>

theorem bip_subnet_prefix_octets:
  assumes "little_endian lib" "length (s4_addr a) = 4" "netmask a = octet_mask k" "1 \<le> k" "k \<le> 4"
  shows "let prefix = unat (bip_get_subnet_prefix (use_address lib a s))
         in prefix \<le> 8 * k \<and> (prefix = 8 * k \<longleftrightarrow> s4_addr a ! (k - 1) < 128)"
  using subnet_prefix_exact [OF _ _ use_address_word(1) [OF assms, of s]] use_address_word(2) [OF assms, of s]
    assms(4,5) by (simp add: Let_def not_le)

text \<open>
  An address that was set is read back, on a target of either byte order, and the MAC address
  of the datalink is its four bytes followed by the port, high byte first.
\<close>

lemma bip_address_roundtrip:
  assumes "length (address a) = 4" "6 \<le> length (mac m)"
  shows "let s' = snd (bip_set_addr e (Some a) s)
         in bip_get_addr e s' (Some b) = (True, Some (b\<lparr>address := address a, port := port a\<rparr>)) \<and>
            map_option (\<lambda>x. take (mac_len x) (mac x)) (bip_get_my_address e s' (Some m)) =
              Some (address a @ [ucast (drop_bit 8 (port a)), ucast (port a)])"
  using assms
  by (simp add: bip_set_addr_def bip_get_addr_def bip_get_my_address_def Let_def bip_mac_eq BIP_ADDRESS_MAX_def)


section \<open>Witnesses\<close>

text \<open>
  A small network: the open descriptors, the events to come, whether interface 0 got its address,
  and the packets that wait on every socket.
\<close>

record small_net =
  open_fds :: "int list"
  events :: "(nat \<times> bool) list"
  configured :: bool
  incoming :: "byte list list"

definition small_fds :: "small_net \<Rightarrow> int set" where
  "small_fds w = set (open_fds w)"

definition small_if_addr :: if_addr where
  "small_if_addr = \<lparr>is_used = True, is_inet = True, is_dhcp = True, s4_addr = [192, 168, 1, 7],
     netmask = [255, 255, 255, 0]\<rparr>"

definition small_next_event :: "small_net \<Rightarrow> (nat \<times> bool) \<times> small_net" where
  "small_next_event w =
     (case events w of
        [] \<Rightarrow> ((0, False), w)
      | e # es \<Rightarrow> (e, w\<lparr>events := es, configured := configured w \<or> e = (0, True)\<rparr>))"

definition small_recv :: "int \<Rightarrow> nat \<Rightarrow> small_net \<Rightarrow> int \<times> byte list \<times> sockaddr_in \<times> small_net" where
  "small_recv fd n w =
     (case incoming w of
        [] \<Rightarrow> (- 1, [], \<lparr>sin_port = 0, sin_addr = 0\<rparr>, w)
      | p # ps \<Rightarrow> (int (length (take n p)), take n p, \<lparr>sin_port = 47808, sin_addr = 42\<rparr>, w\<lparr>incoming := ps\<rparr>))"

definition small_handler :: "bip \<Rightarrow> ip_address \<Rightarrow> bacnet_address \<Rightarrow> byte list \<Rightarrow> u16 \<Rightarrow> small_net \<Rightarrow>
    int \<times> bacnet_address \<times> byte list \<times> small_net" where
  "small_handler s addr src npdu n w = (if 4 \<le> n then 4 else 0, src, npdu, w)"

definition small_bip :: "(small_net, nat, unit) bip_lib" where
  "small_bip =
     \<lparr>little_endian = True,
      zsock_socket = (\<lambda>w. let fd = 1 + foldr max (open_fds w) 0 in (fd, w\<lparr>open_fds := fd # open_fds w\<rparr>)),
      zsock_setsockopt = (\<lambda>fd opt w. (0, w)), zsock_bind = (\<lambda>fd a w. (0, w)),
      zsock_close = (\<lambda>fd w. w\<lparr>open_fds := removeAll fd (open_fds w)\<rparr>),
      zsock_sendto = (\<lambda>fd bs a w. (int (length bs), w)),
      zsock_select = (\<lambda>n fds t w. (if incoming w = [] then 0 else 1, {hd fds}, w)),
      zsock_recvfrom = small_recv,
      bip_libc = \<lparr>ulong_max = 4294967295, scan_overflow = (\<lambda>v. v)\<rparr>,
      CONFIG_BACDL_BIP_ADDRESS_INDEX = None, CONFIG_NET_DHCPV4 = True, NET_IF_MAX_IPV4_ADDR = 1,
      net_if_get_by_index = (\<lambda>i w. Some 0), net_if_get_default = (\<lambda>w. Some 0),
      net_if_is_up = (\<lambda>i w. True), net_if_up = (\<lambda>i w. (0, w)), net_if_ipv4_addr_add = (\<lambda>i a w. w),
      net_if_ipv4_set_netmask_by_addr = (\<lambda>i a b w. w), net_dhcpv4_start = (\<lambda>i w. w),
      ipv4_config = (\<lambda>i w. Some (if configured w \<and> i = 0 then [small_if_addr] else [])),
      next_event = small_next_event, bvlc_init = (\<lambda>w. w), bvlc_handler = small_handler,
      bvlc_broadcast_handler = small_handler, bvlc_send_pdu = (\<lambda>s dest d pdu n w. (int n, w))\<rparr>"

lemma small_bip_sockets: "socket_laws small_bip small_fds"
proof -
  have nonneg: "0 \<le> foldr max l (0 :: int)" for l by (induction l) (auto simp: le_max_iff_disj)
  have "x \<le> foldr max l (0 :: int)" if "x \<in> set l" for x l
    using that by (induction l) (auto simp: le_max_iff_disj)
  then have new: "1 + foldr max l (0 :: int) \<notin> set l" for l by fastforce
  show ?thesis
    using nonneg new by (auto simp: socket_laws_def small_bip_def small_fds_def Let_def)
qed

lemma small_bip_interface: "interface_laws small_bip small_fds"
  by (simp add: interface_laws_def small_bip_def small_fds_def small_next_event_def split: list.split)

lemma small_bip_receive:
  "recv_laws small_bip" "handler_ok (bvlc_handler small_bip)" "handler_ok (bvlc_broadcast_handler small_bip)"
  by (auto simp: recv_laws_def handler_ok_def small_bip_def small_recv_def small_handler_def word_le_def
      split: list.splits)

text \<open>The network gives its address to interface 0 with the third event.\<close>

definition small_start :: small_net where
  "small_start = \<lparr>open_fds = [7], events = [(1, True), (0, False), (0, True)], configured = False,
     incoming = [[0x81, 0x0a, 0, 6, 1, 2]]\<rparr>"


definition small_bip_state :: bip where
  "small_bip_state = snd (bip_set_addr True (Some \<lparr>address = [192, 168, 1, 7], port = 47808\<rparr>) (bip_reset True 47808))"

lemma small_bip_address [simp]: "BIP_Address small_bip_state \<noteq> 0" "bip_sockets small_bip_state = {}"
  by (simp_all add: small_bip_state_def bip_set_addr_def bip_reset_def u32_mem_def bip_sockets_def)

lemma small_bip_init:
  "bip_init small_bip None small_bip_state small_start =
    Some (True, small_bip_state\<lparr>BIP_Socket := 8, BIP_Broadcast_Socket := 9\<rparr>, small_start\<lparr>open_fds := [9, 8, 7]\<rparr>)"
  using small_bip_address(1)
  by (simp add: bip_init_def bip_open_def createSocket_def small_bip_def small_start_def Let_def)

lemma bip_life_cycle_witness:
  "small_fds (snd (bip_cleanup small_bip
     (small_bip_state\<lparr>BIP_Socket := 8, BIP_Broadcast_Socket := 9\<rparr>) (small_start\<lparr>open_fds := [9, 8, 7]\<rparr>))) = {7}"
proof -
  have "small_fds (snd (bip_cleanup small_bip
     (small_bip_state\<lparr>BIP_Socket := 8, BIP_Broadcast_Socket := 9\<rparr>) (small_start\<lparr>open_fds := [9, 8, 7]\<rparr>))) = small_fds small_start"
    using bip_life_cycle [OF small_bip_sockets small_bip_interface small_bip_address(2) small_bip_init
      prod.collapse [symmetric], of None] by simp
  then show ?thesis by (simp add: small_fds_def small_start_def)
qed

lemma bip_receive_delivers_witness:
  "\<exists>n src' npdu' w'. bip_receive small_bip (small_bip_state\<lparr>BIP_Socket := 7\<rparr>)
      \<lparr>mac_len = 0, mac = [], net = 0, len = 0, adr = []\<rparr> [0, 0, 0, 0, 0, 0, 0, 0] 8 10 small_start =
    Some (n, src', npdu', w') \<and> n \<le> 8 \<and>
    delivered small_bip (small_bip_state\<lparr>BIP_Socket := 7\<rparr>) \<lparr>mac_len = 0, mac = [], net = 0, len = 0, adr = []\<rparr>
      [0, 0, 0, 0, 0, 0, 0, 0] 7 [0x81, 0x0a, 0, 6, 1, 2] \<lparr>sin_port = 47808, sin_addr = 42\<rparr>
      (small_start\<lparr>incoming := []\<rparr>) n src' npdu' w'"
  using bip_receive_delivers [OF small_bip_receive, of 8 "[0, 0, 0, 0, 0, 0, 0, 0]" "small_bip_state\<lparr>BIP_Socket := 7\<rparr>" 10
      small_start 1 "{7}" small_start 6 "[0x81, 0x0a, 0, 6, 1, 2]" "\<lparr>sin_port = 47808, sin_addr = 42\<rparr>"
      "small_start\<lparr>incoming := []\<rparr>" "\<lparr>mac_len = 0, mac = [], net = 0, len = 0, adr = []\<rparr>"]
  by (simp add: small_bip_def small_start_def small_recv_def BVLL_TYPE_BACNET_IP_def)

text \<open>With the third octet below 128 the prefix of a /24 network is found; above it is not.\<close>

lemma bip_subnet_prefix_octets_witness:
  "unat (bip_get_subnet_prefix (use_address small_bip small_if_addr small_bip_state)) = 24 \<and>
   unat (bip_get_subnet_prefix (use_address small_bip (small_if_addr\<lparr>s4_addr := [192, 168, 200, 7]\<rparr>) small_bip_state)) < 24"
proof -
  have m: "little_endian small_bip" "octet_mask 3 = [255, 255, 255, 0]"
    by (simp_all add: small_bip_def octet_mask_def numeral_3_eq_3)
  show ?thesis
    using bip_subnet_prefix_octets [of small_bip small_if_addr 3 small_bip_state]
      bip_subnet_prefix_octets [of small_bip "small_if_addr\<lparr>s4_addr := [192, 168, 200, 7]\<rparr>" 3 small_bip_state]
    by (simp add: m small_if_addr_def Let_def)
qed

lemma bip_address_roundtrip_witness:
  "fst (bip_get_addr True small_bip_state (Some \<lparr>address = [], port = 0\<rparr>))"
  using bip_address_roundtrip [of "\<lparr>address = [192, 168, 1, 7], port = 47808\<rparr>"
      "\<lparr>mac_len = 0, mac = [0, 0, 0, 0, 0, 0, 0], net = 0, len = 0, adr = []\<rparr>" True "bip_reset True 47808"
      "\<lparr>address = [], port = 0\<rparr>"]
  by (simp add: small_bip_state_def Let_def)

text \<open>
  A netmask that does not end at an octet: the last octet of the network part is 1, the broadcast
  address has ones in its low four bits and in the octet after it. The result is 33, no prefix.
\<close>

lemma bip_subnet_prefix_20:
  assumes "BIP_Address s = u32_mem True [192, 168, 1, 7]" "BIP_Broadcast_Addr s = u32_mem True [192, 168, 15, 255]"
  shows "bip_get_subnet_prefix s = 33"
proof -
  let ?a = "u32_mem True [192, 168, 1, 7]" and ?b = "u32_mem True [192, 168, 15, 255]"
  define r where "r = subnet_prefix_from ?a ?b (NOT (mask 1)) 1"
  have r: "r \<le> 33" "r \<le> 32 \<Longrightarrow> ?a OR NOT (mask r) = ?b"
    using subnet_prefix_from_least [of 1 ?a ?b] by (simp_all add: Let_def r_def)
  have bits: "\<not> bit ?b 23" "bit ?b 17" "\<not> bit ?a 17"
    by (simp_all only: bit_u32_mem) simp_all
  have "\<not> r \<le> 32"
  proof
    assume "r \<le> 32"
    then have "bit ?b i \<longleftrightarrow> bit ?a i \<or> r \<le> i \<and> i < 32" for i
      using r(2) bit_or_iff [of ?a "NOT (mask r)" i] by (simp only: host_mask_bit)
    from this [of 23] this [of 17] show False using bits by simp
  qed
  then have "r = 33" using r(1) by simp
  then show ?thesis by (simp only: bip_get_subnet_prefix_def assms mask_first r_def [symmetric]) simp
qed

text \<open>
  When only the second socket cannot be opened, the initialisation reports a failure and the
  datalink is valid.
\<close>

lemma bip_init_half_open:
  "let lib = small_bip\<lparr>zsock_bind := (\<lambda>fd a w. (if sin_addr a = 0 then - 1 else 0, w))\<rparr>
   in case bip_init lib None small_bip_state small_start of
        Some (ok, s, w) \<Rightarrow> \<not> ok \<and> bip_valid s \<and> BIP_Broadcast_Socket s = - 1
      | None \<Rightarrow> False"
  by code_simp

end
