(* ===== verification/Bip6.thy ===== *)
theory Bip6
  imports Bip
begin

text \<open>
  The BACnet/IPv6 datalink (\<open>subsys/bacnet_datalink/bip6-init.c\<close>): one socket, the address of a
  configured index of the interface, a multicast group in place of a broadcast address. The layer
  BVLC6 and the helpers on \<open>BACNET_IP6_ADDRESS\<close> belong to the BACnet stack.
\<close>

section \<open>State\<close>

text \<open>\<open>BACNET_IP6_ADDRESS\<close>: sixteen bytes and a port in host order.\<close>

record ip6_address =
  address6 :: "byte list"
  port6 :: u16

record bip6 =
  BIP6_Socket :: int
  BIP6_Socket_Scope_Id :: int
  BIP6_Addr :: ip6_address
  BIP6_Broadcast_Addr :: ip6_address

text \<open>The eight words of \<open>sin6_addr\<close> are those of memory, that is in network byte order.\<close>

record sockaddr_in6 =
  sin6_port :: u16
  s6_addr16 :: "u16 list"
  sin6_scope_id :: int

definition BVLL_TYPE_BACNET_IP6 :: byte where "BVLL_TYPE_BACNET_IP6 = 0x82"
definition BIP6_MULTICAST_SITE_LOCAL :: u16 where "BIP6_MULTICAST_SITE_LOCAL = 0xFF05"
definition BIP6_MULTICAST_GROUP_ID :: u16 where "BIP6_MULTICAST_GROUP_ID = 0xBAC0"

text \<open>
  \<open>ipv6_config\<close> reads the \<open>NET_IF_MAX_IPV6_ADDR\<close> unicast addresses of an interface, or finds the
  pointer to its IPv6 configuration to be NULL. \<open>net_addr_pton\<close> gets and returns the bytes it may store.
\<close>

record ('w, 'i, 'n) bip6_lib = "('w, sockaddr_in6) socket_lib" +
  bip6_libc :: libc
  CONFIG_BACDL_BIP6_ADDRESS_INDEX :: nat
  CONFIG_BACDL_BIP6_MCAST_ADDRESS :: string
  NET_IF_MAX_IPV6_ADDR :: nat
  if6_get_by_index :: "int \<Rightarrow> 'w \<Rightarrow> 'i option"
  if6_get_default :: "'w \<Rightarrow> 'i option"
  net_if_get_by_iface :: "'i \<Rightarrow> int"
  ipv6_config :: "'i \<Rightarrow> 'w \<Rightarrow> byte list list option"
  net_addr_pton :: "string \<Rightarrow> byte list \<Rightarrow> int \<times> byte list"
  bvlc6_address_copy :: "ip6_address option \<Rightarrow> ip6_address option \<Rightarrow> bool \<times> ip6_address option"
  bvlc6_address_get :: "ip6_address \<Rightarrow> u16 list"
  bvlc6_address_set :: "ip6_address \<Rightarrow> u16 list \<Rightarrow> ip6_address"
  bvlc6_vmac_address_set :: "bacnet_address \<Rightarrow> u32 \<Rightarrow> bacnet_address"
  Device_Object_Instance_Number :: "'w \<Rightarrow> u32"
  bvlc6_init :: "'w \<Rightarrow> 'w"
  bvlc6_cleanup :: "'w \<Rightarrow> 'w"
  bvlc6_handler :: "bip6 \<Rightarrow> ip6_address \<Rightarrow> bacnet_address \<Rightarrow> byte list \<Rightarrow> u16 \<Rightarrow> 'w \<Rightarrow>
    int \<times> bacnet_address \<times> byte list \<times> 'w"
  bvlc6_send_pdu :: "bip6 \<Rightarrow> bacnet_address \<Rightarrow> 'n \<Rightarrow> byte list \<Rightarrow> nat \<Rightarrow> 'w \<Rightarrow> int \<times> 'w"

definition no_address6 :: ip6_address where
  "no_address6 = \<lparr>address6 = replicate 16 0, port6 = 0\<rparr>"

definition bip6_reset :: bip6 where
  "bip6_reset = \<lparr>BIP6_Socket = - 1, BIP6_Socket_Scope_Id = 0, BIP6_Addr = no_address6,
     BIP6_Broadcast_Addr = no_address6\<rparr>"

section \<open>Addresses\<close>

definition bip6_set_port :: "u16 \<Rightarrow> bip6 \<Rightarrow> bip6" where
  "bip6_set_port p s =
     s\<lparr>BIP6_Addr := (BIP6_Addr s)\<lparr>port6 := p\<rparr>, BIP6_Broadcast_Addr := (BIP6_Broadcast_Addr s)\<lparr>port6 := p\<rparr>\<rparr>"

definition bip6_get_port :: "bip6 \<Rightarrow> u16" where
  "bip6_get_port s = port6 (BIP6_Addr s)"

definition bip6_get_broadcast_address :: "bacnet_address option \<Rightarrow> bacnet_address option" where
  "bip6_get_broadcast_address addr =
     map_option (\<lambda>a. a\<lparr>net := BACNET_BROADCAST_NETWORK, mac_len := 0, len := 0\<rparr>) addr"

definition bip6_get_my_address ::
    "('w, 'i, 'n, 'z) bip6_lib_scheme \<Rightarrow> bacnet_address option \<Rightarrow> 'w \<Rightarrow> bacnet_address option" where
  "bip6_get_my_address lib addr w =
     map_option (\<lambda>a. bvlc6_vmac_address_set lib a (Device_Object_Instance_Number lib w)) addr"

definition bip6_set_addr :: "('w, 'i, 'n, 'z) bip6_lib_scheme \<Rightarrow> ip6_address option \<Rightarrow> bip6 \<Rightarrow> bool \<times> bip6" where
  "bip6_set_addr lib addr s =
     (case bvlc6_address_copy lib (Some (BIP6_Addr s)) addr of
        (ok, Some a) \<Rightarrow> (ok, s\<lparr>BIP6_Addr := a\<rparr>)
      | (ok, None) \<Rightarrow> (ok, s))"

definition bip6_get_addr ::
    "('w, 'i, 'n, 'z) bip6_lib_scheme \<Rightarrow> bip6 \<Rightarrow> ip6_address option \<Rightarrow> bool \<times> ip6_address option" where
  "bip6_get_addr lib s addr = bvlc6_address_copy lib addr (Some (BIP6_Addr s))"

definition bip6_set_broadcast_addr ::
    "('w, 'i, 'n, 'z) bip6_lib_scheme \<Rightarrow> ip6_address option \<Rightarrow> bip6 \<Rightarrow> bool \<times> bip6" where
  "bip6_set_broadcast_addr lib addr s =
     (case bvlc6_address_copy lib (Some (BIP6_Broadcast_Addr s)) addr of
        (ok, Some a) \<Rightarrow> (ok, s\<lparr>BIP6_Broadcast_Addr := a\<rparr>)
      | (ok, None) \<Rightarrow> (ok, s))"

definition bip6_get_broadcast_addr ::
    "('w, 'i, 'n, 'z) bip6_lib_scheme \<Rightarrow> bip6 \<Rightarrow> ip6_address option \<Rightarrow> bool \<times> ip6_address option" where
  "bip6_get_broadcast_addr lib s addr = bvlc6_address_copy lib addr (Some (BIP6_Broadcast_Addr s))"

text \<open>\<open>select_interface6\<close> is the same choice as in the IPv4 datalink.\<close>

definition select_interface6 ::
    "('w, 'i, 'n, 'z) bip6_lib_scheme \<Rightarrow> string option \<Rightarrow> 'w \<Rightarrow> 'i option" where
  "select_interface6 lib ifname w =
     (let index = (case ifname of None \<Rightarrow> - 1 | Some name \<Rightarrow> atoi (bip6_libc lib) name);
          iface = (case ifname of
             None \<Rightarrow> None
           | Some name \<Rightarrow> if index = 0 \<and> name \<noteq> ''0'' then None else if6_get_by_index lib index w)
      in if index = - 1 then if6_get_default lib w else iface)"

text \<open>\<^const>\<open>None\<close> where the code follows the NULL pointer of an interface without IPv6.\<close>

definition bip6_set_interface ::
    "('w, 'i, 'n, 'z) bip6_lib_scheme \<Rightarrow> string option \<Rightarrow> bip6 \<Rightarrow> 'w \<Rightarrow> bip6 option" where
  "bip6_set_interface lib ifname s w =
     (let port = bip6_get_port s;
          unicast = no_address6\<lparr>port6 := port\<rparr>;
          multicast = no_address6\<lparr>port6 := port\<rparr>
      in case select_interface6 lib ifname w of
           None \<Rightarrow> Some s
         | Some iface \<Rightarrow>
             let s = s\<lparr>BIP6_Socket_Scope_Id := net_if_get_by_iface lib iface\<rparr>
             in case ipv6_config lib iface w of
                  None \<Rightarrow> None
                | Some addrs \<Rightarrow>
                    if NET_IF_MAX_IPV6_ADDR lib \<le> CONFIG_BACDL_BIP6_ADDRESS_INDEX lib then Some s
                    else
                      let unicast = unicast\<lparr>address6 := addrs ! CONFIG_BACDL_BIP6_ADDRESS_INDEX lib\<rparr>;
                          (err, bs) = net_addr_pton lib (CONFIG_BACDL_BIP6_MCAST_ADDRESS lib) (address6 multicast);
                          multicast = multicast\<lparr>address6 := bs\<rparr>
                      in Some (snd (bip6_set_broadcast_addr lib (Some multicast)
                           (snd (bip6_set_addr lib (Some unicast) s)))))"

section \<open>Sending and receiving\<close>

definition bip6_send_mpdu ::
    "('w, 'i, 'n, 'z) bip6_lib_scheme \<Rightarrow> bip6 \<Rightarrow> ip6_address \<Rightarrow> byte list \<Rightarrow> u16 \<Rightarrow> 'w \<Rightarrow> int \<times> 'w" where
  "bip6_send_mpdu lib s dest mtu mtu_len w =
     (if BIP6_Socket s < 0 then (BIP6_Socket s, w)
      else zsock_sendto lib (BIP6_Socket s) (take (unat mtu_len) mtu)
        \<lparr>sin6_port = htons (little_endian lib) (port6 dest),
         s6_addr16 = map (htons (little_endian lib)) (bvlc6_address_get lib dest),
         sin6_scope_id = BIP6_Socket_Scope_Id s\<rparr> w)"

definition bip6_send_pdu ::
    "('w, 'i, 'n, 'z) bip6_lib_scheme \<Rightarrow> bip6 \<Rightarrow> bacnet_address \<Rightarrow> 'n \<Rightarrow> byte list \<Rightarrow> nat \<Rightarrow> 'w \<Rightarrow> int \<times> 'w" where
  "bip6_send_pdu lib s dest npdu_data pdu pdu_len w = bvlc6_send_pdu lib s dest npdu_data pdu pdu_len w"

definition bip6_receive ::
    "('w, 'i, 'n, 'z) bip6_lib_scheme \<Rightarrow> bip6 \<Rightarrow> bacnet_address \<Rightarrow> byte list \<Rightarrow> nat \<Rightarrow> nat \<Rightarrow> 'w \<Rightarrow>
     (nat \<times> bacnet_address \<times> byte list \<times> 'w) option" where
  "bip6_receive lib s src npdu max_npdu timeout w =
     (if BIP6_Socket s < 0 then Some (0, src, npdu, w)
      else
        let m = BIP6_Socket s;
            (ready, read_fds, w) = zsock_select lib (m + 1) [BIP6_Socket s] (select_timeout timeout) w
        in if ready \<le> 0 then Some (0, src, npdu, w)
        else
          let (received_bytes, data, sin, w) = zsock_recvfrom lib (BIP6_Socket s) max_npdu w;
              npdu = overlay data npdu
          in if received_bytes \<le> 0 then Some (0, src, npdu, w)
          else if npdu ! 0 \<noteq> BVLL_TYPE_BACNET_IP6 then Some (0, src, npdu, w)
          else
            let addr = (bvlc6_address_set lib no_address6 (map (ntohs (little_endian lib)) (s6_addr16 sin)))
                         \<lparr>port6 := ntohs (little_endian lib) (sin6_port sin)\<rparr>;
                (offset, src, npdu, w) = bvlc6_handler lib s addr src npdu (of_int received_bytes) w
            in map_option (\<lambda>(npdu_len, npdu). (npdu_len, src, npdu, w))
                 (deliver_npdu npdu received_bytes offset max_npdu))"

section \<open>Life cycle\<close>

definition bip6_cleanup :: "('w, 'i, 'n, 'z) bip6_lib_scheme \<Rightarrow> bip6 \<Rightarrow> 'w \<Rightarrow> bip6 \<times> 'w" where
  "bip6_cleanup lib s w =
     (let w = bvlc6_cleanup lib w;
          w = (if BIP6_Socket s \<noteq> - 1 then zsock_close lib (BIP6_Socket s) w else w)
      in (s\<lparr>BIP6_Socket := - 1\<rparr>, w))"

text \<open>The socket of \<open>bip6_init\<close>: an error of the first two options is only logged.\<close>

definition bip6_open :: "('w, 'i, 'n, 'z) bip6_lib_scheme \<Rightarrow> bip6 \<Rightarrow> 'w \<Rightarrow> bool \<times> bip6 \<times> 'w" where
  "bip6_open lib s w =
     (let (sock_fd, w) = zsock_socket lib w;
          s = s\<lparr>BIP6_Socket := sock_fd\<rparr>
      in if sock_fd < 0 then (False, s, w)
      else
        let (status, w) = zsock_setsockopt lib sock_fd SO_REUSEADDR w;
            (status, w) = zsock_setsockopt lib sock_fd SO_BROADCAST w;
            (status, w) = zsock_setsockopt lib sock_fd
              (IPV6_ADD_MEMBERSHIP (address6 (BIP6_Broadcast_Addr s)) (BIP6_Socket_Scope_Id s)) w
        in if status < 0 then (False, s, w)
        else
          let (status, w) = zsock_bind lib sock_fd
                \<lparr>sin6_port = htons (little_endian lib) (port6 (BIP6_Addr s)), s6_addr16 = replicate 8 0,
                 sin6_scope_id = 0\<rparr> w
          in if status < 0 then (False, s\<lparr>BIP6_Socket := - 1\<rparr>, zsock_close lib sock_fd w)
          else (True, s, bvlc6_init lib w))"

definition bip6_init ::
    "('w, 'i, 'n, 'z) bip6_lib_scheme \<Rightarrow> string option \<Rightarrow> bip6 \<Rightarrow> 'w \<Rightarrow> (bool \<times> bip6 \<times> 'w) option" where
  "bip6_init lib ifname s w =
     (let s = (if port6 (BIP6_Addr s) = 0 then bip6_set_port 0xBAC0 s else s)
      in map_option (\<lambda>s.
           let s = (if address6 (BIP6_Broadcast_Addr s) ! 0 = 0
                    then s\<lparr>BIP6_Broadcast_Addr := bvlc6_address_set lib (BIP6_Broadcast_Addr s)
                           [BIP6_MULTICAST_SITE_LOCAL, 0, 0, 0, 0, 0, 0, BIP6_MULTICAST_GROUP_ID]\<rparr>
                    else s)
           in bip6_open lib s w)
         (bip6_set_interface lib ifname s w))"

definition bip6_valid :: "bip6 \<Rightarrow> bool" where
  "bip6_valid s \<longleftrightarrow> BIP6_Socket s \<noteq> - 1"


unbundle bit_operations_syntax

section \<open>Facts\<close>

definition bip6_sockets :: "bip6 \<Rightarrow> int set" where
  "bip6_sockets s = {BIP6_Socket s} - {- 1}"

text \<open>The calls of the stack leave the descriptors alone.\<close>

definition stack6_laws :: "('w, 'i, 'n, 'z) bip6_lib_scheme \<Rightarrow> ('w \<Rightarrow> int set) \<Rightarrow> bool" where
  "stack6_laws lib fds \<longleftrightarrow>
     (\<forall>w. fds (bvlc6_init lib w) = fds w) \<and> (\<forall>w. fds (bvlc6_cleanup lib w) = fds w)"

text \<open>What is documented of the helpers on addresses.\<close>

definition address6_laws :: "('w, 'i, 'n, 'z) bip6_lib_scheme \<Rightarrow> bool" where
  "address6_laws lib \<longleftrightarrow>
     (\<forall>dest src. bvlc6_address_copy lib dest src =
        (case (dest, src) of (Some d, Some a) \<Rightarrow> (True, Some a) | _ \<Rightarrow> (False, dest))) \<and>
     (\<forall>a ws. length ws = 8 \<longrightarrow> bvlc6_address_get lib (bvlc6_address_set lib a ws) = ws \<and>
        port6 (bvlc6_address_set lib a ws) = port6 a)"

lemma address6_copy:
  assumes "address6_laws lib"
  shows "bip6_set_addr lib (Some a) s = (True, s\<lparr>BIP6_Addr := a\<rparr>)"
    "bip6_set_broadcast_addr lib (Some a) s = (True, s\<lparr>BIP6_Broadcast_Addr := a\<rparr>)"
    "bip6_get_addr lib s (Some b) = (True, Some (BIP6_Addr s))"
    "bip6_get_broadcast_addr lib s (Some b) = (True, Some (BIP6_Broadcast_Addr s))"
  using assms
  by (simp_all add: bip6_set_addr_def bip6_set_broadcast_addr_def bip6_get_addr_def
      bip6_get_broadcast_addr_def address6_laws_def)

lemma bip6_receive_bound:
  "bip6_receive lib s src npdu m t w = Some (n, src', npdu', w') \<Longrightarrow> n \<le> m"
  by (auto simp: bip6_receive_def Let_def split: prod.splits if_splits dest: deliver_npdu_bound)

lemma bip6_cleanup_closes:
  "socket_laws lib fds \<and> stack6_laws lib fds \<Longrightarrow> bip6_cleanup lib s w = (s', w') \<Longrightarrow>
   \<not> bip6_valid s' \<and> bip6_sockets s' = {} \<and> fds w' = fds w - bip6_sockets s"
  by (cases "BIP6_Socket s = - 1")
    (auto simp: bip6_cleanup_def bip6_valid_def bip6_sockets_def Let_def stack6_laws_def socket_law(4))

interpretation bip6: datalink "\<lambda>lib fds. socket_laws lib fds \<and> stack6_laws lib fds"
  bip6_valid bip6_sockets bip6_receive bip6_cleanup
  by unfold_locales
    (erule bip6_receive_bound, simp add: bip6_receive_def bip6_valid_def, erule (1) bip6_cleanup_closes)

lemma bip6_set_interface_frame:
  assumes "bip6_set_interface lib ifname s w = Some s'"
  shows "bip6_sockets s' = bip6_sockets s"
  using assms
  by (auto simp: bip6_set_interface_def Let_def bip6_set_addr_def bip6_set_broadcast_addr_def bip6_sockets_def
      split: option.splits if_splits prod.splits)

lemma bip6_open_opens:
  assumes "socket_laws lib fds" "stack6_laws lib fds" "bip6_open lib s w = (ok, s', w')"
  shows "fds w' = fds w \<union> bip6_sockets s'" "bip6_sockets s' \<inter> fds w = {}"
    "ok \<Longrightarrow> 0 \<le> BIP6_Socket s'" "BIP6_Addr s' = BIP6_Addr s"
proof -
  obtain fd w1 where sock: "zsock_socket lib w = (fd, w1)" by fastforce
  obtain st1 w2 where o1: "zsock_setsockopt lib fd SO_REUSEADDR w1 = (st1, w2)" by fastforce
  obtain st2 w3 where o2: "zsock_setsockopt lib fd SO_BROADCAST w2 = (st2, w3)" by fastforce
  obtain st3 w4 where o3: "zsock_setsockopt lib fd
      (IPV6_ADD_MEMBERSHIP (address6 (BIP6_Broadcast_Addr s)) (BIP6_Socket_Scope_Id s)) w3 = (st3, w4)"
    by fastforce
  obtain st4 w5 where bnd: "zsock_bind lib fd \<lparr>sin6_port = htons (little_endian lib) (port6 (BIP6_Addr s)),
      s6_addr16 = replicate 8 0, sin6_scope_id = 0\<rparr> w4 = (st4, w5)" by fastforce
  note laws = socket_law(1) [OF assms(1) sock] socket_law(2) [OF assms(1) o1] socket_law(2) [OF assms(1) o2]
    socket_law(2) [OF assms(1) o3] socket_law(3) [OF assms(1) bnd] socket_law(4) [OF assms(1)]
  have init: "fds (bvlc6_init lib v) = fds v" for v using assms(2) by (simp add: stack6_laws_def)
  have cases: "fd < 0 \<and> \<not> ok \<and> s' = s\<lparr>BIP6_Socket := fd\<rparr> \<and> w' = w1 \<or>
    0 \<le> fd \<and> \<not> ok \<and> s' = s\<lparr>BIP6_Socket := fd\<rparr> \<and> w' = w4 \<or>
    0 \<le> fd \<and> \<not> ok \<and> s' = s\<lparr>BIP6_Socket := - 1\<rparr> \<and> w' = zsock_close lib fd w5 \<or>
    0 \<le> fd \<and> ok \<and> s' = s\<lparr>BIP6_Socket := fd\<rparr> \<and> w' = bvlc6_init lib w5"
    using assms(3) by (simp add: bip6_open_def Let_def sock o1 o2 o3 bnd split: if_splits)
  show "fds w' = fds w \<union> bip6_sockets s'" "bip6_sockets s' \<inter> fds w = {}"
    "ok \<Longrightarrow> 0 \<le> BIP6_Socket s'" "BIP6_Addr s' = BIP6_Addr s"
    using cases laws init by (elim disjE conjE; auto simp: bip6_sockets_def)+
qed

section \<open>Properties\<close>

text \<open>
  A packet that the socket delivers reaches the BVLC6 handler with the address and port of its
  sender, in host order, and the receive ends with the NPDU of it at the start of the buffer, as long
  as the packet without the offset that the handler returned, and no longer than the buffer.
\<close>

lemma bip6_receive_delivers:
  assumes "recv_laws lib" "m \<le> length npdu" "m < 65536" "0 \<le> BIP6_Socket s"
    and "zsock_select lib (BIP6_Socket s + 1) [BIP6_Socket s] (select_timeout t) w = (ready, fds, w1)" "0 < ready"
    and "zsock_recvfrom lib (BIP6_Socket s) m w1 = (rc, packet, sin, w2)" "0 < rc"
    and "packet ! 0 = BVLL_TYPE_BACNET_IP6"
    and "addr = (bvlc6_address_set lib no_address6 (map (ntohs (little_endian lib)) (s6_addr16 sin)))
                  \<lparr>port6 := ntohs (little_endian lib) (sin6_port sin)\<rparr>"
    and "bvlc6_handler lib s addr src (overlay packet npdu) (of_int rc) w2 = (offset, src', buf, w')"
    and "offset \<le> rc" "length buf = length npdu"
  shows "\<exists>n npdu'. bip6_receive lib s src npdu m t w = Some (n, src', npdu', w') \<and> n \<le> m \<and>
    int n = (if offset \<le> 0 then 0 else rc - offset) \<and>
    (0 < n \<longrightarrow> take n npdu' = take n (drop (nat offset) buf))"
proof -
  have rc: "rc \<le> int m" "length packet = nat rc" using recv_law [OF assms(1,7)] by simp_all
  have first: "overlay packet npdu ! 0 = BVLL_TYPE_BACNET_IP6"
    using assms(2,8,9) rc by (simp add: overlay_def nth_append)
  have eq: "bip6_receive lib s src npdu m t w =
      map_option (\<lambda>(n, npdu). (n, src', npdu, w')) (deliver_npdu buf rc offset m)"
    using assms(4-8,10,11) first by (simp add: bip6_receive_def Let_def)
  obtain n npdu' where n: "deliver_npdu buf rc offset m = Some (n, npdu')"
    "int n = (if offset \<le> 0 then 0 else rc - offset)" "0 < n \<Longrightarrow> take n npdu' = take n (drop (nat offset) buf)"
    using deliver_npdu_packet [OF assms(13,2,3,8) rc(1) assms(12)] by metis
  then show ?thesis using deliver_npdu_bound [OF n(1)] unfolding eq by auto
qed

text \<open>
  C28. An initialisation opens at most one socket, which was not in use, and the socket it opened
  is the one the datalink holds afterwards, so that the cleanup after it, successful or
  not, leaves no descriptor of it behind and the datalink invalid. On success the socket is open and the
  port is not zero: without a port it is 47808.
\<close>

theorem bip6_life_cycle:
  assumes "socket_laws lib fds" "stack6_laws lib fds" "address6_laws lib"
    and "bip6_init lib ifname s w = Some (ok, s', w')" and "bip6_cleanup lib s' w' = (s'', w'')"
  shows "fds w' = fds w \<union> bip6_sockets s' \<and> bip6_sockets s' \<inter> fds w = {} \<and>
    (ok \<longrightarrow> 0 \<le> BIP6_Socket s') \<and>
    bip6_get_port s' = (if bip6_get_port s = 0 then 0xBAC0 else bip6_get_port s) \<and>
    \<not> bip6_valid s'' \<and> bip6_sockets s'' = {} \<and> fds w'' = fds w"
proof -
  define s0 where "s0 = (if port6 (BIP6_Addr s) = 0 then bip6_set_port 0xBAC0 s else s)"
  obtain s1 where s1: "bip6_set_interface lib ifname s0 w = Some s1"
    using assms(4) by (auto simp: bip6_init_def s0_def Let_def)
  define s2 where "s2 = (if address6 (BIP6_Broadcast_Addr s1) ! 0 = 0
      then s1\<lparr>BIP6_Broadcast_Addr := bvlc6_address_set lib (BIP6_Broadcast_Addr s1)
             [BIP6_MULTICAST_SITE_LOCAL, 0, 0, 0, 0, 0, 0, BIP6_MULTICAST_GROUP_ID]\<rparr> else s1)"
  have opn: "bip6_open lib s2 w = (ok, s', w')"
    using assms(4) s1 by (simp add: bip6_init_def Let_def s0_def [symmetric] s2_def [symmetric])
  have p0: "port6 (BIP6_Addr s0) = (if bip6_get_port s = 0 then 0xBAC0 else bip6_get_port s)"
    by (simp add: s0_def bip6_set_port_def bip6_get_port_def)
  have "port6 (BIP6_Addr s1) = port6 (BIP6_Addr s0)"
    using s1 by (auto simp: bip6_set_interface_def Let_def address6_copy [OF assms(3)] bip6_get_port_def
        split: option.splits if_splits prod.splits)
  then have p2: "port6 (BIP6_Addr s2) = port6 (BIP6_Addr s0)" by (simp add: s2_def)
  show ?thesis
    using bip6_open_opens [OF assms(1,2) opn] bip6.cleanup_closes [OF conjI [OF assms(1,2)] assms(5)] p0 p2
    by (auto simp: bip6_get_port_def)
qed

section \<open>Witnesses\<close>

text \<open>The small network of the IPv4 datalink, with addresses that keep their words as bytes.\<close>

definition small_get6 :: "ip6_address \<Rightarrow> u16 list" where
  "small_get6 a = map (\<lambda>i. push_bit 8 (ucast (address6 a ! (2 * i))) OR ucast (address6 a ! (2 * i + 1))) [0..<8]"

definition small_set6 :: "ip6_address \<Rightarrow> u16 list \<Rightarrow> ip6_address" where
  "small_set6 a ws = a\<lparr>address6 := concat (map (\<lambda>x. [ucast (drop_bit 8 x), ucast x]) ws)\<rparr>"

definition small_bip6 :: "(small_net, nat, unit) bip6_lib" where
  "small_bip6 =
     \<lparr>little_endian = True,
      zsock_socket = zsock_socket small_bip, zsock_setsockopt = (\<lambda>fd opt w. (0, w)),
      zsock_bind = (\<lambda>fd a w. (0, w)), zsock_close = zsock_close small_bip,
      zsock_sendto = (\<lambda>fd bs a w. (int (length bs), w)), zsock_select = zsock_select small_bip,
      zsock_recvfrom = (\<lambda>fd n w. let (rc, data, a, w) = small_recv fd n w
        in (rc, data, \<lparr>sin6_port = 49338, s6_addr16 = [254, 0, 0, 0, 0, 0, 0, 256], sin6_scope_id = 1\<rparr>, w)),
      bip6_libc = \<lparr>ulong_max = 4294967295, scan_overflow = (\<lambda>v. v)\<rparr>,
      CONFIG_BACDL_BIP6_ADDRESS_INDEX = 0, CONFIG_BACDL_BIP6_MCAST_ADDRESS = ''FF05::BAC0'',
      NET_IF_MAX_IPV6_ADDR = 1, if6_get_by_index = (\<lambda>i w. Some 0), if6_get_default = (\<lambda>w. Some 0),
      net_if_get_by_iface = (\<lambda>i. 1), ipv6_config = (\<lambda>i w. Some [replicate 15 0 @ [1]]),
      net_addr_pton = (\<lambda>s bs. (- 22, bs)),
      bvlc6_address_copy = (\<lambda>dest src. case (dest, src) of (Some d, Some a) \<Rightarrow> (True, Some a) | _ \<Rightarrow> (False, dest)),
      bvlc6_address_get = small_get6, bvlc6_address_set = small_set6,
      bvlc6_vmac_address_set = (\<lambda>a n. a), Device_Object_Instance_Number = (\<lambda>w. 5),
      bvlc6_init = (\<lambda>w. w), bvlc6_cleanup = (\<lambda>w. w),
      bvlc6_handler = (\<lambda>s addr src npdu n w. (4, src, npdu, w)),
      bvlc6_send_pdu = (\<lambda>s dest d pdu n w. (int n, w))\<rparr>"

lemma word_of_halves: "push_bit 8 (ucast (ucast (drop_bit 8 x) :: byte)) OR ucast (ucast x :: byte) = (x :: u16)"
  by (rule bit_word_eqI) (auto simp: bit_simps)

lemma small_get_set6:
  assumes "length ws = 8"
  shows "small_get6 (small_set6 a ws) = ws"
proof -
  obtain a b c d e f g h where ws: "ws = [a, b, c, d, e, f, g, h]"
    using assms by (auto simp: length_Suc_conv numeral_eq_Suc)
  have "[0..<8] = [0, 1, 2, 3, 4, 5, 6, 7 :: nat]" by (simp add: upt_rec)
  then show ?thesis by (simp add: small_get6_def small_set6_def ws word_of_halves)
qed

lemma small_bip6_laws:
  "socket_laws small_bip6 small_fds" "stack6_laws small_bip6 small_fds" "address6_laws small_bip6"
  "recv_laws small_bip6"
  using small_bip_sockets small_get_set6
  by (auto simp: socket_laws_def stack6_laws_def address6_laws_def recv_laws_def small_bip6_def small_bip_def
      small_recv_def small_set6_def split: list.splits)

lemma small_bip6_init:
  "bip6_init small_bip6 None bip6_reset small_start =
    Some (True, \<lparr>BIP6_Socket = 8, BIP6_Socket_Scope_Id = 1,
      BIP6_Addr = \<lparr>address6 = replicate 15 0 @ [1], port6 = 47808\<rparr>,
      BIP6_Broadcast_Addr = \<lparr>address6 = [255, 5, 0, 0, 0, 0, 0, 0, 0, 0, 0, 0, 0, 0, 186, 192], port6 = 47808\<rparr>\<rparr>,
      small_start\<lparr>open_fds := [8, 7]\<rparr>)"
  by code_simp

lemma bip6_life_cycle_witness:
  "case bip6_init small_bip6 None bip6_reset small_start of
     Some (ok, s', w') \<Rightarrow> ok \<and> small_fds (snd (bip6_cleanup small_bip6 s' w')) = {7}
   | None \<Rightarrow> False"
  using bip6_life_cycle [OF small_bip6_laws(1-3) small_bip6_init prod.collapse [symmetric]]
  by (simp add: small_bip6_init) (simp add: small_fds_def small_start_def)

lemma bip6_receive_delivers_witness:
  "\<exists>n npdu'. bip6_receive small_bip6 (bip6_reset\<lparr>BIP6_Socket := 7\<rparr>)
      \<lparr>mac_len = 0, mac = [], net = 0, len = 0, adr = []\<rparr> [0, 0, 0, 0, 0, 0, 0, 0] 8 10
      (small_start\<lparr>incoming := [[0x82, 1, 0, 6, 1, 2]]\<rparr>) =
    Some (n, \<lparr>mac_len = 0, mac = [], net = 0, len = 0, adr = []\<rparr>, npdu', small_start\<lparr>incoming := []\<rparr>) \<and>
    n \<le> 8 \<and> int n = 2 \<and> take n npdu' = take n (drop 4 (overlay [0x82, 1, 0, 6, 1, 2] [0, 0, 0, 0, 0, 0, 0, 0]))"
  using bip6_receive_delivers [OF small_bip6_laws(4), of 8 "[0, 0, 0, 0, 0, 0, 0, 0]" "bip6_reset\<lparr>BIP6_Socket := 7\<rparr>" 10
      "small_start\<lparr>incoming := [[0x82, 1, 0, 6, 1, 2]]\<rparr>" 1 "{7}" "small_start\<lparr>incoming := [[0x82, 1, 0, 6, 1, 2]]\<rparr>"
      6 "[0x82, 1, 0, 6, 1, 2]" "\<lparr>sin6_port = 49338, s6_addr16 = [254, 0, 0, 0, 0, 0, 0, 256], sin6_scope_id = 1\<rparr>"
      "small_start\<lparr>incoming := []\<rparr>" _ "\<lparr>mac_len = 0, mac = [], net = 0, len = 0, adr = []\<rparr>" 4]
  by (simp add: small_bip6_def small_bip_def small_start_def small_recv_def BVLL_TYPE_BACNET_IP6_def)

text \<open>
  When the multicast group cannot be joined, the initialisation reports a failure and leaves an open
  socket, with which the datalink is valid.
\<close>

lemma bip6_init_keeps_socket:
  "let lib = small_bip6\<lparr>zsock_setsockopt := (\<lambda>fd opt w. (case opt of IPV6_ADD_MEMBERSHIP _ _ \<Rightarrow> - 1 | _ \<Rightarrow> 0, w))\<rparr>
   in case bip6_init lib None bip6_reset small_start of
        Some (ok, s, w) \<Rightarrow> \<not> ok \<and> bip6_valid s
      | None \<Rightarrow> False"
  by code_simp

end
