(* ===== verification/Server.thy ===== *)
theory Server
  imports Bip
begin

unbundle bit_operations_syntax

text \<open>
  The BACnet server of \<open>subsys/server/server.c\<close>: a thread that initialises the BACnet/IP datalink and
  then waits for messages, and the handler of network events that sends them. The messages go
  through a queue of the kernel, a parameter; handler and thread run in any order.
\<close>

section \<open>State and messages\<close>

definition SERVER_MSG_TYPE_INVALID :: nat where "SERVER_MSG_TYPE_INVALID = 0"
definition SERVER_MSG_TYPE_IPV4_EVENT :: nat where "SERVER_MSG_TYPE_IPV4_EVENT = 1"

text \<open>The number of places that the source gives to its queue.\<close>

definition msgq_places :: nat where "msgq_places = 8"

record 'i server_msg =
  msg_type :: nat
  parm_u32 :: u32
  parm_ptr :: "'i option"

datatype 'i server_log =
    Handler_Ignores u32 'i
  | Handler_Drops "'i server_msg"
  | Thread_Message "'i server_msg"
  | Thread_Ignores u32
  | Thread_Unsupported_Event u32
  | Thread_Unsupported_Type nat
  | Thread_Received nat
  | Thread_Msgq_Error int

text \<open>The services whose handlers the server installs.\<close>

datatype service =
    Who_Is | Who_Has | Unrecognized_Service | Read_Property | Read_Property_Multiple | Write_Property
  | Write_Property_Multiple | Reinitialize_Device | Device_Communication_Control

text \<open>
  \<open>k_msgq_put\<close> returns its code and the queue. \<open>k_msgq_get\<close> also returns what the message buffer holds
  afterwards; it is \<^const>\<open>None\<close> while the thread waits in the call.
\<close>

datatype k_timeout = K_NO_WAIT | K_FOREVER

record ('w, 'i, 'n, 'q) server_lib = "('w, 'i, 'n) bip_lib" +
  CONFIG_NET_IPV4 :: bool
  SERVER_IPV4_EVENTS_MASK :: u32
  MAX_MPDU :: nat
  Device_Init :: "'w \<Rightarrow> 'w"
  apdu_set_handler :: "service \<Rightarrow> 'w \<Rightarrow> 'w"
  k_msgq_put :: "'i server_msg \<Rightarrow> k_timeout \<Rightarrow> 'q \<Rightarrow> int \<times> 'q"
  k_msgq_get :: "'i server_msg \<Rightarrow> k_timeout \<Rightarrow> 'q \<Rightarrow> (int \<times> 'i server_msg \<times> 'q) option"

record ('w, 'i, 'q) server =
  msgq :: 'q
  server_bip :: bip
  BIP_Net :: nat
  BIP_Rx_Buffer :: "byte list"
  handler_installed :: bool
  server_log :: "'i server_log list"
  net_world :: 'w

definition log :: "'i server_log \<Rightarrow> ('w, 'i, 'q) server \<Rightarrow> ('w, 'i, 'q) server" where
  "log e s = s\<lparr>server_log := server_log s @ [e]\<rparr>"

section \<open>Event handler\<close>

definition ipv4_events_handler ::
    "('w, 'i, 'n, 'q, 'z) server_lib_scheme \<Rightarrow> u32 \<Rightarrow> 'i \<Rightarrow> ('w, 'i, 'q) server \<Rightarrow> ('w, 'i, 'q) server" where
  "ipv4_events_handler lib mgmt_event iface s =
     (if mgmt_event AND SERVER_IPV4_EVENTS_MASK lib \<noteq> mgmt_event then log (Handler_Ignores mgmt_event iface) s
      else
        let msg = \<lparr>msg_type = SERVER_MSG_TYPE_IPV4_EVENT, parm_u32 = mgmt_event, parm_ptr = Some iface\<rparr>;
            (ret, q) = k_msgq_put lib msg K_NO_WAIT (msgq s);
            s = s\<lparr>msgq := q\<rparr>
        in if ret \<noteq> 0 then log (Handler_Drops msg) s else s)"

section \<open>Thread\<close>

definition service_handlers_init :: "('w, 'i, 'n, 'q, 'z) server_lib_scheme \<Rightarrow> 'w \<Rightarrow> 'w" where
  "service_handlers_init lib w =
     fold (apdu_set_handler lib)
       [Who_Is, Who_Has, Unrecognized_Service, Read_Property, Read_Property_Multiple, Write_Property,
        Write_Property_Multiple, Reinitialize_Device, Device_Communication_Control]
       (Device_Init lib w)"

text \<open>What the thread does before its loop; the result of \<open>bip_init\<close> is not looked at.\<close>

definition server_thread_start ::
    "('w, 'i, 'n, 'q, 'z) server_lib_scheme \<Rightarrow> ('w, 'i, 'q) server \<Rightarrow> ('w, 'i, 'q) server option" where
  "server_thread_start lib s =
     map_option (\<lambda>(ok, b, w). s\<lparr>server_bip := b, net_world := w, BIP_Net := 1, handler_installed := True\<rparr>)
       (bip_init lib (Some ''Server: from init'') (server_bip s) (service_handlers_init lib (net_world s)))"

text \<open>
  One round of the loop, on what \<open>k_msgq_get\<close> returned. All commands of the inner switch are disabled
  in the source, so that every event that passes the mask is reported as unsupported.
\<close>

definition EAGAIN :: int where "EAGAIN = 11"

definition server_thread_round ::
    "('w, 'i, 'n, 'q, 'z) server_lib_scheme \<Rightarrow> bacnet_address \<Rightarrow> int \<Rightarrow> 'i server_msg \<Rightarrow> ('w, 'i, 'q) server \<Rightarrow>
     ('w, 'i, 'q) server option" where
  "server_thread_round lib no_address ret msg s =
     (if ret = - EAGAIN then
        map_option (\<lambda>(pdu_len, src, buf, w).
            let s = s\<lparr>BIP_Rx_Buffer := buf, net_world := w\<rparr>
            in if pdu_len \<noteq> 0 then log (Thread_Received pdu_len) s else s)
          (bip_receive lib (server_bip s) no_address (BIP_Rx_Buffer s) (MAX_MPDU lib) 5 (net_world s))
      else if ret = 0 then
        Some (if CONFIG_NET_IPV4 lib \<and> msg_type msg = SERVER_MSG_TYPE_IPV4_EVENT then
                let mgmt_event = parm_u32 msg;
                    s = log (Thread_Message msg) s
                in if mgmt_event AND SERVER_IPV4_EVENTS_MASK lib \<noteq> mgmt_event
                   then log (Thread_Ignores mgmt_event) s
                   else log (Thread_Unsupported_Event mgmt_event) s
              else log (Thread_Unsupported_Type (msg_type msg)) s)
      else Some (log (Thread_Msgq_Error ret) s))"

text \<open>
  The loop waits for a message without a time limit. A thread that waits in \<open>k_msgq_get\<close> has made no
  step yet: the state is the old one.
\<close>

definition server_thread_step ::
    "('w, 'i, 'n, 'q, 'z) server_lib_scheme \<Rightarrow> bacnet_address \<Rightarrow> ('w, 'i, 'q) server \<Rightarrow> ('w, 'i, 'q) server option" where
  "server_thread_step lib no_address s =
     (let sleep_ms = K_FOREVER;
          msg = \<lparr>msg_type = SERVER_MSG_TYPE_INVALID, parm_u32 = 0, parm_ptr = None\<rparr>
      in case k_msgq_get lib msg sleep_ms (msgq s) of
           None \<Rightarrow> Some s
         | Some (ret, msg, q) \<Rightarrow> server_thread_round lib no_address ret msg (s\<lparr>msgq := q\<rparr>))"

section \<open>The queue of the kernel\<close>

text \<open>
  What the kernel documents of a queue with the places of this one; \<open>view\<close> lists the messages of a queue, the
  oldest first. Sending without waiting appends a message, or fails when there is no place. Receiving
  without a limit takes the oldest message, or waits when there is none; it may also be
  ended without a message, as by a purge, but it does not time out.
\<close>

definition put_ok :: "('q \<Rightarrow> 'i server_msg list) \<Rightarrow> 'i server_msg \<Rightarrow> 'q \<Rightarrow> int \<times> 'q \<Rightarrow> bool" where
  "put_ok view m q r \<longleftrightarrow>
     (if length (view q) < msgq_places then fst r = 0 \<and> view (snd r) = view q @ [m]
      else fst r \<noteq> 0 \<and> view (snd r) = view q)"

definition get_ok :: "('q \<Rightarrow> 'i server_msg list) \<Rightarrow> 'q \<Rightarrow> (int \<times> 'i server_msg \<times> 'q) option \<Rightarrow> bool" where
  "get_ok view q r \<longleftrightarrow>
     (case view q of
        m # ms \<Rightarrow> \<exists>q'. r = Some (0, m, q') \<and> view q' = ms
      | [] \<Rightarrow> (case r of
                None \<Rightarrow> True
              | Some (ret, m, q') \<Rightarrow> ret \<noteq> 0 \<and> ret \<noteq> - EAGAIN \<and> view q' = []))"

definition msgq_laws :: "('w, 'i, 'n, 'q, 'z) server_lib_scheme \<Rightarrow> ('q \<Rightarrow> 'i server_msg list) \<Rightarrow> bool" where
  "msgq_laws lib view \<longleftrightarrow>
     (\<forall>m q. put_ok view m q (k_msgq_put lib m K_NO_WAIT q)) \<and>
     (\<forall>m q. get_ok view q (k_msgq_get lib m K_FOREVER q))"

section \<open>Runs\<close>

text \<open>
  After the start, network events of any kind and steps of the thread in any order. The list holds
  the calls of the handler, each with whether the queue had no place for it.
\<close>

inductive server_run ::
    "('w, 'i, 'n, 'q, 'z) server_lib_scheme \<Rightarrow> ('q \<Rightarrow> 'i server_msg list) \<Rightarrow> bacnet_address \<Rightarrow> ('w, 'i, 'q) server \<Rightarrow>
     ('w, 'i, 'q) server \<Rightarrow> (u32 \<times> 'i \<times> bool) list \<Rightarrow> bool"
  for lib view no_address s0 where
  start: "server_thread_start lib s0 = Some s \<Longrightarrow> server_run lib view no_address s0 s []"
| event: "server_run lib view no_address s0 s calls \<Longrightarrow>
    server_run lib view no_address s0 (ipv4_events_handler lib ev iface s)
      (calls @ [(ev, iface, msgq_places \<le> length (view (msgq s)))])"
| thread: "server_run lib view no_address s0 s calls \<Longrightarrow> server_thread_step lib no_address s = Some s' \<Longrightarrow>
    server_run lib view no_address s0 s' calls"

text \<open>The messages the thread took from the queue and those the handler dropped, read off the log.\<close>

definition taken :: "'i server_log list \<Rightarrow> 'i server_msg list" where
  "taken l = concat (map (\<lambda>e. case e of Thread_Message m \<Rightarrow> [m] | _ \<Rightarrow> []) l)"

definition dropped :: "'i server_log list \<Rightarrow> 'i server_msg list" where
  "dropped l = concat (map (\<lambda>e. case e of Handler_Drops m \<Rightarrow> [m] | _ \<Rightarrow> []) l)"

lemma taken_simps [simp]:
  "taken [] = []" "taken (l @ l') = taken l @ taken l'"
  "taken (e # l) = (case e of Thread_Message m \<Rightarrow> [m] | _ \<Rightarrow> []) @ taken l"
  "dropped [] = []" "dropped (l @ l') = dropped l @ dropped l'"
  "dropped (e # l) = (case e of Handler_Drops m \<Rightarrow> [m] | _ \<Rightarrow> []) @ dropped l"
  by (simp_all add: taken_def dropped_def)

text \<open>
  What the calls of the handler ought to send: a message with the event and the interface for each
  call with an address event. \<open>sent full event_mask calls\<close> are those of the calls that found a full queue, or
  of the others.
\<close>

definition address_event_msg :: "u32 \<Rightarrow> 'i \<Rightarrow> 'i server_msg" where
  "address_event_msg ev iface = \<lparr>msg_type = 1, parm_u32 = ev, parm_ptr = Some iface\<rparr>"

definition sent :: "bool \<Rightarrow> u32 \<Rightarrow> (u32 \<times> 'i \<times> bool) list \<Rightarrow> 'i server_msg list" where
  "sent full event_mask calls =
     map (\<lambda>(ev, iface, f). address_event_msg ev iface) (filter (\<lambda>(ev, iface, f). ev AND event_mask = ev \<and> f = full) calls)"

lemma sent_simps [simp]:
  "sent full event_mask [] = []"
  "sent full event_mask (calls @ [(ev, iface, f)]) =
     sent full event_mask calls @ (if ev AND event_mask = ev \<and> f = full then [address_event_msg ev iface] else [])"
  by (simp_all add: sent_def)

definition server_ok ::
    "('w, 'i, 'n, 'q, 'z) server_lib_scheme \<Rightarrow> ('q \<Rightarrow> 'i server_msg list) \<Rightarrow> ('w, 'i, 'q) server \<Rightarrow>
     (u32 \<times> 'i \<times> bool) list \<Rightarrow> bool" where
  "server_ok lib view s calls \<longleftrightarrow>
     length (view (msgq s)) \<le> msgq_places \<and>
     taken (server_log s) @ view (msgq s) = sent False (SERVER_IPV4_EVENTS_MASK lib) calls \<and>
     dropped (server_log s) = sent True (SERVER_IPV4_EVENTS_MASK lib) calls \<and>
     (\<forall>m \<in> set (view (msgq s)). msg_type m = SERVER_MSG_TYPE_IPV4_EVENT) \<and>
     (\<forall>n. Thread_Received n \<notin> set (server_log s))"

lemma log_fields [simp]:
  "server_log (log e s) = server_log s @ [e]" "msgq (log e s) = msgq s" "server_bip (log e s) = server_bip s"
  "net_world (log e s) = net_world s" "BIP_Net (log e s) = BIP_Net s"
  by (simp_all add: log_def)

lemma handler_ok_step:
  assumes "msgq_laws lib view" "server_ok lib view s calls"
  shows "server_ok lib view (ipv4_events_handler lib ev iface s)
    (calls @ [(ev, iface, msgq_places \<le> length (view (msgq s)))])"
proof (cases "ev AND SERVER_IPV4_EVENTS_MASK lib = ev")
  case False
  then show ?thesis using assms(2) by (simp add: server_ok_def ipv4_events_handler_def)
next
  case True
  let ?m = "\<lparr>msg_type = SERVER_MSG_TYPE_IPV4_EVENT, parm_u32 = ev, parm_ptr = Some iface\<rparr>"
  have m: "?m = address_event_msg ev iface" by (simp add: address_event_msg_def SERVER_MSG_TYPE_IPV4_EVENT_def)
  obtain ret q where put: "k_msgq_put lib ?m K_NO_WAIT (msgq s) = (ret, q)" by force
  have "put_ok view ?m (msgq s) (ret, q)" using assms(1) put by (metis msgq_laws_def)
  moreover have "ipv4_events_handler lib ev iface s =
      (if ret \<noteq> 0 then log (Handler_Drops ?m) (s\<lparr>msgq := q\<rparr>) else s\<lparr>msgq := q\<rparr>)"
    using True put by (simp add: ipv4_events_handler_def)
  moreover have "msg_type (address_event_msg ev iface) = SERVER_MSG_TYPE_IPV4_EVENT"
    by (simp add: address_event_msg_def SERVER_MSG_TYPE_IPV4_EVENT_def)
  ultimately show ?thesis using assms(2) True m by (auto simp: server_ok_def put_ok_def split: if_splits)
qed

lemma thread_step_cases:
  assumes "msgq_laws lib view" "CONFIG_NET_IPV4 lib"
    and "\<forall>m \<in> set (view (msgq s)). msg_type m = SERVER_MSG_TYPE_IPV4_EVENT"
    and "server_thread_step lib no_address s = Some s'"
  shows "(case view (msgq s) of
      [] \<Rightarrow> view (msgq s') = [] \<and> taken (server_log s') = taken (server_log s)
    | m # ms \<Rightarrow> view (msgq s') = ms \<and> taken (server_log s') = taken (server_log s) @ [m]) \<and>
    dropped (server_log s') = dropped (server_log s) \<and> server_bip s' = server_bip s \<and> BIP_Net s' = BIP_Net s \<and>
    (\<forall>n. Thread_Received n \<in> set (server_log s') \<longrightarrow> Thread_Received n \<in> set (server_log s))"
proof -
  define m0 :: "'b server_msg" where "m0 = \<lparr>msg_type = SERVER_MSG_TYPE_INVALID, parm_u32 = 0, parm_ptr = None\<rparr>"
  have get: "get_ok view (msgq s) (k_msgq_get lib m0 K_FOREVER (msgq s))" using assms(1) by (simp add: msgq_laws_def)
  have step: "server_thread_step lib no_address s =
      (case k_msgq_get lib m0 K_FOREVER (msgq s) of
         None \<Rightarrow> Some s | Some (ret, msg, q) \<Rightarrow> server_thread_round lib no_address ret msg (s\<lparr>msgq := q\<rparr>))"
    by (simp add: server_thread_step_def m0_def)
  show ?thesis
    using get assms(2-4) unfolding step
    by (auto simp: get_ok_def server_thread_round_def EAGAIN_def Let_def split: list.splits option.splits if_splits prod.splits)
qed

lemma thread_step_returns:
  assumes "msgq_laws lib view" "view (msgq s) = m # ms"
  shows "\<exists>s'. server_thread_step lib no_address s = Some s'"
proof -
  define m0 :: "'b server_msg" where "m0 = \<lparr>msg_type = SERVER_MSG_TYPE_INVALID, parm_u32 = 0, parm_ptr = None\<rparr>"
  have "get_ok view (msgq s) (k_msgq_get lib m0 K_FOREVER (msgq s))" using assms(1) by (simp add: msgq_laws_def)
  then obtain q where "k_msgq_get lib m0 K_FOREVER (msgq s) = Some (0, m, q)" using assms(2) by (auto simp: get_ok_def)
  then show ?thesis by (simp add: server_thread_step_def server_thread_round_def EAGAIN_def Let_def flip: m0_def)
qed

lemma thread_ok_step:
  assumes "msgq_laws lib view" "CONFIG_NET_IPV4 lib" "server_ok lib view s calls"
    "server_thread_step lib no_address s = Some s'"
  shows "server_ok lib view s' calls"
  using assms(3) thread_step_cases [OF assms(1,2) _ assms(4)]
  by (cases "view (msgq s)") (auto simp: server_ok_def)

lemma server_run_ok:
  assumes "msgq_laws lib view" "CONFIG_NET_IPV4 lib" "view (msgq s0) = []" "server_log s0 = []"
  shows "server_run lib view no_address s0 s calls \<Longrightarrow> server_ok lib view s calls"
proof (induction rule: server_run.induct)
  case (start s)
  then show ?case using assms by (auto simp: server_thread_start_def server_ok_def)
qed (blast intro: handler_ok_step [OF assms(1)], blast intro: thread_ok_step [OF assms(1,2)])

section \<open>The datalink of the server\<close>

text \<open>
  The name that the thread hands to \<open>bip_init\<close> is no number, so no interface is selected, and without
  an address no socket is opened.
\<close>

lemma atoi_no_number: "atoi lc ''Server: from init'' = 0"
  by (simp add: atoi_def strtol_def strto_subject_def skip_space_def split_radix_def c_isspace_def
      is_digit_of_def digit_value_def c_isdigit_def c_islower_def c_isupper_def is_hex_prefix_def)

lemma server_bip_init:
  assumes "BIP_Address b = 0"
  shows "bip_init lib (Some ''Server: from init'') b w = Some (False, b, w)"
  using assms
  by (simp add: bip_init_def bip_set_interface_def select_interface_def atoi_no_number bip_open_def)

lemma server_run_bip:
  assumes "msgq_laws lib view" "BIP_Address (server_bip s0) = 0"
  shows "server_run lib view no_address s0 s calls \<Longrightarrow> server_bip s = server_bip s0 \<and> BIP_Net s = 1"
proof (induction rule: server_run.induct)
  case (start s)
  then show ?case using assms(2) by (auto simp: server_thread_start_def server_bip_init)
next
  case (event s calls ev iface)
  then show ?case by (simp add: ipv4_events_handler_def Let_def case_prod_beta)
next
  case (thread s calls s')
  define m0 :: "'b server_msg" where "m0 = \<lparr>msg_type = SERVER_MSG_TYPE_INVALID, parm_u32 = 0, parm_ptr = None\<rparr>"
  have get: "get_ok view (msgq s) (k_msgq_get lib m0 K_FOREVER (msgq s))" using assms(1) by (simp add: msgq_laws_def)
  have "server_bip s' = server_bip s \<and> BIP_Net s' = BIP_Net s"
    using thread.hyps(2) get
    by (auto simp: server_thread_step_def get_ok_def server_thread_round_def EAGAIN_def Let_def
        simp flip: m0_def split: list.splits option.splits if_splits)
  then show ?case using thread.IH by simp
qed

section \<open>Properties\<close>

text \<open>
  C23. Whatever network events come and however they interleave with the thread: what the thread has taken
  and what is still in the queue are the messages for the address events, each with its event and its
  interface, in the order of the events and once each, without those that found eight messages in the queue, which are
  the ones reported as dropped. The thread takes the oldest message whenever there is one, and it never
  receives a packet, because it waits for a message without a time limit.
\<close>

theorem server_messages:
  assumes "msgq_laws lib view" "CONFIG_NET_IPV4 lib" "view (msgq s0) = []" "server_log s0 = []"
    "server_run lib view no_address s0 s calls"
  shows "length (view (msgq s)) \<le> 8 \<and>
    taken (server_log s) @ view (msgq s) = sent False (SERVER_IPV4_EVENTS_MASK lib) calls \<and>
    dropped (server_log s) = sent True (SERVER_IPV4_EVENTS_MASK lib) calls \<and>
    (view (msgq s) \<noteq> [] \<longrightarrow> (\<exists>s'. server_thread_step lib no_address s = Some s' \<and>
       taken (server_log s') = taken (server_log s) @ [hd (view (msgq s))] \<and> view (msgq s') = tl (view (msgq s)))) \<and>
    (\<forall>n. Thread_Received n \<notin> set (server_log s))"
proof -
  have ok: "server_ok lib view s calls" using server_run_ok [OF assms(1-4)] assms(5) .
  moreover have "\<exists>s'. server_thread_step lib no_address s = Some s' \<and>
      taken (server_log s') = taken (server_log s) @ [hd (view (msgq s))] \<and> view (msgq s') = tl (view (msgq s))"
    if queued: "view (msgq s) = m # ms" for m ms
  proof -
    have ev: "\<forall>m \<in> set (view (msgq s)). msg_type m = SERVER_MSG_TYPE_IPV4_EVENT" using ok by (simp add: server_ok_def)
    obtain s' where "server_thread_step lib no_address s = Some s'"
      using thread_step_returns [OF assms(1) queued] by blast
    then show ?thesis using thread_step_cases [OF assms(1,2) ev, of no_address s'] queued by simp
  qed
  ultimately show ?thesis by (cases "view (msgq s)") (auto simp: server_ok_def msgq_places_def)
qed

text \<open>
  A server that starts before the datalink has an address never gets one: no interface is
  selected by the name it hands over, so that the datalink stays without a socket in every run,
  though the network number says it is up.
\<close>

lemma server_stays_offline:
  assumes "msgq_laws lib view" "server_run lib view no_address s0 s calls" "server_bip s0 = bip_reset e config_port"
  shows "\<not> bip_valid (server_bip s) \<and> BIP_Net s = 1"
  using server_run_bip [OF assms(1) _ assms(2)] assms(3) by (simp add: bip_reset_def bip_valid_def)

section \<open>Witnesses\<close>

text \<open>A queue of the kernel: a list of messages.\<close>

definition small_server :: "(small_net, nat, unit, nat server_msg list) server_lib" where
  "small_server = bip_lib.extend small_bip
     \<lparr>CONFIG_NET_IPV4 = True, SERVER_IPV4_EVENTS_MASK = 3, MAX_MPDU = 1506, Device_Init = (\<lambda>w. w),
      apdu_set_handler = (\<lambda>service w. w),
      k_msgq_put = (\<lambda>m timeout q. if length q < 8 then (0, q @ [m]) else (- 35, q)),
      k_msgq_get = (\<lambda>m timeout q. case q of [] \<Rightarrow> None | x # q \<Rightarrow> Some (0, x, q))\<rparr>"

lemma small_server_facts [simp]:
  "CONFIG_NET_IPV4 small_server" "SERVER_IPV4_EVENTS_MASK small_server = 3"
  "k_msgq_put small_server m timeout q = (if length q < 8 then (0, q @ [m]) else (- 35, q))"
  "k_msgq_get small_server m timeout q = (case q of [] \<Rightarrow> None | x # q \<Rightarrow> Some (0, x, q))"
  by (simp_all add: small_server_def bip_lib.defs)

lemma small_server_msgq: "msgq_laws small_server (\<lambda>q. q)"
  by (auto simp: msgq_laws_def put_ok_def get_ok_def msgq_places_def split: list.split)

definition booted_server :: "(small_net, nat, nat server_msg list) server" where
  "booted_server =
     \<lparr>msgq = [], server_bip = bip_reset True 47808, BIP_Net = 0, BIP_Rx_Buffer = replicate 1506 0,
      handler_installed = False, server_log = [], net_world = small_start\<rparr>"

definition nobody :: bacnet_address where
  "nobody = \<lparr>mac_len = 0, mac = [], net = 0, len = 0, adr = []\<rparr>"

definition started_server :: "(small_net, nat, nat server_msg list) server" where
  "started_server = booted_server\<lparr>BIP_Net := 1, handler_installed := True\<rparr>"

lemma small_server_started: "server_run small_server (\<lambda>q. q) nobody booted_server started_server []"
proof (rule server_run.start)
  have "BIP_Address (server_bip booted_server) = 0" by (simp add: booted_server_def bip_reset_def)
  then show "server_thread_start small_server booted_server = Some started_server"
    by (simp add: server_thread_start_def server_bip_init started_server_def)
      (simp add: service_handlers_init_def small_server_def bip_lib.defs)
qed

lemma server_stays_offline_witness:
  "\<not> bip_valid (server_bip started_server) \<and> BIP_Net started_server = 1"
  by (rule server_stays_offline [OF small_server_msgq small_server_started]) (simp add: booted_server_def)

text \<open>Two events on interface 0: an address event, and one that is not in the mask.\<close>

lemma server_messages_witness:
  "taken (server_log (the (server_thread_step small_server nobody
      (ipv4_events_handler small_server 4 0 (ipv4_events_handler small_server 1 0 started_server))))) =
    [\<lparr>msg_type = 1, parm_u32 = 1, parm_ptr = Some 0\<rparr>]"
proof -
  let ?m = "\<lparr>msg_type = 1, parm_u32 = 1, parm_ptr = Some (0 :: nat)\<rparr>"
  let ?s1 = "ipv4_events_handler small_server 1 0 started_server"
  let ?s2 = "ipv4_events_handler small_server 4 0 ?s1"
  have start: "msgq started_server = []" "msgq booted_server = []" "server_log booted_server = []"
    "server_log started_server = []"
    by (simp_all add: started_server_def booted_server_def)
  have s1: "msgq ?s1 = [?m]" by (simp add: ipv4_events_handler_def start SERVER_MSG_TYPE_IPV4_EVENT_def)
  have run: "server_run small_server (\<lambda>q. q) nobody booted_server ?s2 [(1, 0, False), (4, 0, False)]"
    using server_run.event [OF server_run.event [OF small_server_started, of 1 0], of 4 0] by (simp add: start s1 msgq_places_def)
  note T = server_messages [OF small_server_msgq small_server_facts(1) _ _ run]
  have "msgq ?s2 = [?m] \<and> server_log ?s2 = [Handler_Ignores 4 0]"
    by (simp add: ipv4_events_handler_def start SERVER_MSG_TYPE_IPV4_EVENT_def log_def)
  then show ?thesis using T start by auto
qed

end
