(* ===== verification/Objects.thy ===== *)
theory Objects
  imports Prelude
begin

text \<open>
  The objects of the Zephyr port (\<open>subsys/object\<close>): the functions that the macros of \<open>object.h\<close>
  generate for an object type, the initialisation of the analog objects (\<open>ai.c\<close>, \<open>av.c\<close>), the
  renumbering of network ports (\<open>netport.c\<close>), and the table of object types in a linker section
  (\<open>device.c\<close>). The key list of the BACnet stack and the kernel heap are parameters.
\<close>

section \<open>Objects of one type\<close>

text \<open>
  \<open>Object_List\<close> is NULL before the initialisation. The heap maps the addresses of the descriptors that
  are allocated to their contents; \<open>handlers\<close> are the calls that install the handlers of the
  intrinsic reporting, in order.
\<close>

datatype reporting_handler = Event_Information nat | Alarm_Ack nat | Alarm_Summary nat

record ('k, 'x) objects =
  Object_List :: "'k option"
  heap :: "nat \<rightharpoonup> 'x"
  handlers :: "reporting_handler list"

text \<open>
  A list that is handed to the functions of the stack may be NULL. \<open>Keylist_Data_Add\<close> returns the index,
  negative when there is no memory; a function that changes a list returns it changed.
\<close>

record ('k, 'x) keylist_lib =
  k_malloc :: "(nat \<rightharpoonup> 'x) \<Rightarrow> nat option"
  Init_Description :: "u32 \<Rightarrow> 'x"
  Instance_Number_update :: "u32 \<Rightarrow> 'x \<Rightarrow> 'x"
  INTRINSIC_REPORTING :: bool
  Keylist_Create :: "(nat \<rightharpoonup> 'x) \<Rightarrow> 'k option"
  Keylist_Data :: "'k option \<Rightarrow> u32 \<Rightarrow> nat option"
  Keylist_Count :: "'k option \<Rightarrow> nat"
  Keylist_Key :: "'k option \<Rightarrow> nat \<Rightarrow> u32"
  Keylist_Index :: "'k option \<Rightarrow> u32 \<Rightarrow> int"
  Keylist_Data_Add :: "'k option \<Rightarrow> u32 \<Rightarrow> nat \<Rightarrow> int \<times> 'k option"
  Keylist_Data_Delete :: "'k option \<Rightarrow> u32 \<Rightarrow> nat option \<times> 'k option"
  Keylist_Data_Pop :: "'k option \<Rightarrow> nat option \<times> 'k option"

definition heap_free :: "nat \<Rightarrow> ('k, 'x) objects \<Rightarrow> ('k, 'x) objects" where
  "heap_free a s = s\<lparr>heap := (heap s)(a := None)\<rparr>"

definition Find_Description :: "('k, 'x, 'z) keylist_lib_scheme \<Rightarrow> u32 \<Rightarrow> ('k, 'x) objects \<Rightarrow> nat option" where
  "Find_Description lib inst s = Keylist_Data lib (Object_List s) inst"

definition Object_Count :: "('k, 'x, 'z) keylist_lib_scheme \<Rightarrow> ('k, 'x) objects \<Rightarrow> nat" where
  "Object_Count lib s = Keylist_Count lib (Object_List s)"

definition Index_To_Instance :: "('k, 'x, 'z) keylist_lib_scheme \<Rightarrow> nat \<Rightarrow> ('k, 'x) objects \<Rightarrow> u32" where
  "Index_To_Instance lib index s = Keylist_Key lib (Object_List s) index"

definition Instance_To_Index :: "('k, 'x, 'z) keylist_lib_scheme \<Rightarrow> u32 \<Rightarrow> ('k, 'x) objects \<Rightarrow> u32" where
  "Instance_To_Index lib inst s = of_int (Keylist_Index lib (Object_List s) inst)"

definition Object_Create ::
    "('k, 'x, 'z) keylist_lib_scheme \<Rightarrow> u32 \<Rightarrow> ('k, 'x) objects \<Rightarrow> bool \<times> ('k, 'x) objects" where
  "Object_Create lib inst s =
     (case Keylist_Data lib (Object_List s) inst of
        Some descr \<Rightarrow> (False, s)
      | None \<Rightarrow>
          (case k_malloc lib (heap s) of
             None \<Rightarrow> (False, s)
           | Some descr \<Rightarrow>
               let s = s\<lparr>heap := (heap s)(descr \<mapsto> Init_Description lib inst)\<rparr>;
                   (index, l) = Keylist_Data_Add lib (Object_List s) inst descr
               in (0 \<le> index, s\<lparr>Object_List := l\<rparr>)))"

text \<open>The loop of the clean-up pops descriptors until there is none, for as long as that takes.\<close>

partial_function (option) pop_all ::
    "('k, 'x, 'z) keylist_lib_scheme \<Rightarrow> ('k, 'x) objects \<Rightarrow> ('k, 'x) objects option" where
  "pop_all lib s =
     (case Keylist_Data_Pop lib (Object_List s) of
        (None, l) \<Rightarrow> Some (s\<lparr>Object_List := l\<rparr>)
      | (Some descr, l) \<Rightarrow> pop_all lib (heap_free descr (s\<lparr>Object_List := l\<rparr>)))"

definition Object_Cleanup ::
    "('k, 'x, 'z) keylist_lib_scheme \<Rightarrow> ('k, 'x) objects \<Rightarrow> ('k, 'x) objects option" where
  "Object_Cleanup lib s =
     (if Object_List s = None then Some s
      else map_option (\<lambda>s. s\<lparr>Object_List := None\<rparr>) (pop_all lib s))"

definition Object_Delete ::
    "('k, 'x, 'z) keylist_lib_scheme \<Rightarrow> u32 \<Rightarrow> ('k, 'x) objects \<Rightarrow> bool \<times> ('k, 'x) objects" where
  "Object_Delete lib inst s =
     (let (descr, l) = Keylist_Data_Delete lib (Object_List s) inst;
          s = s\<lparr>Object_List := l\<rparr>
      in case descr of None \<Rightarrow> (False, s) | Some a \<Rightarrow> (True, heap_free a s))"

definition Object_Init :: "('k, 'x, 'z) keylist_lib_scheme \<Rightarrow> ('k, 'x) objects \<Rightarrow> ('k, 'x) objects" where
  "Object_Init lib s = (if Object_List s = None then s\<lparr>Object_List := Keylist_Create lib (heap s)\<rparr> else s)"

text \<open>\<open>Analog_Input_Init\<close> and \<open>Analog_Value_Init\<close>, for the number of the object type.\<close>

definition Analog_Init ::
    "('k, 'x, 'z) keylist_lib_scheme \<Rightarrow> nat \<Rightarrow> ('k, 'x) objects \<Rightarrow> ('k, 'x) objects" where
  "Analog_Init lib object_type s =
     (if Object_List s = None then
        let s = s\<lparr>Object_List := Keylist_Create lib (heap s)\<rparr>
        in if INTRINSIC_REPORTING lib
           then s\<lparr>handlers := handlers s @
                  [Event_Information object_type, Alarm_Ack object_type, Alarm_Summary object_type]\<rparr>
           else s
      else s)"

definition OBJECT_ANALOG_INPUT :: nat where "OBJECT_ANALOG_INPUT = 0"
definition OBJECT_ANALOG_VALUE :: nat where "OBJECT_ANALOG_VALUE = 2"

definition Analog_Input_Init :: "('k, 'x, 'z) keylist_lib_scheme \<Rightarrow> ('k, 'x) objects \<Rightarrow> ('k, 'x) objects" where
  "Analog_Input_Init lib = Analog_Init lib OBJECT_ANALOG_INPUT"

definition Analog_Value_Init :: "('k, 'x, 'z) keylist_lib_scheme \<Rightarrow> ('k, 'x) objects \<Rightarrow> ('k, 'x) objects" where
  "Analog_Value_Init lib = Analog_Init lib OBJECT_ANALOG_VALUE"

definition Network_Port_Object_Instance_Number_Set ::
    "('k, 'x, 'z) keylist_lib_scheme \<Rightarrow> nat \<Rightarrow> u32 \<Rightarrow> ('k, 'x) objects \<Rightarrow> bool \<times> ('k, 'x) objects" where
  "Network_Port_Object_Instance_Number_Set lib index object_instance s =
     (let old_inst = Index_To_Instance lib index s;
          (descr, l) = Keylist_Data_Delete lib (Object_List s) old_inst;
          s = s\<lparr>Object_List := l\<rparr>
      in case descr of
           None \<Rightarrow> (False, s)
         | Some a \<Rightarrow>
             let s = s\<lparr>heap := (heap s)(a := map_option (Instance_Number_update lib object_instance) (heap s a))\<rparr>;
                 (i, l) = Keylist_Data_Add lib (Object_List s) object_instance a
             in (0 \<le> i, s\<lparr>Object_List := l\<rparr>))"

section \<open>The table of object types\<close>

text \<open>
  The entries of the section are numbered in their order; one of them is \<open>Device_object\<close>. A pointer to
  an entry is to one of the section or to the \<open>Routing_object\<close> of the file.
\<close>

datatype object_ptr = Section nat | Routing_object

record object_table =
  section_length :: nat
  Device_object :: nat
  BAC_ROUTING :: bool

definition Device_Object_Filter_Out :: "object_table \<Rightarrow> bool \<Rightarrow> object_ptr \<Rightarrow> object_ptr" where
  "Device_Object_Filter_Out tbl routing_Device p =
     (if BAC_ROUTING tbl \<and> routing_Device \<and> p = Section (Device_object tbl) then Routing_object else p)"

definition Device_Object_Filter_In :: "object_table \<Rightarrow> bool \<Rightarrow> object_ptr \<Rightarrow> object_ptr" where
  "Device_Object_Filter_In tbl routing_Device p =
     (if BAC_ROUTING tbl \<and> routing_Device \<and> p = Routing_object then Section (Device_object tbl) else p)"

definition Device_Objects_Get_First_Object :: "object_table \<Rightarrow> bool \<Rightarrow> object_ptr option" where
  "Device_Objects_Get_First_Object tbl routing_Device =
     (if 0 < section_length tbl then Some (Device_Object_Filter_Out tbl routing_Device (Section 0)) else None)"

text \<open>
  The next object, or NULL at the end of the section. Advancing a pointer to the routing object itself
  leaves it, and comparing the result with the end of the section is not defined: the outer \<^const>\<open>None\<close>.
\<close>

definition Device_Objects_Get_Next_Object ::
    "object_table \<Rightarrow> bool \<Rightarrow> object_ptr option \<Rightarrow> object_ptr option option" where
  "Device_Objects_Get_Next_Object tbl routing_Device p =
     (case p of
        None \<Rightarrow> Some None
      | Some q \<Rightarrow>
          (case Device_Object_Filter_In tbl routing_Device q of
             Routing_object \<Rightarrow> None
           | Section i \<Rightarrow>
               Some (if i + 1 < section_length tbl
                     then Some (Device_Object_Filter_Out tbl routing_Device (Section (i + 1))) else None)))"

text \<open>\<open>Routing_Device_Init\<close>: the routed device is added to the stack, then the table is switched.\<close>

definition Routing_Device_Init :: "(u32 \<Rightarrow> 'w \<Rightarrow> 'w) \<Rightarrow> u32 \<Rightarrow> bool \<times> 'w \<Rightarrow> bool \<times> 'w" where
  "Routing_Device_Init Add_Routed_Device first_object_instance s =
     (True, Add_Routed_Device first_object_instance (snd s))"

text \<open>\<open>Bacnet_Object_Allocate\<close> and \<open>Bacnet_Object_Free\<close>; fresh memory holds anything.\<close>

definition Bacnet_Object_Allocate ::
    "('k, 'x, 'z) keylist_lib_scheme \<Rightarrow> 'x \<Rightarrow> ('k, 'x) objects \<Rightarrow> nat option \<times> ('k, 'x) objects" where
  "Bacnet_Object_Allocate lib junk s =
     (case k_malloc lib (heap s) of
        None \<Rightarrow> (None, s)
      | Some a \<Rightarrow> (Some a, s\<lparr>heap := (heap s)(a \<mapsto> junk)\<rparr>))"

definition Bacnet_Object_Free :: "nat option \<Rightarrow> ('k, 'x) objects \<Rightarrow> ('k, 'x) objects" where
  "Bacnet_Object_Free descr s = (case descr of None \<Rightarrow> s | Some a \<Rightarrow> heap_free a s)"

section \<open>The laws of the key list\<close>

text \<open>
  \<open>view\<close> is what a list holds: its keys with the pointers, in its order. Adding inserts a node, also for a
  key that is there already; finding and deleting take one of the nodes of a key. The functions take
  NULL for an empty list that cannot be added to.
\<close>

definition keylist_reads :: "('k, 'x, 'z) keylist_lib_scheme \<Rightarrow> ('k \<Rightarrow> (u32 \<times> nat) list) \<Rightarrow> bool" where
  "keylist_reads lib view \<longleftrightarrow>
     (\<forall>h a. k_malloc lib h = Some a \<longrightarrow> h a = None) \<and>
     (\<forall>h k. Keylist_Create lib h = Some k \<longrightarrow> view k = []) \<and>
     (\<forall>l i. case Keylist_Data lib l i of
        None \<Rightarrow> i \<notin> fst ` set (case l of None \<Rightarrow> [] | Some k \<Rightarrow> view k)
      | Some a \<Rightarrow> (i, a) \<in> set (case l of None \<Rightarrow> [] | Some k \<Rightarrow> view k)) \<and>
     (\<forall>l. Keylist_Count lib l = (case l of None \<Rightarrow> 0 | Some k \<Rightarrow> length (view k))) \<and>
     (\<forall>k j. j < length (view k) \<longrightarrow> Keylist_Key lib (Some k) j = fst (view k ! j))"

definition add_ok ::
    "('k \<Rightarrow> (u32 \<times> nat) list) \<Rightarrow> 'k option \<Rightarrow> u32 \<Rightarrow> nat \<Rightarrow> int \<times> 'k option \<Rightarrow> bool" where
  "add_ok view l i a r \<longleftrightarrow>
     (if fst r < 0 then snd r = l
      else (\<exists>k k' xs ys. l = Some k \<and> snd r = Some k' \<and> view k = xs @ ys \<and> view k' = xs @ (i, a) # ys))"

definition delete_ok ::
    "('k \<Rightarrow> (u32 \<times> nat) list) \<Rightarrow> 'k option \<Rightarrow> u32 \<Rightarrow> nat option \<times> 'k option \<Rightarrow> bool" where
  "delete_ok view l i r \<longleftrightarrow>
     (case l of
        None \<Rightarrow> r = (None, None)
      | Some k \<Rightarrow> \<exists>k'. snd r = Some k' \<and>
          (case fst r of
             None \<Rightarrow> i \<notin> fst ` set (view k) \<and> view k' = view k
           | Some a \<Rightarrow> \<exists>xs ys. view k = xs @ (i, a) # ys \<and> view k' = xs @ ys))"

definition pop_ok :: "('k \<Rightarrow> (u32 \<times> nat) list) \<Rightarrow> 'k option \<Rightarrow> nat option \<times> 'k option \<Rightarrow> bool" where
  "pop_ok view l r \<longleftrightarrow>
     (case l of
        None \<Rightarrow> r = (None, None)
      | Some k \<Rightarrow> fst r = (if view k = [] then None else Some (snd (last (view k)))) \<and>
          (\<exists>k'. snd r = Some k' \<and> view k' = butlast (view k)))"

definition keylist_laws :: "('k, 'x, 'z) keylist_lib_scheme \<Rightarrow> ('k \<Rightarrow> (u32 \<times> nat) list) \<Rightarrow> bool" where
  "keylist_laws lib view \<longleftrightarrow> keylist_reads lib view \<and>
     (\<forall>l i a. add_ok view l i a (Keylist_Data_Add lib l i a)) \<and>
     (\<forall>l i. delete_ok view l i (Keylist_Data_Delete lib l i)) \<and>
     (\<forall>l. pop_ok view l (Keylist_Data_Pop lib l))"

definition object_entries :: "('k \<Rightarrow> (u32 \<times> nat) list) \<Rightarrow> ('k, 'x) objects \<Rightarrow> (u32 \<times> nat) list" where
  "object_entries view s = (case Object_List s of None \<Rightarrow> [] | Some k \<Rightarrow> view k)"

text \<open>
  Well-formed objects: no two have the same instance or the same descriptor, and every descriptor of
  the list is allocated. Nothing has leaked when the list holds every descriptor there is.
\<close>

definition objects_wf :: "('k \<Rightarrow> (u32 \<times> nat) list) \<Rightarrow> ('k, 'x) objects \<Rightarrow> bool" where
  "objects_wf view s \<longleftrightarrow>
     distinct (map fst (object_entries view s)) \<and> distinct (map snd (object_entries view s)) \<and>
     snd ` set (object_entries view s) \<subseteq> dom (heap s)"

text \<open>The part of it that concerns the descriptors only.\<close>

definition descriptors_wf :: "('k \<Rightarrow> (u32 \<times> nat) list) \<Rightarrow> ('k, 'x) objects \<Rightarrow> bool" where
  "descriptors_wf view s \<longleftrightarrow>
     distinct (map snd (object_entries view s)) \<and> snd ` set (object_entries view s) \<subseteq> dom (heap s)"

definition nothing_leaked :: "('k \<Rightarrow> (u32 \<times> nat) list) \<Rightarrow> ('k, 'x) objects \<Rightarrow> bool" where
  "nothing_leaked view s \<longleftrightarrow> dom (heap s) = snd ` set (object_entries view s)"

text \<open>The objects as a finite map from instances to descriptions.\<close>

definition object_map :: "('k \<Rightarrow> (u32 \<times> nat) list) \<Rightarrow> ('k, 'x) objects \<Rightarrow> u32 \<rightharpoonup> 'x" where
  "object_map view s = (\<lambda>i. Option.bind (map_of (object_entries view s) i) (heap s))"

lemmas object_defs = objects_wf_def nothing_leaked_def object_map_def object_entries_def

lemma keylist_facts:
  assumes "keylist_laws lib view"
  shows "k_malloc lib h = Some a \<Longrightarrow> h a = None"
    and "Keylist_Create lib h = Some k \<Longrightarrow> view k = []"
    and "Keylist_Data lib (Object_List s) i = None \<longleftrightarrow> map_of (object_entries view s) i = None"
    and "Keylist_Count lib (Object_List s) = length (object_entries view s)"
    and "j < length (object_entries view s) \<Longrightarrow> Keylist_Key lib (Object_List s) j = fst (object_entries view s ! j)"
proof -
  have "case Keylist_Data lib (Object_List s) i of
      None \<Rightarrow> i \<notin> fst ` set (object_entries view s) | Some a \<Rightarrow> (i, a) \<in> set (object_entries view s)"
    using assms unfolding keylist_laws_def keylist_reads_def object_entries_def by blast
  then show "Keylist_Data lib (Object_List s) i = None \<longleftrightarrow> map_of (object_entries view s) i = None"
    by (force simp: map_of_eq_None_iff split: option.splits)
qed (use assms in \<open>auto simp: keylist_laws_def keylist_reads_def object_entries_def split: option.splits\<close>)

text \<open>The three changes of a list, as changes of the entries.\<close>

lemma keylist_add:
  assumes "keylist_laws lib view" "Keylist_Data_Add lib (Object_List s) i a = (n, l)"
  shows "n < 0 \<and> l = Object_List s \<or>
    0 \<le> n \<and> (\<exists>xs ys. object_entries view s = xs @ ys \<and> object_entries view (s\<lparr>Object_List := l\<rparr>) = xs @ (i, a) # ys)"
proof -
  have "add_ok view (Object_List s) i a (n, l)" using assms by (metis keylist_laws_def)
  then show ?thesis by (auto simp: add_ok_def object_entries_def split: if_splits) blast
qed

lemma keylist_delete_one:
  assumes "keylist_laws lib view" "Keylist_Data_Delete lib (Object_List s) i = (d, l)"
  shows "case d of
      None \<Rightarrow> i \<notin> fst ` set (object_entries view s) \<and> object_entries view (s\<lparr>Object_List := l\<rparr>) = object_entries view s
    | Some a \<Rightarrow> \<exists>xs ys. object_entries view s = xs @ (i, a) # ys \<and> object_entries view (s\<lparr>Object_List := l\<rparr>) = xs @ ys"
proof -
  have "delete_ok view (Object_List s) i (d, l)" using assms by (metis keylist_laws_def)
  then show ?thesis by (auto simp: delete_ok_def object_entries_def split: option.splits)
qed

text \<open>Where no instance is there twice, the one entry of it is deleted.\<close>

lemma keylist_delete:
  assumes "keylist_laws lib view" "Keylist_Data_Delete lib (Object_List s) i = (d, l)"
    "distinct (map fst (object_entries view s))"
  shows "d = map_of (object_entries view s) i" "object_entries view (s\<lparr>Object_List := l\<rparr>) = filter (\<lambda>p. fst p \<noteq> i) (object_entries view s)"
proof -
  have "d = map_of (object_entries view s) i \<and>
      object_entries view (s\<lparr>Object_List := l\<rparr>) = filter (\<lambda>p. fst p \<noteq> i) (object_entries view s)"
  proof (cases d)
    case None
    then have new: "i \<notin> fst ` set (object_entries view s)"
      "object_entries view (s\<lparr>Object_List := l\<rparr>) = object_entries view s"
      using keylist_delete_one [OF assms(1,2)] by auto
    then have "filter (\<lambda>p. fst p \<noteq> i) (object_entries view s) = object_entries view s"
      "map_of (object_entries view s) i = None"
      by (auto simp: filter_id_conv map_of_eq_None_iff)
    then show ?thesis using None new by simp
  next
    case (Some a)
    then obtain xs ys where e: "object_entries view s = xs @ (i, a) # ys" "object_entries view (s\<lparr>Object_List := l\<rparr>) = xs @ ys"
      using keylist_delete_one [OF assms(1,2)] by auto
    have "i \<notin> fst ` set xs" "i \<notin> fst ` set ys" using assms(3) by (auto simp: e(1))
    then have "filter (\<lambda>p. fst p \<noteq> i) xs = xs" "filter (\<lambda>p. fst p \<noteq> i) ys = ys" "map_of xs i = None"
      by (auto simp: filter_id_conv map_of_eq_None_iff)
    then show ?thesis using Some e by (simp add: map_add_def)
  qed
  then show "d = map_of (object_entries view s) i"
    "object_entries view (s\<lparr>Object_List := l\<rparr>) = filter (\<lambda>p. fst p \<noteq> i) (object_entries view s)" by simp_all
qed

lemma keylist_pop:
  assumes "keylist_laws lib view" "Keylist_Data_Pop lib (Object_List s) = (d, l)"
  shows "d = (if object_entries view s = [] then None else Some (snd (last (object_entries view s))))"
    "object_entries view (s\<lparr>Object_List := l\<rparr>) = butlast (object_entries view s)"
proof -
  have "pop_ok view (Object_List s) (d, l)" using assms by (metis keylist_laws_def)
  then show "d = (if object_entries view s = [] then None else Some (snd (last (object_entries view s))))"
    "object_entries view (s\<lparr>Object_List := l\<rparr>) = butlast (object_entries view s)"
    by (auto simp: pop_ok_def object_entries_def split: option.splits)
qed

section \<open>The operations\<close>

lemma object_entries_heap [simp]:
  "object_entries view (s\<lparr>heap := h\<rparr>) = object_entries view s" "object_entries view (s\<lparr>handlers := hs\<rparr>) = object_entries view s"
  "object_entries view (heap_free a s) = object_entries view s"
  by (simp_all add: object_entries_def heap_free_def)

lemma map_of_insert:
  "i \<notin> fst ` set (xs @ ys) \<Longrightarrow> map_of (xs @ (i, a) # ys) j = (if j = i then Some a else map_of (xs @ ys) j)"
  by (induction xs) auto

lemma create_eq:
  assumes "keylist_laws lib view"
  shows "Object_Create lib i s =
    (if map_of (object_entries view s) i \<noteq> None then (False, s)
     else case k_malloc lib (heap s) of
            None \<Rightarrow> (False, s)
          | Some descr \<Rightarrow>
              let s = s\<lparr>heap := (heap s)(descr \<mapsto> Init_Description lib i)\<rparr>;
                  (index, l) = Keylist_Data_Add lib (Object_List s) i descr
              in (0 \<le> index, s\<lparr>Object_List := l\<rparr>))"
  using keylist_facts(3) [OF assms, of s i] by (auto simp: Object_Create_def split: option.splits)

lemma create_step:
  assumes "keylist_laws lib view" "objects_wf view s" "Object_Create lib i s = (ok, s')"
  shows "objects_wf view s' \<and>
    (if ok
     then object_map view s i = None \<and> object_map view s' = (object_map view s)(i \<mapsto> Init_Description lib i) \<and>
       (nothing_leaked view s \<longrightarrow> nothing_leaked view s')
     else object_map view s' = object_map view s \<and> object_entries view s' = object_entries view s)"
proof (cases "map_of (object_entries view s) i")
  case (Some a)
  then show ?thesis using assms by (auto simp: create_eq [OF assms(1)])
next
  case None
  then have new: "i \<notin> fst ` set (object_entries view s)" by (simp add: map_of_eq_None_iff)
  show ?thesis
  proof (cases "k_malloc lib (heap s)")
    case None
    then show ?thesis using assms \<open>map_of (object_entries view s) i = None\<close>
      by (auto simp: create_eq [OF assms(1)])
  next
    case (Some a)
    have fresh: "heap s a = None" using keylist_facts(1) [OF assms(1) Some] .
    have unused: "a \<notin> snd ` set (object_entries view s)" using fresh assms(2) by (auto simp: objects_wf_def)
    obtain n l where add: "Keylist_Data_Add lib (Object_List s) i a = (n, l)" by force
    have run: "ok = (0 \<le> n)" "s' = s\<lparr>heap := (heap s)(a \<mapsto> Init_Description lib i), Object_List := l\<rparr>"
      using assms(3) None Some add by (auto simp: create_eq [OF assms(1)] Let_def)
    have same: "object_entries view s' = object_entries view (s\<lparr>Object_List := l\<rparr>)" by (simp add: run object_entries_def)
    have keep: "Option.bind (map_of (object_entries view s) j) ((heap s)(a \<mapsto> x)) = Option.bind (map_of (object_entries view s) j) (heap s)"
      for j x using unused by (cases "map_of (object_entries view s) j") (force dest: map_of_SomeD)+
    from keylist_add [OF assms(1) add] show ?thesis
    proof
      assume "n < 0 \<and> l = Object_List s"
      then show ?thesis using assms(2) keep same
        by (auto simp: run objects_wf_def object_map_def object_entries_def split: option.splits)
    next
      assume "0 \<le> n \<and> (\<exists>xs ys. object_entries view s = xs @ ys \<and> object_entries view (s\<lparr>Object_List := l\<rparr>) = xs @ (i, a) # ys)"
      then obtain xs ys where e: "0 \<le> n" "object_entries view s = xs @ ys" "object_entries view s' = xs @ (i, a) # ys"
        using same by auto
      have m: "map_of (object_entries view s') j = (if j = i then Some a else map_of (object_entries view s) j)" for j
        using new unfolding e by (rule map_of_insert)
      have heap: "heap s' = (heap s)(a \<mapsto> Init_Description lib i)" by (simp add: run)
      have "object_map view s' = (object_map view s)(i \<mapsto> Init_Description lib i)"
        by (simp add: object_map_def m fun_eq_iff heap keep)
      moreover have "objects_wf view s'" using assms(2) new unused e by (auto simp: objects_wf_def run)
      moreover have "nothing_leaked view s \<Longrightarrow> nothing_leaked view s'" using e by (auto simp: nothing_leaked_def run)
      ultimately show ?thesis using e(1) None run(1) by (auto simp: object_map_def)
    qed
  qed
qed

lemma wf_unique:
  assumes "objects_wf view s" "(i, a) \<in> set (object_entries view s)" "(j, b) \<in> set (object_entries view s)"
  shows "a = b \<longleftrightarrow> i = j"
proof
  show "i = j" if "a = b"
    using assms that inj_onD [of snd "set (object_entries view s)" "(i, a)" "(j, b)"] by (simp add: objects_wf_def distinct_map)
  show "a = b" if "i = j"
    using assms that eq_key_imp_eq_value [of "object_entries view s" i a b] by (simp add: objects_wf_def)
qed

lemma delete_step:
  assumes "keylist_laws lib view" "objects_wf view s" "Object_Delete lib i s = (ok, s')"
  shows "objects_wf view s' \<and> (ok \<longleftrightarrow> object_map view s i \<noteq> None) \<and>
    object_map view s' = (object_map view s)(i := None) \<and> (nothing_leaked view s \<longrightarrow> nothing_leaked view s')"
proof -
  obtain d l where del: "Keylist_Data_Delete lib (Object_List s) i = (d, l)" by force
  have once: "distinct (map fst (object_entries view s))" using assms(2) by (simp add: objects_wf_def)
  note k = keylist_delete [OF assms(1) del once]
  have m: "map_of (filter (\<lambda>p. fst p \<noteq> i) es) j = (if j = i then None else map_of es j)" for es :: "(u32 \<times> nat) list" and j
    by (induction es) auto
  show ?thesis
  proof (cases d)
    case None
    then have run: "\<not> ok" "s' = s\<lparr>Object_List := l\<rparr>" using assms(3) del by (auto simp: Object_Delete_def)
    have same: "object_entries view s' = object_entries view s"
      using None k by (auto simp: run map_of_eq_None_iff filter_id_conv)
    then have "object_map view s' = object_map view s" "object_map view s i = None"
      using None k(1) by (simp_all add: object_map_def run fun_eq_iff)
    then show ?thesis using assms(2) same run by (auto simp: objects_wf_def nothing_leaked_def)
  next
    case (Some a)
    then have run: "ok" "s' = heap_free a (s\<lparr>Object_List := l\<rparr>)"
      using assms(3) del by (auto simp: Object_Delete_def)
    have es: "object_entries view s' = filter (\<lambda>p. fst p \<noteq> i) (object_entries view s)" using k(2) by (simp add: run)
    have ia: "(i, a) \<in> set (object_entries view s)" using Some k(1) by (metis map_of_SomeD)
    have other: "b \<noteq> a" if "(j, b) \<in> set (object_entries view s)" "j \<noteq> i" for j b
      using wf_unique [OF assms(2) ia that(1)] that(2) by auto
    have live: "heap s a \<noteq> None" using ia assms(2) by (force simp: objects_wf_def)
    have heap: "heap s' = (heap s)(a := None)" by (simp add: run heap_free_def)
    have map: "object_map view s' = (object_map view s)(i := None)"
    proof
      fix j
      have "b \<noteq> a" if "map_of (object_entries view s) j = Some b" "j \<noteq> i" for b
        using other [OF map_of_SomeD [OF that(1)] that(2)] .
      then show "object_map view s' j = ((object_map view s)(i := None)) j"
        by (cases "map_of (object_entries view s) j") (simp_all add: object_map_def es m heap)
    qed
    have left: "snd ` set (filter (\<lambda>p. fst p \<noteq> i) (object_entries view s)) = snd ` set (object_entries view s) - {a}"
    proof -
      have "b = a" if "(i, b) \<in> set (object_entries view s)" for b using wf_unique [OF assms(2) ia that] by simp
      then show ?thesis using other by force
    qed
    have "objects_wf view s'"
      using assms(2) left by (auto simp: objects_wf_def es heap distinct_map_filter simp del: set_filter)
    moreover have "nothing_leaked view s'" if "nothing_leaked view s"
      using that left by (auto simp: nothing_leaked_def es heap simp del: set_filter)
    moreover have "object_map view s i \<noteq> None" using live Some k(1) by (simp add: object_map_def)
    ultimately show ?thesis using run(1) map by auto
  qed
qed

text \<open>Popping ends after as many rounds as there are entries, and frees every descriptor of the list.\<close>

lemma pop_all_frees:
  assumes "keylist_laws lib view" "descriptors_wf view s"
  shows "\<exists>s'. pop_all lib s = Some s' \<and> object_entries view s' = [] \<and>
    heap s' = (\<lambda>a. if a \<in> snd ` set (object_entries view s) then None else heap s a)"
  using assms(2)
proof (induction "length (object_entries view s)" arbitrary: s)
  case 0
  obtain d l where pop: "Keylist_Data_Pop lib (Object_List s) = (d, l)" by force
  then have "d = None" "object_entries view (s\<lparr>Object_List := l\<rparr>) = []" using keylist_pop [OF assms(1) pop] 0 by simp_all
  then show ?case using 0 by (subst pop_all.simps) (simp add: pop)
next
  case (Suc n)
  obtain d l where pop: "Keylist_Data_Pop lib (Object_List s) = (d, l)" by force
  let ?es = "object_entries view s"
  have ne: "?es \<noteq> []" using Suc.hyps(2) by auto
  obtain i a where last: "last ?es = (i, a)" by force
  have split: "?es = butlast ?es @ [(i, a)]" using ne last by (metis append_butlast_last_id)
  let ?s = "heap_free a (s\<lparr>Object_List := l\<rparr>)"
  have es: "object_entries view (s\<lparr>Object_List := l\<rparr>) = butlast ?es" using keylist_pop(2) [OF assms(1) pop] .
  have "distinct (map snd (butlast ?es @ [(i, a)]))" using Suc.prems split by (simp add: descriptors_wf_def)
  then have out: "a \<notin> snd ` set (butlast ?es)" "distinct (map snd (butlast ?es))" by auto
  have sub: "snd ` set (butlast ?es) \<subseteq> dom (heap s)"
    using Suc.prems by (auto simp: descriptors_wf_def dest!: in_set_butlastD)
  have n: "n = length (object_entries view ?s)" using arg_cong [OF Suc.hyps(2), of "\<lambda>k. k - 1"] es by simp
  have wf: "descriptors_wf view ?s"
    using out sub by (auto simp: descriptors_wf_def es heap_free_def)
  obtain s' where s': "pop_all lib ?s = Some s'" "object_entries view s' = []"
    "heap s' = (\<lambda>b. if b \<in> snd ` set (object_entries view ?s) then None else heap ?s b)"
    using Suc.hyps(1) [OF n wf] by auto
  have "pop_all lib s = pop_all lib ?s"
    using keylist_pop(1) [OF assms(1) pop] ne last by (subst pop_all.simps) (simp add: pop)
  moreover have "snd ` set ?es = insert a (snd ` set (butlast ?es))" by (subst split) auto
  ultimately show ?case using s' out by (auto simp: es heap_free_def fun_eq_iff)
qed

lemma cleanup_step:
  assumes "keylist_laws lib view" "descriptors_wf view s"
  shows "\<exists>s'. Object_Cleanup lib s = Some s' \<and> Object_List s' = None \<and> object_entries view s' = [] \<and>
    object_map view s' = Map.empty \<and> dom (heap s') = dom (heap s) - snd ` set (object_entries view s)"
proof (cases "Object_List s")
  case None
  then show ?thesis by (auto simp: Object_Cleanup_def object_defs)
next
  case (Some k)
  obtain s' where "pop_all lib s = Some s'"
    "heap s' = (\<lambda>a. if a \<in> snd ` set (object_entries view s) then None else heap s a)"
    using pop_all_frees [OF assms] by auto
  moreover from this have "dom (heap s') = dom (heap s) - snd ` set (object_entries view s)"
    by (auto simp: dom_def split: if_splits)
  ultimately show ?thesis
    using Some by (simp add: Object_Cleanup_def object_map_def object_entries_def)
qed

lemma init_step:
  assumes "keylist_laws lib view"
  shows "object_entries view (Object_Init lib s) = object_entries view s" "heap (Object_Init lib s) = heap s"
    "object_entries view (Analog_Init lib ot s) = object_entries view s" "heap (Analog_Init lib ot s) = heap s"
  using keylist_facts(2) [OF assms, of "heap s"]
  by (auto simp: Object_Init_def Analog_Init_def object_entries_def Let_def split: option.split)

text \<open>
  A network port is given another number, which no other object has. When the list cannot take it again
  the port is lost: it is in no list, and its descriptor stays allocated.
\<close>

lemma renumber_step:
  assumes "keylist_laws lib view" "objects_wf view s" "j < length (object_entries view s)"
    and "new = fst (object_entries view s ! j) \<or> new \<notin> fst ` set (object_entries view s)"
    and "Network_Port_Object_Instance_Number_Set lib j new s = (ok, s')"
  shows "objects_wf view s' \<and>
    (if ok
     then (\<exists>x. object_map view s (fst (object_entries view s ! j)) = Some x \<and>
         object_map view s' = (object_map view s)(fst (object_entries view s ! j) := None, new \<mapsto> Instance_Number_update lib new x)) \<and>
       (nothing_leaked view s \<longrightarrow> nothing_leaked view s')
     else \<not> nothing_leaked view s' \<and> object_map view s' = (object_map view s)(fst (object_entries view s ! j) := None))"
proof -
  define old where "old = fst (object_entries view s ! j)"
  obtain d l where del: "Keylist_Data_Delete lib (Object_List s) old = (d, l)" by force
  have once: "distinct (map fst (object_entries view s))" using assms(2) by (simp add: objects_wf_def)
  note k = keylist_delete [OF assms(1) del once]
  have "object_entries view s ! j \<in> set (object_entries view s)" using assms(3) by simp
  then obtain a where oa: "(old, a) \<in> set (object_entries view s)" unfolding old_def by (metis prod.collapse)
  then have d: "d = Some a" using k(1) assms(2) by (simp add: objects_wf_def map_of_is_SomeI)
  obtain x where x: "heap s a = Some x" using oa assms(2) by (force simp: objects_wf_def)
  let ?h = "(heap s)(a \<mapsto> Instance_Number_update lib new x)"
  let ?s = "s\<lparr>Object_List := l, heap := ?h\<rparr>"
  let ?left = "filter (\<lambda>p. fst p \<noteq> old) (object_entries view s)"
  have es: "object_entries view ?s = ?left" using k(2) by simp
  have fresh: "new \<notin> fst ` set ?left" using assms(4) by (auto simp: old_def)
  have outs: "a \<notin> snd ` set ?left" by (auto dest!: wf_unique [OF assms(2) oa])
  obtain n l' where add: "Keylist_Data_Add lib (Object_List ?s) new a = (n, l')" by force
  have run: "ok = (0 \<le> n)" "s' = ?s\<lparr>Object_List := l'\<rparr>"
    using assms(3,5) del add d x
    by (auto simp: Network_Port_Object_Instance_Number_Set_def Index_To_Instance_def keylist_facts(5) [OF assms(1)]
        Let_def case_prod_beta simp flip: old_def)
  have heap: "heap s' = ?h" by (simp add: run)
  have m: "map_of (filter (\<lambda>p. fst p \<noteq> old) es) i = (if i = old then None else map_of es i)"
    for es :: "(u32 \<times> nat) list" and i by (induction es) auto
  have keep: "Option.bind (map_of ?left i) ?h = ((object_map view s)(old := None)) i" for i
  proof (cases "map_of ?left i")
    case (Some b)
    then have "b \<noteq> a" using outs by (metis image_eqI map_of_SomeD snd_conv)
    then show ?thesis using Some m [of "object_entries view s" i] by (auto simp: object_map_def split: if_splits)
  qed (use m [of "object_entries view s" i] in \<open>auto simp: object_map_def split: if_splits\<close>)
  have left: "distinct (map fst ?left)" "distinct (map snd ?left)" "snd ` set ?left \<subseteq> dom ?h" "a \<in> dom ?h"
    using assms(2) by (auto simp: objects_wf_def distinct_map_filter)
  from keylist_add [OF assms(1) add] es have
    "n < 0 \<and> l' = Object_List ?s \<or>
      0 \<le> n \<and> (\<exists>xs ys. ?left = xs @ ys \<and> object_entries view (?s\<lparr>Object_List := l'\<rparr>) = xs @ (new, a) # ys)" by simp
  then show ?thesis
  proof
    assume lost: "n < 0 \<and> l' = Object_List ?s"
    then have "object_entries view s' = ?left" using es by (simp add: run object_entries_def)
    then show ?thesis
      using lost left outs keep by (auto simp: objects_wf_def nothing_leaked_def object_map_def heap run(1) fun_eq_iff simp flip: old_def)
  next
    assume "0 \<le> n \<and> (\<exists>xs ys. ?left = xs @ ys \<and> object_entries view (?s\<lparr>Object_List := l'\<rparr>) = xs @ (new, a) # ys)"
    then obtain xs ys where e: "0 \<le> n" "?left = xs @ ys" "object_entries view s' = xs @ (new, a) # ys" by (auto simp: run)
    have mi: "map_of (object_entries view s') i = (if i = new then Some a else map_of ?left i)" for i
      using fresh unfolding e by (rule map_of_insert)
    have "object_map view s' = (object_map view s)(old := None, new \<mapsto> Instance_Number_update lib new x)"
    proof
      fix i
      show "object_map view s' i = ((object_map view s)(old := None, new \<mapsto> Instance_Number_update lib new x)) i"
        using keep [of i] by (simp add: object_map_def mi heap)
    qed
    moreover have "object_map view s old = Some x" using d k(1) x by (simp add: object_map_def)
    moreover have "objects_wf view s'"
      using left outs fresh unfolding objects_wf_def e heap by (auto simp: e(2))
    moreover have "set (object_entries view s) = insert (old, a) (set ?left)"
    proof -
      have "p \<in> insert (old, a) (set ?left)" if "p \<in> set (object_entries view s)" for p
        using that wf_unique [OF assms(2) oa, of "fst p" "snd p"] by (cases p) auto
      then show ?thesis using oa by (intro equalityI subsetI) (simp, simp, blast)
    qed
    then have "nothing_leaked view s \<Longrightarrow> nothing_leaked view s'"
      unfolding nothing_leaked_def heap by (simp add: e)
    ultimately show ?thesis using e(1) run(1) by (simp flip: old_def)
  qed
qed

section \<open>The contract of an object type\<close>

text \<open>
  What the users of an object type rely on: its objects are a finite map; creating one takes a new
  instance or changes nothing, and deleting succeeds exactly for an instance that exists.
\<close>

datatype object_op = Create_Object u32 | Delete_Object u32

fun run_ops ::
    "(u32 \<Rightarrow> 's \<Rightarrow> bool \<times> 's) \<Rightarrow> (u32 \<Rightarrow> 's \<Rightarrow> bool \<times> 's) \<Rightarrow> object_op list \<Rightarrow> 's \<Rightarrow> bool list \<times> 's" where
  "run_ops create del [] s = ([], s)"
| "run_ops create del (x # ops) s =
     (let (ok, s) = (case x of Create_Object i \<Rightarrow> create i s | Delete_Object i \<Rightarrow> del i s);
          (oks, s) = run_ops create del ops s
      in (ok # oks, s))"

text \<open>The same requests on a set of instances, for the given answers: the instances afterwards, when the
  answers are possible.\<close>

fun instances_after :: "object_op list \<Rightarrow> bool list \<Rightarrow> u32 set \<Rightarrow> u32 set option" where
  "instances_after [] oks D = (if oks = [] then Some D else None)"
| "instances_after (x # ops) [] D = None"
| "instances_after (Create_Object i # ops) (ok # oks) D =
     (if ok then if i \<in> D then None else instances_after ops oks (insert i D) else instances_after ops oks D)"
| "instances_after (Delete_Object i # ops) (ok # oks) D =
     (if ok = (i \<in> D) then instances_after ops oks (D - {i}) else None)"

locale object_module =
  fixes ok :: "'e \<Rightarrow> bool"
    and inv :: "'e \<Rightarrow> 's \<Rightarrow> bool"
    and objs :: "'e \<Rightarrow> 's \<Rightarrow> u32 \<rightharpoonup> 'x"
    and create del :: "'e \<Rightarrow> u32 \<Rightarrow> 's \<Rightarrow> bool \<times> 's"
  assumes create_law:
    "ok e \<Longrightarrow> inv e s \<Longrightarrow> create e i s = (b, s') \<Longrightarrow>
     inv e s' \<and> (if b then objs e s i = None \<and> (\<exists>x. objs e s' = (objs e s)(i \<mapsto> x)) else objs e s' = objs e s)"
    and del_law:
    "ok e \<Longrightarrow> inv e s \<Longrightarrow> del e i s = (b, s') \<Longrightarrow>
     inv e s' \<and> (b \<longleftrightarrow> objs e s i \<noteq> None) \<and> objs e s' = (objs e s)(i := None)"
begin

lemma run_instances:
  assumes "ok e" "inv e s" "run_ops (create e) (del e) ops s = (oks, s')"
  shows "inv e s' \<and> instances_after ops oks (dom (objs e s)) = Some (dom (objs e s'))"
  using assms(2,3)
proof (induction ops arbitrary: s oks)
  case (Cons x ops)
  show ?case
  proof (cases x)
    case (Create_Object i)
    obtain b s1 where c: "create e i s = (b, s1)" by force
    obtain bs where rest: "run_ops (create e) (del e) ops s1 = (bs, s')" "oks = b # bs"
      using Cons.prems(2) Create_Object c by (auto split: prod.splits)
    note law = create_law [OF assms(1) Cons.prems(1) c]
    then have "dom (objs e s1) = (if b then insert i (dom (objs e s)) else dom (objs e s))"
      by (auto simp: dom_fun_upd split: if_splits)
    then show ?thesis
      using law Cons.IH [OF _ rest(1)] rest(2) Create_Object by (auto simp: domIff split: if_splits)
  next
    case (Delete_Object i)
    obtain b s1 where c: "del e i s = (b, s1)" by force
    obtain bs where rest: "run_ops (create e) (del e) ops s1 = (bs, s')" "oks = b # bs"
      using Cons.prems(2) Delete_Object c by (auto split: prod.splits)
    note law = del_law [OF assms(1) Cons.prems(1) c]
    then have "dom (objs e s1) = dom (objs e s) - {i}" by (simp add: dom_fun_upd)
    then have "inv e s' \<and> instances_after ops bs (dom (objs e s) - {i}) = Some (dom (objs e s'))"
      using law Cons.IH [OF _ rest(1)] by metis
    then show ?thesis using law rest(2) Delete_Object by (simp add: domIff)
  qed
qed simp

lemma create_delete:
  "ok e \<Longrightarrow> inv e s \<Longrightarrow> create e i s = (True, s1) \<Longrightarrow> del e i s1 = (b, s2) \<Longrightarrow> b \<and> objs e s2 = objs e s"
  using create_law [of e s i True s1] del_law [of e s1 i b s2] by (auto simp: fun_eq_iff)

end

interpretation object_type: object_module "\<lambda>(lib, view). keylist_laws lib view" "\<lambda>(lib, view). objects_wf view"
    "\<lambda>(lib, view). object_map view" "\<lambda>(lib, view). Object_Create lib" "\<lambda>(lib, view). Object_Delete lib"
proof unfold_locales
  fix e :: "('k, 'x, 'z) keylist_lib_scheme \<times> ('k \<Rightarrow> (u32 \<times> nat) list)" and s s' :: "('k, 'x) objects" and i b
  obtain lib view where e: "e = (lib, view)" by force
  assume ok: "case e of (lib, view) \<Rightarrow> keylist_laws lib view" "(case e of (lib, view) \<Rightarrow> objects_wf view) s"
  show "(case e of (lib, view) \<Rightarrow> objects_wf view) s' \<and>
      (if b then (case e of (lib, view) \<Rightarrow> object_map view) s i = None \<and>
         (\<exists>x. (case e of (lib, view) \<Rightarrow> object_map view) s' = ((case e of (lib, view) \<Rightarrow> object_map view) s)(i \<mapsto> x))
       else (case e of (lib, view) \<Rightarrow> object_map view) s' = (case e of (lib, view) \<Rightarrow> object_map view) s)"
    if "(case e of (lib, view) \<Rightarrow> Object_Create lib) i s = (b, s')"
    using create_step [of lib view s i b s'] ok that by (auto simp: e split: if_splits)
  show "(case e of (lib, view) \<Rightarrow> objects_wf view) s' \<and>
      b = ((case e of (lib, view) \<Rightarrow> object_map view) s i \<noteq> None) \<and>
      (case e of (lib, view) \<Rightarrow> object_map view) s' = ((case e of (lib, view) \<Rightarrow> object_map view) s)(i := None)"
    if "(case e of (lib, view) \<Rightarrow> Object_Delete lib) i s = (b, s')"
    using delete_step [of lib view s i b s'] ok that by (auto simp: e)
qed

section \<open>The life of an object type\<close>

text \<open>
  \<open>objects_run lib view s lost shared\<close>: the state \<open>s\<close> is reached from the start of the system by any calls with any
  arguments. \<open>lost\<close> tells whether the list once had no room for a descriptor, and \<open>shared\<close> whether a
  network port was once given the number of another one: \<open>netport.c\<close> does not test that it is free.
\<close>

inductive objects_run ::
    "('k, 'x, 'z) keylist_lib_scheme \<Rightarrow> ('k \<Rightarrow> (u32 \<times> nat) list) \<Rightarrow> ('k, 'x) objects \<Rightarrow> bool \<Rightarrow> bool \<Rightarrow> bool"
  for lib view where
  power_up: "objects_run lib view \<lparr>Object_List = None, heap = Map.empty, handlers = []\<rparr> False False"
| init: "objects_run lib view s lost shared \<Longrightarrow> objects_run lib view (Object_Init lib s) lost shared"
| analog_init: "objects_run lib view s lost shared \<Longrightarrow> objects_run lib view (Analog_Init lib object_type s) lost shared"
| create: "objects_run lib view s lost shared \<Longrightarrow> Object_Create lib i s = (ok, s') \<Longrightarrow>
     objects_run lib view s' (lost \<or> \<not> ok \<and> heap s' \<noteq> heap s) shared"
| delete: "objects_run lib view s lost shared \<Longrightarrow> Object_Delete lib i s = (ok, s') \<Longrightarrow>
     objects_run lib view s' lost shared"
| renumber: "objects_run lib view s lost shared \<Longrightarrow>
     Network_Port_Object_Instance_Number_Set lib j new s = (ok, s') \<Longrightarrow>
     objects_run lib view s' (lost \<or> \<not> ok \<and> object_entries view s' \<noteq> object_entries view s)
       (shared \<or> new \<in> fst ` set (object_entries view s) \<and> new \<noteq> Index_To_Instance lib j s)"
| cleanup: "objects_run lib view s lost shared \<Longrightarrow> Object_Cleanup lib s = Some s' \<Longrightarrow>
     objects_run lib view s' lost shared"

text \<open>The descriptors stay well formed in every step, whatever the instance numbers.\<close>

lemma create_descriptors:
  assumes "keylist_laws lib view" "descriptors_wf view s" "Object_Create lib i s = (ok, s')"
  shows "descriptors_wf view s' \<and> (distinct (map fst (object_entries view s)) \<longrightarrow> distinct (map fst (object_entries view s'))) \<and>
    (if ok then nothing_leaked view s \<longrightarrow> nothing_leaked view s' else object_entries view s' = object_entries view s)"
proof (cases "map_of (object_entries view s) i = None \<and> k_malloc lib (heap s) \<noteq> None")
  case False
  then have "ok = False \<and> s' = s"
    using assms(3) by (cases "map_of (object_entries view s) i"; cases "k_malloc lib (heap s)") (simp_all add: create_eq [OF assms(1)])
  then show ?thesis using assms(2) by simp
next
  case True
  then obtain a where a: "k_malloc lib (heap s) = Some a" by blast
  have new: "i \<notin> fst ` set (object_entries view s)" using True by (simp add: map_of_eq_None_iff)
  have fresh: "heap s a = None" using keylist_facts(1) [OF assms(1) a] .
  have unused: "a \<notin> snd ` set (object_entries view s)" using fresh assms(2) by (auto simp: descriptors_wf_def)
  obtain n l where add: "Keylist_Data_Add lib (Object_List s) i a = (n, l)" by force
  have run: "ok = (0 \<le> n)" "heap s' = (heap s)(a \<mapsto> Init_Description lib i)"
    "object_entries view s' = object_entries view (s\<lparr>Object_List := l\<rparr>)"
    using assms(3) True a add by (auto simp: create_eq [OF assms(1)] Let_def object_entries_def)
  from keylist_add [OF assms(1) add] show ?thesis
  proof
    assume "n < 0 \<and> l = Object_List s"
    then show ?thesis using assms(2) run by (auto simp: descriptors_wf_def object_entries_def)
  next
    assume "0 \<le> n \<and> (\<exists>xs ys. object_entries view s = xs @ ys \<and> object_entries view (s\<lparr>Object_List := l\<rparr>) = xs @ (i, a) # ys)"
    then obtain xs ys where e: "0 \<le> n" "object_entries view s = xs @ ys" "object_entries view s' = xs @ (i, a) # ys"
      using run(3) by auto
    then show ?thesis
      using assms(2) new unused run by (auto simp: descriptors_wf_def nothing_leaked_def)
  qed
qed

lemma delete_descriptors:
  assumes "keylist_laws lib view" "descriptors_wf view s" "Object_Delete lib i s = (ok, s')"
  shows "descriptors_wf view s' \<and> (distinct (map fst (object_entries view s)) \<longrightarrow> distinct (map fst (object_entries view s'))) \<and>
    (nothing_leaked view s \<longrightarrow> nothing_leaked view s')"
proof -
  obtain d l where del: "Keylist_Data_Delete lib (Object_List s) i = (d, l)" by force
  note one = keylist_delete_one [OF assms(1) del]
  show ?thesis
  proof (cases d)
    case None
    then have "object_entries view s' = object_entries view s" "heap s' = heap s"
      using assms(3) del one by (auto simp: Object_Delete_def)
    then show ?thesis using assms(2) by (simp add: descriptors_wf_def nothing_leaked_def)
  next
    case (Some a)
    then obtain xs ys where e: "object_entries view s = xs @ (i, a) # ys" "object_entries view (s\<lparr>Object_List := l\<rparr>) = xs @ ys"
      using one by auto
    have s': "s' = heap_free a (s\<lparr>Object_List := l\<rparr>)" using assms(3) del Some by (auto simp: Object_Delete_def)
    then have "object_entries view s' = xs @ ys" "heap s' = (heap s)(a := None)" using e(2) by (simp_all add: heap_free_def object_entries_def)
    then show ?thesis using assms(2) e(1) by (auto simp: descriptors_wf_def nothing_leaked_def)
  qed
qed

lemma renumber_descriptors:
  assumes "keylist_laws lib view" "descriptors_wf view s" "Network_Port_Object_Instance_Number_Set lib j new s = (ok, s')"
  shows "descriptors_wf view s' \<and>
    (distinct (map fst (object_entries view s)) \<and> (new \<in> fst ` set (object_entries view s) \<longrightarrow> new = Index_To_Instance lib j s) \<longrightarrow>
       distinct (map fst (object_entries view s'))) \<and>
    (nothing_leaked view s \<and> (ok \<or> object_entries view s' = object_entries view s) \<longrightarrow> nothing_leaked view s')"
proof -
  let ?old = "Index_To_Instance lib j s"
  obtain d l where del: "Keylist_Data_Delete lib (Object_List s) ?old = (d, l)" by force
  note one = keylist_delete_one [OF assms(1) del]
  show ?thesis
  proof (cases d)
    case None
    then have "object_entries view s' = object_entries view s" "heap s' = heap s"
      using assms(3) del one by (auto simp: Network_Port_Object_Instance_Number_Set_def)
    then show ?thesis using assms(2) by (simp add: descriptors_wf_def nothing_leaked_def)
  next
    case (Some a)
    then obtain xs ys where e: "object_entries view s = xs @ (?old, a) # ys" "object_entries view (s\<lparr>Object_List := l\<rparr>) = xs @ ys"
      using one by auto
    let ?h = "(heap s)(a := map_option (Instance_Number_update lib new) (heap s a))"
    let ?s = "s\<lparr>Object_List := l, heap := ?h\<rparr>"
    have dom: "dom ?h = dom (heap s)" by (auto simp: dom_def)
    obtain n l' where add: "Keylist_Data_Add lib (Object_List ?s) new a = (n, l')" by force
    have run: "ok = (0 \<le> n)" "s' = ?s\<lparr>Object_List := l'\<rparr>"
      using assms(3) del add Some by (auto simp: Network_Port_Object_Instance_Number_Set_def Let_def case_prod_beta)
    have left: "object_entries view ?s = xs @ ys" using e(2) by (simp add: object_entries_def)
    from keylist_add [OF assms(1) add] show ?thesis
    proof
      assume n: "n < 0 \<and> l' = Object_List ?s"
      then have "object_entries view s' = xs @ ys" using left by (simp add: run object_entries_def)
      then show ?thesis
        using assms(2) e(1) n by (auto simp: descriptors_wf_def nothing_leaked_def run dom)
    next
      assume "0 \<le> n \<and> (\<exists>us vs. object_entries view ?s = us @ vs \<and> object_entries view (?s\<lparr>Object_List := l'\<rparr>) = us @ (new, a) # vs)"
      then obtain us vs where u: "0 \<le> n" "xs @ ys = us @ vs" "object_entries view s' = us @ (new, a) # vs"
        using left by (auto simp: run)
      have same: "set us \<union> set vs = set xs \<union> set ys" using arg_cong [OF u(2), of set] by simp
      let ?k = "object_entries view s" and ?k' = "object_entries view s'"
      have d: "distinct (map snd (us @ vs))" "a \<notin> snd ` (set us \<union> set vs)"
        using assms(2) unfolding u(2) [symmetric] same by (auto simp: e(1) descriptors_wf_def)
      have snds: "snd ` set ?k' = snd ` set ?k" using arg_cong [OF same, of "\<lambda>A. insert a (snd ` A)"]
        by (simp add: u(3) e(1) image_Un)
      have doms: "dom (heap s') = dom (heap s)" using dom by (simp add: run)
      have wf: "descriptors_wf view s'"
        using assms(2) d unfolding descriptors_wf_def snds doms by (auto simp: u(3))
      have "distinct (map fst ?k')"
        if once: "distinct (map fst ?k)" and free: "new \<in> fst ` set ?k \<longrightarrow> new = ?old"
      proof -
        have "distinct (map fst (us @ vs))" using once unfolding u(2) [symmetric] by (simp add: e(1))
        moreover have "new \<notin> fst ` (set us \<union> set vs)" unfolding same
        proof
          assume "new \<in> fst ` (set xs \<union> set ys)"
          moreover from this have "new = ?old" using free unfolding e(1) by simp
          moreover have "?old \<notin> fst ` (set xs \<union> set ys)" using once unfolding e(1) by auto
          ultimately show False by simp
        qed
        ultimately show ?thesis by (auto simp: u(3))
      qed
      then show ?thesis using wf by (simp add: nothing_leaked_def snds doms)
    qed
  qed
qed

lemma create_failed:
  assumes "keylist_laws lib view" "Object_Create lib i s = (False, s')" "heap s' = heap s"
  shows "nothing_leaked view s' = nothing_leaked view s"
proof (cases "map_of (object_entries view s) i")
  case (Some a)
  then show ?thesis using assms by (auto simp: create_eq [OF assms(1)])
next
  case None
  show ?thesis
  proof (cases "k_malloc lib (heap s)")
    case None
    then show ?thesis using assms \<open>map_of (object_entries view s) i = None\<close>
      by (auto simp: create_eq [OF assms(1)])
  next
    case (Some a)
    then have "heap s' a = Some (Init_Description lib i)"
      using assms(2) None by (auto simp: create_eq [OF assms(1)] Let_def split: prod.splits)
    then show ?thesis using keylist_facts(1) [OF assms(1) Some] assms(3) by simp
  qed
qed

lemma objects_run_wf:
  assumes "keylist_laws lib view" "objects_run lib view s lost shared"
  shows "descriptors_wf view s \<and> (\<not> shared \<longrightarrow> distinct (map fst (object_entries view s))) \<and>
    (\<not> lost \<longrightarrow> nothing_leaked view s)"
  using assms(2)
proof induction
  case power_up
  show ?case by (simp add: descriptors_wf_def object_defs)
next
  case (init s lost shared)
  then show ?case using init_step [OF assms(1)] by (simp add: descriptors_wf_def nothing_leaked_def)
next
  case (analog_init s lost shared ot)
  then show ?case using init_step [OF assms(1)] by (simp add: descriptors_wf_def nothing_leaked_def)
next
  case (create s lost shared i ok s')
  then show ?case
    using create_descriptors [OF assms(1), of s i ok s'] create_failed [OF assms(1), of i s s'] by (cases ok) auto
next
  case (delete s lost shared i ok s')
  then show ?case using delete_descriptors [OF assms(1), of s i ok s'] by auto
next
  case (renumber s lost shared j new ok s')
  then show ?case using renumber_descriptors [OF assms(1), of s j new ok s'] by auto
next
  case (cleanup s lost shared s')
  then show ?case using cleanup_step [OF assms(1), of s] by (auto simp: nothing_leaked_def descriptors_wf_def)
qed

section \<open>Properties\<close>

text \<open>
  C21. The objects of a type stay well formed under any calls with any arguments: no two share a
  descriptor, and every descriptor in the list is allocated. No two have the same instance
  number unless a network port was once given the number of another one, which the code does
  not prevent. The clean-up always ends and frees every descriptor in the list; unless the list once had no
  room for a descriptor, these are all that are allocated.
\<close>

theorem objects_well_formed:
  assumes "keylist_laws lib view" "objects_run lib view s lost shared"
  shows "distinct (map snd (object_entries view s)) \<and> snd ` set (object_entries view s) \<subseteq> dom (heap s) \<and>
    (\<not> shared \<longrightarrow> distinct (map fst (object_entries view s))) \<and>
    (\<not> lost \<longrightarrow> dom (heap s) = snd ` set (object_entries view s)) \<and>
    (\<exists>s'. Object_Cleanup lib s = Some s' \<and> Object_List s' = None \<and>
       dom (heap s') = dom (heap s) - snd ` set (object_entries view s))"
  using objects_run_wf [OF assms] cleanup_step [OF assms(1), of s]
  by (auto simp: descriptors_wf_def nothing_leaked_def)

text \<open>
  C7. The objects of a type implement a finite map from instance numbers to descriptions: creating adds
  the description of a new instance or, when it answers false, changes nothing, deleting removes an
  instance and answers whether it was there, and any sequence of the two answers as a set of instances
  would, for some choice of the creations that find no memory.
\<close>

theorem objects_refine_map:
  assumes "keylist_laws lib view" "objects_wf view s"
  shows "(case Object_Create lib i s of (ok, s') \<Rightarrow>
       if ok then object_map view s i = None \<and> object_map view s' = (object_map view s)(i \<mapsto> Init_Description lib i)
       else object_map view s' = object_map view s) \<and>
    (case Object_Delete lib i s of (ok, s') \<Rightarrow>
       ok = (object_map view s i \<noteq> None) \<and> object_map view s' = (object_map view s)(i := None)) \<and>
    (case run_ops (Object_Create lib) (Object_Delete lib) ops s of (oks, s') \<Rightarrow>
       instances_after ops oks (dom (object_map view s)) = Some (dom (object_map view s')))"
proof (intro conjI)
  show "case Object_Create lib i s of (ok, s') \<Rightarrow>
      if ok then object_map view s i = None \<and> object_map view s' = (object_map view s)(i \<mapsto> Init_Description lib i)
      else object_map view s' = object_map view s"
    using create_step [OF assms] by (auto split: prod.splits if_splits)
  show "case Object_Delete lib i s of (ok, s') \<Rightarrow>
      ok = (object_map view s i \<noteq> None) \<and> object_map view s' = (object_map view s)(i := None)"
    using delete_step [OF assms] by (auto split: prod.splits)
  show "case run_ops (Object_Create lib) (Object_Delete lib) ops s of (oks, s') \<Rightarrow>
      instances_after ops oks (dom (object_map view s)) = Some (dom (object_map view s'))"
    using object_type.run_instances [of "(lib, view)" s ops] assms by (auto split: prod.splits)
qed

text \<open>Two ways to lose a descriptor: the list has no room for a new object, or for a renumbered port.\<close>

lemma create_leaks:
  assumes "Keylist_Data lib (Object_List s) i = None" "k_malloc lib (heap s) = Some a"
    "Keylist_Data_Add lib (Object_List s) i a = (- 1, Object_List s)"
  shows "Object_Create lib i s = (False, s\<lparr>heap := (heap s)(a \<mapsto> Init_Description lib i)\<rparr>)"
  using assms by (simp add: Object_Create_def)

lemma renumber_loses_port:
  assumes "Keylist_Data_Delete lib (Object_List s) (Index_To_Instance lib j s) = (Some a, l)"
    "Keylist_Data_Add lib l new a = (- 1, l)"
  shows "\<exists>h. Network_Port_Object_Instance_Number_Set lib j new s = (False, s\<lparr>Object_List := l, heap := h\<rparr>) \<and>
    dom h = dom (heap s)"
proof (intro exI conjI)
  let ?h = "(heap s)(a := map_option (Instance_Number_update lib new) (heap s a))"
  show "Network_Port_Object_Instance_Number_Set lib j new s = (False, s\<lparr>Object_List := l, heap := ?h\<rparr>)"
    using assms by (simp add: Network_Port_Object_Instance_Number_Set_def)
  show "dom ?h = dom (heap s)" by (auto simp: dom_def)
qed

text \<open>A port that is given the number of another port: both have it afterwards.\<close>

lemma renumber_shares_instance:
  assumes "keylist_laws lib view" "objects_wf view s" "j < length (object_entries view s)"
    and "new \<in> fst ` set (object_entries view s)" "new \<noteq> fst (object_entries view s ! j)"
    and "Network_Port_Object_Instance_Number_Set lib j new s = (True, s')"
  shows "\<not> distinct (map fst (object_entries view s'))"
proof -
  have old: "Index_To_Instance lib j s = fst (object_entries view s ! j)"
    using assms(3) by (simp add: Index_To_Instance_def keylist_facts(5) [OF assms(1)])
  obtain d l where del: "Keylist_Data_Delete lib (Object_List s) (Index_To_Instance lib j s) = (d, l)" by force
  have once: "distinct (map fst (object_entries view s))" using assms(2) by (simp add: objects_wf_def)
  have left: "new \<in> fst ` set (object_entries view (s\<lparr>Object_List := l\<rparr>))"
    unfolding keylist_delete(2) [OF assms(1) del once] using assms(4,5) by (auto simp: old)
  obtain a where d: "d = Some a" using assms(6) del by (cases d) (auto simp: Network_Port_Object_Instance_Number_Set_def)
  let ?s = "s\<lparr>Object_List := l, heap := (heap s)(a := map_option (Instance_Number_update lib new) (heap s a))\<rparr>"
  obtain n l' where add: "Keylist_Data_Add lib (Object_List ?s) new a = (n, l')" by force
  have run: "0 \<le> n" "s' = ?s\<lparr>Object_List := l'\<rparr>"
    using assms(6) del add d by (auto simp: Network_Port_Object_Instance_Number_Set_def Let_def case_prod_beta)
  have same: "object_entries view ?s = object_entries view (s\<lparr>Object_List := l\<rparr>)" by (simp add: object_entries_def)
  obtain us vs where "object_entries view ?s = us @ vs" "object_entries view s' = us @ (new, a) # vs"
    using keylist_add [OF assms(1) add] run by auto
  then show ?thesis using left by (auto simp: same)
qed

section \<open>Walking the table\<close>

text \<open>
  The object that the walk of the stack is at after \<open>k\<close> calls of \<open>Device_Objects_Get_Next_Object\<close>, where
  routing is on in the calls from number \<open>since\<close> on.
\<close>

definition routing_at :: "nat option \<Rightarrow> nat \<Rightarrow> bool" where
  "routing_at since k = (case since of None \<Rightarrow> False | Some n \<Rightarrow> n \<le> k)"

fun walk_at :: "object_table \<Rightarrow> nat option \<Rightarrow> nat \<Rightarrow> object_ptr option option" where
  "walk_at tbl since 0 = Some (Device_Objects_Get_First_Object tbl (routing_at since 0))"
| "walk_at tbl since (Suc k) =
     Option.bind (walk_at tbl since k) (Device_Objects_Get_Next_Object tbl (routing_at since (Suc k)))"

text \<open>
  C31. A walk over the object table is always defined and passes every entry of the section once, in
  order, then ends and stays at its end; the Device entry is passed as the routing object from the
  moment routing is switched on, also when that happens in the middle of the walk.
\<close>

theorem object_table_walk:
  "walk_at tbl since k =
     Some (if k < section_length tbl
           then Some (if BAC_ROUTING tbl \<and> routing_at since k \<and> k = Device_object tbl
                      then Routing_object else Section k)
           else None)"
proof (induction k)
  case 0
  then show ?case by (simp add: Device_Objects_Get_First_Object_def Device_Object_Filter_Out_def)
next
  case (Suc k)
  have "routing_at since k \<Longrightarrow> routing_at since (Suc k)" by (auto simp: routing_at_def split: option.splits)
  then show ?case unfolding walk_at.simps Suc.IH
    by (auto simp: Device_Objects_Get_Next_Object_def Device_Object_Filter_In_def Device_Object_Filter_Out_def)
qed

section \<open>A small key list\<close>

text \<open>A key list for the witnesses: association lists of at most \<open>room\<close> entries, on a heap of ten blocks.\<close>

definition first_free :: "(nat \<rightharpoonup> 'x) \<Rightarrow> nat option" where
  "first_free h = List.find (\<lambda>a. h a = None) [0..<10]"

fun delete_first :: "u32 \<Rightarrow> (u32 \<times> nat) list \<Rightarrow> (u32 \<times> nat) list" where
  "delete_first i [] = []"
| "delete_first i (p # k) = (if fst p = i then k else p # delete_first i k)"

lemma delete_first_split:
  "case map_of k i of
     None \<Rightarrow> i \<notin> fst ` set k \<and> delete_first i k = k
   | Some a \<Rightarrow> \<exists>xs ys. k = xs @ (i, a) # ys \<and> delete_first i k = xs @ ys"
proof (induction k)
  case (Cons p k)
  obtain i' a' where p: "p = (i', a')" by force
  show ?case
  proof (cases "i' = i")
    case True
    then show ?thesis by (auto simp: p intro: exI [of _ "[]"])
  next
    case False
    show ?thesis
    proof (cases "map_of k i")
      case None
      then show ?thesis using Cons.IH False by (auto simp: p)
    next
      case (Some a)
      then obtain xs ys where "k = xs @ (i, a) # ys" "delete_first i k = xs @ ys" using Cons.IH by auto
      then have "p # k = (p # xs) @ (i, a) # ys \<and> delete_first i (p # k) = (p # xs) @ ys" using False by (simp add: p)
      moreover have m: "map_of (p # k) i = Some a" using Some False by (simp add: p)
      ultimately show ?thesis unfolding m option.simps(5) by blast
    qed
  qed
qed simp

definition small_keylist :: "int \<Rightarrow> ((u32 \<times> nat) list, u32) keylist_lib" where
  "small_keylist room =
     \<lparr>k_malloc = first_free, Init_Description = (\<lambda>i. i), Instance_Number_update = (\<lambda>i x. i),
      INTRINSIC_REPORTING = True, Keylist_Create = (\<lambda>h. Some []),
      Keylist_Data = (\<lambda>l i. case l of None \<Rightarrow> None | Some k \<Rightarrow> map_of k i),
      Keylist_Count = (\<lambda>l. case l of None \<Rightarrow> 0 | Some k \<Rightarrow> length k),
      Keylist_Key = (\<lambda>l j. case l of None \<Rightarrow> 0 | Some k \<Rightarrow> if j < length k then fst (k ! j) else 0),
      Keylist_Index = (\<lambda>l i. case l of None \<Rightarrow> - 1 | Some k \<Rightarrow>
        (if i \<in> fst ` set k then int (length (takeWhile (\<lambda>p. fst p \<noteq> i) k)) else - 1)),
      Keylist_Data_Add = (\<lambda>l i a. case l of None \<Rightarrow> (- 1, None) | Some k \<Rightarrow>
        (if int (length k) < room
         then (int (length (takeWhile (\<lambda>p. fst p < i) k)),
               Some (takeWhile (\<lambda>p. fst p < i) k @ (i, a) # dropWhile (\<lambda>p. fst p < i) k))
         else (- 1, l))),
      Keylist_Data_Delete = (\<lambda>l i. case l of None \<Rightarrow> (None, None) | Some k \<Rightarrow>
        (map_of k i, Some (delete_first i k))),
      Keylist_Data_Pop = (\<lambda>l. case l of None \<Rightarrow> (None, None) | Some k \<Rightarrow>
        (if k = [] then None else Some (snd (last k)), Some (butlast k)))\<rparr>"

lemma small_keylist_laws: "keylist_laws (small_keylist room) (\<lambda>k. k)"
proof -
  have "h a = None" if "first_free h = Some a" for h :: "nat \<rightharpoonup> u32" and a
    using that by (auto simp: first_free_def find_Some_iff)
  moreover have "i \<notin> fst ` set k" if "map_of k i = None" for k :: "(u32 \<times> nat) list" and i
    using that by (simp add: map_of_eq_None_iff)
  ultimately have "keylist_reads (small_keylist room) (\<lambda>k. k)"
    by (auto simp: keylist_reads_def small_keylist_def split: option.splits dest: map_of_SomeD)
  moreover have "add_ok (\<lambda>k. k) l i a (Keylist_Data_Add (small_keylist room) l i a)" for l i a
  proof (cases l)
    case (Some k)
    let ?xs = "takeWhile (\<lambda>p. fst p < i) k" and ?ys = "dropWhile (\<lambda>p. fst p < i) k"
    have "k = ?xs @ ?ys" by simp
    then have "\<exists>xs ys. k = xs @ ys \<and> ?xs @ (i, a) # ?ys = xs @ (i, a) # ys" by metis
    then show ?thesis using Some by (simp add: add_ok_def small_keylist_def)
  qed (simp add: add_ok_def small_keylist_def)
  moreover have "delete_ok (\<lambda>k. k) l i (Keylist_Data_Delete (small_keylist room) l i)" for l i
  proof (cases l)
    case (Some k)
    then show ?thesis using delete_first_split [where k = k and i = i] by (simp add: delete_ok_def small_keylist_def)
  qed (simp add: delete_ok_def small_keylist_def)
  ultimately show ?thesis
    by (simp add: keylist_laws_def pop_ok_def small_keylist_def split: option.splits)
qed

abbreviation no_objects :: "((u32 \<times> nat) list, u32) objects" where
  "no_objects \<equiv> \<lparr>Object_List = None, heap = Map.empty, handlers = []\<rparr>"

definition two_objects :: "((u32 \<times> nat) list, u32) objects" where
  "two_objects = (let lib = small_keylist 2 in
     snd (Object_Create lib 3 (snd (Object_Create lib 7 (Object_Init lib no_objects)))))"

lemma two_objects_eq: "two_objects = \<lparr>Object_List = Some [(3, 1), (7, 0)], heap = [0 \<mapsto> 7, 1 \<mapsto> 3], handlers = []\<rparr>"
  by (simp add: two_objects_def Object_Create_def Object_Init_def small_keylist_def first_free_def upt_rec Let_def fun_eq_iff)

lemma two_objects_run: "objects_run (small_keylist 2) (\<lambda>k. k) two_objects False False"
proof -
  let ?lib = "small_keylist 2" and ?run = "objects_run (small_keylist 2) (\<lambda>k. k)"
  let ?s0 = "Object_Init ?lib no_objects"
  let ?s1 = "\<lparr>Object_List = Some [(7, 0)], heap = [0 \<mapsto> 7], handlers = []\<rparr> :: ((u32 \<times> nat) list, u32) objects"
  have "?run ?s0 False False" by (intro objects_run.intros)
  moreover have one: "Object_Create ?lib 7 ?s0 = (True, ?s1)"
    by (simp add: Object_Create_def Object_Init_def small_keylist_def first_free_def upt_rec)
  ultimately have s1: "?run ?s1 False False" by (auto dest: objects_run.create)
  have "Object_Create ?lib 3 ?s1 = (True, two_objects)"
    by (simp add: two_objects_eq Object_Create_def small_keylist_def first_free_def upt_rec fun_eq_iff)
  from objects_run.create [OF s1 this] show ?thesis by simp
qed

theorem objects_well_formed_witness:
  "Object_List two_objects = Some [(3, 1), (7, 0)] \<and> dom (heap two_objects) = {0, 1} \<and>
   (\<exists>s'. Object_Cleanup (small_keylist 2) two_objects = Some s' \<and> heap s' = Map.empty)"
  using objects_well_formed [OF small_keylist_laws two_objects_run]
  by (auto simp: two_objects_eq object_entries_def)

theorem objects_refine_map_witness:
  "\<not> fst (Object_Create (small_keylist 2) 5 two_objects) \<and>
   object_map (\<lambda>k. k) (snd (Object_Create (small_keylist 2) 5 two_objects)) = [3 \<mapsto> 3, 7 \<mapsto> 7] \<and>
   object_map (\<lambda>k. k) (snd (Object_Delete (small_keylist 2) 3 two_objects)) = [7 \<mapsto> 7] \<and>
   (case run_ops (Object_Create (small_keylist 2)) (Object_Delete (small_keylist 2))
      [Delete_Object 3, Create_Object 5, Delete_Object 9] two_objects of (oks, s') \<Rightarrow>
      oks = [True, True, False] \<and> dom (object_map (\<lambda>k. k) s') = {5, 7})"
proof -
  let ?lib = "small_keylist 2" and ?ops = "[Delete_Object 3, Create_Object 5, Delete_Object 9]"
  have wf: "objects_wf (\<lambda>k. k) two_objects"
    using objects_run_wf [OF small_keylist_laws two_objects_run] by (simp add: objects_wf_def descriptors_wf_def)
  note T = objects_refine_map [OF small_keylist_laws [of 2] wf]
  have m: "object_map (\<lambda>k. k) two_objects = [3 \<mapsto> 3, 7 \<mapsto> 7]"
    by (simp add: object_map_def two_objects_eq object_entries_def fun_eq_iff)
  have full: "\<not> fst (Object_Create ?lib 5 two_objects)"
    by (simp add: two_objects_eq Object_Create_def small_keylist_def first_free_def upt_rec)
  have create: "object_map (\<lambda>k. k) (snd (Object_Create ?lib 5 two_objects)) = [3 \<mapsto> 3, 7 \<mapsto> 7]"
    using T [THEN conjunct1, of 5] full m by (cases "Object_Create ?lib 5 two_objects") simp
  have delete: "object_map (\<lambda>k. k) (snd (Object_Delete ?lib 3 two_objects)) = [7 \<mapsto> 7]"
    using T [THEN conjunct2, THEN conjunct1, of 3] m
    by (cases "Object_Delete ?lib 3 two_objects") (simp add: fun_eq_iff)
  obtain oks s' where r: "run_ops (Object_Create ?lib) (Object_Delete ?lib) ?ops two_objects = (oks, s')" by force
  have "fst (run_ops (Object_Create ?lib) (Object_Delete ?lib) ?ops two_objects) = [True, True, False]"
    by (simp add: two_objects_eq Object_Create_def Object_Delete_def heap_free_def small_keylist_def first_free_def upt_rec)
  then have oks: "oks = [True, True, False]" using r by simp
  have "instances_after ?ops oks {3, 7} = Some (dom (object_map (\<lambda>k. k) s'))"
    using T [THEN conjunct2, THEN conjunct2, of ?ops] unfolding r m by (simp add: insert_commute)
  then have "dom (object_map (\<lambda>k. k) s') = {5, 7}" by (auto simp: oks)
  then show ?thesis using full create delete r oks by simp
qed

end
