(* ===== verification/Samples.thy ===== *)
theory Samples
  imports Complex_Main Settings Reinit Task_Lock
begin

text \<open>
  The sample devices (\<open>samples/profiles\<close>): smart sensor (b-ss), smart actuator (b-sa), application
  specific controller (b-asc), lighting device (b-ld) and lighting supervisor (b-ls). Each has handlers
  for the initialisation and the task of the BACnet stack and a main loop that shares the stack with
  other tasks under the task lock. They put the settings and the ReinitializeDevice task together.
  Lines for the log are left out, but those of the supervisor's light handlers.
\<close>

section \<open>Floating-point numbers\<close>

text \<open>
  Floats are rational numbers, infinities or NaN. \<open>rnd\<close> is the rounding of the target. The numbers
  of the random change are small, so that adding one never overflows.
\<close>

datatype c_float = NaN | Minus_Infinity | Fin rat | Plus_Infinity

text \<open>The order of IEEE: NaN compares with nothing, not even itself.\<close>

instantiation c_float :: ord
begin

fun less_eq_c_float :: "c_float \<Rightarrow> c_float \<Rightarrow> bool" where
  "less_eq_c_float NaN y = False"
| "less_eq_c_float x NaN = False"
| "less_eq_c_float Minus_Infinity y = True"
| "less_eq_c_float x Plus_Infinity = True"
| "less_eq_c_float (Fin x) (Fin y) = (x \<le> y)"
| "less_eq_c_float x y = False"

definition less_c_float :: "c_float \<Rightarrow> c_float \<Rightarrow> bool" where
  "less_c_float x y = (x \<le> y \<and> \<not> y \<le> x)"

instance ..

end

definition isgreaterequal :: "c_float \<Rightarrow> rat \<Rightarrow> bool" where
  "isgreaterequal x y = (Fin y \<le> x)"

definition isgreater :: "c_float \<Rightarrow> rat \<Rightarrow> bool" where
  "isgreater x y = (Fin y < x)"

definition islessequal :: "c_float \<Rightarrow> rat \<Rightarrow> bool" where
  "islessequal x y = (x \<le> Fin y)"

lemma c_float_comparisons [simp]:
  "isgreaterequal (Fin x) y = (y \<le> x)" "isgreaterequal Plus_Infinity y"
  "\<not> isgreaterequal Minus_Infinity y" "\<not> isgreaterequal NaN y"
  "isgreater (Fin x) y = (y < x)" "isgreater Plus_Infinity y"
  "\<not> isgreater Minus_Infinity y" "\<not> isgreater NaN y"
  "islessequal (Fin x) y = (x \<le> y)" "\<not> islessequal Plus_Infinity y"
  "islessequal Minus_Infinity y" "\<not> islessequal NaN y"
  by (auto simp: isgreaterequal_def isgreater_def islessequal_def less_c_float_def)

fun float_add :: "(rat \<Rightarrow> rat) \<Rightarrow> c_float \<Rightarrow> rat \<Rightarrow> c_float" where
  "float_add rnd (Fin x) y = Fin (rnd (x + y))"
| "float_add rnd Plus_Infinity y = Plus_Infinity"
| "float_add rnd Minus_Infinity y = Minus_Infinity"
| "float_add rnd NaN y = NaN"

text \<open>\<open>-1.0f + 2.0f * ((float)random / (float)UINT32_MAX)\<close>, rounded after every operation.\<close>

definition random_change :: "(rat \<Rightarrow> rat) \<Rightarrow> u32 \<Rightarrow> rat" where
  "random_change rnd random =
     rnd (- 1 + rnd (2 * rnd (rnd (of_nat (unat random)) / rnd (of_nat UINT32_MAX))))"

section \<open>The stack and the board\<close>

text \<open>The calls of the samples into the stack whose results they do not use.\<close>

datatype engineering_unit = UNITS_DEGREES_CELSIUS | UNITS_PERCENT

datatype unconfirmed_service = SERVICE_WRITE_GROUP | SERVICE_TIME_SYNCHRONIZATION

record channel_member =
  member_type :: u32
  member_instance :: u32
  member_property :: u32
  member_array_index :: u32
  member_device_type :: u32
  member_device_instance :: u32

datatype object_kind = Analog_Input | Analog_Output | Lighting_Output | Binary_Lighting_Output | Channel

datatype object_call =
    Create
  | Name_Set string
  | Units_Set engineering_unit
  | COV_Increment_Set rat
  | Min_Pres_Value_Set rat
  | Max_Pres_Value_Set rat
  | Present_Value_Set c_float "u8 option"   \<comment> \<open>with the priority of an output\<close>
  | Number_Set nat
  | Control_Groups_Element_Set nat nat
  | Reference_List_Member_Element_Set nat channel_member

datatype file_call =
    Pathname_Set u32 string
  | Configuration_File_Set nat u32
  | Ramfs_Init
  | Ramfs_Write_Stream_Data string nat string

datatype callback =
    Store_Callback   \<comment> \<open>\<open>bacnet_basic_store_callback_set(bacnet_settings_basic_store)\<close>\<close>
  | Light_Value_Callback
  | Binary_Light_Value_Callback
  | Blink_Warn_Callback
  | Write_Group_Notification
  | Unconfirmed_Handler unconfirmed_service
  | Timesync_Callback

datatype stack_call =
    Object_Call object_kind u32 object_call   \<comment> \<open>for example \<open>Analog_Input_Name_Set(instance, name)\<close>\<close>
  | Device_Table_Init
  | Device_Set_Object_Instance_Number u32
  | Device_Object_Name_ANSI_Init string
  | File_Call file_call
  | Callback_Set callback
  | Datetime_Init
  | Task_Object_Timer_Set u32
  | Seed_Random u32

text \<open>What a sample hands to \<open>Device_Create_Object\<close>; the last field is the rest of the structure.\<close>

record create_object_data =
  co_object_type :: nat
  co_object_instance :: u32
  co_rest :: nat

text \<open>
  The stack, the kernel and the configuration. The system \<open>'s\<close> is everything the stack and the settings
  subsystem act on; \<open>'t\<close> are the timers of the stack.
\<close>

record ('t, 's, 'v) sample_lib = "('t, 's) reinit_lib" +
  storage_target :: target
  storage_settings :: "(load_param, 's) settings"
  storage_littlefs :: "(('s \<Rightarrow> int \<times> 's) \<times> ('s \<Rightarrow> int \<times> 's)) option"
  application :: "'v bacapp"
  perform :: "stack_call \<Rightarrow> 's \<Rightarrow> 's"
  sys_rand32_get :: "'s \<Rightarrow> u32 \<times> 's"
  mstimer_reset :: "'t \<Rightarrow> u32 \<Rightarrow> 't"
  Device_Write_Property_of :: "write_property_data \<Rightarrow> 's \<Rightarrow> bool \<times> write_property_data \<times> 's"
  Device_Object_Instance_Number :: "'s \<Rightarrow> u32"
  Analog_Input_Out_Of_Service :: "u32 \<Rightarrow> 's \<Rightarrow> bool"
  Analog_Input_Present_Value :: "u32 \<Rightarrow> 's \<Rightarrow> c_float"
  Analog_Output_Out_Of_Service :: "u32 \<Rightarrow> 's \<Rightarrow> bool"
  Analog_Output_Present_Value :: "u32 \<Rightarrow> 's \<Rightarrow> c_float"
  BACNET_OBJECT_TYPE_RESERVED_MIN :: nat
  Device_Create :: "create_object_data \<Rightarrow> 's \<Rightarrow> bool \<times> create_object_data \<times> 's"
  bacfile_index_to_instance :: "nat \<Rightarrow> 's \<Rightarrow> u32"
  bacfile_pathname :: "u32 \<Rightarrow> 's \<Rightarrow> string"
  float_round :: "rat \<Rightarrow> rat"
  CONFIG_BACNET_REINIT_REBOOT_DELAY :: u32

text \<open>The state of a sample: the ReinitializeDevice task with the system, and the static variables.\<close>

record ('t, 's) board =
  core :: "('t, 's) reinit"
  Update_Timer :: 't
  settings_vars :: "(unit, 's) settings_statics"

definition on_system :: "('s \<Rightarrow> 's) \<Rightarrow> ('t, 's) board \<Rightarrow> ('t, 's) board" where
  "on_system f b = b\<lparr>core := (core b)\<lparr>device := f (device (core b))\<rparr>\<rparr>"

abbreviation system :: "('t, 's) board \<Rightarrow> 's" where
  "system b \<equiv> device (core b)"

definition stack_calls ::
    "('t, 's, 'v, 'z) sample_lib_scheme \<Rightarrow> stack_call list \<Rightarrow> ('t, 's) board \<Rightarrow> ('t, 's) board" where
  "stack_calls lib cs = on_system (fold (perform lib) cs)"

section \<open>Parts that the samples share\<close>

text \<open>The callback before a cold start. The result of the clearing only goes to the log.\<close>

definition Coldstart_Callback_of :: "('t, 's, 'v, 'z) sample_lib_scheme \<Rightarrow> 's \<Rightarrow> 's" where
  "Coldstart_Callback_of lib s = snd (bacnet_settings_clear (storage_target lib) (storage_settings lib) s)"

definition Settings_Restore_Callback ::
    "('t, 's, 'v, 'z) sample_lib_scheme \<Rightarrow> (unit, 's) settings_restore_callback" where
  "Settings_Restore_Callback lib wp_data context0 = Device_Write_Property_of lib wp_data"

text \<open>\<open>bacnet_settings_init\<close> and \<open>bacnet_settings_write_property_restore\<close>, whose results are not looked at.\<close>

definition settings_start ::
    "('t, 's, 'v, 'z) sample_lib_scheme \<Rightarrow> (unit, 's) settings_restore_callback \<Rightarrow> ('t, 's) board \<Rightarrow> ('t, 's) board" where
  "settings_start lib cb b =
     (let s = snd (bacnet_settings_init (storage_littlefs lib) (storage_target lib) (storage_settings lib)
                (storage_statics (settings_vars b)) (system b));
          (ok, vars, s) = bacnet_settings_write_property_restore (storage_target lib) (storage_settings lib)
                (application lib) (Some cb) () (settings_vars b) s
      in on_system (\<lambda>_. s) (b\<lparr>settings_vars := vars\<rparr>))"

text \<open>The end of every initialisation: the delay of a restart and the seed.\<close>

definition start_reinit ::
    "('t, 's, 'v, 'z) sample_lib_scheme \<Rightarrow> ('t, 's) board \<Rightarrow> ('t, 's) board" where
  "start_reinit lib b =
     (let b = b\<lparr>core := bacnet_reinitialize_device_init lib (CONFIG_BACNET_REINIT_REBOOT_DELAY lib) (core b)\<rparr>;
          (seed, s) = sys_rand32_get lib (system b)
      in stack_calls lib [Seed_Random seed] (on_system (\<lambda>_. s) b))"

text \<open>The static timer of b-ss and b-sa: every second the value moves, unless it is out of service.\<close>

definition start_update_timer ::
    "('t, 's, 'v, 'z) sample_lib_scheme \<Rightarrow> ('t, 's) board \<Rightarrow> ('t, 's) board" where
  "start_update_timer lib b = b\<lparr>Update_Timer := mstimer_set lib 1000 (mstimer_now (core b))\<rparr>"

definition update_value ::
    "('t, 's, 'v, 'z) sample_lib_scheme \<Rightarrow> ('s \<Rightarrow> bool) \<Rightarrow> ('s \<Rightarrow> c_float) \<Rightarrow> (c_float \<Rightarrow> stack_call) \<Rightarrow>
     ('t, 's) board \<Rightarrow> ('t, 's) board" where
  "update_value lib out_of_service present_value value_set b =
     (if mstimer_expired lib (Update_Timer b) (mstimer_now (core b)) then
        let b = b\<lparr>Update_Timer := mstimer_reset lib (Update_Timer b) (mstimer_now (core b))\<rparr>
        in if out_of_service (system b) then b
           else let val = present_value (system b);
                    (random, s) = sys_rand32_get lib (system b);
                    change = random_change (float_round lib) random
                in stack_calls lib [value_set (float_add (float_round lib) val change)] (on_system (\<lambda>_. s) b)
      else b)"

section \<open>Smart sensor\<close>

definition b_ss_Device_Instance :: u32 where "b_ss_Device_Instance = 260121"
definition Sensor_Instance :: u32 where "Sensor_Instance = 1"

definition BACnet_Smart_Sensor_Coldstart_Callback :: "('t, 's, 'v, 'z) sample_lib_scheme \<Rightarrow> 's \<Rightarrow> 's" where
  "BACnet_Smart_Sensor_Coldstart_Callback lib = Coldstart_Callback_of lib"

definition BACnet_Smart_Sensor_Init_Handler ::
    "('t, 's, 'v, 'z) sample_lib_scheme \<Rightarrow> ('t, 's) board \<Rightarrow> ('t, 's) board" where
  "BACnet_Smart_Sensor_Init_Handler lib b =
     (let b = stack_calls lib
            [Device_Set_Object_Instance_Number b_ss_Device_Instance,
             Device_Object_Name_ANSI_Init ''BACnet Smart Sensor (B-SS)'',
             Object_Call Analog_Input Sensor_Instance Create,
             Object_Call Analog_Input Sensor_Instance (Name_Set ''Sensor''),
             Object_Call Analog_Input Sensor_Instance (Present_Value_Set (Fin 25) None),
             Object_Call Analog_Input Sensor_Instance (Units_Set UNITS_DEGREES_CELSIUS),
             Object_Call Analog_Input Sensor_Instance (COV_Increment_Set 1)] b;
          b = settings_start lib (Settings_Restore_Callback lib) b;
          b = stack_calls lib [Callback_Set Store_Callback] b;
          b = start_update_timer lib b
      in start_reinit lib b)"

definition BACnet_Smart_Sensor_Task_Handler ::
    "('t, 's, 'v, 'z) sample_lib_scheme \<Rightarrow> ('t, 's) board \<Rightarrow> ('t, 's) board" where
  "BACnet_Smart_Sensor_Task_Handler lib b =
     (let b = b\<lparr>core := bacnet_reinitialize_device_task lib (Some (BACnet_Smart_Sensor_Coldstart_Callback lib)) (core b)\<rparr>
      in if halted (core b) then b
         else update_value lib (Analog_Input_Out_Of_Service lib Sensor_Instance)
                (Analog_Input_Present_Value lib Sensor_Instance)
                (\<lambda>v. Object_Call Analog_Input Sensor_Instance (Present_Value_Set v None)) b)"

section \<open>Smart actuator\<close>

definition b_sa_Device_Instance :: u32 where "b_sa_Device_Instance = 260124"
definition Actuator_Instance :: u32 where "Actuator_Instance = 1"

definition BACnet_Smart_Actuator_Coldstart_Callback :: "('t, 's, 'v, 'z) sample_lib_scheme \<Rightarrow> 's \<Rightarrow> 's" where
  "BACnet_Smart_Actuator_Coldstart_Callback lib = Coldstart_Callback_of lib"

definition b_sa_Settings_Restore_Callback ::
    "('t, 's, 'v, 'z) sample_lib_scheme \<Rightarrow> (unit, 's) settings_restore_callback" where
  "b_sa_Settings_Restore_Callback lib wp_data context0 = Device_Write_Property_of lib wp_data"

definition BACnet_Smart_Actuator_Init_Handler ::
    "('t, 's, 'v, 'z) sample_lib_scheme \<Rightarrow> ('t, 's) board \<Rightarrow> ('t, 's) board" where
  "BACnet_Smart_Actuator_Init_Handler lib b =
     (let b = stack_calls lib
            [Device_Table_Init,
             Device_Set_Object_Instance_Number b_sa_Device_Instance,
             Device_Object_Name_ANSI_Init ''BACnet Smart Actuator (B-SA)'',
             Object_Call Analog_Output Actuator_Instance Create,
             Object_Call Analog_Output Actuator_Instance (Name_Set ''Actuator''),
             Object_Call Analog_Output Actuator_Instance (Units_Set UNITS_PERCENT),
             Object_Call Analog_Output Actuator_Instance (Min_Pres_Value_Set 0),
             Object_Call Analog_Output Actuator_Instance (Max_Pres_Value_Set 100)] b;
          b = settings_start lib (b_sa_Settings_Restore_Callback lib) b;
          b = stack_calls lib [Callback_Set Store_Callback] b;
          b = start_update_timer lib b
      in start_reinit lib b)"

definition BACnet_Smart_Actuator_Task_Handler ::
    "('t, 's, 'v, 'z) sample_lib_scheme \<Rightarrow> ('t, 's) board \<Rightarrow> ('t, 's) board" where
  "BACnet_Smart_Actuator_Task_Handler lib b =
     (let b = b\<lparr>core := bacnet_reinitialize_device_task lib (Some (BACnet_Smart_Actuator_Coldstart_Callback lib)) (core b)\<rparr>
      in if halted (core b) then b
         else update_value lib (Analog_Output_Out_Of_Service lib Actuator_Instance)
                (Analog_Output_Present_Value lib Actuator_Instance)
                (\<lambda>v. Object_Call Analog_Output Actuator_Instance (Present_Value_Set v (Some BACNET_MAX_PRIORITY))) b)"

section \<open>Application specific controller\<close>

definition b_asc_Device_Instance :: u32 where "b_asc_Device_Instance = 260127"

definition BACnet_Device_Coldstart_Callback :: "('t, 's, 'v, 'z) sample_lib_scheme \<Rightarrow> 's \<Rightarrow> 's" where
  "BACnet_Device_Coldstart_Callback lib = Coldstart_Callback_of lib"

text \<open>
  One object of every type is asked for. The structure of the request is kept from one creation to the
  next, as the stack left it; only the type is set again.
\<close>

definition create_each_type ::
    "('t, 's, 'v, 'z) sample_lib_scheme \<Rightarrow> 's \<Rightarrow> 's" where
  "create_each_type lib s =
     snd (fold (\<lambda>i (object_data, s). snd (Device_Create lib (object_data\<lparr>co_object_type := i\<rparr>) s))
            [0..<Suc (BACNET_OBJECT_TYPE_RESERVED_MIN lib)]
            (\<lparr>co_object_type = 0, co_object_instance = of_nat BACNET_MAX_INSTANCE, co_rest = 0\<rparr>, s))"

definition backup_file_init ::
    "('t, 's, 'v, 'z) sample_lib_scheme \<Rightarrow> ('t, 's) board \<Rightarrow> ('t, 's) board" where
  "backup_file_init lib b =
     (let inst = bacfile_index_to_instance lib 0 (system b)
      in if BACNET_MAX_INSTANCE \<le> unat inst then b
         else let b = stack_calls lib
                    [File_Call (Pathname_Set inst ''bacnet.dat''), File_Call (Configuration_File_Set 0 inst), File_Call Ramfs_Init] b
              in stack_calls lib [File_Call (Ramfs_Write_Stream_Data (bacfile_pathname lib inst (system b)) 0 ''empty'')] b)"

definition b_asc_Settings_Restore_Callback ::
    "('t, 's, 'v, 'z) sample_lib_scheme \<Rightarrow> (unit, 's) settings_restore_callback" where
  "b_asc_Settings_Restore_Callback lib wp_data context0 = Device_Write_Property_of lib wp_data"

definition BACnet_Device_Init_Handler ::
    "('t, 's, 'v, 'z) sample_lib_scheme \<Rightarrow> ('t, 's) board \<Rightarrow> ('t, 's) board" where
  "BACnet_Device_Init_Handler lib b =
     (let b = on_system (create_each_type lib) b;
          b = backup_file_init lib b;
          b = stack_calls lib
            [Device_Set_Object_Instance_Number b_asc_Device_Instance,
             Device_Object_Name_ANSI_Init ''BACnet Application Specific Controller (B-ASC)''] b;
          b = settings_start lib (b_asc_Settings_Restore_Callback lib) b;
          b = stack_calls lib
            [Callback_Set Store_Callback,
             Callback_Set (Unconfirmed_Handler SERVICE_WRITE_GROUP),
             Callback_Set (Unconfirmed_Handler SERVICE_TIME_SYNCHRONIZATION),
             Callback_Set Timesync_Callback, Datetime_Init,
             Task_Object_Timer_Set 1000] b
      in start_reinit lib b)"

definition BACnet_Device_Task_Handler ::
    "('t, 's, 'v, 'z) sample_lib_scheme \<Rightarrow> ('t, 's) board \<Rightarrow> ('t, 's) board" where
  "BACnet_Device_Task_Handler lib b =
     b\<lparr>core := bacnet_reinitialize_device_task lib (Some (BACnet_Device_Coldstart_Callback lib)) (core b)\<rparr>"

section \<open>Lights\<close>

record ('t, 's, 'v) light_sample_lib = "('t, 's, 'v) sample_lib" +
  linear_interpolate :: "rat \<Rightarrow> rat \<Rightarrow> rat \<Rightarrow> rat \<Rightarrow> rat \<Rightarrow> rat"
  HAS_PWM_LEDS :: bool
  device_is_ready :: "'s \<Rightarrow> bool"
  NUM_LEDS :: nat
  led_set_brightness :: "u8 \<Rightarrow> u8 \<Rightarrow> 's \<Rightarrow> int \<times> 's"

definition Lighting_Instance :: u32 where "Lighting_Instance = 1"
definition Binary_Lighting_Instance :: u32 where "Binary_Lighting_Instance = 1"
definition Channel_Instance :: u32 where "Channel_Instance = 1"

text \<open>The conversion to an unsigned integer truncates; out of range it is not defined.\<close>

definition float_to_unsigned :: "nat \<Rightarrow> rat \<Rightarrow> nat option" where
  "float_to_unsigned limit x =
     (let t = (if 0 \<le> x then floor x else ceiling x)
      in if 0 \<le> t \<and> t \<le> int limit then Some (nat t) else None)"

text \<open>
  The steps for a tracking value, on a scale up to \<open>full\<close> in an integer up to \<open>limit\<close>: the conditional that
  both lighting samples have.
\<close>

definition tracking_steps ::
    "('t, 's, 'v, 'z) light_sample_lib_scheme \<Rightarrow> nat \<Rightarrow> nat \<Rightarrow> c_float \<Rightarrow> nat option" where
  "tracking_steps lib full limit v =
     (if isgreaterequal v 1 \<and> islessequal v 100
      then (case v of Fin x \<Rightarrow> float_to_unsigned limit (linear_interpolate lib 1 x 100 1 (of_nat full)) | _ \<Rightarrow> None)
      else if isgreater v 100 then Some full
      else Some 0)"

definition BACnet_Lighting_Output_Tracking_Value_Handler ::
    "('t, 's, 'v, 'z) light_sample_lib_scheme \<Rightarrow> u32 \<Rightarrow> c_float \<Rightarrow> c_float \<Rightarrow> 's \<Rightarrow> 's option" where
  "BACnet_Lighting_Output_Tracking_Value_Handler lib obj_instance old_value v s =
     (if obj_instance \<noteq> Lighting_Instance then Some s
      else case tracking_steps lib 100 255 v of
        None \<Rightarrow> None
      | Some steps \<Rightarrow>
          Some (if \<not> HAS_PWM_LEDS lib then s
                else if \<not> device_is_ready lib s then s
                else if NUM_LEDS lib = 0 then s
                else let led = (if 0 < obj_instance then ucast (obj_instance - 1) else 0)
                     in snd (led_set_brightness lib led (of_nat steps) s)))"

text \<open>The restored writes to the instance that stands for the own device go to the own device.\<close>

definition b_ld_Settings_Restore_Callback ::
    "('t, 's, 'v, 'z) sample_lib_scheme \<Rightarrow> write_property_data option \<Rightarrow> unit \<Rightarrow> 's \<Rightarrow>
     bool \<times> write_property_data option \<times> 's" where
  "b_ld_Settings_Restore_Callback lib wp_data context0 s =
     (case wp_data of
        None \<Rightarrow> (False, None, s)
      | Some wp \<Rightarrow>
          let wp = (if wp_object_type wp = 8 \<and> wp_object_instance wp = of_nat BACNET_MAX_INSTANCE
                    then wp\<lparr>wp_object_instance := Device_Object_Instance_Number lib s\<rparr> else wp);
              (ok, wp, s) = Device_Write_Property_of lib wp s
          in (ok, Some wp, s))"

definition from_pointer ::
    "(write_property_data option \<Rightarrow> 'c \<Rightarrow> 's \<Rightarrow> bool \<times> write_property_data option \<times> 's) \<Rightarrow>
     ('c, 's) settings_restore_callback" where
  "from_pointer cb wp ctx s = (let (ok, p, s) = cb (Some wp) ctx s in (ok, (case p of None \<Rightarrow> wp | Some wp \<Rightarrow> wp), s))"

section \<open>Lighting device\<close>

definition b_ld_Device_Instance :: u32 where "b_ld_Device_Instance = 260125"

definition b_ld_Coldstart_Callback :: "('t, 's, 'v, 'z) sample_lib_scheme \<Rightarrow> 's \<Rightarrow> 's" where
  "b_ld_Coldstart_Callback lib = Coldstart_Callback_of lib"

definition b_ld_Init_Handler ::
    "('t, 's, 'v, 'z) sample_lib_scheme \<Rightarrow> ('t, 's) board \<Rightarrow> ('t, 's) board" where
  "b_ld_Init_Handler lib b =
     (let b = stack_calls lib
            [Device_Set_Object_Instance_Number b_ld_Device_Instance,
             Device_Object_Name_ANSI_Init ''BACnet Lighting Device (B-LD)'',
             Object_Call Lighting_Output Lighting_Instance Create,
             Object_Call Lighting_Output Lighting_Instance (Name_Set ''Light-1'')] b;
          b = settings_start lib (from_pointer (b_ld_Settings_Restore_Callback lib)) b;
          b = stack_calls lib
            [Callback_Set Store_Callback, Callback_Set Light_Value_Callback, Task_Object_Timer_Set 10] b
      in start_reinit lib b)"

definition b_ld_Task_Handler ::
    "('t, 's, 'v, 'z) sample_lib_scheme \<Rightarrow> ('t, 's) board \<Rightarrow> ('t, 's) board" where
  "b_ld_Task_Handler lib b =
     b\<lparr>core := bacnet_reinitialize_device_task lib (Some (b_ld_Coldstart_Callback lib)) (core b)\<rparr>"

section \<open>Lighting supervisor\<close>

text \<open>Its handlers for the lights only report to the log.\<close>

datatype light_log =
    Light_Value u32 c_float nat
  | Binary_Light_Value u32 nat
  | Blink_Warning u32

definition b_ls_Tracking_Value_Handler ::
    "('t, 's, 'v, 'z) light_sample_lib_scheme \<Rightarrow> u32 \<Rightarrow> c_float \<Rightarrow> c_float \<Rightarrow> light_log list \<Rightarrow> light_log list option" where
  "b_ls_Tracking_Value_Handler lib obj_instance old_value v lines =
     (if obj_instance \<noteq> Lighting_Instance then Some lines
      else map_option (\<lambda>steps. lines @ [Light_Value obj_instance v steps])
             (tracking_steps lib UINT16_MAX UINT16_MAX v))"

definition Binary_Lighting_Output_Present_Value_Handler :: "u32 \<Rightarrow> nat \<Rightarrow> nat \<Rightarrow> light_log list \<Rightarrow> light_log list" where
  "Binary_Lighting_Output_Present_Value_Handler obj_instance old_value v lines =
     (if obj_instance \<noteq> Binary_Lighting_Instance then lines
      else lines @ [Binary_Light_Value obj_instance v])"

definition Binary_Lighting_Output_Blink_Warn_Handler :: "u32 \<Rightarrow> light_log list \<Rightarrow> light_log list" where
  "Binary_Lighting_Output_Blink_Warn_Handler obj_instance lines =
     (if obj_instance \<noteq> Binary_Lighting_Instance then lines else lines @ [Blink_Warning obj_instance])"

definition b_ls_Device_Instance :: u32 where "b_ls_Device_Instance = 260126"

definition b_ls_Coldstart_Callback :: "('t, 's, 'v, 'z) sample_lib_scheme \<Rightarrow> 's \<Rightarrow> 's" where
  "b_ls_Coldstart_Callback lib = Coldstart_Callback_of lib"

definition b_ls_Settings_Restore_Callback ::
    "('t, 's, 'v, 'z) sample_lib_scheme \<Rightarrow> (unit, 's) settings_restore_callback" where
  "b_ls_Settings_Restore_Callback lib wp_data context0 = Device_Write_Property_of lib wp_data"

definition b_ls_Init_Handler ::
    "('t, 's, 'v, 'z) sample_lib_scheme \<Rightarrow> ('t, 's) board \<Rightarrow> ('t, 's) board" where
  "b_ls_Init_Handler lib b =
     (let b = stack_calls lib
            [Device_Set_Object_Instance_Number b_ls_Device_Instance,
             Device_Object_Name_ANSI_Init ''BACnet Lighting Supervisor (B-LS)'',
             Object_Call Lighting_Output Lighting_Instance Create,
             Object_Call Lighting_Output Lighting_Instance (Name_Set ''Light-1''),
             Object_Call Binary_Lighting_Output Binary_Lighting_Instance Create,
             Object_Call Binary_Lighting_Output Binary_Lighting_Instance (Name_Set ''Binary-Light-1''),
             Object_Call Channel Channel_Instance Create,
             Object_Call Channel Channel_Instance (Name_Set ''Lights''),
             Object_Call Channel Channel_Instance (Number_Set 1),
             Object_Call Channel Channel_Instance (Control_Groups_Element_Set 1 1),
             Object_Call Channel Channel_Instance (Reference_List_Member_Element_Set 1
               \<lparr>member_type = 54, member_instance = Lighting_Instance, member_property = PROP_PRESENT_VALUE,
                member_array_index = BACNET_ARRAY_ALL, member_device_type = 8,
                member_device_instance = b_ls_Device_Instance\<rparr>)] b;
          b = settings_start lib (b_ls_Settings_Restore_Callback lib) b;
          b = stack_calls lib
            [Callback_Set Store_Callback,
             Callback_Set Light_Value_Callback,
             Callback_Set Binary_Light_Value_Callback,
             Callback_Set Blink_Warn_Callback,
             Callback_Set Write_Group_Notification,
             Callback_Set (Unconfirmed_Handler SERVICE_WRITE_GROUP),
             Callback_Set (Unconfirmed_Handler SERVICE_TIME_SYNCHRONIZATION),
             Callback_Set Timesync_Callback, Datetime_Init,
             Task_Object_Timer_Set 10] b
      in start_reinit lib b)"

definition b_ls_Task_Handler ::
    "('t, 's, 'v, 'z) sample_lib_scheme \<Rightarrow> ('t, 's) board \<Rightarrow> ('t, 's) board" where
  "b_ls_Task_Handler lib b =
     b\<lparr>core := bacnet_reinitialize_device_task lib (Some (b_ls_Coldstart_Callback lib)) (core b)\<rparr>"

section \<open>Main loops\<close>

text \<open>
  The five functions \<open>main\<close> differ in their handlers only. \<open>bacnet_basic_init\<close> and \<open>bacnet_basic_task\<close>
  get the handler that was set; \<open>other_tasks n\<close> is what the other tasks do to the system before the
  lock is given out, \<open>n\<close> the number of calls so far. The calls are recorded with the depth of the lock.
\<close>

datatype main_call = Basic_Init | Basic_Task | Port_Task | Port_Init bool | Sleep nat

record 's main_lib =
  bacnet_basic_init :: "('s \<Rightarrow> 's) \<Rightarrow> 's \<Rightarrow> 's"
  bacnet_basic_task :: "('s \<Rightarrow> 's) \<Rightarrow> 's \<Rightarrow> 's"
  bacnet_port_task :: "'s \<Rightarrow> 's"
  bacnet_port_init :: "'s \<Rightarrow> bool \<times> 's"
  other_tasks :: "nat \<Rightarrow> 's \<Rightarrow> 's"
  rebooted :: "'s \<Rightarrow> bool"
  CONFIG_BACNET_BASIC_SERVER_KSLEEP :: nat

record 's main_thread =
  task :: "'s console"
  port_initialized :: bool
  main_calls :: "(nat \<times> main_call) list"

definition main_event :: "main_call \<Rightarrow> 's main_thread \<Rightarrow> 's main_thread" where
  "main_event e m = m\<lparr>main_calls := main_calls m @ [(lock_depth (task m), e)]\<rparr>"

definition main_use :: "main_call \<Rightarrow> ('s \<Rightarrow> 's) \<Rightarrow> 's main_thread \<Rightarrow> 's main_thread" where
  "main_use e f m = main_event e (m\<lparr>task := snd (access (\<lambda>w. ((), f w)) (task m))\<rparr>)"

definition main_lock :: "('s, 'z) main_lib_scheme \<Rightarrow> 's main_thread \<Rightarrow> 's main_thread" where
  "main_lock ml m = m\<lparr>task := bacnet_lock (other_tasks ml (length (main_calls m))) (task m)\<rparr>"

definition main_unlock :: "'s main_thread \<Rightarrow> 's main_thread" where
  "main_unlock m = m\<lparr>task := bacnet_unlock (task m)\<rparr>"

definition main_start :: "('s, 'z) main_lib_scheme \<Rightarrow> ('s \<Rightarrow> 's) \<Rightarrow> 's \<Rightarrow> 's main_thread" where
  "main_start ml init_handler w =
     (let m = \<lparr>task = \<lparr>lock_depth = 0, trace = [], world = w\<rparr>, port_initialized = False, main_calls = []\<rparr>;
          m = main_lock ml m;
          m = main_use Basic_Init (bacnet_basic_init ml init_handler) m
      in main_unlock m)"

text \<open>A round of the endless loop; a reboot ends it inside the task of the stack.\<close>

definition main_round :: "('s, 'z) main_lib_scheme \<Rightarrow> ('s \<Rightarrow> 's) \<Rightarrow> 's main_thread \<Rightarrow> 's main_thread" where
  "main_round ml task_handler m =
     (if rebooted ml (world (task m)) then m
      else
        let m = main_event (Sleep (CONFIG_BACNET_BASIC_SERVER_KSLEEP ml)) m;
            m = main_lock ml m;
            m = main_use Basic_Task (bacnet_basic_task ml task_handler) m
        in if rebooted ml (world (task m)) then m
           else
             let m = (if port_initialized m then main_use Port_Task (bacnet_port_task ml) m else m);
                 m = main_unlock m
             in if port_initialized m then m
                else let (ok, w) = bacnet_port_init ml (world (task m))
                     in main_event (Port_Init ok) (m\<lparr>task := (task m)\<lparr>world := w\<rparr>, port_initialized := ok\<rparr>))"

text \<open>The state of a \<open>main\<close> after \<open>n\<close> rounds of its loop.\<close>

definition sample_main ::
    "('s, 'z) main_lib_scheme \<Rightarrow> ('s \<Rightarrow> 's) \<Rightarrow> ('s \<Rightarrow> 's) \<Rightarrow> nat \<Rightarrow> 's \<Rightarrow> 's main_thread" where
  "sample_main ml init_handler task_handler n w = (main_round ml task_handler ^^ n) (main_start ml init_handler w)"

definition b_ss_main ::
    "('t, 's, 'v, 'y) sample_lib_scheme \<Rightarrow> (('t, 's) board, 'z) main_lib_scheme \<Rightarrow> nat \<Rightarrow> ('t, 's) board \<Rightarrow> ('t, 's) board main_thread" where
  "b_ss_main lib ml = sample_main ml (BACnet_Smart_Sensor_Init_Handler lib) (BACnet_Smart_Sensor_Task_Handler lib)"

definition b_sa_main ::
    "('t, 's, 'v, 'y) sample_lib_scheme \<Rightarrow> (('t, 's) board, 'z) main_lib_scheme \<Rightarrow> nat \<Rightarrow> ('t, 's) board \<Rightarrow> ('t, 's) board main_thread" where
  "b_sa_main lib ml = sample_main ml (BACnet_Smart_Actuator_Init_Handler lib) (BACnet_Smart_Actuator_Task_Handler lib)"

definition b_asc_main ::
    "('t, 's, 'v, 'y) sample_lib_scheme \<Rightarrow> (('t, 's) board, 'z) main_lib_scheme \<Rightarrow> nat \<Rightarrow> ('t, 's) board \<Rightarrow> ('t, 's) board main_thread" where
  "b_asc_main lib ml = sample_main ml (BACnet_Device_Init_Handler lib) (BACnet_Device_Task_Handler lib)"

definition b_ld_main ::
    "('t, 's, 'v, 'y) sample_lib_scheme \<Rightarrow> (('t, 's) board, 'z) main_lib_scheme \<Rightarrow> nat \<Rightarrow> ('t, 's) board \<Rightarrow> ('t, 's) board main_thread" where
  "b_ld_main lib ml = sample_main ml (b_ld_Init_Handler lib) (b_ld_Task_Handler lib)"

definition b_ls_main ::
    "('t, 's, 'v, 'y) sample_lib_scheme \<Rightarrow> (('t, 's) board, 'z) main_lib_scheme \<Rightarrow> nat \<Rightarrow> ('t, 's) board \<Rightarrow> ('t, 's) board main_thread" where
  "b_ls_main lib ml = sample_main ml (b_ls_Init_Handler lib) (b_ls_Task_Handler lib)"

section \<open>The rounds of a main loop\<close>

text \<open>
  What \<open>main\<close> calls: \<open>k\<close> rounds while the port cannot be initialised, the round in which it is, and rounds
  that serve the port, \<open>j\<close> rounds altogether.
\<close>

definition waiting_round :: "nat \<Rightarrow> (nat \<times> main_call) list" where
  "waiting_round ms = [(0, Sleep ms), (1, Basic_Task), (0, Port_Init False)]"

definition serving_round :: "nat \<Rightarrow> (nat \<times> main_call) list" where
  "serving_round ms = [(0, Sleep ms), (1, Basic_Task), (1, Port_Task)]"

definition main_rounds :: "nat \<Rightarrow> nat \<Rightarrow> nat \<Rightarrow> (nat \<times> main_call) list" where
  "main_rounds ms k j =
     [(1, Basic_Init)] @ concat (replicate k (waiting_round ms)) @
     (if k < j then [(0, Sleep ms), (1, Basic_Task), (0, Port_Init True)] @
        concat (replicate (j - k - 1) (serving_round ms)) else [])"

text \<open>
  \<open>main_ok ml n m\<close>: after \<open>n\<close> rounds the thread \<open>m\<close> has made the calls of as many rounds and does not hold
  the lock, or the device was rebooted at the end of an earlier round or by the task in the next one.
\<close>

definition main_ok :: "('s, 'z) main_lib_scheme \<Rightarrow> nat \<Rightarrow> 's main_thread \<Rightarrow> bool" where
  "main_ok ml n m \<longleftrightarrow>
     (let ms = CONFIG_BACNET_BASIC_SERVER_KSLEEP ml
      in \<exists>j k. k \<le> j \<and> j \<le> n \<and> port_initialized m = (k < j) \<and>
           (if rebooted ml (world (task m))
            then main_calls m \<in> {main_rounds ms k j, main_rounds ms k j @ [(0, Sleep ms), (1, Basic_Task)]}
            else j = n \<and> lock_depth (task m) = 0 \<and> main_calls m = main_rounds ms k j))"

lemma main_okI:
  assumes "k \<le> j" "j \<le> n" "port_initialized m = (k < j)"
    "if rebooted ml (world (task m))
     then main_calls m \<in> {main_rounds (CONFIG_BACNET_BASIC_SERVER_KSLEEP ml) k j,
       main_rounds (CONFIG_BACNET_BASIC_SERVER_KSLEEP ml) k j @
         [(0, Sleep (CONFIG_BACNET_BASIC_SERVER_KSLEEP ml)), (1, Basic_Task)]}
     else j = n \<and> lock_depth (task m) = 0 \<and> main_calls m = main_rounds (CONFIG_BACNET_BASIC_SERVER_KSLEEP ml) k j"
  shows "main_ok ml n m"
  using assms unfolding main_ok_def Let_def by blast

lemmas main_step_defs = main_event_def main_use_def main_lock_def main_unlock_def access_def
  bacnet_lock_def bacnet_unlock_def

lemma concat_replicate_end: "concat (replicate n xs) @ xs = xs @ concat (replicate n xs)"
  by (induction n) simp_all

lemma main_rounds_waiting: "main_rounds ms j j @ waiting_round ms = main_rounds ms (Suc j) (Suc j)"
  by (simp add: main_rounds_def concat_replicate_end)

lemma main_rounds_connected:
  "main_rounds ms j j @ [(0, Sleep ms), (1, Basic_Task), (0, Port_Init True)] = main_rounds ms j (Suc j)"
  by (simp add: main_rounds_def)

lemma main_rounds_serving: "k < j \<Longrightarrow> main_rounds ms k j @ serving_round ms = main_rounds ms k (Suc j)"
  by (cases j) (simp_all add: main_rounds_def Suc_diff_le concat_replicate_end)

lemma main_start_ok: "main_ok ml 0 (main_start ml init_handler w)"
  by (simp add: main_ok_def main_start_def main_step_defs main_rounds_def Let_def)

lemma main_round_ok:
  assumes "main_ok ml n m"
  shows "main_ok ml (Suc n) (main_round ml task_handler m)"
proof -
  let ?ms = "CONFIG_BACNET_BASIC_SERVER_KSLEEP ml"
  from assms obtain j k where jk: "k \<le> j" "j \<le> n" "port_initialized m = (k < j)"
    and calls: "if rebooted ml (world (task m))
       then main_calls m \<in> {main_rounds ?ms k j, main_rounds ?ms k j @ [(0, Sleep ?ms), (1, Basic_Task)]}
       else j = n \<and> lock_depth (task m) = 0 \<and> main_calls m = main_rounds ?ms k j"
    by (auto simp: main_ok_def Let_def)
  show ?thesis
  proof (cases "rebooted ml (world (task m))")
    case True
    then have "main_round ml task_handler m = m" by (simp add: main_round_def)
    then show ?thesis using jk calls True by (intro main_okI [of k j]) simp_all
  next
    case False
    then have m: "j = n" "lock_depth (task m) = 0" "main_calls m = main_rounds ?ms k n" using calls by simp_all
    define m2 where "m2 = main_use Basic_Task (bacnet_basic_task ml task_handler) (main_lock ml (main_event (Sleep ?ms) m))"
    have m2: "main_calls m2 = main_rounds ?ms k n @ [(0, Sleep ?ms), (1, Basic_Task)]" "lock_depth (task m2) = 1"
      "port_initialized m2 = (k < n)"
      using m jk by (simp_all add: m2_def main_step_defs)
    show ?thesis
    proof (cases "rebooted ml (world (task m2))")
      case True
      then have "main_round ml task_handler m = m2" using False by (simp add: main_round_def m2_def Let_def)
      then show ?thesis using True m2 jk m by (intro main_okI [of k n]) simp_all
    next
      case running: False
      show ?thesis
      proof (cases "k < n")
        case True
        define m3 where "m3 = main_unlock (main_use Port_Task (bacnet_port_task ml) m2)"
        have "main_round ml task_handler m = m3"
          using False running True m2 by (simp add: main_round_def m2_def m3_def Let_def main_step_defs)
        moreover have "main_calls m3 = main_rounds ?ms k (Suc n)" "lock_depth (task m3) = 0" "port_initialized m3"
          using m2 True by (simp_all add: m3_def main_step_defs flip: main_rounds_serving) (simp add: serving_round_def)
        ultimately show ?thesis using True by (intro main_okI [of k "Suc n"]) simp_all
      next
        case wait: False
        then have "k = n" using jk m by simp
        obtain ok w where p: "bacnet_port_init ml (world (task m2)) = (ok, w)" by force
        define m3 where "m3 = main_event (Port_Init ok) ((main_unlock m2)\<lparr>task := (task (main_unlock m2))\<lparr>world := w\<rparr>, port_initialized := ok\<rparr>)"
        have r: "main_round ml task_handler m = m3"
          using False running wait m2 p by (simp add: main_round_def m2_def m3_def Let_def main_step_defs)
        have c: "main_calls m3 = main_rounds ?ms n n @ [(0, Sleep ?ms), (1, Basic_Task), (0, Port_Init ok)]"
          "lock_depth (task m3) = 0" "port_initialized m3 = ok"
          using m2 \<open>k = n\<close> by (simp_all add: m3_def main_step_defs)
        have "main_calls m3 = main_rounds ?ms (if ok then n else Suc n) (Suc n)"
          using c(1) main_rounds_connected [of ?ms n] main_rounds_waiting [of ?ms n] by (simp add: waiting_round_def)
        then show ?thesis using r c
          by (intro main_okI [of "if ok then n else Suc n" "Suc n"]) simp_all
      qed
    qed
  qed
qed

lemma sample_main_ok: "main_ok ml n (sample_main ml init_handler task_handler n w)"
  unfolding sample_main_def by (induction n) (simp_all add: main_start_ok main_round_ok)

section \<open>Starting quietly\<close>

text \<open>
  \<open>view\<close> is what the settings subsystem stores, \<open>storing s\<close> tells whether the callback that stores
  every WriteProperty is installed. A step keeps them when it changes neither.
\<close>

definition keeps_store ::
    "('s \<Rightarrow> bool) \<Rightarrow> ('s \<Rightarrow> string \<rightharpoonup> byte list) \<Rightarrow> ('s \<Rightarrow> bool) \<Rightarrow> 's \<Rightarrow> 's \<Rightarrow> bool" where
  "keeps_store good view storing s s' \<longleftrightarrow>
     (good s \<longrightarrow> good s') \<and> view s' = view s \<and> (storing s' \<longleftrightarrow> storing s)"

text \<open>
  What the samples rely on: their calls into the stack do not store anything, only one of them
  installs the callback, and a WriteProperty stores nothing as long as it is not installed. The
  littlefs file system, whose initialisation removes the stored file, is not configured.
\<close>

definition sample_laws ::
    "('t, 's, 'v, 'z) sample_lib_scheme \<Rightarrow> ('s \<Rightarrow> bool) \<Rightarrow> ('s \<Rightarrow> string \<rightharpoonup> byte list) \<Rightarrow> ('s \<Rightarrow> bool) \<Rightarrow> bool" where
  "sample_laws lib good view storing \<longleftrightarrow>
     settings_laws (storage_settings lib) good view \<and> storage_littlefs lib = None \<and>
     (\<forall>s. keeps_store good view storing s (snd (subsys_init (storage_settings lib) s))) \<and>
     (\<forall>nam s. keeps_store good view storing s (snd (settings_register (storage_settings lib) nam s))) \<and>
     (\<forall>c s. c \<noteq> Callback_Set Store_Callback \<longrightarrow> keeps_store good view storing s (perform lib c s)) \<and>
     (\<forall>s. keeps_store good view (\<lambda>_. True) s (perform lib (Callback_Set Store_Callback) s) \<and>
        storing (perform lib (Callback_Set Store_Callback) s)) \<and>
     (\<forall>s. keeps_store good view storing s (snd (sys_rand32_get lib s))) \<and>
     (\<forall>d s. keeps_store good view storing s (snd (snd (Device_Create lib d s)))) \<and>
     (\<forall>wp s. \<not> storing s \<longrightarrow> keeps_store good view storing s (snd (snd (Device_Write_Property_of lib wp s)))) \<and>
     (\<forall>n s. keeps_store good view storing s (Device_Reinitialize_State_Set lib n s))"

lemma keeps_store_refl [simp]: "keeps_store good view storing s s"
  by (simp add: keeps_store_def)

lemma keeps_store_trans [trans]:
  "keeps_store good view storing s s' \<Longrightarrow> keeps_store good view storing s' s'' \<Longrightarrow> keeps_store good view storing s s''"
  by (simp add: keeps_store_def)

lemma system_on_system [simp]:
  "system (on_system f b) = f (system b)" "halted (core (on_system f b)) = halted (core b)"
  "actions (core (on_system f b)) = actions (core b)"
  "Update_Timer (on_system f b) = Update_Timer b" "settings_vars (on_system f b) = settings_vars b"
  by (simp_all add: on_system_def)

lemma fold_keeps:
  assumes "\<And>x s. x \<in> set xs \<Longrightarrow> keeps_store good view storing s (f x s)"
  shows "keeps_store good view storing s (fold f xs s)"
  using assms by (induction xs arbitrary: s) (auto intro: keeps_store_trans)

lemma stack_calls_keep:
  assumes "sample_laws lib good view storing" "Callback_Set Store_Callback \<notin> set cs"
  shows "keeps_store good view storing (system b) (system (stack_calls lib cs b))"
  unfolding stack_calls_def system_on_system
proof (rule fold_keeps)
  fix c s
  assume "c \<in> set cs"
  then have "c \<noteq> Callback_Set Store_Callback" using assms(2) by blast
  then show "keeps_store good view storing s (perform lib c s)" using assms(1) unfolding sample_laws_def by blast
qed

text \<open>The calls after the restore begin with the one that installs the callback.\<close>

lemma store_callback_keeps:
  assumes "sample_laws lib good view storing" "Callback_Set Store_Callback \<notin> set cs"
  shows "keeps_store good view (\<lambda>_. True) (system b) (system (stack_calls lib (Callback_Set Store_Callback # cs) b)) \<and>
    storing (system (stack_calls lib (Callback_Set Store_Callback # cs) b))"
proof -
  have "stack_calls lib (Callback_Set Store_Callback # cs) b = stack_calls lib cs (stack_calls lib [Callback_Set Store_Callback] b)"
    by (simp add: stack_calls_def on_system_def)
  moreover have "keeps_store good view (\<lambda>_. True) (system b) (system (stack_calls lib [Callback_Set Store_Callback] b)) \<and>
      storing (system (stack_calls lib [Callback_Set Store_Callback] b))"
    using assms(1) by (simp add: stack_calls_def sample_laws_def)
  ultimately show ?thesis
    using stack_calls_keep [OF assms, of "stack_calls lib [Callback_Set Store_Callback] b"] by (auto simp: keeps_store_def)
qed

definition quiet_restore ::
    "('s \<Rightarrow> bool) \<Rightarrow> ('s \<Rightarrow> string \<rightharpoonup> byte list) \<Rightarrow> ('s \<Rightarrow> bool) \<Rightarrow> (unit, 's) settings_restore_callback \<Rightarrow> bool" where
  "quiet_restore good view storing cb \<longleftrightarrow>
     (\<forall>wp s. \<not> storing s \<longrightarrow> keeps_store good view storing s (snd (snd (cb wp () s))))"

lemma settings_init_keeps:
  assumes "sample_laws lib good view storing"
  shows "keeps_store good view storing s
    (snd (bacnet_settings_init (storage_littlefs lib) (storage_target lib) (storage_settings lib) rst s))"
proof -
  have "keeps_store good view storing s (snd (subsys_init (storage_settings lib) s))"
    "keeps_store good view storing s (snd (settings_register (storage_settings lib) nam s))" for s nam
    using assms by (simp_all add: sample_laws_def)
  moreover have "storage_littlefs lib = None" using assms by (simp add: sample_laws_def)
  ultimately show ?thesis
    unfolding bacnet_settings_init_def bacnet_storage_init_def
    by (auto simp: Let_def case_prod_beta intro: keeps_store_trans)
qed

lemma settings_start_keeps:
  assumes "sample_laws lib good view storing" "good (system b)" "\<not> storing (system b)"
    and cb: "quiet_restore good view storing cb"
  shows "keeps_store good view storing (system b) (system (settings_start lib cb b))"
proof -
  let ?st = "storage_settings lib" and ?tg = "storage_target lib"
  define s1 where "s1 = snd (bacnet_settings_init (storage_littlefs lib) ?tg ?st (storage_statics (settings_vars b)) (system b))"
  have init: "keeps_store good view storing (system b) s1"
    unfolding s1_def by (rule settings_init_keeps [OF assms(1)])
  define rst where "rst = (storage_statics (settings_vars b))
    \<lparr>BACnet_Storage_Restore_Callback := Some (bacnet_storage_restore_handler (application lib) (Some cb)),
     BACnet_Storage_Restore_Context := ()\<rparr>"
  have sys: "system (settings_start lib cb b) = snd (bacnet_storage_load ?tg ?st rst s1)"
    by (simp add: settings_start_def s1_def [symmetric] bacnet_settings_write_property_restore_def
        bacnet_storage_load_callback_set_def rst_def Let_def case_prod_beta)
  have restore: "keeps_store good view storing s (snd (bacnet_storage_restore_handler (application lib) (Some cb) key data n ctx s))"
    if "\<not> storing s" for key data n ctx s
    using cb that by (simp add: quiet_restore_def bacnet_storage_restore_handler_def bacnet_settings_restore_def Let_def case_prod_beta)
  have one: "keeps_store good view storing s (snd (h_set (bacnet_storage_handler ?tg ?st rst) r n rd s))" if "\<not> storing s" for r n rd s
    using restore [OF that]
    by (simp add: bacnet_storage_handler_def bacnet_storage_handler_set_def bacnet_storage_restore_def rst_def
        Let_def case_prod_beta split: option.splits)
  have all: "keeps_store good view storing s (handle_entries (bacnet_storage_handler ?tg ?st rst) es s)" if "\<not> storing s" for es s
    using that
  proof (induction es arbitrary: s)
    case (Cons e es)
    let ?s1 = "snd (h_set (bacnet_storage_handler ?tg ?st rst) (fst e) (length (snd e)) (value_reader (snd e)) s)"
    have k: "keeps_store good view storing s ?s1" by (rule one [OF Cons.prems])
    then have "\<not> storing ?s1" using Cons.prems by (simp add: keeps_store_def)
    from keeps_store_trans [OF k Cons.IH [OF this]] show ?case by (simp add: handle_entries_def case_prod_beta)
  qed (simp add: handle_entries_def)
  have laws: "settings_laws ?st good view" and s1: "good s1" "\<not> storing s1"
    using assms init by (simp_all add: sample_laws_def keeps_store_def)
  obtain es where "snd (bacnet_storage_load ?tg ?st rst s1) = handle_entries (bacnet_storage_handler ?tg ?st rst) es s1"
    by (rule settings_laws_handle [OF laws s1(1), where h = "bacnet_storage_handler ?tg ?st rst"])
      (auto simp: bacnet_storage_load_def)
  then show ?thesis using keeps_store_trans [OF init all [OF s1(2)]] by (simp add: sys)
qed

text \<open>Every initialisation: calls that store nothing, the restore, the callback, the timers.\<close>

definition starts ::
    "('s \<Rightarrow> bool) \<Rightarrow> ('s \<Rightarrow> string \<rightharpoonup> byte list) \<Rightarrow> ('s \<Rightarrow> bool) \<Rightarrow> ('t, 's) board \<Rightarrow> ('t, 's) board \<Rightarrow> bool" where
  "starts good view storing b b' \<longleftrightarrow>
     good (system b') \<and> view (system b') = view (system b) \<and> storing (system b') \<and>
     halted (core b') = halted (core b) \<and> actions (core b') = actions (core b)"

lemma core_unchanged [simp]:
  "halted (core (stack_calls lib cs b)) = halted (core b)" "actions (core (stack_calls lib cs b)) = actions (core b)"
  "halted (core (settings_start lib cb b)) = halted (core b)" "actions (core (settings_start lib cb b)) = actions (core b)"
  "halted (core (start_update_timer lib b)) = halted (core b)" "actions (core (start_update_timer lib b)) = actions (core b)"
  "system (start_update_timer lib b) = system b"
  by (simp_all add: stack_calls_def settings_start_def start_update_timer_def Let_def case_prod_beta)

lemma start_reinit_keeps:
  assumes "sample_laws lib good view storing"
  shows "keeps_store good view storing (system b) (system (start_reinit lib b)) \<and>
    halted (core (start_reinit lib b)) = halted (core b) \<and> actions (core (start_reinit lib b)) = actions (core b)"
proof -
  obtain r s where r: "sys_rand32_get lib (system b) = (r, s)" by force
  have "keeps_store good view storing (system b) s" using assms r unfolding sample_laws_def by (metis snd_conv)
  moreover have "keeps_store good view storing s (perform lib (Seed_Random r) s)" using assms by (simp add: sample_laws_def)
  ultimately show ?thesis
    using r by (auto simp: start_reinit_def bacnet_reinitialize_device_init_def stack_calls_def intro: keeps_store_trans)
qed

lemma start_sequence:
  assumes "sample_laws lib good view storing" "good (system b)" "\<not> storing (system b)"
    and b1: "keeps_store good view storing (system b) (system b1)" "halted (core b1) = halted (core b)" "actions (core b1) = actions (core b)"
    and cb: "quiet_restore good view storing cb"
    and cs: "Callback_Set Store_Callback \<notin> set cs"
    and b2: "system b2 = system (stack_calls lib (Callback_Set Store_Callback # cs) (settings_start lib cb b1))"
      "halted (core b2) = halted (core b)" "actions (core b2) = actions (core b)"
  shows "starts good view storing b (start_reinit lib b2)"
proof -
  have "good (system b1)" "\<not> storing (system b1)" using assms(2,3) b1 by (simp_all add: keeps_store_def)
  from settings_start_keeps [OF assms(1) this cb]
  have "keeps_store good view storing (system b) (system (settings_start lib cb b1))" using keeps_store_trans [OF b1(1)] by blast
  then have "good (system b2) \<and> view (system b2) = view (system b) \<and> storing (system b2)"
    using store_callback_keeps [OF assms(1) cs, of "settings_start lib cb b1"] assms(2) by (simp add: b2 keeps_store_def)
  then show ?thesis
    using start_reinit_keeps [OF assms(1), of b2] b2 by (simp add: starts_def keeps_store_def)
qed

text \<open>Four samples have the same restore callback.\<close>

lemma same_restore_callbacks:
  "b_sa_Settings_Restore_Callback lib = Settings_Restore_Callback lib"
  "b_asc_Settings_Restore_Callback lib = Settings_Restore_Callback lib"
  "b_ls_Settings_Restore_Callback lib = Settings_Restore_Callback lib"
  by (simp_all add: fun_eq_iff Settings_Restore_Callback_def b_sa_Settings_Restore_Callback_def
      b_asc_Settings_Restore_Callback_def b_ls_Settings_Restore_Callback_def)

lemma restore_callback_keeps:
  assumes "sample_laws lib good view storing"
  shows "quiet_restore good view storing (Settings_Restore_Callback lib)"
    and "quiet_restore good view storing (from_pointer (b_ld_Settings_Restore_Callback lib))"
  using assms by (simp_all add: sample_laws_def quiet_restore_def Settings_Restore_Callback_def from_pointer_def
      b_ld_Settings_Restore_Callback_def Let_def case_prod_beta)

lemma create_each_type_keeps:
  assumes "sample_laws lib good view storing"
  shows "keeps_store good view storing s (create_each_type lib s)"
proof -
  let ?f = "\<lambda>i (object_data, s). snd (Device_Create lib (object_data\<lparr>co_object_type := i\<rparr>) s)"
  have step: "keeps_store good view storing s (snd (snd (Device_Create lib d s)))" for d s
    using assms by (simp add: sample_laws_def)
  have "keeps_store good view storing (snd p) (snd (fold ?f is p))" for "is" p
  proof (induction "is" arbitrary: p)
    case (Cons i "is")
    have "keeps_store good view storing (snd p) (snd (?f i p))" using step by (simp add: case_prod_beta)
    from keeps_store_trans [OF this Cons.IH] show ?case by simp
  qed simp
  from this [of "(\<lparr>co_object_type = 0, co_object_instance = of_nat BACNET_MAX_INSTANCE, co_rest = 0\<rparr>, s)"
      "[0..<Suc (BACNET_OBJECT_TYPE_RESERVED_MIN lib)]"]
  show ?thesis by (simp add: create_each_type_def del: upt_Suc)
qed

lemma backup_file_keeps:
  assumes "sample_laws lib good view storing"
  shows "keeps_store good view storing (system b) (system (backup_file_init lib b)) \<and>
    halted (core (backup_file_init lib b)) = halted (core b) \<and> actions (core (backup_file_init lib b)) = actions (core b)"
proof -
  note k = stack_calls_keep [OF assms]
  show ?thesis
    unfolding backup_file_init_def Let_def by (simp add: keeps_store_trans [OF k k])
qed

section \<open>Cold starts and values\<close>

definition coldstart_due :: "('t, 's, 'z) reinit_lib_scheme \<Rightarrow> ('t, 's) board \<Rightarrow> bool" where
  "coldstart_due lib b \<longleftrightarrow>
     Device_Reinitialized_State lib (system b) = BACNET_REINIT_COLDSTART \<and>
     mstimer_expired lib (Reinitialize_Timer (core b)) (mstimer_now (core b))"

lemma update_value_keeps:
  assumes "sample_laws lib good view storing" "\<And>v. value_set v \<noteq> Callback_Set Store_Callback"
  shows "view (system (update_value lib oos pv value_set b)) = view (system b) \<and>
    halted (core (update_value lib oos pv value_set b)) = halted (core b) \<and>
    actions (core (update_value lib oos pv value_set b)) = actions (core b)"
proof -
  obtain r s where r: "sys_rand32_get lib (system b) = (r, s)" by force
  have "view s = view (system b)" using assms(1) r unfolding sample_laws_def keeps_store_def by (metis snd_conv)
  moreover have "view (perform lib (value_set v) s) = view s" for v
    using assms by (auto simp: sample_laws_def keeps_store_def)
  ultimately show ?thesis using r by (simp add: update_value_def stack_calls_def Let_def)
qed

text \<open>The ReinitializeDevice task of a sample, on the stored values and the actions.\<close>

lemma reinit_task_view:
  assumes "sample_laws lib good view storing" "c = bacnet_reinitialize_device_task lib (Some f) (core b)"
  shows "view (device c) = (if coldstart_due lib b then view (f (system b)) else view (system b))"
    and "coldstart_due lib b \<Longrightarrow> CONFIG_REBOOT lib \<Longrightarrow>
      halted c \<and> actions c = actions (core b) @ [Coldstart_Callback, Log_Panic, Reboot_Cold]"
proof -
  have "view (Device_Reinitialize_State_Set lib n s) = view s" for n s
    using assms(1) by (simp add: sample_laws_def keeps_store_def)
  then show "view (device c) = (if coldstart_due lib b then view (f (system b)) else view (system b))"
    by (simp add: assms(2) bacnet_reinitialize_device_task_def reboot_or_idle_def act_def coldstart_due_def Let_def)
  show "halted c \<and> actions c = actions (core b) @ [Coldstart_Callback, Log_Panic, Reboot_Cold]"
    if "coldstart_due lib b" "CONFIG_REBOOT lib"
    using that by (simp add: assms(2) bacnet_reinitialize_device_task_def reboot_or_idle_def act_def coldstart_due_def Let_def)
qed

lemma task_handlers_view:
  assumes "sample_laws lib good view storing"
    "task_handler \<in> {BACnet_Smart_Sensor_Task_Handler lib, BACnet_Smart_Actuator_Task_Handler lib,
       BACnet_Device_Task_Handler lib, b_ld_Task_Handler lib, b_ls_Task_Handler lib}"
  shows "view (system (task_handler b)) =
      (if coldstart_due lib b then view (Coldstart_Callback_of lib (system b)) else view (system b))"
    and "coldstart_due lib b \<Longrightarrow> CONFIG_REBOOT lib \<Longrightarrow>
      halted (core (task_handler b)) \<and>
      actions (core (task_handler b)) = actions (core b) @ [Coldstart_Callback, Log_Panic, Reboot_Cold]"
proof -
  define c where "c = bacnet_reinitialize_device_task lib (Some (Coldstart_Callback_of lib)) (core b)"
  note view = reinit_task_view [OF assms(1) c_def]
  have move: "view (system (update_value lib oos pv value_set (b\<lparr>core := c\<rparr>))) = view (device c)"
    "halted (core (update_value lib oos pv value_set (b\<lparr>core := c\<rparr>))) = halted c"
    "actions (core (update_value lib oos pv value_set (b\<lparr>core := c\<rparr>))) = actions c"
    if "\<And>v. value_set v \<noteq> Callback_Set Store_Callback" for oos pv value_set
    using update_value_keeps [OF assms(1) that, where oos = oos and pv = pv and b = "b\<lparr>core := c\<rparr>"] by simp_all
  have handlers: "view (system (task_handler b)) = view (device c) \<and> halted (core (task_handler b)) = halted c \<and>
      actions (core (task_handler b)) = actions c"
    using assms(2)
    by (auto simp: BACnet_Smart_Sensor_Task_Handler_def BACnet_Smart_Actuator_Task_Handler_def
        BACnet_Device_Task_Handler_def b_ld_Task_Handler_def b_ls_Task_Handler_def
        BACnet_Smart_Sensor_Coldstart_Callback_def BACnet_Smart_Actuator_Coldstart_Callback_def
        BACnet_Device_Coldstart_Callback_def b_ld_Coldstart_Callback_def b_ls_Coldstart_Callback_def
        move Let_def split: if_splits simp flip: c_def)
  then show "view (system (task_handler b)) =
      (if coldstart_due lib b then view (Coldstart_Callback_of lib (system b)) else view (system b))"
    by (simp add: view(1))
  show "halted (core (task_handler b)) \<and>
      actions (core (task_handler b)) = actions (core b) @ [Coldstart_Callback, Log_Panic, Reboot_Cold]"
    if "coldstart_due lib b" "CONFIG_REBOOT lib" using handlers view(2) [OF that] by simp
qed

text \<open>Rounding as in IEEE arithmetic: monotone, and exact on small integers.\<close>

definition rounds :: "(rat \<Rightarrow> rat) \<Rightarrow> bool" where
  "rounds rnd \<longleftrightarrow> (\<forall>x y. x \<le> y \<longrightarrow> rnd x \<le> rnd y) \<and> rnd (- 1) = - 1 \<and> rnd 0 = 0 \<and> rnd 1 = 1 \<and> rnd 2 = 2"

lemma random_change_bounded:
  assumes "rounds rnd"
  shows "\<bar>random_change rnd random\<bar> \<le> 1"
proof -
  have mono: "x \<le> y \<Longrightarrow> rnd x \<le> rnd y" for x y using assms by (simp add: rounds_def)
  have exact: "rnd (- 1) = - 1" "rnd 0 = 0" "rnd 1 = 1" "rnd 2 = 2" using assms by (simp_all add: rounds_def)
  let ?r = "rnd (of_nat (unat random))" and ?u = "rnd (of_nat UINT32_MAX)"
  have "unat random < Suc UINT32_MAX"
    using unsigned_less [where 'a = nat, of random] unfolding UINT32_MAX_def by (rule order_less_le_trans) simp
  then have "unat random \<le> UINT32_MAX" by (rule less_Suc_eq_le [THEN iffD1])
  then have "?r \<le> ?u" by (intro mono of_nat_mono)
  moreover have "0 \<le> ?r" using mono [OF of_nat_0_le_iff [of "unat random"]] by (simp only: exact)
  moreover have "1 \<le> ?u" using mono [of 1 "of_nat UINT32_MAX"] exact by (simp add: UINT32_MAX_def)
  ultimately have "0 \<le> ?r / ?u" "?r / ?u \<le> 1" by simp_all
  then have "0 \<le> rnd (?r / ?u)" "rnd (?r / ?u) \<le> 1" using mono exact by metis+
  then have "0 \<le> rnd (2 * rnd (?r / ?u))" "rnd (2 * rnd (?r / ?u)) \<le> 2"
    using mono [of 0 "2 * rnd (?r / ?u)"] mono [of "2 * rnd (?r / ?u)" 2] exact by simp_all
  then have "- 1 \<le> random_change rnd random" "random_change rnd random \<le> 1"
    using mono [of "- 1" "- 1 + rnd (2 * rnd (?r / ?u))"] mono [of "- 1 + rnd (2 * rnd (?r / ?u))" 1] exact
    by (simp_all add: random_change_def)
  then show ?thesis by (simp add: abs_le_iff)
qed

text \<open>The interpolation of the stack is monotone and stays between the two ends.\<close>

definition interpolates :: "('t, 's, 'v, 'z) light_sample_lib_scheme \<Rightarrow> bool" where
  "interpolates lib \<longleftrightarrow>
     (\<forall>x full. 1 \<le> x \<and> x \<le> 100 \<and> 1 \<le> full \<longrightarrow>
        1 \<le> linear_interpolate lib 1 x 100 1 full \<and> linear_interpolate lib 1 x 100 1 full \<le> full)"

lemma tracking_steps_bounded:
  assumes "interpolates lib" "1 \<le> full" "full \<le> limit"
  obtains n where "tracking_steps lib full limit v = Some n" "n \<le> full" "(n = 0) = (\<not> isgreaterequal v 1)"
    "isgreater v 100 \<Longrightarrow> n = full"
proof (cases v)
  case (Fin x)
  show thesis
  proof (cases "1 \<le> x \<and> x \<le> 100")
    case True
    let ?y = "linear_interpolate lib 1 x 100 1 (of_nat full)"
    have "1 \<le> ?y" "?y \<le> of_nat full" using assms(1,2) True by (simp_all add: interpolates_def)
    then have f: "1 \<le> \<lfloor>?y\<rfloor>" "\<lfloor>?y\<rfloor> \<le> int full" "0 \<le> ?y" by linarith+
    then have "tracking_steps lib full limit v = Some (nat \<lfloor>?y\<rfloor>)"
      using Fin True assms(3) by (simp add: tracking_steps_def float_to_unsigned_def Let_def)
    then show thesis using that [of "nat \<lfloor>?y\<rfloor>"] f Fin True by (simp add: nat_le_iff)
  next
    case False
    then show thesis
      using that [of "if 100 < x then full else 0"] Fin assms(2) by (auto simp: tracking_steps_def split: if_splits)
  qed
qed (use that [of full] that [of 0] assms(2) in \<open>auto simp: tracking_steps_def\<close>)

section \<open>Properties\<close>

text \<open>
  C22. No initialisation of a sample writes to the settings: while the stored values are restored through
  WriteProperty, the callback that would store them again is not installed yet. It is installed
  afterwards, and the device neither acts on a restart nor stops.
\<close>

theorem sample_init_stores_nothing:
  assumes "sample_laws lib good view storing" "good (system b)" "\<not> storing (system b)"
  shows "starts good view storing b (BACnet_Smart_Sensor_Init_Handler lib b) \<and>
    starts good view storing b (BACnet_Smart_Actuator_Init_Handler lib b) \<and>
    starts good view storing b (BACnet_Device_Init_Handler lib b) \<and>
    starts good view storing b (b_ld_Init_Handler lib b) \<and>
    starts good view storing b (b_ls_Init_Handler lib b)"
proof (intro conjI)
  note start = start_sequence [OF assms] and calls = stack_calls_keep [OF assms(1)]
    and cb = restore_callback_keeps [OF assms(1)]
  show "starts good view storing b (BACnet_Smart_Sensor_Init_Handler lib b)"
    unfolding BACnet_Smart_Sensor_Init_Handler_def Let_def by (rule start [OF _ _ _ cb(1)]) (simp_all add: calls)
  show "starts good view storing b (BACnet_Smart_Actuator_Init_Handler lib b)"
    unfolding BACnet_Smart_Actuator_Init_Handler_def Let_def same_restore_callbacks by (rule start [OF _ _ _ cb(1)]) (simp_all add: calls)
  show "starts good view storing b (b_ld_Init_Handler lib b)"
    unfolding b_ld_Init_Handler_def Let_def by (rule start [OF _ _ _ cb(2)]) (simp_all add: calls)
  show "starts good view storing b (b_ls_Init_Handler lib b)"
    unfolding b_ls_Init_Handler_def Let_def same_restore_callbacks by (rule start [OF _ _ _ cb(1)]) (simp_all add: calls)
  have "keeps_store good view storing (system b) (system (backup_file_init lib (on_system (create_each_type lib) b)))"
    using create_each_type_keeps [OF assms(1), of "system b"]
      backup_file_keeps [OF assms(1), of "on_system (create_each_type lib) b"] by (auto intro: keeps_store_trans)
  then show "starts good view storing b (BACnet_Device_Init_Handler lib b)"
    unfolding BACnet_Device_Init_Handler_def Let_def same_restore_callbacks
    by (intro start [OF _ _ _ cb(1)]) (auto simp: backup_file_keeps [OF assms(1)] intro!: keeps_store_trans [OF _ calls])
qed

text \<open>
  C13. The settings of a sample are cleared exactly when a cold start is due: then its task removes every
  stored value that can be deleted, all of them when the clearing reports success, and reboots
  right after it where that is supported. At no other run does the task touch the stored values.
\<close>

theorem sample_coldstart_clears:
  assumes "sample_laws lib good view storing" "target_ok (storage_target lib)"
    "storage_inv (storage_target lib) good view (system b)"
    "task_handler \<in> {BACnet_Smart_Sensor_Task_Handler lib, BACnet_Smart_Actuator_Task_Handler lib,
       BACnet_Device_Task_Handler lib, b_ld_Task_Handler lib, b_ls_Task_Handler lib}"
  shows "if coldstart_due lib b
    then store_of (storage_target lib) view (system (task_handler b)) \<subseteq>\<^sub>m store_of (storage_target lib) view (system b) \<and>
      (fst (bacnet_settings_clear (storage_target lib) (storage_settings lib) (system b)) = 0 \<longrightarrow>
         store_of (storage_target lib) view (system (task_handler b)) = Map.empty) \<and>
      (CONFIG_REBOOT lib \<longrightarrow> halted (core (task_handler b)) \<and>
         actions (core (task_handler b)) = actions (core b) @ [Coldstart_Callback, Log_Panic, Reboot_Cold])
    else view (system (task_handler b)) = view (system b)"
proof -
  note task = task_handlers_view [OF assms(1,4)]
  have ok: "storage_ok (storage_target lib) (storage_settings lib) good view"
    using assms(1,2) by (simp add: storage_ok_def sample_laws_def)
  define s where "s = Coldstart_Callback_of lib (system b)"
  have clear: "snd (bacnet_storage_clear (storage_target lib) (storage_settings lib) (system b)) = s"
    by (simp add: s_def Coldstart_Callback_of_def bacnet_settings_clear_def)
  note effect = clear_effect [OF ok assms(3), unfolded clear]
  show ?thesis
  proof (cases "coldstart_due lib b")
    case True
    then have "view (system (task_handler b)) = view s" by (simp add: task(1) s_def)
    then have "store_of (storage_target lib) view (system (task_handler b)) = store_of (storage_target lib) view s"
      by (simp add: store_of_def fun_eq_iff)
    then show ?thesis using True effect task(2) by (simp only: if_True bacnet_settings_clear_def) blast
  next
    case False
    then show ?thesis by (simp add: task(1))
  qed
qed

text \<open>
  When its timer expires, the sensor and the actuator move their value by at most one before the
  last rounding, keep infinities and NaN, and write nothing at all while out of service.
\<close>

lemma sample_value_update:
  assumes "rounds (float_round lib)"
    "c = bacnet_reinitialize_device_task lib (Some (Coldstart_Callback_of lib)) (core b)" "\<not> halted c"
    "mstimer_expired lib (Update_Timer b) (mstimer_now c)"
  shows "\<exists>change. \<bar>change\<bar> \<le> 1 \<and>
      system (BACnet_Smart_Sensor_Task_Handler lib b) =
        (if Analog_Input_Out_Of_Service lib 1 (device c) then device c
         else perform lib (Object_Call Analog_Input 1 (Present_Value_Set
                (float_add (float_round lib) (Analog_Input_Present_Value lib 1 (device c)) change) None))
              (snd (sys_rand32_get lib (device c)))) \<and>
      system (BACnet_Smart_Actuator_Task_Handler lib b) =
        (if Analog_Output_Out_Of_Service lib 1 (device c) then device c
         else perform lib (Object_Call Analog_Output 1 (Present_Value_Set
                (float_add (float_round lib) (Analog_Output_Present_Value lib 1 (device c)) change) (Some 16)))
              (snd (sys_rand32_get lib (device c))))"
proof (intro exI conjI)
  let ?change = "random_change (float_round lib) (fst (sys_rand32_get lib (device c)))"
  show "\<bar>?change\<bar> \<le> 1" by (rule random_change_bounded [OF assms(1)])
  show "system (BACnet_Smart_Sensor_Task_Handler lib b) =
      (if Analog_Input_Out_Of_Service lib 1 (device c) then device c
       else perform lib (Object_Call Analog_Input 1 (Present_Value_Set
              (float_add (float_round lib) (Analog_Input_Present_Value lib 1 (device c)) ?change) None))
            (snd (sys_rand32_get lib (device c))))"
    using assms(3,4)
    by (simp add: BACnet_Smart_Sensor_Task_Handler_def BACnet_Smart_Sensor_Coldstart_Callback_def update_value_def
        Sensor_Instance_def stack_calls_def Let_def case_prod_beta flip: assms(2))
  show "system (BACnet_Smart_Actuator_Task_Handler lib b) =
      (if Analog_Output_Out_Of_Service lib 1 (device c) then device c
       else perform lib (Object_Call Analog_Output 1 (Present_Value_Set
              (float_add (float_round lib) (Analog_Output_Present_Value lib 1 (device c)) ?change) (Some 16)))
            (snd (sys_rand32_get lib (device c))))"
    using assms(3,4)
    by (simp add: BACnet_Smart_Actuator_Task_Handler_def BACnet_Smart_Actuator_Coldstart_Callback_def update_value_def
        Actuator_Instance_def BACNET_MAX_PRIORITY_def stack_calls_def Let_def case_prod_beta flip: assms(2))
qed

text \<open>
  C37. Whatever value the light is set to, NaN and infinities included, the number of steps is defined
  and in range: zero exactly below one, the full scale above one hundred. The lighting device sets
  its first LED to it once, the supervisor reports it once, and neither does anything for another light.
\<close>

theorem light_tracking_bounded:
  assumes "interpolates lib"
  shows "(\<exists>n. n \<le> 100 \<and> (n = 0) = (\<not> isgreaterequal v 1) \<and> (isgreater v 100 \<longrightarrow> n = 100) \<and>
       BACnet_Lighting_Output_Tracking_Value_Handler lib 1 old v s =
         Some (if HAS_PWM_LEDS lib \<and> device_is_ready lib s \<and> NUM_LEDS lib \<noteq> 0
               then snd (led_set_brightness lib 0 (of_nat n) s) else s)) \<and>
    (\<exists>n. n \<le> 65535 \<and> (n = 0) = (\<not> isgreaterequal v 1) \<and> (isgreater v 100 \<longrightarrow> n = 65535) \<and>
       b_ls_Tracking_Value_Handler lib 1 old v lines = Some (lines @ [Light_Value 1 v n])) \<and>
    (i \<noteq> 1 \<longrightarrow> BACnet_Lighting_Output_Tracking_Value_Handler lib i old v s = Some s \<and>
       b_ls_Tracking_Value_Handler lib i old v lines = Some lines)"
proof -
  obtain n where n: "tracking_steps lib 100 255 v = Some n" "n \<le> 100" "(n = 0) = (\<not> isgreaterequal v 1)"
    "isgreater v 100 \<Longrightarrow> n = 100"
    by (rule tracking_steps_bounded [OF assms, of 100 255 v]) simp_all
  obtain m where m: "tracking_steps lib UINT16_MAX UINT16_MAX v = Some m" "m \<le> UINT16_MAX"
    "(m = 0) = (\<not> isgreaterequal v 1)" "isgreater v 100 \<Longrightarrow> m = UINT16_MAX"
    by (rule tracking_steps_bounded [OF assms, of UINT16_MAX UINT16_MAX v]) (simp_all add: UINT16_MAX_def)
  show ?thesis
  proof (intro conjI)
    show "\<exists>n. n \<le> 100 \<and> (n = 0) = (\<not> isgreaterequal v 1) \<and> (isgreater v 100 \<longrightarrow> n = 100) \<and>
       BACnet_Lighting_Output_Tracking_Value_Handler lib 1 old v s =
         Some (if HAS_PWM_LEDS lib \<and> device_is_ready lib s \<and> NUM_LEDS lib \<noteq> 0
               then snd (led_set_brightness lib 0 (of_nat n) s) else s)"
      using n by (intro exI [of _ n])
        (simp add: BACnet_Lighting_Output_Tracking_Value_Handler_def Lighting_Instance_def Let_def)
    show "\<exists>n. n \<le> 65535 \<and> (n = 0) = (\<not> isgreaterequal v 1) \<and> (isgreater v 100 \<longrightarrow> n = 65535) \<and>
       b_ls_Tracking_Value_Handler lib 1 old v lines = Some (lines @ [Light_Value 1 v n])"
      using m by (intro exI [of _ m]) (simp add: b_ls_Tracking_Value_Handler_def Lighting_Instance_def UINT16_MAX_def)
    show "i \<noteq> 1 \<longrightarrow> BACnet_Lighting_Output_Tracking_Value_Handler lib i old v s = Some s \<and>
       b_ls_Tracking_Value_Handler lib i old v lines = Some lines"
      by (simp add: BACnet_Lighting_Output_Tracking_Value_Handler_def b_ls_Tracking_Value_Handler_def Lighting_Instance_def)
  qed
qed

text \<open>
  C20. After any number of rounds, every sample uses the stack only while it holds the lock, and sleeps
  and waits for the port only without it. A round runs the task of the stack once; the port is
  initialised again and again until that succeeds, then never again, and served in every later
  round; the lock is free between the rounds, unless the device was rebooted.
\<close>

theorem sample_mains_disciplined:
  "main_ok ml n (b_ss_main lib ml n b) \<and> main_ok ml n (b_sa_main lib ml n b) \<and>
   main_ok ml n (b_asc_main lib ml n b) \<and> main_ok ml n (b_ld_main lib ml n b) \<and>
   main_ok ml n (b_ls_main lib ml n b)"
  by (simp add: b_ss_main_def b_sa_main_def b_asc_main_def b_ld_main_def b_ls_main_def sample_main_ok)

section \<open>Witnesses\<close>

text \<open>
  A system of stored entries, the store callback, the state of a restart, one value and one LED, with the
  settings in an association list, timers as pairs of start and interval, and exact rounding.
\<close>

record small_system =
  saved :: entries
  store_on :: bool
  restart :: nat
  analog_value :: c_float
  led :: u8
  requests :: "write_property_data list"

fun small_perform :: "stack_call \<Rightarrow> small_system \<Rightarrow> small_system" where
  "small_perform (Callback_Set cb) s = (if cb = Store_Callback then s\<lparr>store_on := True\<rparr> else s)"
| "small_perform (Object_Call k i (Present_Value_Set v p)) s = s\<lparr>analog_value := v\<rparr>"
| "small_perform c s = s"

definition small_sample :: "(u32 \<times> u32, small_system, unit) light_sample_lib" where
  "small_sample =
     \<lparr>CONFIG_REBOOT = True, mstimer_set = (\<lambda>ms now. (now, ms)), mstimer_restart = (\<lambda>t now. (now, snd t)),
      mstimer_expired = (\<lambda>t now. snd t \<noteq> 0 \<and> snd t \<le> now - fst t),
      Device_Reinitialized_State = restart, Device_Reinitialize_State_Set = (\<lambda>n s. s\<lparr>restart := n\<rparr>),
      storage_target = small_target, storage_settings = list_settings_on saved (\<lambda>es s. s\<lparr>saved := es\<rparr>),
      storage_littlefs = None, application = small_bacapp, perform = small_perform,
      sys_rand32_get = (\<lambda>s. (7, s)), mstimer_reset = (\<lambda>t now. (fst t + snd t, snd t)),
      Device_Write_Property_of = (\<lambda>wp s. (True, wp,
        (if store_on s then s\<lparr>saved := [(''x'', wp_application_data wp)]\<rparr> else s)
          \<lparr>requests := requests s @ [wp]\<rparr>)),
      Device_Object_Instance_Number = (\<lambda>s. 260125),
      Analog_Input_Out_Of_Service = (\<lambda>i s. False), Analog_Input_Present_Value = (\<lambda>i. analog_value),
      Analog_Output_Out_Of_Service = (\<lambda>i s. True), Analog_Output_Present_Value = (\<lambda>i. analog_value),
      BACNET_OBJECT_TYPE_RESERVED_MIN = 3, Device_Create = (\<lambda>d s. (True, d, s)),
      bacfile_index_to_instance = (\<lambda>j s. 1), bacfile_pathname = (\<lambda>i s. ''bacnet.dat''),
      float_round = (\<lambda>x. x), CONFIG_BACNET_REINIT_REBOOT_DELAY = 1000,
      linear_interpolate = (\<lambda>x1 x x3 y1 y3. y1 + (x - x1) / (x3 - x1) * (y3 - y1)),
      HAS_PWM_LEDS = True, device_is_ready = (\<lambda>s. True), NUM_LEDS = 1,
      led_set_brightness = (\<lambda>l n s. (0, s\<lparr>led := n\<rparr>))\<rparr>"

definition small_board :: "nat \<Rightarrow> (u32 \<times> u32, small_system) board" where
  "small_board state =
     \<lparr>core = \<lparr>uptime = 20, Reinitialize_Timer = (0, 10),
        device = \<lparr>saved = one_entry, store_on = False, restart = state, analog_value = Fin 20, led = 3, requests = []\<rparr>,
        actions = [], halted = False\<rparr>,
      Update_Timer = (0, 10),
      settings_vars = \<lparr>Restore_Callback = None,
        storage_statics = \<lparr>BACnet_Storage_Restore_Callback = None, BACnet_Storage_Restore_Context = ()\<rparr>\<rparr>\<rparr>"

abbreviation saved_good :: "small_system \<Rightarrow> bool" where "saved_good s \<equiv> entries_good (saved s)"
abbreviation saved_view :: "small_system \<Rightarrow> string \<rightharpoonup> byte list" where "saved_view s \<equiv> map_of (saved s)"

lemma small_perform_keeps:
  "c \<noteq> Callback_Set Store_Callback \<Longrightarrow> keeps_store saved_good saved_view store_on s (small_perform c s)"
  by (induction c s rule: small_perform.induct) (auto simp: keeps_store_def)

lemma small_sample_laws: "sample_laws small_sample saved_good saved_view store_on"
  using small_perform_keeps list_settings_laws_on [of saved "\<lambda>es s. s\<lparr>saved := es\<rparr>"]
  by (auto simp: sample_laws_def small_sample_def list_settings_on_def keeps_store_def)

lemma small_board_system:
  "saved (system (small_board state)) = one_entry" "\<not> store_on (system (small_board state))"
  "halted (core (small_board state)) = False" "actions (core (small_board state)) = []"
  by (simp_all add: small_board_def)

theorem sample_init_stores_nothing_witness:
  "saved_view (system (b_ld_Init_Handler small_sample (small_board 255))) = map_of one_entry \<and>
   store_on (system (b_ld_Init_Handler small_sample (small_board 255)))"
  using sample_init_stores_nothing [OF small_sample_laws, of "small_board 255"]
  by (simp add: small_board_system one_entry_good starts_def)

lemma small_sample_clears:
  "fst (bacnet_settings_clear (storage_target small_sample) (storage_settings small_sample) s) = 0"
  if "storage_inv small_target saved_good saved_view s"
proof -
  have ok: "storage_ok (storage_target small_sample) (storage_settings small_sample) saved_good saved_view"
    using small_sample_laws small_target_ok by (simp add: storage_ok_def sample_laws_def small_sample_def)
  have "\<forall>nam s. fst (settings_delete (storage_settings small_sample) nam s) = 0"
    by (simp add: small_sample_def list_settings_on_def)
  then show ?thesis
    using clear_effect [OF ok, of s] that by (simp add: bacnet_settings_clear_def small_sample_def)
qed

theorem sample_coldstart_clears_witness:
  "store_of small_target saved_view (system (b_ls_Task_Handler small_sample (small_board 0))) = Map.empty \<and>
   actions (core (b_ls_Task_Handler small_sample (small_board 0))) = [Coldstart_Callback, Log_Panic, Reboot_Cold]"
proof -
  have inv: "storage_inv small_target saved_good saved_view (system (small_board 0))"
    using one_entry_inv by (simp add: storage_inv_def keys_only_def small_board_system)
  have tg: "storage_target small_sample = small_target" "CONFIG_REBOOT small_sample" by (simp_all add: small_sample_def)
  have due: "coldstart_due small_sample (small_board 0)"
    by (simp add: coldstart_due_def small_sample_def small_board_def BACNET_REINIT_COLDSTART_def mstimer_now_def)
  show ?thesis
    using sample_coldstart_clears [OF small_sample_laws, of "small_board 0" "b_ls_Task_Handler small_sample"]
      small_sample_clears [OF inv] inv due small_target_ok
    by (simp add: tg small_board_system)
qed

theorem sample_value_update_witness:
  "\<exists>change. \<bar>change\<bar> \<le> 1 \<and>
     analog_value (system (BACnet_Smart_Sensor_Task_Handler small_sample (small_board 255))) = Fin (20 + change) \<and>
     analog_value (system (BACnet_Smart_Actuator_Task_Handler small_sample (small_board 255))) = Fin 20"
proof -
  define c where "c = bacnet_reinitialize_device_task small_sample (Some (Coldstart_Callback_of small_sample)) (core (small_board 255))"
  have c: "\<not> halted c" "analog_value (device c) = Fin 20" "uptime c = 20"
    by (simp_all add: c_def bacnet_reinitialize_device_task_def small_sample_def small_board_def reinit_states Let_def)
  have "rounds (float_round small_sample)" by (simp add: rounds_def small_sample_def)
  moreover have "mstimer_expired small_sample (Update_Timer (small_board 255)) (mstimer_now c)"
    by (simp add: small_sample_def small_board_def mstimer_now_def c(3))
  ultimately show ?thesis
    using sample_value_update [OF _ c_def c(1)] c(2) by (auto simp: small_sample_def)
qed

theorem light_tracking_bounded_witness:
  "(\<exists>s. BACnet_Lighting_Output_Tracking_Value_Handler small_sample 1 NaN Plus_Infinity (system (small_board 255)) = Some s \<and>
      led s = 100) \<and>
   b_ls_Tracking_Value_Handler small_sample 1 NaN Plus_Infinity [] = Some [Light_Value 1 Plus_Infinity 65535]"
proof -
  have frac: "1 \<le> 1 + (x - 1) / 99 * (full - 1) \<and> 1 + (x - 1) / 99 * (full - 1) \<le> full"
    if "1 \<le> x" "x \<le> 100" "1 \<le> full" for x full :: rat
    using that mult_right_mono [of "(x - 1) / 99" 1 "full - 1"] by simp
  have "interpolates small_sample"
    unfolding interpolates_def small_sample_def using frac by simp
  from light_tracking_bounded [OF this, of Plus_Infinity NaN "system (small_board 255)" "[]" 1] show ?thesis
    by (auto simp: small_sample_def)
qed

end
