(* ===== verification/Restart.thy ===== *)
theory Restart
  imports Samples Storage_Shell
begin

text \<open>
  Restarts: what is written again, after a restart, of what was written through WriteProperty and stored
  before it. The storage, the settings and the samples are put together here. The storage loads the
  subtree \<open>bacnet\<close>, so the answer depends on the base name of the stored values: everything when it is
  \<open>bacnet\<close>, and nothing with another base name outside that subtree, the default \<open>.bacnet\<close> among them.
\<close>

section \<open>Requests before and after a restart\<close>










section \<open>One entry and all entries\<close>







section \<open>What a sequence of requests leaves in the store\<close>





section \<open>Samples\<close>














section \<open>Properties\<close>




section \<open>Witnesses\<close>


















end
