(* ===== verification/Spec2Isabelle.thy ===== *)
theory Spec2Isabelle
  imports Shell_Tree Reinit Bip6 Server Objects Restart
begin

text \<open>
  A verification development of the Zephyr integration of the BACnet stack: the code under
  \<open>zephyr/subsys\<close> and the sample devices under \<open>zephyr/samples/profiles\<close>. The BACnet stack itself (a
  submodule) and Zephyr are not part of the repository; they are parameters.

  \<^bold>\<open>The program.\<close> BACnet stack calls come from several tasks: the main loop of a device, the shell, and
  the network. They share the stack under one recursive lock (\<open>bacnet_osif/bacnet_lock.c\<close>). Values
  written through WriteProperty are stored under a key of object type, instance, property and
  array index in Zephyr's settings subsystem (\<open>bacnet_settings/\<close>) and restored at the start. The shell
  (\<open>bacnet_shell/\<close>) reads and writes the stored values, the properties, the File objects and the lights.
  Two datalinks (\<open>bacnet_datalink/\<close>) carry packets over UDP; a server thread (\<open>server/\<close>) drives the first
  one. A task reboots the device on request (\<open>bacnet_osif/bacnet_reinit.c\<close>). Objects are kept in key
  lists and in a table of object types (\<open>object/\<close>). The samples put the parts together.

  \<^bold>\<open>Theories and sources.\<close>
  \<^item> \<open>Prelude\<close>, \<open>Libc\<close>: words, errno values, shared lemmas, the locale \<open>codec\<close>; the parts of the C library
    the sources use, with their overflow.
  \<^item> \<open>Platform\<close>: Zephyr's settings subsystem and flash area as records of functions, their documented laws
    (\<open>settings_laws\<close>), and a platform on association lists that obeys them, for the witnesses.
  \<^item> \<open>Storage_Key\<close>, \<open>Storage\<close> (\<open>bacnet_storage.c\<close>): keys as paths; set, get, delete, clear, load, erase. The
    world \<open>'s\<close> is what the subsystem acts on; the static callback variables are the record \<open>restore\<close>.
  \<^item> \<open>Settings\<close> (\<open>bacnet_settings.c\<close>): WriteProperty requests, typed values, parsers.
  \<^item> \<open>Task_Lock\<close> (\<open>bacnet_lock.c\<close>, \<open>bacnet_shell.h\<close>): the lock and the wrapper of shell commands. A console
    is the depth of the lock, a trace of events with the depth at which they happened, and the data.
  \<^item> \<open>Storage_Shell\<close>, \<open>Settings_Shell\<close>, \<open>Device_Shell\<close>, \<open>Light_Shell\<close>, \<open>Property_Shell\<close>: the commands of
    \<open>bacnet_storage_shell.c\<close>, \<open>bacnet_settings_shell.c\<close>, \<open>bacnet_shell_objects.c\<close>, \<open>..._reinit.c\<close>,
    \<open>..._datetime.c\<close>, \<open>..._packets.c\<close>, \<open>..._uptime.c\<close>, \<open>..._lighting_output.c\<close> and \<open>..._property.c\<close>.
  \<^item> \<open>Shell_Tree\<close> (\<open>bacnet_shell.c\<close>, the macros of \<open>bacnet_shell.h\<close>): the tables in which all of them and the
    File commands are registered.
  \<^item> \<open>File_Json\<close>, \<open>File_Shell\<close>, \<open>File_Transfer\<close> (\<open>bacnet_shell_file.c\<close>): printers, locked commands, and the
    transfers that take the lock only for single accesses.
  \<^item> \<open>Reinit\<close> (\<open>bacnet_reinit.c\<close>, \<open>bacnet_mstimer.c\<close>): the restart task and its runs.
  \<^item> \<open>Datalink\<close>, \<open>Bip\<close>, \<open>Bip6\<close>, \<open>Server\<close> (\<open>bip-init.c\<close>, \<open>bip6-init.c\<close>, \<open>server.c\<close>): sockets, addresses,
    receiving, life cycles; the event handler and the thread of the server around the kernel's message queue.
  \<^item> \<open>Objects\<close> (\<open>object.h\<close>, \<open>ai.c\<close>, \<open>av.c\<close>, \<open>netport.c\<close>, \<open>device.c\<close>): key lists on a heap; the object table.
  \<^item> \<open>Samples\<close> (\<open>b-ss\<close>, \<open>b-sa\<close>, \<open>b-asc\<close>, \<open>b-ld\<close>, \<open>b-ls\<close>): handlers and main loops on the record \<open>board\<close>.
  \<^item> \<open>Restart\<close>: no code of its own; the storage, the settings and the samples over a restart.

  \<^bold>\<open>Interfaces.\<close> Every locale is interpreted on the definitions of the model:
  \<^item> \<open>codec\<close> (decoding undoes encoding): keys as paths, JSON strings, hexadecimal data, import numbers;
  \<^item> \<open>key_store\<close> (a map with errors): the storage; \<open>value_store\<close> extends it: the typed settings;
  \<^item> \<open>shell_command\<close> (a handler gives the lock back): every command; \<open>unlocked_command\<close>, a sublocale: dump,
    export and decode, which print without the lock;
  \<^item> \<open>datalink\<close> (descriptors and received packets): BACnet/IP and BACnet/IPv6;
  \<^item> \<open>object_module\<close> (a map of instances): the objects of a type.

  \<^bold>\<open>What the lemmas show.\<close> Refinement: the storage and the objects of a type implement finite maps; typed
  values, requests, exported files and JSON texts are read back as they were. Invariants over all
  runs: descriptors of the datalinks, the messages of the server, the key lists, the memory and the lock of the
  file transfers, which allocate under the lock and free with or without it, the main loops. Safety: what a command or a task may do to the device, the files,
  the flash and the settings, and when. Liveness and termination: the wait for an address, the
  restart, transfers and printers end. Composition: over a restart, the last stored request of every key reaches
  the device again, through storage, settings and samples, unless a cold start cleared it. This needs the
  base name \<open>bacnet\<close>: loading goes through that subtree, so that with the default \<open>.bacnet\<close>, or any other base
  name outside it, nothing is restored, which the same theorems state. Step relations are inductive (\<open>reinit_run\<close>, \<open>server_run\<close>,
  \<open>objects_run\<close>): time passes and other tasks act between any two steps, and properties are proved
  by induction over the runs. \<open>objects_run\<close> allows every call with every argument; it records whether a port was
  given the number of another one and whether a list once had no room.

  \<^bold>\<open>Conventions.\<close> A result of type \<open>option\<close> is \<^const>\<open>None\<close> where the code dereferences NULL, leaves a
  buffer or is otherwise undefined; such places that the callers can reach are lemmas. Machine integers
  are words. There is no fuel: loops that need not end are partial functions (\<open>sem_take\<close>, \<open>wait_from\<close>,
  \<open>json_values_from\<close>, \<open>initial_values_from\<close>, \<open>pop_all\<close>), and where they end that is proved; the other
  loops terminate by a measure, the bytes of a file or buffer still to come (\<open>dump_from\<close>,
  \<open>export_from\<close>, \<open>decode_from\<close>, \<open>print_values\<close>) or the bits of a netmask (\<open>subnet_prefix_from\<close>). What other
  tasks do while the lock is free is an argument of every operation that takes it. \<open>unsigned long\<close> has 32
  bits in the clock of \<open>Reinit\<close>. The semaphore on which \<open>bip-init.c\<close> waits for an address is written out in
  \<open>sem_take\<close>, with the network events as a sequence that is delivered while the thread waits; an event between the
  subscription and the first wait is not modelled.

  \<^bold>\<open>Parameters.\<close> The stack, the C library's conversions of fractions, and the kernel are records of
  functions (\<open>bacapp\<close>, \<open>property_lib\<close>, \<open>reinit_lib\<close>, \<open>keylist_lib\<close>, \<open>sample_lib\<close> and others). What a theorem
  needs of them is a named predicate (\<open>settings_laws\<close>, \<open>bacapp_laws\<close>, \<open>timer_laws\<close>, \<open>socket_laws\<close>,
  \<open>msgq_laws\<close>, \<open>keylist_laws\<close>, \<open>sample_laws\<close>, \<open>records\<close>), and each theorem with such a hypothesis has a witness on a concrete
  instance that obeys it.

  \<^bold>\<open>Not modelled.\<close> The registration of the log module (\<open>bacnet_log.c\<close>), log lines and help texts, the
  entries of the section of object types, the 28 files of \<open>object/\<close> that only instantiate the macros
  of \<open>object.h\<close>, the helpers that format addresses for the log, the creation of the server thread,
  \<open>hello_bacnet_stack\<close>, build files and tests. They hold no logic beyond the declarations.
\<close>

section \<open>Properties that span components\<close>

text \<open>
  C10. The shell commands below \<open>bacnet\<close> are the ones of \<open>tree_paths\<close>, no two under the same words. Each but
  three holds the task lock from before its first line or use of the stack's data to after its
  last, whatever its arguments, and gives it back as often as it took it. The three file transfers
  run without the lock but never give back more or less than they take.
\<close>

theorem shell_tree_locked:
  assumes "settings_laws stc good view" "\<forall>c. good c \<longrightarrow> good (bacnet_lock others c)"
  shows "map fst (commands (sub_bacnet_cmds flag others tg st stc rst fl tx files lo dev pr)) = tree_paths flag \<and>
    distinct (tree_paths flag) \<and>
    (\<forall>(path, h) \<in> set (commands (sub_bacnet_cmds flag others tg st stc rst fl tx files lo dev pr)).
       \<forall>argv c rc c'. good c \<longrightarrow> h argv c = Some (rc, c') \<longrightarrow>
         extends (lock_depth c + (if path \<in> set unlocked_paths then 0 else 1)) c c')"
proof (intro conjI)
  show "map fst (commands (sub_bacnet_cmds flag others tg st stc rst fl tx files lo dev pr)) = tree_paths flag"
    by (rule tree_paths_registered)
  show "distinct (tree_paths flag)" by (cases flag) (simp_all add: tree_paths_def)
  have "\<And>c. good c \<Longrightarrow> good (bacnet_lock others c)" using assms(2) by blast
  from tree_handlers [OF assms(1) this]
  show "\<forall>(path, h) \<in> set (commands (sub_bacnet_cmds flag others tg st stc rst fl tx files lo dev pr)).
       \<forall>argv c rc c'. good c \<longrightarrow> h argv c = Some (rc, c') \<longrightarrow>
         extends (lock_depth c + (if path \<in> set unlocked_paths then 0 else 1)) c c'"
    unfolding list_all_iff holds_lock_def .
qed

lemma shell_tree_locked_witness:
  "\<exists>c'. BACNET_SHELL_LOCK_HANDLER (\<lambda>w. w) (listing (storage_cmd_list bacnet_target console_settings (printing bacnet_target)))
      [''list''] (console_on one_entry) = Some (0, c') \<and> extends 1 (console_on one_entry) c'"
proof -
  let ?h = "BACNET_SHELL_LOCK_HANDLER (\<lambda>w. w) (listing (storage_cmd_list bacnet_target console_settings (printing bacnet_target)))"
  have good: "entries_good (world (console_on one_entry))" by (simp add: one_entry_good)
  obtain c' where run: "?h [''list''] (console_on one_entry) = Some (0, c')"
    by (simp add: BACNET_SHELL_LOCK_HANDLER_def listing_def storage_cmd_list_def list_callback bacnet_storage_load_def
        console_settings_def list_settings_on_def bacnet_storage_handler_def bacnet_storage_handler_commit_def)
  have registered: "([''storage'', ''list''], ?h) \<in> set (commands (sub_bacnet_cmds False (\<lambda>w. w) bacnet_target st
      console_settings (printing bacnet_target) fl tx files lo dev pr))" for st fl tx files lo dev pr
    by (simp add: commands_def shell_tables shell_macros)
  have keep: "\<forall>c. entries_good (world c) \<longrightarrow> entries_good (world (bacnet_lock (\<lambda>w. w) c))"
    by (simp add: bacnet_lock_def)
  have "\<forall>argv c rc c'. entries_good (world c) \<longrightarrow> ?h argv c = Some (rc, c') \<longrightarrow> extends (lock_depth c + 1) c c'"
    using shell_tree_locked [OF console_settings_laws keep, THEN conjunct2, THEN conjunct2, THEN bspec, OF registered]
    by (simp add: unlocked_paths_def)
  from this [rule_format, OF good run]
  have "extends 1 (console_on one_entry) c'" by simp
  then show ?thesis using run by simp
qed

text \<open>
  Every shell command that is registered through the wrapper of the task lock - of the storage,
  the settings, the files, the device, the lights and the properties - holds the lock from before its first line or use of the
  stack's data to after its last, whatever its arguments, and gives it back as often as it took it:
  what the command does happens at least one level deeper than the call, and afterwards the lock is
  held as often as before.
\<close>

lemma shell_commands_locked:
  "(\<forall>h \<in> set [storage_cmd_string tg st, storage_cmd_delete tg st, storage_cmd_erase fl,
               settings_cmd_value tg st tx, settings_cmd_delete tg st].
      \<forall>rc c'. BACNET_SHELL_LOCK_HANDLER others h argv c = Some (rc, c') \<longrightarrow> extends (lock_depth c + 1) c c') \<and>
   (\<forall>h \<in> set [cmd_file_list files, cmd_file_info files, cmd_file_config files, cmd_file_read files,
               cmd_file_write files, cmd_file_import files].
      \<forall>rc d'. BACNET_SHELL_LOCK_HANDLER fothers h argv d = Some (rc, d') \<longrightarrow> extends (lock_depth d + 1) d d') \<and>
   (\<forall>h \<in> set [cmd_object_list dev, cmd_object_create dev, cmd_object_delete dev, cmd_reinit dev,
               cmd_date_time dev, cmd_packets dev, cmd_uptime dev].
      \<forall>rc e'. BACNET_SHELL_LOCK_HANDLER dothers h argv e = Some (rc, e') \<longrightarrow> extends (lock_depth e + 1) e e') \<and>
   (\<forall>h \<in> set [cmd_lighting_output_list lo, cmd_lighting_output_value_get lo, cmd_lighting_output_track lo,
               cmd_lighting_output_override lo, cmd_lighting_output_value_set lo,
               cmd_lighting_output_value_relinquish lo, cmd_lighting_output_fade lo, cmd_lighting_output_ramp lo,
               cmd_lighting_output_stop lo, cmd_lighting_output_step lo op, cmd_lighting_output_blink lo op].
      \<forall>rc l'. BACNET_SHELL_LOCK_HANDLER lothers h argv l = Some (rc, l') \<longrightarrow> extends (lock_depth l + 1) l l') \<and>
   (\<forall>h \<in> set [cmd_value pr, cmd_list pr, cmd_size pr].
      \<forall>rc p'. BACNET_SHELL_LOCK_HANDLER pothers h argv p = Some (rc, p') \<longrightarrow> extends (lock_depth p + 1) p p')"
  using storage_commands_locked [of others tg st argv c fl] settings_commands_locked [of others tg st tx argv c]
    file_commands_locked [of files fothers argv d] device_commands_locked [of dev dothers argv e] light_commands_locked [of lo op lothers argv l]
    property_commands_locked [of pr pothers argv p]
  by simp

lemma shell_commands_locked_witness:
  "extends 1 device_console (snd (the (BACNET_SHELL_LOCK_HANDLER (\<lambda>w. w) (cmd_object_create small_device)
     [''create'', ''0'', ''9''] device_console)))"
proof -
  have "BACNET_SHELL_LOCK_HANDLER (\<lambda>w. w) (cmd_object_create small_device) [''create'', ''0'', ''9''] device_console \<noteq> None"
    by code_simp
  then obtain rc e' where run: "BACNET_SHELL_LOCK_HANDLER (\<lambda>w. w) (cmd_object_create small_device)
      [''create'', ''0'', ''9''] device_console = Some (rc, e')" by force
  have "extends (lock_depth device_console + 1) device_console e'"
    using shell_commands_locked [where dev = small_device and dothers = "\<lambda>w. w" and argv = "[''create'', ''0'', ''9'']"
        and e = device_console, THEN conjunct2, THEN conjunct2, THEN conjunct1] run by simp
  then show ?thesis by (simp add: run) (simp add: device_console_def)
qed

end
